(* ===== verification/Prelude.thy ===== *)
theory Prelude
  imports Main "HOL-Library.Word" "HOL-Library.Char_ord" "HOL-Library.List_Lexorder"
begin

text \<open>
  Shared vocabulary of the development: the machine types, the errors the Go packages
  return, the combinators that thread an error through a sequence of calls, and the parts
  of the Go standard library the modelled packages use (\<^verbatim>\<open>strings\<close>, \<^verbatim>\<open>strconv\<close>,
  \<^verbatim>\<open>encoding/hex\<close>, \<^verbatim>\<open>slices\<close>).

  A Go string is a sequence of bytes and is modelled as \<open>string\<close> (a list of 8-bit
  characters); a \<^verbatim>\<open>[]byte\<close> is a list of \<open>8 word\<close>.  A \<^verbatim>\<open>time.Time\<close> is the
  number of nanoseconds since the zero time of Go (1 January of year 1, UTC), so that
  \<open>IsZero\<close> is equality with 0.  A \<^verbatim>\<open>time.Duration\<close> is a number of nanoseconds too.
\<close>

section \<open>Collections of rules\<close>

named_theorems go_string \<open>facts on the string functions of the Go standard library\<close>
named_theorems succ_inv \<open>inversion of a successful (error-free) call\<close>

section \<open>Machine types\<close>

type_synonym byte = "8 word"
type_synonym bytes = "byte list"
type_synonym u32 = "32 word"
type_synonym u64 = "64 word"
type_synonym time = int
type_synonym duration = int

definition bytes_of :: "string \<Rightarrow> bytes" where
  "bytes_of s = map of_char s"

definition string_of :: "bytes \<Rightarrow> string" where
  "string_of bs = map (\<lambda>b. char_of (unat b)) bs"

definition second :: duration where
  "second = 1000000000"

section \<open>Errors\<close>

text \<open>
  One constructor per sentinel error of the modelled packages, with the constant part of the
  message that \<^verbatim>\<open>fmt.Errorf\<close> adds to it, which identifies the branch; \<^verbatim>\<open>errors.Is\<close> is the test
  for the constructor.  \<open>DbErr\<close> is a failure reported by the database driver, labelled with the
  text the code wraps it in; \<open>OtherErr\<close> is an error without a sentinel.
\<close>

datatype error =
    ErrInvalidMetadata string
  | ErrKeyNotFound
  | ErrKeyNotUsable
  | ErrInvalidProtectedKey string
  | ErrProtectorMismatch
  | ErrSubjectNotFound
  | ErrSubjectRevoked
  | ErrChallengeNotFound
  | ErrChallengeExpired
  | ErrChallengeReplayed
  | ErrChallengeMismatch
  | ErrRotationNotFound
  | ErrRotationInProgress string
  | ErrRotationInvalidTransition string
  | ErrNodeEvidenceNotFound
  | ErrNodeEvidenceStale
  | ErrNodeEvidenceInvalid string
  | ErrEnrollmentNotFound
  | ErrEnrollmentRevoked
  | ErrEnrollmentChanged
  | ErrInvalidEnrollment string
  | ErrNodeEvidenceVerification string
  | ErrInvalidEvidence string
  | ErrInvalidK8sEvidence string
  | ErrUnauthenticated
  | ErrTokenReview string
  | ErrPodLookup string
  | ErrQuoteVerification string
  | ErrAttestationPolicy string
  | ErrUnsupportedProfile string
  | ErrInvalidPackage string
  | ErrInvalidShare string
  | ErrThreshold
  | ErrInvalidRequest string
  | ErrInvalidGrant string
  | ErrExpired
  | ErrSignature
  | ErrInvalidParameter string
  | ErrNotInitialized
  | ErrBackendUnavailable string
  | ErrInvalidPublishRequest string
  | ErrInvalidProviderEvidence string
  | ErrTPMNodeEvidence string
  | ErrChallengeNodeEvidence string
  | ErrPublishNodeEvidence string
  | DecisionDeniedError string "string list"
  | CtxErr
  | DbErr string
  | OtherErr string

section \<open>Calls that may fail\<close>

text \<open>
  \<^verbatim>\<open>x, err := f(); if err != nil { return err }\<close> followed by the rest of the function is
  \<open>bindE\<close>; a guard \<^verbatim>\<open>if !b { return err }\<close> is \<open>assertE b err\<close>; a loop that appends
  the results of a fallible call and returns at the first error is \<open>traverseE\<close>.
\<close>

fun bindE :: "'e + 'a \<Rightarrow> ('a \<Rightarrow> 'e + 'b) \<Rightarrow> 'e + 'b" where
  "bindE (Inl e) f = Inl e"
| "bindE (Inr x) f = f x"

definition assertE :: "bool \<Rightarrow> 'e \<Rightarrow> 'e + unit" where
  "assertE b e = (if b then Inr () else Inl e)"

fun traverseE :: "('a \<Rightarrow> 'e + 'b) \<Rightarrow> 'a list \<Rightarrow> 'e + 'b list" where
  "traverseE f [] = Inr []"
| "traverseE f (x # xs) = bindE (f x) (\<lambda>y. bindE (traverseE f xs) (\<lambda>ys. Inr (y # ys)))"

fun mapErr :: "('e \<Rightarrow> 'f) \<Rightarrow> 'e + 'a \<Rightarrow> 'f + 'a" where
  "mapErr g (Inl e) = Inl (g e)"
| "mapErr g (Inr x) = Inr x"

lemma bindE_eq_Inr [simp, succ_inv]: "bindE m f = Inr y \<longleftrightarrow> (\<exists>x. m = Inr x \<and> f x = Inr y)"
  by (cases m) auto

lemma Inr_eq_bindE [simp]: "Inr y = bindE m f \<longleftrightarrow> (\<exists>x. m = Inr x \<and> f x = Inr y)"
  by (cases m) auto

lemma assertE_eq_Inr [simp, succ_inv]: "assertE b e = Inr u \<longleftrightarrow> b"
  by (simp add: assertE_def)

lemma bindE_assertE: "bindE (assertE b e) f = (if b then f () else Inl e)"
  by (simp add: assertE_def)

lemma bindE_assoc: "bindE (bindE m f) g = bindE m (\<lambda>x. bindE (f x) g)"
  by (cases m) simp_all

lemma mapErr_eq_Inr [simp, succ_inv]: "mapErr g m = Inr y \<longleftrightarrow> m = Inr y"
  by (cases m) auto

lemma traverseE_eq_Inr:
  "traverseE f xs = Inr ys \<longleftrightarrow> length ys = length xs \<and> (\<forall>i < length xs. f (xs ! i) = Inr (ys ! i))"
proof (induction xs arbitrary: ys)
  case Nil
  then show ?case by auto
next
  case (Cons x xs)
  show ?case
    by (cases ys) (auto simp: Cons.IH nth_Cons less_Suc_eq_0_disj split: nat.splits)
qed

lemma traverseE_map_Inr: "(\<And>x. x \<in> set xs \<Longrightarrow> f x = Inr (g x)) \<Longrightarrow> traverseE f xs = Inr (map g xs)"
  by (induction xs) auto

lemma traverseE_Inr_set:
  "traverseE f xs = Inr ys \<Longrightarrow> y \<in> set ys \<Longrightarrow> \<exists>x \<in> set xs. f x = Inr y"
  by (induction xs arbitrary: ys) auto

lemma traverseE_Inr_set2:
  "traverseE f xs = Inr ys \<Longrightarrow> x \<in> set xs \<Longrightarrow> \<exists>y \<in> set ys. f x = Inr y"
  by (induction xs arbitrary: ys) auto

section \<open>Strings\<close>

text \<open>\<^verbatim>\<open>strings.HasPrefix\<close>, \<^verbatim>\<open>strings.TrimPrefix\<close>.\<close>

definition HasPrefix :: "string \<Rightarrow> string \<Rightarrow> bool" where
  "HasPrefix s p \<longleftrightarrow> take (length p) s = p"

definition TrimPrefix :: "string \<Rightarrow> string \<Rightarrow> string" where
  "TrimPrefix s p = (if HasPrefix s p then drop (length p) s else s)"

lemma HasPrefix_append [simp, go_string]: "HasPrefix (p @ s) p"
  by (simp add: HasPrefix_def)

lemma TrimPrefix_append [simp, go_string]: "TrimPrefix (p @ s) p = s"
  by (simp add: TrimPrefix_def)

lemma HasPrefix_split: "HasPrefix s p \<Longrightarrow> s = p @ TrimPrefix s p"
  unfolding TrimPrefix_def HasPrefix_def by (metis append_take_drop_id)

text \<open>
  \<^verbatim>\<open>strings.TrimSpace\<close> removes the Unicode white space at both ends.  The UTF-8 encodings
  of the white-space code points are listed; no other byte sequence decodes to one.
\<close>

definition space_encodings :: "string list" where
  "space_encodings =
     map (map char_of :: nat list \<Rightarrow> string)
     ([[9], [10], [11], [12], [13], [32],
       [0xC2, 0x85], [0xC2, 0xA0], [0xE1, 0x9A, 0x80],
       [0xE2, 0x80, 0x80], [0xE2, 0x80, 0x81], [0xE2, 0x80, 0x82], [0xE2, 0x80, 0x83],
       [0xE2, 0x80, 0x84], [0xE2, 0x80, 0x85], [0xE2, 0x80, 0x86], [0xE2, 0x80, 0x87],
       [0xE2, 0x80, 0x88], [0xE2, 0x80, 0x89], [0xE2, 0x80, 0x8A],
       [0xE2, 0x80, 0xA8], [0xE2, 0x80, 0xA9], [0xE2, 0x80, 0xAF],
       [0xE2, 0x81, 0x9F], [0xE3, 0x80, 0x80]])"

function trim_left :: "string list \<Rightarrow> string \<Rightarrow> string" where
  "trim_left ws s =
     (case find (\<lambda>w. w \<noteq> [] \<and> HasPrefix s w) ws of
        None \<Rightarrow> s
      | Some w \<Rightarrow> trim_left ws (drop (length w) s))"
  by pat_completeness auto
termination
proof (relation "measure (\<lambda>(ws, s). length s)")
  fix ws s w
  assume "find (\<lambda>w. w \<noteq> [] \<and> HasPrefix s w) ws = Some w"
  then have "w \<noteq> []" and "take (length w) s = w"
    by (auto simp: find_Some_iff HasPrefix_def)
  then have "s \<noteq> []" and "0 < length w" by auto
  then show "((ws, drop (length w) s), (ws, s)) \<in> measure (\<lambda>(ws, s). length s)"
    by (simp add: diff_less)
qed simp

declare trim_left.simps [simp del]

definition TrimSpace :: "string \<Rightarrow> string" where
  "TrimSpace s =
     rev (trim_left (map rev space_encodings) (rev (trim_left space_encodings s)))"

lemma trim_left_suffix: "\<exists>p. s = p @ trim_left ws s"
proof (induction ws s rule: trim_left.induct)
  case (1 ws s)
  show ?case
  proof (cases "find (\<lambda>w. w \<noteq> [] \<and> HasPrefix s w) ws")
    case None
    then show ?thesis by (subst trim_left.simps) simp
  next
    case (Some w)
    with 1 obtain p where "drop (length w) s = p @ trim_left ws (drop (length w) s)" by blast
    then have "s = take (length w) s @ p @ trim_left ws (drop (length w) s)"
      by (metis append_take_drop_id)
    with Some show ?thesis by (subst trim_left.simps) (metis append.assoc option.simps(5))
  qed
qed

lemma trim_left_done: "w \<in> set ws \<Longrightarrow> w \<noteq> [] \<Longrightarrow> \<not> HasPrefix (trim_left ws s) w"
proof (induction ws s rule: trim_left.induct)
  case (1 ws s)
  show ?case
  proof (cases "find (\<lambda>w. w \<noteq> [] \<and> HasPrefix s w) ws")
    case None
    then have "trim_left ws s = s" by (simp add: trim_left.simps [of ws s])
    with None 1(2,3) show ?thesis by (auto simp: find_None_iff)
  next
    case (Some w)
    with 1 show ?thesis by (subst trim_left.simps) simp
  qed
qed

lemma trim_left_id: "(\<And>w. w \<in> set ws \<Longrightarrow> w \<noteq> [] \<Longrightarrow> \<not> HasPrefix s w) \<Longrightarrow> trim_left ws s = s"
proof -
  assume "\<And>w. w \<in> set ws \<Longrightarrow> w \<noteq> [] \<Longrightarrow> \<not> HasPrefix s w"
  then have "find (\<lambda>w. w \<noteq> [] \<and> HasPrefix s w) ws = None" by (auto simp: find_None_iff)
  then show ?thesis by (simp add: trim_left.simps [of ws s])
qed

text \<open>Trimming twice is trimming once; a trimmed string has no white space at its ends.\<close>

lemma TrimSpace_TrimSpace [simp, go_string]: "TrimSpace (TrimSpace s) = TrimSpace s"
proof -
  let ?l = "trim_left space_encodings" and ?r = "trim_left (map rev space_encodings)"
  obtain p where p: "rev (?l s) = p @ ?r (rev (?l s))"
    using trim_left_suffix by blast
  then have l: "?l s = TrimSpace s @ rev p"
    unfolding TrimSpace_def by (metis rev_append rev_rev_ident)
  have "?l (TrimSpace s) = TrimSpace s"
  proof (rule trim_left_id)
    fix w assume w: "w \<in> set space_encodings" "w \<noteq> []"
    then have "\<not> HasPrefix (?l s) w" by (rule trim_left_done)
    then show "\<not> HasPrefix (TrimSpace s) w"
      unfolding l HasPrefix_def by (metis append_eq_conv_conj append_take_drop_id append.assoc)
  qed
  moreover have "?r (rev (TrimSpace s)) = rev (TrimSpace s)"
    unfolding TrimSpace_def rev_rev_ident
    by (intro trim_left_id) (rule trim_left_done)
  ultimately show ?thesis by (metis TrimSpace_def rev_rev_ident)
qed

lemma TrimSpace_Nil [simp, go_string]: "TrimSpace [] = []"
  by (simp add: TrimSpace_def trim_left_id HasPrefix_def)

text \<open>A string that starts and ends with a printable ASCII character is not changed.\<close>

definition graphic :: "char \<Rightarrow> bool" where
  "graphic c \<longleftrightarrow> 33 \<le> (of_char c :: nat) \<and> (of_char c :: nat) \<le> 126"

lemma space_encodings_ends:
  "w \<in> set space_encodings \<Longrightarrow> \<not> graphic (hd w) \<and> \<not> graphic (last w) \<and> w \<noteq> []"
  by (auto simp: space_encodings_def graphic_def)

lemma HasPrefix_hd: "HasPrefix s w \<Longrightarrow> w \<noteq> [] \<Longrightarrow> hd w = hd s"
  unfolding HasPrefix_def by (cases w; cases s) auto

lemma TrimSpace_graphic [go_string]:
  assumes "s \<noteq> []" and "graphic (hd s)" and "graphic (last s)"
  shows "TrimSpace s = s"
proof -
  have "trim_left space_encodings s = s"
    using assms by (intro trim_left_id) (metis HasPrefix_hd space_encodings_ends)
  moreover have "trim_left (map rev space_encodings) (rev s) = rev s"
  proof (rule trim_left_id)
    fix w assume "w \<in> set (map rev space_encodings)" and "w \<noteq> []"
    then obtain v where "v \<in> set space_encodings" "w = rev v" by auto
    then have "\<not> graphic (hd w)" using space_encodings_ends \<open>w \<noteq> []\<close> by (simp add: hd_rev)
    then show "\<not> HasPrefix (rev s) w"
      using assms \<open>w \<noteq> []\<close> HasPrefix_hd [of "rev s" w] by (auto simp: hd_rev)
  qed
  ultimately show ?thesis by (simp add: TrimSpace_def)
qed

text \<open>
  \<^verbatim>\<open>strings.ToLower\<close> on the ASCII letters.  Every use in the modelled packages compares the
  result with an ASCII constant that has no \<open>i\<close> and no \<open>k\<close> (the only letters a non-ASCII
  code point is lowered to), so the other code points can be left alone.
\<close>

definition lower_char :: "char \<Rightarrow> char" where
  "lower_char c = (let n = of_char c :: nat in if 65 \<le> n \<and> n \<le> 90 then char_of (n + 32) else c)"

definition ToLower :: "string \<Rightarrow> string" where
  "ToLower s = map lower_char s"

text \<open>\<^verbatim>\<open>strings.Split\<close> at a one-character separator.\<close>

fun split_on :: "char \<Rightarrow> string \<Rightarrow> string list" where
  "split_on c [] = [[]]"
| "split_on c (x # xs) =
     (if x = c then [] # split_on c xs
      else case split_on c xs of [] \<Rightarrow> [[x]] | w # ws \<Rightarrow> (x # w) # ws)"

lemma split_on_no_sep [simp, go_string]: "c \<notin> set s \<Longrightarrow> split_on c s = [s]"
  by (induction s) auto

lemma split_on_append [simp, go_string]: "c \<notin> set s \<Longrightarrow> split_on c (s @ c # t) = s # split_on c t"
  by (induction s) auto

lemma split_on_parts: "p \<in> set (split_on c s) \<Longrightarrow> c \<notin> set p"
  by (induction s arbitrary: p) (auto split: if_splits list.splits)

text \<open>\<^verbatim>\<open>strings.Join\<close> with a one-character separator.\<close>

fun join_on :: "char \<Rightarrow> string list \<Rightarrow> string" where
  "join_on c [] = []"
| "join_on c [s] = s"
| "join_on c (s # ss) = s @ c # join_on c ss"

lemma join_on_Cons: "ss \<noteq> [] \<Longrightarrow> join_on c (s # ss) = s @ c # join_on c ss"
  by (cases ss) auto

lemma split_on_nonempty [simp]: "split_on c s \<noteq> []"
  by (induction s) (auto split: list.splits)

lemma join_split [simp, go_string]: "join_on c (split_on c s) = s"
proof (induction s)
  case (Cons x s)
  show ?case
  proof (cases "split_on c s")
    case (Cons w ws)
    with Cons.IH show ?thesis by (cases ws) (auto simp: join_on_Cons)
  qed simp
qed simp

lemma split_join [go_string]: "ss \<noteq> [] \<Longrightarrow> \<forall>s \<in> set ss. c \<notin> set s \<Longrightarrow> split_on c (join_on c ss) = ss"
  by (induction ss rule: induct_list012) auto

section \<open>Decimal numbers\<close>

text \<open>\<^verbatim>\<open>fmt\<close>'s \<^verbatim>\<open>%d\<close> for unsigned values, and \<^verbatim>\<open>strconv.ParseUint(s, 10, bits)\<close>.\<close>

definition digit_char :: "nat \<Rightarrow> char" where
  "digit_char d = char_of (48 + d)"

definition is_digit :: "char \<Rightarrow> bool" where
  "is_digit c \<longleftrightarrow> 48 \<le> (of_char c :: nat) \<and> (of_char c :: nat) \<le> 57"

definition digit_val :: "char \<Rightarrow> nat" where
  "digit_val c = of_char c - 48"

fun format_uint :: "nat \<Rightarrow> string" where
  "format_uint n =
     (if n < 10 then [digit_char n] else format_uint (n div 10) @ [digit_char (n mod 10)])"

declare format_uint.simps [simp del]

definition dec_val :: "string \<Rightarrow> nat" where
  "dec_val s = foldl (\<lambda>acc c. acc * 10 + digit_val c) 0 s"

definition ParseUint :: "string \<Rightarrow> nat \<Rightarrow> nat option" where
  "ParseUint s bits =
     (if s = [] \<or> \<not> list_all is_digit s \<or> dec_val s \<ge> 2 ^ bits then None else Some (dec_val s))"

lemma of_digit_char: "d < 10 \<Longrightarrow> (of_char (digit_char d) :: nat) = 48 + d"
  by (simp add: digit_char_def)

lemma digit_char_props [simp]:
  assumes "d < 10"
  shows "is_digit (digit_char d)" and "digit_val (digit_char d) = d"
  using of_digit_char [OF assms] assms by (auto simp: is_digit_def digit_val_def)

lemma format_uint_digits: "list_all is_digit (format_uint n)"
proof (induction n rule: format_uint.induct)
  case (1 n)
  then show ?case by (subst format_uint.simps) auto
qed

lemma format_uint_nonempty [simp]: "format_uint n \<noteq> []"
  by (subst format_uint.simps) simp

lemma dec_val_format_uint [simp, go_string]: "dec_val (format_uint n) = n"
proof (induction n rule: format_uint.induct)
  case (1 n)
  show ?case
  proof (cases "n < 10")
    case True
    then show ?thesis by (subst format_uint.simps) (simp add: dec_val_def)
  next
    case False
    with 1 have "dec_val (format_uint (n div 10)) = n div 10" by simp
    with False show ?thesis by (subst format_uint.simps) (simp add: dec_val_def)
  qed
qed

lemma ParseUint_format_uint [simp, go_string]:
  "n < 2 ^ bits \<Longrightarrow> ParseUint (format_uint n) bits = Some n"
  by (simp add: ParseUint_def format_uint_digits)

lemma ParseUint_bound: "ParseUint s bits = Some n \<Longrightarrow> n < 2 ^ bits"
  by (auto simp: ParseUint_def split: if_splits)

lemma format_uint_inj [simp]: "format_uint m = format_uint n \<longleftrightarrow> m = n"
  by (metis dec_val_format_uint)

text \<open>\<^verbatim>\<open>strconv.Itoa\<close>.\<close>

definition Itoa :: "int \<Rightarrow> string" where
  "Itoa i = (if i < 0 then CHR ''-'' # format_uint (nat (- i)) else format_uint (nat i))"

lemma format_uint_hd_digit: "is_digit (hd (format_uint n))"
  using format_uint_digits [of n] by (cases "format_uint n") auto

lemma Itoa_inj [simp]: "Itoa i = Itoa j \<longleftrightarrow> i = j"
proof
  have neq: "CHR ''-'' # s \<noteq> format_uint n" for s n
  proof
    assume "CHR ''-'' # s = format_uint n"
    then have "is_digit (CHR ''-'')" using format_uint_hd_digit [of n] by (metis list.sel(1))
    then show False by (simp add: is_digit_def)
  qed
  assume "Itoa i = Itoa j"
  then show "i = j" using neq neq [symmetric] by (auto simp: Itoa_def split: if_splits)
qed simp

section \<open>Hexadecimal\<close>

text \<open>\<^verbatim>\<open>hex.EncodeToString\<close> writes lower-case digits; \<^verbatim>\<open>hex.DecodeString\<close> accepts both cases
  and rejects an odd length.\<close>

definition hex_digit :: "nat \<Rightarrow> char" where
  "hex_digit d = (if d < 10 then char_of (48 + d) else char_of (87 + d))"

definition hex_val :: "char \<Rightarrow> nat option" where
  "hex_val c = (let n = of_char c in
     if 48 \<le> n \<and> n \<le> 57 then Some (n - 48)
     else if 97 \<le> n \<and> n \<le> 102 then Some (n - 87)
     else if 65 \<le> n \<and> n \<le> 70 then Some (n - 55) else None)"

fun hex_encode :: "bytes \<Rightarrow> string" where
  "hex_encode [] = []"
| "hex_encode (b # bs) = hex_digit (unat b div 16) # hex_digit (unat b mod 16) # hex_encode bs"

fun hex_decode :: "string \<Rightarrow> bytes option" where
  "hex_decode [] = Some []"
| "hex_decode [c] = None"
| "hex_decode (c # d # s) =
     (case (hex_val c, hex_val d) of
        (Some h, Some l) \<Rightarrow> map_option ((#) (of_nat (16 * h + l))) (hex_decode s)
      | _ \<Rightarrow> None)"

lemma hex_val_hex_digit [simp]: "d < 16 \<Longrightarrow> hex_val (hex_digit d) = Some d"
  by (auto simp: hex_val_def hex_digit_def)

lemma hex_decode_encode [simp, go_string]: "hex_decode (hex_encode bs) = Some bs"
proof (induction bs)
  case (Cons b bs)
  have "unat b < 256" using unsigned_less [of b] by simp
  then have "unat b div 16 < 16" and "unat b mod 16 < 16" by auto
  moreover have "(word_of_nat (16 * (unat b div 16) + unat b mod 16) :: 8 word) = b" by simp
  ultimately show ?case using Cons by (simp del: mult_div_mod_eq)
qed simp

lemma length_hex_encode [simp]: "length (hex_encode bs) = 2 * length bs"
  by (induction bs) auto

lemma hex_encode_inj [simp]: "hex_encode a = hex_encode b \<longleftrightarrow> a = b"
  by (metis hex_decode_encode option.inject)

section \<open>Events that succeed at most once\<close>

text \<open>
  A component driven by a list of events returns a result for each.  The contract \<open>one_shot\<close> is
  that of a single-use token: an event can only hit while the token is unspent, the hit spends
  it, and nothing makes it unspent again.  Then no run hits twice, whatever the order of the
  events, so whatever the interleaving of the callers.
\<close>

fun run_events :: "('e \<Rightarrow> 's \<Rightarrow> 'r \<times> 's) \<Rightarrow> 'e list \<Rightarrow> 's \<Rightarrow> 'r list \<times> 's" where
  "run_events step [] s = ([], s)"
| "run_events step (e # es) s =
     (let (r, s') = step e s; (rs, s'') = run_events step es s' in (r # rs, s''))"

definition hits :: "('e \<Rightarrow> 'r \<Rightarrow> bool) \<Rightarrow> 'e list \<Rightarrow> 'r list \<Rightarrow> nat" where
  "hits hit es rs = length (filter (\<lambda>(e, r). hit e r) (zip es rs))"

locale one_shot =
  fixes step :: "'e \<Rightarrow> 's \<Rightarrow> 'r \<times> 's"
    and hit :: "'e \<Rightarrow> 'r \<Rightarrow> bool"
    and inv :: "'s \<Rightarrow> bool"
    and spent :: "'s \<Rightarrow> bool"
  assumes step_inv: "inv s \<Longrightarrow> inv (snd (step e s))"
    and hit_unspent: "inv s \<Longrightarrow> step e s = (r, s') \<Longrightarrow> hit e r \<Longrightarrow> \<not> spent s \<and> spent s'"
    and spent_stays: "inv s \<Longrightarrow> step e s = (r, s') \<Longrightarrow> spent s \<Longrightarrow> spent s'"
begin

lemma hits_spent:
  "inv s \<Longrightarrow> spent s \<Longrightarrow> hits hit es (fst (run_events step es s)) = 0 \<and> spent (snd (run_events step es s))"
proof (induction es arbitrary: s)
  case (Cons e es)
  obtain r s' where step: "step e s = (r, s')" by fastforce
  with Cons.prems hit_unspent have "\<not> hit e r" by blast
  moreover have "inv s'" using step_inv [OF Cons.prems(1), of e] step by simp
  note Cons.IH [OF this spent_stays [OF Cons.prems(1) step Cons.prems(2)]]
  ultimately show ?case using step by (cases "run_events step es s'") (simp add: hits_def)
qed (simp add: hits_def)

lemma hits_at_most_once: "inv s \<Longrightarrow> hits hit es (fst (run_events step es s)) \<le> 1"
proof (induction es arbitrary: s)
  case (Cons e es)
  obtain r s' where step: "step e s = (r, s')" by fastforce
  have inv': "inv s'" using step_inv [OF Cons.prems, of e] step by simp
  show ?case
  proof (cases "hit e r")
    case True
    then have "spent s'" using hit_unspent [OF Cons.prems step] by simp
    with hits_spent [OF inv', of es] step True show ?thesis
      by (cases "run_events step es s'") (simp add: hits_def)
  next
    case False
    with Cons.IH [OF inv'] step show ?thesis by (cases "run_events step es s'") (simp add: hits_def)
  qed
qed (simp add: hits_def)

end

end
