(* ===== verification/Gf256.thy ===== *)
theory Gf256
  imports Prelude
begin

text \<open>
  The arithmetic of \<^verbatim>\<open>internal/recovery/package.go\<close> on bytes: \<^verbatim>\<open>gfMul\<close>, \<^verbatim>\<open>gfPow\<close>, \<^verbatim>\<open>gfDiv\<close>,
  and the proof that these operations make the bytes a field (of 256 elements, with exclusive
  or as the addition).  The type \<open>gf\<close> carries the field structure, so that the library's
  field automation applies to the code's arithmetic.
\<close>

unbundle bit_operations_syntax

section \<open>The code\<close>

definition xtime :: "byte \<Rightarrow> byte" where
  "xtime a = (let s = push_bit 1 a in if a AND 0x80 \<noteq> 0 then s XOR 0x1b else s)"

function gfMul_loop :: "byte \<Rightarrow> byte \<Rightarrow> byte \<Rightarrow> byte" where
  "gfMul_loop product a b =
     (if b = 0 then product
      else gfMul_loop (if b AND 1 \<noteq> 0 then product XOR a else product) (xtime a) (drop_bit 1 b))"
  by pat_completeness auto
termination
proof (relation "measure (\<lambda>(p, a, b). unat b)")
  fix product a b :: byte
  assume "b \<noteq> 0"
  then have "0 < unat b" by (simp add: unat_gt_0)
  moreover have "unat (drop_bit 1 b) = unat b div 2"
    using unat_div [of b 2] by (simp add: drop_bit_eq_div)
  ultimately show "((if b AND 1 \<noteq> 0 then product XOR a else product, xtime a, drop_bit 1 b),
      (product, a, b)) \<in> measure (\<lambda>(p, a, b). unat b)" by simp
qed simp

declare gfMul_loop.simps [simp del]

definition gfMul :: "byte \<Rightarrow> byte \<Rightarrow> byte" where
  "gfMul a b = gfMul_loop 0 a b"

fun gfPow_loop :: "byte \<Rightarrow> byte \<Rightarrow> nat \<Rightarrow> byte" where
  "gfPow_loop result a n =
     (if n = 0 then result
      else gfPow_loop (if odd n then gfMul result a else result) (gfMul a a) (n div 2))"

declare gfPow_loop.simps [simp del]

definition gfPow :: "byte \<Rightarrow> nat \<Rightarrow> byte" where
  "gfPow a n = gfPow_loop 1 a n"

definition gfDiv :: "byte \<Rightarrow> byte \<Rightarrow> error + byte" where
  "gfDiv a b =
     (if b = 0 then Inl (ErrInvalidShare ''duplicate share'') else Inr (gfMul a (gfPow b 254)))"

section \<open>Multiplication is bilinear\<close>

lemma less_8: "n < 8 \<longleftrightarrow> n = 0 \<or> n = 1 \<or> n = 2 \<or> n = 3 \<or> n = 4 \<or> n = 5 \<or> n = 6 \<or> n = (7 :: nat)"
  by auto

lemma byte_eq_bits: "(a :: byte) = b \<longleftrightarrow> list_all (\<lambda>n. bit a n = bit b n) [0, 1, 2, 3, 4, 5, 6, 7]"
proof
  assume "list_all (\<lambda>n. bit a n = bit b n) [0, 1, 2, 3, 4, 5, 6, 7]"
  then have "bit a n = bit b n" if "n < 8" for n using that unfolding less_8 by auto
  then show "a = b" by (intro bit_word_eqI) simp
qed simp

lemma and_128_iff: "(a :: byte) AND 0x80 \<noteq> 0 \<longleftrightarrow> bit a 7"
  by (simp add: byte_eq_bits bit_simps)

lemma bit_27: "n < 8 \<Longrightarrow> bit (27 :: byte) n \<longleftrightarrow> n = 0 \<or> n = 1 \<or> n = 3 \<or> n = 4"
  unfolding less_8 by (elim disjE) simp_all

lemma bit_shift: "n < 8 \<Longrightarrow> bit (push_bit 1 (a :: byte)) n \<longleftrightarrow> 0 < n \<and> bit a (n - 1)"
  by (simp only: bit_push_bit_iff) auto

lemma bit_xtime:
  "n < 8 \<Longrightarrow> bit (xtime a) n =
     ((0 < n \<and> bit a (n - 1)) \<noteq> ((n = 0 \<or> n = 1 \<or> n = 3 \<or> n = 4) \<and> bit a 7))"
  by (simp only: xtime_def and_128_iff Let_def bit_xor_iff bit_27 bit_shift if_distrib [of "\<lambda>w. bit w n"] split: if_split)
    blast

lemma xtime_xor: "xtime (a XOR b) = xtime a XOR xtime b"
  by (auto simp: byte_eq_bits bit_xtime bit_xor_iff)

lemma xtime_0 [simp]: "xtime 0 = 0"
  by (simp add: byte_eq_bits bit_xtime)

lemma and_1_iff: "(b :: byte) AND 1 \<noteq> 0 \<longleftrightarrow> bit b 0"
  by (simp add: and_one_eq odd_iff_mod_2_eq_one bit_0)

lemma shift_induct [case_names zero shift]:
  fixes b :: byte
  assumes "P 0" and "\<And>b. b \<noteq> 0 \<Longrightarrow> P (drop_bit 1 b) \<Longrightarrow> P b"
  shows "P b"
proof (induction "unat b" arbitrary: b rule: less_induct)
  case less
  show ?case
  proof (cases "b = 0")
    case False
    then have "0 < unat b" by (simp add: unat_gt_0)
    then have "unat (drop_bit 1 b) < unat b" using unat_div [of b 2] by (simp add: drop_bit_eq_div)
    with False less assms(2) show ?thesis by blast
  qed (simp add: assms(1))
qed

lemma gfMul_loop_0 [simp]: "gfMul_loop p a 0 = p"
  by (simp add: gfMul_loop.simps)

lemma gfMul_loop_acc: "gfMul_loop p a b = p XOR gfMul_loop 0 a b"
proof (induction b arbitrary: p a rule: shift_induct)
  case (shift b)
  note IH = shift(2)
  have "gfMul_loop p a b = gfMul_loop (if bit b 0 then p XOR a else p) (xtime a) (drop_bit 1 b)"
    and "gfMul_loop 0 a b = gfMul_loop (if bit b 0 then a else 0) (xtime a) (drop_bit 1 b)"
    using shift(1) by (subst gfMul_loop.simps, simp only: and_1_iff, simp)+
  then show ?case using IH [of "if bit b 0 then p XOR a else p"] IH [of "if bit b 0 then a else 0"]
    by (simp add: xor.assoc)
qed simp

lemma gfMul_rec: "gfMul a b = (if bit b 0 then a else 0) XOR gfMul (xtime a) (drop_bit 1 b)"
proof (cases "b = 0")
  case False
  then have "gfMul a b = gfMul_loop (if bit b 0 then a else 0) (xtime a) (drop_bit 1 b)"
    unfolding gfMul_def by (subst gfMul_loop.simps) (simp only: and_1_iff, simp)
  then show ?thesis unfolding gfMul_def by (metis gfMul_loop_acc)
qed (simp add: gfMul_def)

lemma gfMul_0_right [simp]: "gfMul a 0 = 0"
  by (simp add: gfMul_def)

lemma gfMul_xor_left: "gfMul (a XOR a') b = gfMul a b XOR gfMul a' b"
proof (induction b arbitrary: a a' rule: shift_induct)
  case (shift b)
  show ?case
    unfolding gfMul_rec [of _ b] xtime_xor shift(2) by (simp add: xor.assoc xor.left_commute)
qed simp

lemma gfMul_xtime_left: "gfMul (xtime a) b = xtime (gfMul a b)"
proof (induction b arbitrary: a rule: shift_induct)
  case (shift b)
  show ?case
    unfolding gfMul_rec [of _ b] shift(2) xtime_xor by simp
qed simp

lemma gfMul_xor_right: "gfMul a (b XOR c) = gfMul a b XOR gfMul a c"
proof -
  have "drop_bit n b = 0 \<Longrightarrow> drop_bit n c = 0 \<Longrightarrow> gfMul a (b XOR c) = gfMul a b XOR gfMul a c" for n
  proof (induction n arbitrary: a b c)
    case (Suc n)
    then have "gfMul (xtime a) (drop_bit 1 b XOR drop_bit 1 c) =
        gfMul (xtime a) (drop_bit 1 b) XOR gfMul (xtime a) (drop_bit 1 c)"
      by (intro Suc.IH) (simp_all only: drop_bit_drop_bit add.commute Suc_eq_plus1)
    then show ?case
      unfolding gfMul_rec [of a "b XOR c"] gfMul_rec [of a b] gfMul_rec [of a c]
      by (simp only: drop_bit_xor bit_xor_iff) (simp add: xor.assoc xor.left_commute)
  qed simp
  moreover have "drop_bit 8 x = 0" for x :: byte
    by (simp add: bit_eq_iff bit_drop_bit_eq)
  ultimately show ?thesis by blast
qed

section \<open>The bytes form a commutative ring\<close>

lemma xtime_shift: "\<not> bit a 7 \<Longrightarrow> xtime a = push_bit 1 a"
  by (simp only: xtime_def Let_def and_128_iff if_False)

lemma push_drop: "(b :: byte) = (if bit b 0 then 1 else 0) XOR push_bit 1 (drop_bit 1 b)"
proof -
  have "bit b n = bit ((if bit b 0 then 1 else 0) XOR push_bit 1 (drop_bit 1 b)) n" if "n < 8" for n
    using that by (cases n) (simp_all only: bit_xor_iff bit_shift bit_drop_bit_eq, auto simp: bit_1_iff)
  then show ?thesis by (intro bit_word_eqI) simp
qed

lemma not_bit_drop: "\<not> bit (drop_bit 1 (b :: byte)) 7"
  using bit_imp_le_length [of b 8] by (auto simp: bit_drop_bit_eq)

text \<open>Every byte is built from 1 by exclusive or and \<open>xtime\<close>.\<close>

lemma gf_induct [case_names zero one xor xtime]:
  assumes "P 0" and "P 1" and "\<And>a b. P a \<Longrightarrow> P b \<Longrightarrow> P (a XOR b)" and "\<And>a. P a \<Longrightarrow> P (xtime a)"
  shows "P b"
proof (induction b rule: shift_induct)
  case (shift b)
  have "P (push_bit 1 (drop_bit 1 b))"
    using assms(4) [OF shift(2)] xtime_shift [OF not_bit_drop] by simp
  then have "P ((if bit b 0 then 1 else 0) XOR push_bit 1 (drop_bit 1 b))"
    using assms by (cases "bit b 0") (simp_all only: if_True if_False)
  then show ?case using push_drop [of b] by metis
qed (rule assms(1))

lemma xtime8: "(xtime ^^ 8) a = a XOR xtime a XOR (xtime ^^ 3) a XOR (xtime ^^ 4) a"
  by (auto simp: byte_eq_bits bit_xtime bit_xor_iff eval_nat_numeral)

lemma gfMul_1_right [simp]: "gfMul a 1 = a"
  using gfMul_rec [of a 1] by simp

lemma gfMul_0_left [simp]: "gfMul 0 b = 0"
  using gfMul_xor_left [of 0 0 b] by simp

lemma gfMul_shift: "\<not> bit b 7 \<Longrightarrow> gfMul a (push_bit 1 b) = gfMul (xtime a) b"
proof -
  assume "\<not> bit b 7"
  then have "bit (drop_bit 1 (push_bit 1 b)) n = bit b n" if "n < 8" for n
    using that bit_imp_le_length [of b n]
    by (cases "n = 7") (simp_all only: bit_drop_bit_eq o_apply bit_push_bit_iff, auto)
  then have "drop_bit 1 (push_bit 1 b) = b" by (intro bit_word_eqI) simp
  moreover have "\<not> bit (push_bit 1 b) 0" by (simp only: bit_push_bit_iff) simp
  ultimately show ?thesis using gfMul_rec [of a "push_bit 1 b"] by (simp only:) simp
qed

lemma gfMul_basis: "i < 8 \<Longrightarrow> gfMul a (push_bit i 1) = (xtime ^^ i) a"
proof (induction i arbitrary: a)
  case (Suc i)
  have "\<not> bit (push_bit i 1 :: byte) 7" 
    using Suc.prems by (simp only: bit_push_bit_iff bit_1_iff) auto
  moreover have "push_bit (Suc i) 1 = push_bit 1 (push_bit i 1 :: byte)" by (simp only: push_bit_push_bit) simp
  ultimately have "gfMul a (push_bit (Suc i) 1) = gfMul (xtime a) (push_bit i 1)"
    using gfMul_shift by metis
  with Suc show ?case by (simp add: funpow_swap1)
qed simp

lemma gfMul_1b: "gfMul a 0x1b = (xtime ^^ 8) a"
proof -
  have "(0x1b :: byte) = push_bit 0 1 XOR push_bit 1 1 XOR push_bit 3 1 XOR push_bit 4 1" by simp
  then show ?thesis
    unfolding xtime8 by (simp only: gfMul_xor_right gfMul_basis) simp
qed

lemma gfMul_xtime_right: "gfMul a (xtime b) = xtime (gfMul a b)"
proof (cases "bit b 7")
  case False
  show ?thesis by (simp only: xtime_shift [OF False] gfMul_shift [OF False] gfMul_xtime_left)
next
  case True
  let ?c = "b XOR 0x80"
  have c: "\<not> bit ?c 7" using True by (simp add: bit_xor_iff)
  have b: "b = ?c XOR push_bit 7 1" by (simp add: xor.assoc)
  have "xtime (push_bit 7 1) = 0x1b" by (simp add: xtime_def)
  then have "gfMul a (xtime (push_bit 7 1)) = xtime (gfMul a (push_bit 7 1))"
    by (simp only: gfMul_1b gfMul_basis) (simp add: eval_nat_numeral)
  moreover have "gfMul a (xtime ?c) = xtime (gfMul a ?c)"
    by (simp only: xtime_shift [OF c] gfMul_shift [OF c] gfMul_xtime_left)
  ultimately show ?thesis by (subst (1 2) b) (simp only: xtime_xor gfMul_xor_right)
qed

lemma gfMul_1_left: "gfMul 1 b = b"
  by (induction b rule: gf_induct) (simp_all add: gfMul_xor_right gfMul_xtime_right)

lemma gfMul_commute: "gfMul a b = gfMul b a"
  by (induction b rule: gf_induct)
    (simp_all add: gfMul_xor_right gfMul_xor_left gfMul_xtime_right gfMul_xtime_left gfMul_1_left)

lemma gfMul_assoc: "gfMul (gfMul a b) c = gfMul a (gfMul b c)"
  by (induction c rule: gf_induct) (simp_all add: gfMul_xor_right gfMul_xtime_right)

section \<open>The field of 256 elements\<close>

typedef gf = "UNIV :: byte set" morphisms byte_of Gf ..

setup_lifting type_definition_gf

instantiation gf :: comm_ring_1
begin

lift_definition zero_gf :: gf is 0 .
lift_definition one_gf :: gf is 1 .
lift_definition plus_gf :: "gf \<Rightarrow> gf \<Rightarrow> gf" is "(XOR)" .
lift_definition minus_gf :: "gf \<Rightarrow> gf \<Rightarrow> gf" is "(XOR)" .
lift_definition uminus_gf :: "gf \<Rightarrow> gf" is "\<lambda>a. a" .
lift_definition times_gf :: "gf \<Rightarrow> gf \<Rightarrow> gf" is gfMul .

instance
proof
  fix a b c :: gf
  show "a * b * c = a * (b * c)" by transfer (rule gfMul_assoc)
  show "a * b = b * a" by transfer (rule gfMul_commute)
  show "1 * a = a" by transfer (rule gfMul_1_left)
  show "(a + b) * c = a * c + b * c" by transfer (rule gfMul_xor_left)
  show "a + b + c = a + (b + c)" by transfer (rule xor.assoc)
  show "a + b = b + a" by transfer (rule xor.commute)
  show "0 + a = a" by transfer simp
  show "- a + a = 0" by transfer simp
  show "a - b = a + - b" by transfer simp
  show "(0 :: gf) \<noteq> 1" by transfer simp
qed

end

lemma Gf_mult: "Gf (gfMul a b) = Gf a * Gf b"
  by (simp add: times_gf.abs_eq)

lemma Gf_add: "Gf (a XOR b) = Gf a + Gf b"
  by (simp add: plus_gf.abs_eq)

lemma Gf_0_1 [simp]: "Gf 0 = 0" "Gf 1 = 1"
  by (simp_all add: zero_gf.abs_eq one_gf.abs_eq)

lemma Gf_eq_0 [simp]: "Gf a = 0 \<longleftrightarrow> a = 0"
  by (metis Gf_0_1(1) Gf_inject UNIV_I)

lemma Gf_gfPow_loop: "Gf (gfPow_loop r a n) = Gf r * Gf a ^ n"
proof (induction r a n rule: gfPow_loop.induct)
  case (1 r a n)
  have sq: "(x * x) ^ k = x ^ (2 * k)" for x :: gf and k by (simp add: power_mult power2_eq_square)
  have "(if odd n then Gf a else 1) * (Gf a * Gf a) ^ (n div 2) = Gf a ^ n"
    unfolding sq by (cases "even n") (simp_all flip: power_Suc)
  with 1 show ?case by (subst gfPow_loop.simps) (auto simp: Gf_mult mult.assoc)
qed

lemma Gf_gfPow: "Gf (gfPow a n) = Gf a ^ n"
  by (simp add: gfPow_def Gf_gfPow_loop)

lemma gf_add_self [simp]: "(a :: gf) + a = 0"
  by transfer simp

lemma gf_two_zero: "(2 :: gf) = 0"
  using gf_add_self [of 1] by (simp only: one_add_one)

lemma gf_frobenius: "((a :: gf) + b) ^ 2 ^ n = a ^ 2 ^ n + b ^ 2 ^ n"
proof (induction n)
  case (Suc n)
  have sq: "((x :: gf) + y) ^ 2 = x ^ 2 + y ^ 2" for x y
    by (simp add: power2_eq_square algebra_simps gf_two_zero)
  have "(a + b) ^ 2 ^ Suc n = ((a + b) ^ 2 ^ n) ^ 2" by (simp add: power_mult [symmetric] mult.commute)
  also have "\<dots> = (a ^ 2 ^ n) ^ 2 + (b ^ 2 ^ n) ^ 2" by (simp add: Suc sq)
  finally show ?case by (simp add: power_mult [symmetric] mult.commute)
qed simp

text \<open>Every element is its own 256th power: true of 0, 1 and 2, and kept by sums and products.\<close>

lemma gf_two: "Gf 2 ^ 256 = Gf 2"
proof -
  have "gfPow 2 256 = 2" by code_simp
  then show ?thesis using Gf_gfPow [of 2 256] by simp
qed

lemma xtime_mult: "Gf (xtime a) = Gf 2 * Gf a"
proof -
  have "xtime 1 = 2" by (simp add: xtime_def)
  then have "xtime a = gfMul 2 a" using gfMul_xtime_left [of 1 a] gfMul_1_left by simp
  then show ?thesis by (simp add: Gf_mult)
qed

lemma gf_pow_256: "(a :: gf) ^ 256 = a"
proof -
  have "Gf b ^ 256 = Gf b" for b
  proof (induction b rule: gf_induct)
    case (xor a b)
    then show ?case using gf_frobenius [of "Gf a" "Gf b" 8] by (simp add: Gf_add)
  next
    case (xtime a)
    then show ?case by (simp add: xtime_mult power_mult_distrib gf_two)
  qed simp_all
  then show ?thesis by (cases a) simp
qed

text \<open>The only idempotents are 0 and 1, so a non-zero element has an inverse.\<close>

lemma gfMul_idempotent: "gfMul e e = e \<Longrightarrow> e = 0 \<or> e = 1"
proof -
  have "list_all (\<lambda>n. gfMul (of_nat n) (of_nat n) = of_nat n \<longrightarrow> n < 2) [0..<256]" by code_simp
  then have *: "gfMul (of_nat n) (of_nat n) = of_nat n \<longrightarrow> n < 2" if "n < 256" for n
    using that by (simp add: list_all_iff)
  assume "gfMul e e = e"
  moreover have "unat e < 256" using unsigned_less [of e] by simp
  ultimately have "unat e < 2" using * [of "unat e"] by simp
  then show ?thesis by (metis less_2_cases unat_eq_zero unat_1 word_unat_eq_iff One_nat_def)
qed

lemma gf_idempotent: "(e :: gf) * e = e \<Longrightarrow> e = 0 \<or> e = 1"
  by transfer (rule gfMul_idempotent)

lemma gf_inverse: "(a :: gf) \<noteq> 0 \<Longrightarrow> a * a ^ 254 = 1"
proof -
  assume "a \<noteq> 0"
  let ?e = "a ^ 255"
  have ae: "a * ?e = a" using gf_pow_256 [of a] by (simp add: power_Suc [symmetric] del: power_Suc)
  then have "?e \<noteq> 0" using \<open>a \<noteq> 0\<close> by auto
  have "?e * ?e = a ^ 254 * (a * ?e)" by (simp add: power_add [symmetric] flip: power_Suc2 power_Suc)
  also have "\<dots> = ?e" by (simp add: ae flip: power_Suc2)
  finally have "?e = 0 \<or> ?e = 1" by (rule gf_idempotent)
  with \<open>?e \<noteq> 0\<close> show ?thesis by (simp flip: power_Suc)
qed

instantiation gf :: field
begin

definition inverse_gf :: "gf \<Rightarrow> gf" where
  "inverse_gf a = (if a = 0 then 0 else a ^ 254)"

definition divide_gf :: "gf \<Rightarrow> gf \<Rightarrow> gf" where
  "divide_gf a b = a * inverse b"

instance
proof
  fix a b :: gf
  show "a \<noteq> 0 \<Longrightarrow> inverse a * a = 1" by (simp add: inverse_gf_def gf_inverse mult.commute)
  show "a div b = a * inverse b" by (simp add: divide_gf_def)
  show "inverse 0 = (0 :: gf)" by (simp add: inverse_gf_def)
qed

end

text \<open>\<^verbatim>\<open>gfDiv\<close> is the division of the field; it fails exactly on a zero divisor.\<close>

lemma gfDiv_eq: "gfDiv a b = (if b = 0 then Inl (ErrInvalidShare ''duplicate share'')
    else Inr (byte_of (Gf a / Gf b)))"
proof (cases "b = 0")
  case False
  then have "Gf a / Gf b = Gf (gfMul a (gfPow b 254))"
    by (simp add: divide_gf_def inverse_gf_def Gf_mult Gf_gfPow)
  with False show ?thesis by (simp add: gfDiv_def Gf_inverse)
qed (simp add: gfDiv_def)

end
