(* ===== verification/Interpolation.thy ===== *)
theory Interpolation
  imports Main
begin

text \<open>
  Polynomials over a field as coefficient lists (lowest first) and Lagrange interpolation at
  an arbitrary point: a polynomial with fewer coefficients than given distinct points is
  determined by its values there, and values at distinct points always have such a polynomial.
  Secret sharing in \<open>Recovery\<close> rests on these two facts.
\<close>

definition poly_at :: "'a::comm_ring_1 list \<Rightarrow> 'a \<Rightarrow> 'a" where
  "poly_at cs x = foldr (\<lambda>c r. r * x + c) cs 0"

lemma poly_at_simps [simp]:
  "poly_at [] x = 0" "poly_at (c # cs) x = poly_at cs x * x + c"
  by (simp_all add: poly_at_def)

section \<open>Root bound\<close>

text \<open>Synthetic division by \<open>x - r\<close>.\<close>

fun synth :: "'a::comm_ring_1 \<Rightarrow> 'a list \<Rightarrow> 'a list" where
  "synth r [] = []"
| "synth r [c] = []"
| "synth r (c # cs) = poly_at cs r # synth r cs"

lemma length_synth [simp]: "length (synth r cs) = length cs - 1"
  by (induction r cs rule: synth.induct) auto

lemma synth_eval: "poly_at cs x = (x - r) * poly_at (synth r cs) x + poly_at cs r"
proof (induction r cs rule: synth.induct)
  case (3 r c d cs)
  then have "poly_at (d # cs) x = (x - r) * poly_at (synth r (d # cs)) x + poly_at (d # cs) r" .
  then have "poly_at (c # d # cs) x =
      ((x - r) * poly_at (synth r (d # cs)) x + poly_at (d # cs) r) * x + c"
    by (simp only: poly_at_simps(2) [of c])
  also have "\<dots> = (x - r) * (poly_at (synth r (d # cs)) x * x + poly_at (d # cs) r) +
      (poly_at (d # cs) r * r + c)" by (simp add: algebra_simps)
  finally show ?case by (simp only: synth.simps(3) poly_at_simps(2) [of c] poly_at_simps(2) [of "poly_at (d # cs) r"])
qed simp_all

lemma poly_roots_zero:
  fixes cs :: "'a::idom list"
  assumes "distinct xs" and "length cs \<le> length xs" and "\<And>x. x \<in> set xs \<Longrightarrow> poly_at cs x = 0"
  shows "poly_at cs y = 0"
  using assms
proof (induction xs arbitrary: cs y)
  case (Cons r xs)
  have cs: "poly_at cs x = (x - r) * poly_at (synth r cs) x" for x
    using synth_eval [of cs x r] Cons.prems(3) by simp
  have "poly_at (synth r cs) y = 0" for y
  proof (rule Cons.IH)
    fix x assume "x \<in> set xs"
    with Cons.prems have "x \<noteq> r" "poly_at cs x = 0" by auto
    with cs [of x] show "poly_at (synth r cs) x = 0" by simp
  qed (use Cons.prems in auto)
  then show ?case using cs by simp
qed simp

lemma poly_zero_coeffs:
  fixes cs :: "'a::idom list"
  assumes "distinct xs" and "length cs \<le> length xs" and "\<And>x. x \<in> set xs \<Longrightarrow> poly_at cs x = 0"
  shows "set cs \<subseteq> {0}"
  using assms
proof (induction xs arbitrary: cs)
  case (Cons r xs)
  let ?q = "synth r cs"
  have cs: "poly_at cs x = (x - r) * poly_at ?q x" for x
    using synth_eval [of cs x r] Cons.prems(3) by simp
  have q: "set ?q \<subseteq> {0}"
  proof (rule Cons.IH)
    fix x assume "x \<in> set xs"
    with Cons.prems have "x \<noteq> r" "poly_at cs x = 0" by auto
    with cs [of x] show "poly_at ?q x = 0" by simp
  qed (use Cons.prems in auto)
  have "poly_at cs r = 0" using Cons.prems(3) by simp
  with q show ?case
  proof (induction r cs rule: synth.induct)
    case (3 r c d cs)
    then have "poly_at (d # cs) r = 0" "set (synth r (d # cs)) \<subseteq> {0}" by auto
    with 3 show ?case by (metis add_0 insert_subset list.simps(15) mult_zero_left poly_at_simps(2) singletonI)
  qed auto
qed simp

section \<open>Polynomial functions\<close>

definition polyf :: "nat \<Rightarrow> ('a::comm_ring_1 \<Rightarrow> 'a) \<Rightarrow> bool" where
  "polyf n h \<longleftrightarrow> (\<exists>cs. length cs = n \<and> (\<forall>x. h x = poly_at cs x))"

fun add_coeffs :: "'a::comm_ring_1 list \<Rightarrow> 'a list \<Rightarrow> 'a list" where
  "add_coeffs (a # as) (b # bs) = (a + b) # add_coeffs as bs"
| "add_coeffs as [] = as"
| "add_coeffs [] bs = bs"

lemma add_coeffs_props:
  "length (add_coeffs as bs) = max (length as) (length bs)"
  "poly_at (add_coeffs as bs) x = poly_at as x + poly_at bs x"
  by (induction as bs rule: add_coeffs.induct) (auto simp: algebra_simps)

lemma poly_at_map_mult: "poly_at (map ((*) c) cs) x = c * poly_at cs x"
  by (induction cs) (auto simp: algebra_simps)

lemma polyf_poly: "polyf (length cs) (poly_at cs)"
  unfolding polyf_def by blast

lemma polyf_add: "polyf n f \<Longrightarrow> polyf n g \<Longrightarrow> polyf n (\<lambda>x. f x + g x)"
  unfolding polyf_def by (metis add_coeffs_props max.idem)

lemma polyf_scale: "polyf n f \<Longrightarrow> polyf n (\<lambda>x. c * f x)"
  unfolding polyf_def by (metis length_map poly_at_map_mult)

lemma polyf_zero: "polyf n (\<lambda>_. 0)"
proof -
  have "poly_at (replicate n 0) x = 0" for x :: 'a by (induction n) auto
  then show ?thesis unfolding polyf_def by (metis length_replicate)
qed

lemma polyf_shift: "polyf n f \<Longrightarrow> polyf (Suc n) (\<lambda>x. f x * x)"
  unfolding polyf_def by (metis add.right_neutral length_Cons poly_at_simps(2))

lemma polyf_lift: "polyf n f \<Longrightarrow> polyf (Suc n) f"
proof -
  have "poly_at (cs @ [0]) x = poly_at cs x" for cs and x :: 'a by (induction cs) auto
  then show "polyf n f \<Longrightarrow> polyf (Suc n) f" unfolding polyf_def by (metis length_append_singleton)
qed

lemma polyf_const: "0 < n \<Longrightarrow> polyf n (\<lambda>_. c)"
proof (induction n)
  case (Suc n)
  show ?case
  proof (cases n)
    case 0
    then show ?thesis unfolding polyf_def by (intro exI [of _ "[c]"]) simp
  next
    case (Suc m)
    then show ?thesis using Suc.IH polyf_lift by blast
  qed
qed simp

lemma polyf_sum_list:
  "(\<And>f. f \<in> set fs \<Longrightarrow> polyf n f) \<Longrightarrow> polyf n (\<lambda>x. \<Sum>f\<leftarrow>fs. f x)"
  by (induction fs) (auto intro: polyf_zero polyf_add)

lemma polyf_linear_factors:
  "polyf (Suc (length ps)) (\<lambda>x. \<Prod>p\<leftarrow>ps. (snd p - x) * fst p)"
proof (induction ps)
  case Nil
  then show ?case using polyf_const [of 1 1] by simp
next
  case (Cons p ps)
  let ?f = "\<lambda>x. \<Prod>p\<leftarrow>ps. (snd p - x) * fst p"
  have "polyf (Suc (Suc (length ps))) (\<lambda>x. (snd p * fst p) * ?f x + (- fst p) * (?f x * x))"
    by (intro polyf_add polyf_scale polyf_lift [OF Cons] polyf_shift [OF Cons])
  moreover have "(snd p * fst p) * ?f x + (- fst p) * (?f x * x) = (\<Prod>p\<leftarrow>p # ps. (snd p - x) * fst p)" for x
    by (simp add: algebra_simps)
  ultimately show ?case by simp
qed

section \<open>Lagrange interpolation\<close>

definition lagrange_basis :: "'a::field list \<Rightarrow> nat \<Rightarrow> 'a \<Rightarrow> 'a" where
  "lagrange_basis xs i y =
     (\<Prod>j\<leftarrow>filter (\<lambda>j. j \<noteq> i) [0..<length xs]. (xs ! j - y) / (xs ! j - xs ! i))"

definition lagrange :: "'a::field list \<Rightarrow> 'a list \<Rightarrow> 'a \<Rightarrow> 'a" where
  "lagrange xs ys y = (\<Sum>i\<leftarrow>[0..<length xs]. ys ! i * lagrange_basis xs i y)"

lemma length_filter_neq: "i < n \<Longrightarrow> Suc (length (filter (\<lambda>j. j \<noteq> i) [0..<n])) = n"
proof -
  assume "i < n"
  have "length (filter (\<lambda>j. j \<noteq> i) [0..<n]) = card (set (filter (\<lambda>j. j \<noteq> i) [0..<n]))"
    by (rule distinct_card [symmetric]) simp
  also have "set (filter (\<lambda>j. j \<noteq> i) [0..<n]) = {0..<n} - {i}" by auto
  finally show ?thesis using \<open>i < n\<close> by simp
qed

lemma polyf_lagrange_basis:
  assumes "i < length xs"
  shows "polyf (length xs) (lagrange_basis xs i)"
proof -
  let ?ps = "map (\<lambda>j. (inverse (xs ! j - xs ! i), xs ! j)) (filter (\<lambda>j. j \<noteq> i) [0..<length xs])"
  have "lagrange_basis xs i = (\<lambda>y. \<Prod>p\<leftarrow>?ps. (snd p - y) * fst p)"
    by (simp add: lagrange_basis_def fun_eq_iff comp_def divide_inverse)
  moreover have "length xs = Suc (length ?ps)" using length_filter_neq [OF assms] by simp
  ultimately show ?thesis using polyf_linear_factors [of ?ps] by metis
qed

lemma polyf_lagrange: "polyf (length xs) (lagrange xs ys)"
proof -
  let ?fs = "map (\<lambda>i y. ys ! i * lagrange_basis xs i y) [0..<length xs]"
  have "polyf (length xs) (\<lambda>y. \<Sum>f\<leftarrow>?fs. f y)"
    by (rule polyf_sum_list) (auto intro!: polyf_scale polyf_lagrange_basis)
  moreover have "lagrange xs ys = (\<lambda>y. \<Sum>f\<leftarrow>?fs. f y)" by (simp add: lagrange_def fun_eq_iff comp_def)
  ultimately show ?thesis by simp
qed

lemma prod_list_0: "0 \<in> set xs \<Longrightarrow> prod_list xs = (0 :: 'a::comm_ring_1)"
  by (induction xs) auto

lemma prod_list_1: "(\<And>x. x \<in> set xs \<Longrightarrow> x = 1) \<Longrightarrow> prod_list xs = (1 :: 'a::comm_ring_1)"
  by (induction xs) auto

lemma lagrange_basis_at:
  assumes "distinct xs" and "i < length xs" and "k < length xs"
  shows "lagrange_basis xs i (xs ! k) = (if i = k then 1 else 0)"
proof (cases "i = k")
  case True
  have "xs ! j \<noteq> xs ! k" if "j < length xs" "j \<noteq> k" for j
    using that assms by (simp add: nth_eq_iff_index_eq)
  with True show ?thesis unfolding lagrange_basis_def by (auto intro!: prod_list_1)
next
  case False
  then show ?thesis
    unfolding lagrange_basis_def using assms by (auto intro!: prod_list_0 image_eqI [of _ _ k])
qed

lemma sum_list_single:
  "i < n \<Longrightarrow> (\<Sum>j\<leftarrow>[0..<n]. f j * (if j = i then 1 else 0)) = (f i :: 'a::comm_ring_1)"
proof -
  assume "i < n"
  have "(\<Sum>j\<leftarrow>[0..<n]. f j * (if j = i then 1 else 0)) = (\<Sum>j\<in>{0..<n}. if j = i then f j else 0)"
    unfolding interv_sum_list_conv_sum_set_nat by (intro sum.cong) auto
  with \<open>i < n\<close> show ?thesis by simp
qed

lemma lagrange_at:
  assumes "distinct xs" and "k < length xs"
  shows "lagrange xs ys (xs ! k) = ys ! k"
proof -
  have "lagrange xs ys (xs ! k) = (\<Sum>i\<leftarrow>[0..<length xs]. ys ! i * (if i = k then 1 else 0))"
    unfolding lagrange_def using assms by (intro arg_cong [where f = sum_list] map_cong) (auto simp: lagrange_basis_at)
  then show ?thesis using assms sum_list_single by metis
qed

text \<open>Interpolating the values of a short enough polynomial gives that polynomial everywhere.\<close>

lemma lagrange_poly:
  assumes "distinct xs" and "length cs \<le> length xs"
    and "\<And>i. i < length xs \<Longrightarrow> ys ! i = poly_at cs (xs ! i)"
  shows "lagrange xs ys y = poly_at cs y"
proof -
  obtain ds where ds: "length ds = length xs" "\<And>x. lagrange xs ys x = poly_at ds x"
    using polyf_lagrange [of xs ys] unfolding polyf_def by blast
  let ?d = "add_coeffs ds (map ((*) (- 1)) cs)"
  have diff: "poly_at ?d x = lagrange xs ys x - poly_at cs x" for x
    by (simp only: add_coeffs_props poly_at_map_mult ds(2)) simp
  have "poly_at ?d y = 0"
  proof (rule poly_roots_zero [OF assms(1)])
    show "length ?d \<le> length xs" using ds(1) assms(2) by (simp add: add_coeffs_props)
    fix x assume "x \<in> set xs"
    then obtain k where "k < length xs" "x = xs ! k" by (auto simp: in_set_conv_nth)
    then show "poly_at ?d x = 0" using assms by (simp add: diff lagrange_at)
  qed
  then show ?thesis by (simp add: diff)
qed

lemma add_coeffs_zero:
  "length as = length bs \<Longrightarrow> set (add_coeffs as (map ((*) (- 1)) bs)) \<subseteq> {0} \<Longrightarrow> as = bs"
  by (induction as bs rule: list_induct2) auto

lemma interpolation_exists_unique:
  fixes xs :: "'a::field list"
  assumes "distinct xs" and "length ys = length xs"
  shows "\<exists>!cs. length cs = length xs \<and> map (poly_at cs) xs = ys"
proof -
  obtain cs where cs: "length cs = length xs" "\<And>x. lagrange xs ys x = poly_at cs x"
    using polyf_lagrange [of xs ys] unfolding polyf_def by blast
  have ys: "map (poly_at cs) xs = ys"
  proof (rule nth_equalityI)
    fix i assume "i < length (map (poly_at cs) xs)"
    then have "map (poly_at cs) xs ! i = lagrange xs ys (xs ! i)" by (simp add: cs(2))
    with \<open>i < length (map (poly_at cs) xs)\<close> show "map (poly_at cs) xs ! i = ys ! i"
      using lagrange_at [OF assms(1)] by simp
  qed (simp add: assms(2))
  have uniq: "cs' = cs" if "length cs' = length xs" "map (poly_at cs') xs = map (poly_at cs) xs" for cs'
  proof -
    let ?d = "add_coeffs cs' (map ((*) (- 1)) cs)"
    have "set ?d \<subseteq> {0}"
    proof (rule poly_zero_coeffs [OF assms(1)])
      show "length ?d \<le> length xs" using that(1) cs(1) by (simp add: add_coeffs_props)
      show "poly_at ?d x = 0" if "x \<in> set xs" for x
    proof -
      have "poly_at cs' x = poly_at cs x" using that \<open>map (poly_at cs') xs = map (poly_at cs) xs\<close> by simp
      then show ?thesis by (simp only: add_coeffs_props poly_at_map_mult) simp
    qed
    qed
    then show ?thesis using that(1) cs(1) by (intro add_coeffs_zero) simp_all
  qed
  show ?thesis
  proof (rule ex1I)
    show "length cs = length xs \<and> map (poly_at cs) xs = ys" using cs(1) ys by simp
    show "cs' = cs" if "length cs' = length xs \<and> map (poly_at cs') xs = ys" for cs'
      using that ys uniq [of cs'] by simp
  qed
qed

end
