(* ===== verification/Codec.thy ===== *)
theory Codec
  imports Prelude
begin

text \<open>
  The encodings of the Go standard library that the modelled packages put on the wire or
  under a signature: \<^verbatim>\<open>encoding/base64\<close> (the padded standard alphabet and the unpadded URL
  alphabet) and the string and field rendering of \<^verbatim>\<open>encoding/json\<close> for the structs they
  marshal.  Decoding inverts encoding, so both encodings are injective.
\<close>

section \<open>Base64\<close>

text \<open>An alphabet is the character of each 6-bit value; \<open>pad\<close> selects the padded variant.\<close>

record b64 =
  b64_char :: "nat \<Rightarrow> char"
  b64_val :: "char \<Rightarrow> nat option"
  b64_pad :: bool

definition alnum_char :: "nat \<Rightarrow> char" where
  "alnum_char v = (if v < 26 then char_of (65 + v) else if v < 52 then char_of (71 + v)
     else char_of (v - 4))"

definition alnum_val :: "char \<Rightarrow> nat option" where
  "alnum_val c = (let n = of_char c in
     if 65 \<le> n \<and> n \<le> 90 then Some (n - 65)
     else if 97 \<le> n \<and> n \<le> 122 then Some (n - 71)
     else if 48 \<le> n \<and> n \<le> 57 then Some (n + 4) else None)"

text \<open>\<^verbatim>\<open>base64.StdEncoding\<close> and \<^verbatim>\<open>base64.RawURLEncoding\<close>.\<close>

definition StdEncoding :: b64 where
  "StdEncoding = \<lparr>
     b64_char = (\<lambda>v. if v = 62 then CHR ''+'' else if v = 63 then CHR ''/'' else alnum_char v),
     b64_val = (\<lambda>c. if c = CHR ''+'' then Some 62 else if c = CHR ''/'' then Some 63 else alnum_val c),
     b64_pad = True \<rparr>"

definition RawURLEncoding :: b64 where
  "RawURLEncoding = \<lparr>
     b64_char = (\<lambda>v. if v = 62 then CHR ''-'' else if v = 63 then CHR ''_'' else alnum_char v),
     b64_val = (\<lambda>c. if c = CHR ''-'' then Some 62 else if c = CHR ''_'' then Some 63 else alnum_val c),
     b64_pad = False \<rparr>"

definition sextets :: "nat \<Rightarrow> nat \<Rightarrow> nat \<Rightarrow> nat list" where
  "sextets a b c = [a div 4, (a mod 4) * 16 + b div 16, (b mod 16) * 4 + c div 64, c mod 64]"

fun b64_encode :: "b64 \<Rightarrow> bytes \<Rightarrow> string" where
  "b64_encode e [] = []"
| "b64_encode e [a] =
     map (b64_char e) (take 2 (sextets (unat a) 0 0)) @ (if b64_pad e then ''=='' else [])"
| "b64_encode e [a, b] =
     map (b64_char e) (take 3 (sextets (unat a) (unat b) 0)) @ (if b64_pad e then ''='' else [])"
| "b64_encode e (a # b # c # bs) =
     map (b64_char e) (sextets (unat a) (unat b) (unat c)) @ b64_encode e bs"

definition join2 :: "nat \<Rightarrow> nat \<Rightarrow> byte" where
  "join2 s t = of_nat (s * 4 + t div 16)"

definition join3 :: "nat \<Rightarrow> nat \<Rightarrow> byte" where
  "join3 t u = of_nat ((t mod 16) * 16 + u div 4)"

definition join4 :: "nat \<Rightarrow> nat \<Rightarrow> byte" where
  "join4 u v = of_nat ((u mod 4) * 64 + v)"

text \<open>
  \<^verbatim>\<open>DecodeString\<close> ignores carriage returns and line feeds, takes quanta of four characters,
  allows padding in the last quantum only (and requires it in the padded variant), and does
  not look at the unused bits of the last character.
\<close>

fun b64_quanta :: "b64 \<Rightarrow> string \<Rightarrow> bytes option" where
  "b64_quanta e [] = Some []"
| "b64_quanta e (w # x # y # z # cs) =
     (case (b64_val e w, b64_val e x) of
        (Some s, Some t) \<Rightarrow>
          if b64_pad e \<and> y = CHR ''='' then
            (if z = CHR ''='' \<and> cs = [] then Some [join2 s t] else None)
          else (case b64_val e y of
             None \<Rightarrow> None
           | Some u \<Rightarrow>
               if b64_pad e \<and> z = CHR ''='' then
                 (if cs = [] then Some [join2 s t, join3 t u] else None)
               else (case b64_val e z of
                  None \<Rightarrow> None
                | Some v \<Rightarrow> map_option (\<lambda>bs. join2 s t # join3 t u # join4 u v # bs)
                             (b64_quanta e cs)))
      | _ \<Rightarrow> None)"
| "b64_quanta e [w, x, y] =
     (if b64_pad e then None else
      case (b64_val e w, b64_val e x, b64_val e y) of
        (Some s, Some t, Some u) \<Rightarrow> Some [join2 s t, join3 t u] | _ \<Rightarrow> None)"
| "b64_quanta e [w, x] =
     (if b64_pad e then None else
      case (b64_val e w, b64_val e x) of (Some s, Some t) \<Rightarrow> Some [join2 s t] | _ \<Rightarrow> None)"
| "b64_quanta e [w] = None"

definition b64_decode :: "b64 \<Rightarrow> string \<Rightarrow> bytes option" where
  "b64_decode e s = b64_quanta e (filter (\<lambda>c. c \<noteq> CHR 0x0D \<and> c \<noteq> CHR 0x0A) s)"

text \<open>What the round trip needs of an alphabet.\<close>

definition b64_ok :: "b64 \<Rightarrow> bool" where
  "b64_ok e \<longleftrightarrow> (\<forall>v < 64. b64_val e (b64_char e v) = Some v \<and>
     b64_char e v \<noteq> CHR ''='' \<and> b64_char e v \<noteq> CHR 0x0D \<and> b64_char e v \<noteq> CHR 0x0A)"

lemma of_alnum_char:
  "v < 62 \<Longrightarrow> (of_char (alnum_char v) :: nat) =
     (if v < 26 then 65 + v else if v < 52 then 71 + v else v - 4)"
  by (simp add: alnum_char_def)

lemma alnum_val_char: "v < 62 \<Longrightarrow> alnum_val (alnum_char v) = Some v"
  unfolding alnum_val_def of_alnum_char Let_def by (auto split: if_splits)

lemma alnum_char_neq:
  "v < 62 \<Longrightarrow> (of_char c :: nat) < 48 \<or> of_char c \<in> {61, 95 :: nat} \<Longrightarrow> alnum_char v \<noteq> c"
  using of_alnum_char [of v] by (auto split: if_splits)

lemma b64_ok_Std [simp]: "b64_ok StdEncoding"
  by (auto simp: b64_ok_def StdEncoding_def alnum_val_char alnum_char_neq less_Suc_eq)

lemma b64_ok_RawURL [simp]: "b64_ok RawURLEncoding"
  by (auto simp: b64_ok_def RawURLEncoding_def alnum_val_char alnum_char_neq less_Suc_eq)

lemma sextets_bound: "a < 256 \<Longrightarrow> b < 256 \<Longrightarrow> c < 256 \<Longrightarrow> v \<in> set (sextets a b c) \<Longrightarrow> v < 64"
  by (auto simp: sextets_def)

lemma unat_byte: "unat (b :: byte) < 256"
  using unsigned_less [of b] by simp

lemma join_sextets:
  assumes "b < 256" and "c < 256"
  shows "join2 (unat a div 4) (unat a mod 4 * 16 + b div 16) = a"
    and "join3 (p * 16 + b div 16) (b mod 16 * 4 + c div 64) = of_nat b"
    and "join4 (q * 4 + c div 64) (c mod 64) = of_nat c"
proof -
  have "(unat a mod 4 * 16 + b div 16) div 16 = unat a mod 4"
    using assms by simp
  then show "join2 (unat a div 4) (unat a mod 4 * 16 + b div 16) = a"
    by (simp add: join2_def)
  have "(p * 16 + b div 16) mod 16 = b div 16" and "(b mod 16 * 4 + c div 64) div 4 = b mod 16"
    using assms by auto
  then show "join3 (p * 16 + b div 16) (b mod 16 * 4 + c div 64) = of_nat b"
    unfolding join3_def by (metis div_mult_mod_eq)
  have "(q * 4 + c div 64) mod 4 = c div 64" using assms by simp
  then show "join4 (q * 4 + c div 64) (c mod 64) = of_nat c"
    unfolding join4_def by (metis div_mult_mod_eq)
qed

lemma b64_char_props:
  assumes "b64_ok e" and "v < 64"
  shows "b64_val e (b64_char e v) = Some v" and "b64_char e v \<noteq> CHR ''=''"
    and "b64_char e v \<noteq> CHR 0x0D" and "b64_char e v \<noteq> CHR 0x0A"
  using assms by (auto simp: b64_ok_def)

lemma b64_quanta_encode: "b64_ok e \<Longrightarrow> b64_quanta e (b64_encode e bs) = Some bs"
proof (induction e bs rule: b64_encode.induct)
  case (1 e)
  then show ?case by simp
next
  case (2 e a)
  then show ?case
    using unat_byte [of a] join_sextets(1) [of 0 0 a]
    by (auto simp: sextets_def b64_char_props)
next
  case (3 e a b)
  then show ?case
    using unat_byte [of a] unat_byte [of b] join_sextets(1) [of "unat b" 0 a]
      join_sextets(2) [of "unat b" 0 "unat a mod 4"]
    by (auto simp: sextets_def b64_char_props)
next
  case (4 e a b c bs)
  then show ?case
    using unat_byte [of a] unat_byte [of b] unat_byte [of c]
      join_sextets(1) [of "unat b" "unat c" a]
      join_sextets(2) [of "unat b" "unat c" "unat a mod 4"]
      join_sextets(3) [of "unat b" "unat c" "unat b mod 16"]
    by (auto simp: sextets_def b64_char_props)
qed

lemma b64_encode_no_newline:
  "b64_ok e \<Longrightarrow> c \<in> set (b64_encode e bs) \<Longrightarrow> c \<noteq> CHR 0x0D \<and> c \<noteq> CHR 0x0A"
proof (induction e bs rule: b64_encode.induct)
  case (4 e a b d bs)
  then show ?case
    using sextets_bound [OF unat_byte unat_byte unat_byte, of _ a b d] b64_char_props(3,4)
    by auto
next
  case (2 e a)
  then show ?case using unat_byte [of a] by (auto simp: sextets_def b64_char_props split: if_splits)
next
  case (3 e a b)
  then show ?case
    using unat_byte [of a] unat_byte [of b] by (auto simp: sextets_def b64_char_props split: if_splits)
qed simp

lemma b64_decode_encode [simp]: "b64_ok e \<Longrightarrow> b64_decode e (b64_encode e bs) = Some bs"
proof -
  assume ok: "b64_ok e"
  then have "filter (\<lambda>c. c \<noteq> CHR 0x0D \<and> c \<noteq> CHR 0x0A) (b64_encode e bs) = b64_encode e bs"
    by (intro filter_True) (blast dest: b64_encode_no_newline)
  with ok show ?thesis unfolding b64_decode_def by (metis b64_quanta_encode)
qed

lemma b64_encode_inj: "b64_ok e \<Longrightarrow> b64_encode e a = b64_encode e b \<longleftrightarrow> a = b"
  by (metis b64_decode_encode option.inject)

lemma b64_encode_Nil_iff [simp]: "b64_encode e bs = [] \<longleftrightarrow> bs = []"
  by (induction e bs rule: b64_encode.induct) (auto simp: sextets_def)

section \<open>JSON rendering\<close>

text \<open>
  \<^verbatim>\<open>json.Marshal\<close> of the marshalled structs: fields in declaration order, no white space.
  The escapes of the string encoder are written out for the ASCII range, with the HTML
  escapes \<^verbatim>\<open>json.Marshal\<close> applies.  Bytes above the ASCII range are copied, which is what the
  encoder does with valid UTF-8 other than U+2028 and U+2029; the strings that the modelled
  code marshals under a key or a signature are validated ASCII identifiers.
\<close>

definition json_char :: "char \<Rightarrow> string" where
  "json_char c = (let n = of_char c :: nat in
     if c = CHR 0x22 \<or> c = CHR 0x5C then [CHR 0x5C, c]
     else if n = 8 then CHR 0x5C # ''b'' else if n = 9 then CHR 0x5C # ''t''
     else if n = 10 then CHR 0x5C # ''n'' else if n = 12 then CHR 0x5C # ''f''
     else if n = 13 then CHR 0x5C # ''r''
     else if n < 32 \<or> c = CHR ''<'' \<or> c = CHR ''>'' \<or> c = CHR ''&'' then
       CHR 0x5C # ''u00'' @ [hex_digit (n div 16), hex_digit (n mod 16)]
     else [c])"

definition json_string :: "string \<Rightarrow> string" where
  "json_string s = CHR 0x22 # concat (map json_char s) @ [CHR 0x22]"

text \<open>A byte slice is rendered as its quoted base64 text.\<close>

definition json_bytes :: "bytes \<Rightarrow> string" where
  "json_bytes bs = CHR 0x22 # b64_encode StdEncoding bs @ [CHR 0x22]"

definition json_field :: "string \<Rightarrow> string \<Rightarrow> string" where
  "json_field name v = json_string name @ CHR '':'' # v"

fun json_fields :: "string list \<Rightarrow> string" where
  "json_fields [] = []"
| "json_fields [f] = f"
| "json_fields (f # fs) = f @ CHR '','' # json_fields fs"

definition json_object :: "string list \<Rightarrow> string" where
  "json_object fs = CHR ''{'' # json_fields fs @ ''}''"

lemma json_bytes_inj [simp]: "json_bytes a = json_bytes b \<longleftrightarrow> a = b"
  by (simp add: json_bytes_def b64_encode_inj)

text \<open>A string is plain when the encoder copies it.\<close>

definition json_plain :: "string \<Rightarrow> bool" where
  "json_plain s \<longleftrightarrow> list_all (\<lambda>c. json_char c = [c]) s"

lemma json_string_plain: "json_plain s \<Longrightarrow> json_string s = CHR 0x22 # s @ [CHR 0x22]"
proof -
  assume "json_plain s"
  then have "map json_char s = map (\<lambda>c. [c]) s"
    unfolding json_plain_def list_all_iff by (intro map_cong) auto
  moreover have "concat (map (\<lambda>c. [c]) s) = s" by (induction s) auto
  ultimately show ?thesis by (simp only: json_string_def)
qed

lemma json_plain_no_quote: "json_plain s \<Longrightarrow> CHR 0x22 \<notin> set s"
proof
  assume "json_plain s" and "CHR 0x22 \<in> set s"
  then have "json_char CHR 0x22 = [CHR 0x22]" by (simp add: json_plain_def list_all_iff)
  then show False by (simp add: json_char_def)
qed

text \<open>Splitting at a separator that occurs in neither left part.\<close>

lemma append_sep_inj:
  "c \<notin> set a \<Longrightarrow> c \<notin> set b \<Longrightarrow> a @ c # s = b @ c # t \<longleftrightarrow> a = b \<and> s = t"
proof (induction a arbitrary: b)
  case Nil
  then show ?case by (cases b) auto
next
  case (Cons x a)
  then show ?case by (cases b) auto
qed

end
