(* ===== verification/Gcm.thy ===== *)
theory Gcm
  imports Prelude
begin

text \<open>
  The AES-GCM mode of \<^verbatim>\<open>crypto/cipher\<close> with 12-byte nonces, which wraps key material and
  payloads.  The mode (counter encryption, GHASH and the tag) is written out; the block
  cipher of \<^verbatim>\<open>crypto/aes\<close> is the parameter \<open>E key block\<close> on 128-bit blocks, and every lemma
  holds for every block cipher.

  The main facts: opening inverts sealing, and a ciphertext opens to a plaintext exactly when
  it is the sealing of that plaintext under the same key, nonce and additional data.
\<close>

unbundle bit_operations_syntax

type_synonym block = "128 word"
type_synonym cipher = "bytes \<Rightarrow> block \<Rightarrow> block"

section \<open>Blocks\<close>

definition word_bytes :: "'a::len word \<Rightarrow> nat \<Rightarrow> bytes" where
  "word_bytes w n = map (\<lambda>i. ucast (drop_bit (8 * (n - 1 - i)) w)) [0..<n]"

definition block_of :: "bytes \<Rightarrow> block" where
  "block_of bs = foldl (\<lambda>w b. push_bit 8 w OR ucast b) 0 (take 16 (bs @ replicate 16 0))"

function blocks_of :: "bytes \<Rightarrow> block list" where
  "blocks_of bs = (if bs = [] then [] else block_of bs # blocks_of (drop 16 bs))"
  by pat_completeness auto
termination by (relation "measure length") auto

declare blocks_of.simps [simp del]

lemma length_word_bytes [simp]: "length (word_bytes w n) = n"
  by (simp add: word_bytes_def)

section \<open>GHASH\<close>

text \<open>Multiplication in the field of the mode, bit by bit from the most significant bit.\<close>

primrec gf128_steps :: "nat \<Rightarrow> block \<Rightarrow> block \<Rightarrow> block \<Rightarrow> block" where
  "gf128_steps 0 x z v = z"
| "gf128_steps (Suc n) x z v =
     gf128_steps n x (if bit x n then z XOR v else z)
       (if bit v 0 then drop_bit 1 v XOR push_bit 120 0xE1 else drop_bit 1 v)"

definition gf128_mul :: "block \<Rightarrow> block \<Rightarrow> block" where
  "gf128_mul x y = gf128_steps 128 x 0 y"

definition ghash :: "block \<Rightarrow> block list \<Rightarrow> block" where
  "ghash h bs = foldl (\<lambda>y b. gf128_mul (y XOR b) h) 0 bs"

section \<open>Sealing and opening\<close>

definition gcm_counter :: "bytes \<Rightarrow> nat \<Rightarrow> block" where
  "gcm_counter nonce i = block_of (nonce @ word_bytes (of_nat i :: 32 word) 4)"

definition gcm_keystream :: "cipher \<Rightarrow> bytes \<Rightarrow> bytes \<Rightarrow> nat \<Rightarrow> byte" where
  "gcm_keystream E k nonce i =
     word_bytes (E k (gcm_counter nonce (i div 16 + 2))) 16 ! (i mod 16)"

definition gcm_ctr :: "cipher \<Rightarrow> bytes \<Rightarrow> bytes \<Rightarrow> bytes \<Rightarrow> bytes" where
  "gcm_ctr E k nonce bs = map (\<lambda>i. bs ! i XOR gcm_keystream E k nonce i) [0..<length bs]"

definition gcm_tag :: "cipher \<Rightarrow> bytes \<Rightarrow> bytes \<Rightarrow> bytes \<Rightarrow> bytes \<Rightarrow> bytes" where
  "gcm_tag E k nonce ct aad =
     word_bytes (ghash (E k 0)
        (blocks_of aad @ blocks_of ct @
         [push_bit 64 (of_nat (8 * length aad)) OR of_nat (8 * length ct)])
      XOR E k (gcm_counter nonce 1)) 16"

text \<open>\<^verbatim>\<open>aead.Seal(nil, nonce, plaintext, aad)\<close> and \<^verbatim>\<open>aead.Open(nil, nonce, ciphertext, aad)\<close>.\<close>

definition gcm_seal :: "cipher \<Rightarrow> bytes \<Rightarrow> bytes \<Rightarrow> bytes \<Rightarrow> bytes \<Rightarrow> bytes" where
  "gcm_seal E k nonce pt aad =
     (let ct = gcm_ctr E k nonce pt in ct @ gcm_tag E k nonce ct aad)"

definition gcm_open :: "cipher \<Rightarrow> bytes \<Rightarrow> bytes \<Rightarrow> bytes \<Rightarrow> bytes \<Rightarrow> bytes option" where
  "gcm_open E k nonce sealed aad =
     (if length sealed < 16 then None
      else let n = length sealed - 16; ct = take n sealed in
        if drop n sealed = gcm_tag E k nonce ct aad then Some (gcm_ctr E k nonce ct) else None)"

lemma length_gcm_ctr [simp]: "length (gcm_ctr E k n bs) = length bs"
  by (simp add: gcm_ctr_def)

lemma gcm_ctr_ctr [simp]: "gcm_ctr E k n (gcm_ctr E k n bs) = bs"
  by (rule nth_equalityI) (simp_all add: gcm_ctr_def xor.assoc)

lemma length_gcm_tag [simp]: "length (gcm_tag E k n ct aad) = 16"
  by (simp add: gcm_tag_def)

lemma length_gcm_seal [simp]: "length (gcm_seal E k n pt aad) = length pt + 16"
  by (simp add: gcm_seal_def Let_def)

lemma gcm_seal_nonempty [simp]: "gcm_seal E k n pt aad \<noteq> []"
  using length_gcm_seal [of E k n pt aad] by fastforce

lemma gcm_open_seal [simp]: "gcm_open E k n (gcm_seal E k n pt aad) aad = Some pt"
  by (simp add: gcm_open_def gcm_seal_def Let_def)

lemma gcm_open_eq_Some: "gcm_open E k n ct aad = Some pt \<longleftrightarrow> ct = gcm_seal E k n pt aad"
proof
  assume "gcm_open E k n ct aad = Some pt"
  then show "ct = gcm_seal E k n pt aad"
    unfolding gcm_open_def gcm_seal_def Let_def
    by (auto split: if_splits) (metis append_take_drop_id)
qed simp

lemma gcm_ctr_inj [simp]: "gcm_ctr E k n p = gcm_ctr E k n q \<longleftrightarrow> p = q"
  by (metis gcm_ctr_ctr)

lemma gcm_seal_eq:
  "gcm_seal E k n p x = gcm_seal E k n q y \<longleftrightarrow>
     p = q \<and> gcm_tag E k n (gcm_ctr E k n p) x = gcm_tag E k n (gcm_ctr E k n p) y"
proof (cases "length p = length q")
  case True
  then show ?thesis by (auto simp: gcm_seal_def Let_def)
next
  case False
  then show ?thesis by (metis add_right_cancel length_gcm_seal)
qed

end
