(* ===== verification/Keyring.thy ===== *)
theory Keyring
  imports Codec Gcm
begin

text \<open>
  The package \<^verbatim>\<open>internal/keyring\<close>: references to key versions and their text form
  (\<^verbatim>\<open>key.go\<close>), the ring that selects the active and the historical versions (\<^verbatim>\<open>ring.go\<close>), the
  metadata authenticated with every ciphertext (\<^verbatim>\<open>metadata.go\<close>), and the wrapping of a payload
  under the active version (\<^verbatim>\<open>wrap.go\<close>).

  A nil pointer receiver or argument is \<open>None\<close>.  The lemmas show that a reference is parsed
  back from its text, that a ring has exactly one active version, that the authenticated data
  determines the metadata and the data of the caller, and that a blob decrypts exactly when it
  was sealed for a usable version of the ring.
\<close>

section \<open>Key references and key versions\<close>

definition KeySize :: nat where "KeySize = 32"

definition NonceSize :: nat where "NonceSize = 12"

definition Purpose :: string where "Purpose = ''openbao-auto-unseal''"

definition BlobFormat :: string where "BlobFormat = ''openbao-attested-unseal.v1.aes256gcm''"

definition AlgorithmAES256GCM :: string where "AlgorithmAES256GCM = ''AES-256-GCM''"

definition BlobMechanismAES256GCM :: u64 where "BlobMechanismAES256GCM = 1"

definition identifier_char :: "char \<Rightarrow> bool" where
  "identifier_char c \<longleftrightarrow> (let n = of_char c :: nat in
     (65 \<le> n \<and> n \<le> 90) \<or> (97 \<le> n \<and> n \<le> 122) \<or> (48 \<le> n \<and> n \<le> 57))"

text \<open>The pattern \<^verbatim>\<open>^[A-Za-z0-9][A-Za-z0-9._-]{0,127}$\<close>.\<close>

fun validIdentifier :: "string \<Rightarrow> bool" where
  "validIdentifier [] = False"
| "validIdentifier (c # cs) =
     (identifier_char c \<and> length cs \<le> 127 \<and>
      list_all (\<lambda>c. identifier_char c \<or> c = CHR ''.'' \<or> c = CHR ''_'' \<or> c = CHR ''-'') cs)"

definition ValidateIdentifier :: "string \<Rightarrow> error + unit" where
  "ValidateIdentifier raw = assertE (validIdentifier raw) (ErrInvalidMetadata ''invalid identifier'')"

datatype Status =
    StatusPending
  | StatusActive
  | StatusDecryptOnly
  | StatusRetired
  | StatusOther string

record KeyRef =
  kr_ClusterID :: string
  kr_KeyID :: string
  kr_Version :: u32

definition KeyRef_Validate :: "KeyRef \<Rightarrow> error + unit" where
  "KeyRef_Validate r =
     (if \<not> validIdentifier (kr_ClusterID r) then Inl (ErrInvalidMetadata ''invalid cluster ID'')
      else if \<not> validIdentifier (kr_KeyID r) then Inl (ErrInvalidMetadata ''invalid key ID'')
      else if kr_Version r = 0 then
        Inl (ErrInvalidMetadata ''key version must be greater than zero'')
      else Inr ())"

definition KeyRef_String :: "KeyRef \<Rightarrow> string" where
  "KeyRef_String r =
     kr_ClusterID r @ ''/'' @ kr_KeyID r @ ''/v'' @ format_uint (unat (kr_Version r))"

definition ParseKeyRef :: "string \<Rightarrow> error + KeyRef" where
  "ParseKeyRef raw =
     (case split_on (CHR ''/'') raw of
        [p0, p1, p2] \<Rightarrow>
          if \<not> HasPrefix p2 ''v'' then Inl (ErrInvalidMetadata ''malformed key version'')
          else (case ParseUint (TrimPrefix p2 ''v'') 32 of
             None \<Rightarrow> Inl (ErrInvalidMetadata ''malformed key version'')
           | Some version \<Rightarrow>
               (let ref = \<lparr>kr_ClusterID = p0, kr_KeyID = p1, kr_Version = of_nat version\<rparr> in
                bindE (KeyRef_Validate ref) (\<lambda>_. Inr ref)))
      | _ \<Rightarrow> Inl (ErrInvalidMetadata ''malformed key reference''))"

record KeyVersion =
  kv_Ref :: KeyRef
  kv_Status :: Status
  kv_Algorithm :: string
  kv_PolicyID :: string
  kv_Material :: bytes

definition Status_known :: "Status \<Rightarrow> bool" where
  "Status_known s = (case s of StatusOther _ \<Rightarrow> False | _ \<Rightarrow> True)"

definition KeyVersion_Validate :: "KeyVersion \<Rightarrow> error + unit" where
  "KeyVersion_Validate v =
     bindE (KeyRef_Validate (kv_Ref v)) (\<lambda>_.
     if \<not> Status_known (kv_Status v) then Inl (ErrInvalidMetadata ''unknown key status'')
     else if kv_Algorithm v \<noteq> AlgorithmAES256GCM then
       Inl (ErrInvalidMetadata ''unsupported algorithm'')
     else if \<not> validIdentifier (kv_PolicyID v) then Inl (ErrInvalidMetadata ''invalid policy ID'')
     else if length (kv_Material v) \<noteq> KeySize then
       Inl (ErrInvalidMetadata ''key material must be 32 bytes'')
     else Inr ())"

definition canEncrypt :: "KeyVersion \<Rightarrow> bool" where
  "canEncrypt v \<longleftrightarrow> kv_Status v = StatusActive"

definition canDecrypt :: "KeyVersion \<Rightarrow> bool" where
  "canDecrypt v \<longleftrightarrow> kv_Status v = StatusActive \<or> kv_Status v = StatusDecryptOnly"

text \<open>
  \<^verbatim>\<open>io.ReadFull(rand.Reader, buf)\<close>: the random source is a sequence of bytes, or \<open>None\<close> when
  the reader fails.
\<close>

type_synonym entropy = "(nat \<Rightarrow> byte) option"

definition ReadFull :: "entropy \<Rightarrow> nat \<Rightarrow> bytes option" where
  "ReadFull rng n = map_option (\<lambda>f. map f [0..<n]) rng"

definition GenerateKey :: "entropy \<Rightarrow> error + bytes" where
  "GenerateKey rng =
     (case ReadFull rng KeySize of
        None \<Rightarrow> Inl (OtherErr ''generate wrapping key'')
      | Some key \<Rightarrow> Inr key)"

section \<open>The ring\<close>

record Ring =
  versions :: "KeyVersion list"

definition sameRef :: "KeyRef \<Rightarrow> KeyRef \<Rightarrow> bool" where
  "sameRef l r \<longleftrightarrow>
     kr_ClusterID l = kr_ClusterID r \<and> kr_KeyID l = kr_KeyID r \<and> kr_Version l = kr_Version r"

fun containsRef :: "KeyVersion list \<Rightarrow> KeyRef \<Rightarrow> bool" where
  "containsRef [] ref = False"
| "containsRef (v # vs) ref = (sameRef (kv_Ref v) ref \<or> containsRef vs ref)"

fun NewRing_loop :: "KeyVersion list \<Rightarrow> nat \<Rightarrow> KeyVersion list \<Rightarrow> error + KeyVersion list \<times> nat" where
  "NewRing_loop copied activeCount [] = Inr (copied, activeCount)"
| "NewRing_loop copied activeCount (v # vs) =
     bindE (KeyVersion_Validate v) (\<lambda>_.
     if containsRef copied (kv_Ref v) then Inl (ErrInvalidMetadata ''duplicate key reference'')
     else NewRing_loop (copied @ [v])
            (if kv_Status v = StatusActive then activeCount + 1 else activeCount) vs)"

definition NewRing :: "KeyVersion list \<Rightarrow> error + Ring" where
  "NewRing vs =
     (if vs = [] then Inl (ErrInvalidMetadata ''at least one key version is required'')
      else bindE (NewRing_loop [] 0 vs) (\<lambda>(copied, activeCount).
        if activeCount \<noteq> 1 then
          Inl (ErrInvalidMetadata ''exactly one active key version is required'')
        else Inr \<lparr>versions = copied\<rparr>))"

fun first_active :: "KeyVersion list \<Rightarrow> error + KeyVersion" where
  "first_active [] = Inl ErrKeyNotUsable"
| "first_active (v # vs) = (if canEncrypt v then Inr v else first_active vs)"

definition Active :: "Ring option \<Rightarrow> error + KeyVersion" where
  "Active r = (case r of
      None \<Rightarrow> Inl (ErrInvalidMetadata ''nil keyring'')
    | Some r \<Rightarrow> first_active (versions r))"

fun first_for_decrypt :: "KeyVersion list \<Rightarrow> KeyRef \<Rightarrow> error + KeyVersion" where
  "first_for_decrypt [] ref = Inl ErrKeyNotFound"
| "first_for_decrypt (v # vs) ref =
     (if sameRef (kv_Ref v) ref then if \<not> canDecrypt v then Inl ErrKeyNotUsable else Inr v
      else first_for_decrypt vs ref)"

definition keyForDecrypt :: "Ring option \<Rightarrow> KeyRef \<Rightarrow> error + KeyVersion" where
  "keyForDecrypt r ref = (case r of
      None \<Rightarrow> Inl (ErrInvalidMetadata ''nil keyring'')
    | Some r \<Rightarrow> first_for_decrypt (versions r) ref)"

section \<open>Authenticated metadata\<close>

definition schemaVersion :: u32 where "schemaVersion = 1"

record Metadata =
  md_SchemaVersion :: u32
  md_Purpose :: string
  md_ClusterID :: string
  md_KeyID :: string
  md_KeyVersion :: u32
  md_Algorithm :: string
  md_PolicyID :: string
  md_BlobFormat :: string

definition NewMetadata :: "KeyVersion \<Rightarrow> Metadata" where
  "NewMetadata v = \<lparr>
     md_SchemaVersion = schemaVersion,
     md_Purpose = Purpose,
     md_ClusterID = kr_ClusterID (kv_Ref v),
     md_KeyID = kr_KeyID (kv_Ref v),
     md_KeyVersion = kr_Version (kv_Ref v),
     md_Algorithm = kv_Algorithm v,
     md_PolicyID = kv_PolicyID v,
     md_BlobFormat = BlobFormat \<rparr>"

definition Metadata_Validate :: "Metadata \<Rightarrow> error + unit" where
  "Metadata_Validate m =
     (if md_SchemaVersion m \<noteq> schemaVersion then
        Inl (ErrInvalidMetadata ''unsupported metadata schema version'')
      else bindE (KeyRef_Validate \<lparr>kr_ClusterID = md_ClusterID m, kr_KeyID = md_KeyID m,
                                  kr_Version = md_KeyVersion m\<rparr>) (\<lambda>_.
        if md_Algorithm m \<noteq> AlgorithmAES256GCM then
          Inl (ErrInvalidMetadata ''unsupported metadata algorithm'')
        else if \<not> validIdentifier (md_PolicyID m) then
          Inl (ErrInvalidMetadata ''invalid metadata policy ID'')
        else if md_Purpose m \<noteq> Purpose then
          Inl (ErrInvalidMetadata ''invalid metadata purpose'')
        else if md_BlobFormat m \<noteq> BlobFormat then
          Inl (ErrInvalidMetadata ''invalid blob format'')
        else Inr ()))"

definition json_u32 :: "u32 \<Rightarrow> string" where
  "json_u32 n = format_uint (unat n)"

definition Metadata_json :: "Metadata \<Rightarrow> string" where
  "Metadata_json m = json_object
     [json_field ''schema_version'' (json_u32 (md_SchemaVersion m)),
      json_field ''purpose'' (json_string (md_Purpose m)),
      json_field ''cluster_id'' (json_string (md_ClusterID m)),
      json_field ''key_id'' (json_string (md_KeyID m)),
      json_field ''key_version'' (json_u32 (md_KeyVersion m)),
      json_field ''algorithm'' (json_string (md_Algorithm m)),
      json_field ''policy_id'' (json_string (md_PolicyID m)),
      json_field ''blob_format'' (json_string (md_BlobFormat m))]"

definition authenticatedData_json :: "Metadata \<Rightarrow> bytes \<Rightarrow> string" where
  "authenticatedData_json m callerAAD = json_object
     (json_field ''metadata'' (Metadata_json m) #
      (if callerAAD = [] then []
       else [json_field ''caller_aad'' (json_bytes callerAAD)]))"

definition CanonicalAAD :: "Metadata \<Rightarrow> bytes \<Rightarrow> error + bytes" where
  "CanonicalAAD m callerAAD =
     bindE (Metadata_Validate m) (\<lambda>_. Inr (bytes_of (authenticatedData_json m callerAAD)))"

section \<open>Wrapping\<close>

text \<open>The fields of \<^verbatim>\<open>wrapping.BlobInfo\<close> and \<^verbatim>\<open>wrapping.KeyInfo\<close> that the package uses.\<close>

record KeyInfo =
  ki_Mechanism :: u64
  ki_KeyId :: string

record BlobInfo =
  bi_Ciphertext :: bytes
  bi_Iv :: bytes
  bi_KeyInfo :: "KeyInfo option"

definition newAEAD :: "bytes \<Rightarrow> error + unit" where
  "newAEAD material =
     assertE (length material \<in> {16, 24, 32}) (OtherErr ''create AES cipher'')"

definition validateBlob :: "BlobInfo option \<Rightarrow> error + KeyRef" where
  "validateBlob blob = (case blob of
      None \<Rightarrow> Inl (ErrInvalidMetadata ''nil blob'')
    | Some b \<Rightarrow>
        if bi_Ciphertext b = [] then Inl (ErrInvalidMetadata ''empty ciphertext'')
        else if length (bi_Iv b) \<noteq> NonceSize then Inl (ErrInvalidMetadata ''invalid nonce size'')
        else (case bi_KeyInfo b of
            None \<Rightarrow> Inl (ErrInvalidMetadata ''missing key info'')
          | Some ki \<Rightarrow>
              if ki_Mechanism ki \<noteq> BlobMechanismAES256GCM then
                Inl (ErrInvalidMetadata ''unsupported mechanism'')
              else ParseKeyRef (ki_KeyId ki)))"

text \<open>\<open>ctx\<close> is the value of \<^verbatim>\<open>ctx.Err()\<close>: \<open>None\<close> while the context is live.\<close>

definition ctxE :: "error option \<Rightarrow> error + unit" where
  "ctxE ctx = (case ctx of None \<Rightarrow> Inr () | Some e \<Rightarrow> Inl e)"

definition Encrypt ::
  "cipher \<Rightarrow> error option \<Rightarrow> entropy \<Rightarrow> Ring option \<Rightarrow> bytes \<Rightarrow> bytes \<Rightarrow> error + BlobInfo" where
  "Encrypt E ctx rng r plaintext callerAAD =
     bindE (ctxE ctx) (\<lambda>_.
     bindE (Active r) (\<lambda>version.
     bindE (CanonicalAAD (NewMetadata version) callerAAD) (\<lambda>aad.
     bindE (newAEAD (kv_Material version)) (\<lambda>_.
     case ReadFull rng NonceSize of
        None \<Rightarrow> Inl (OtherErr ''generate nonce'')
      | Some nonce \<Rightarrow> Inr \<lparr>
          bi_Ciphertext = gcm_seal E (kv_Material version) nonce plaintext aad,
          bi_Iv = nonce,
          bi_KeyInfo = Some \<lparr>ki_Mechanism = BlobMechanismAES256GCM,
                             ki_KeyId = KeyRef_String (kv_Ref version)\<rparr> \<rparr>))))"

definition Decrypt ::
  "cipher \<Rightarrow> error option \<Rightarrow> Ring option \<Rightarrow> BlobInfo option \<Rightarrow> bytes \<Rightarrow> error + bytes" where
  "Decrypt E ctx r blob callerAAD =
     bindE (ctxE ctx) (\<lambda>_.
     bindE (validateBlob blob) (\<lambda>ref.
     bindE (keyForDecrypt r ref) (\<lambda>version.
     bindE (CanonicalAAD (NewMetadata version) callerAAD) (\<lambda>aad.
     bindE (newAEAD (kv_Material version)) (\<lambda>_.
     case gcm_open E (kv_Material version) (bi_Iv (the blob)) (bi_Ciphertext (the blob)) aad of
        None \<Rightarrow> Inl (OtherErr ''decrypt blob'')
      | Some plaintext \<Rightarrow> Inr plaintext)))))"

section \<open>References\<close>

lemma KeyRef_Validate_eq_Inr [simp, succ_inv]:
  "KeyRef_Validate r = Inr u \<longleftrightarrow>
     validIdentifier (kr_ClusterID r) \<and> validIdentifier (kr_KeyID r) \<and> kr_Version r \<noteq> 0"
  by (simp add: KeyRef_Validate_def)

lemma validIdentifier_chars:
  "validIdentifier s \<Longrightarrow> c \<in> set s \<Longrightarrow>
     identifier_char c \<or> c = CHR ''.'' \<or> c = CHR ''_'' \<or> c = CHR ''-''"
  by (cases s) (auto simp: list_all_iff)

lemma validIdentifier_no_slash: "validIdentifier s \<Longrightarrow> CHR ''/'' \<notin> set s"
  by (auto dest!: validIdentifier_chars simp: identifier_char_def)

lemma identifier_json_char:
  "identifier_char c \<or> c = CHR ''.'' \<or> c = CHR ''_'' \<or> c = CHR ''-'' \<Longrightarrow> json_char c = [c]"
  by (auto simp: identifier_char_def json_char_def Let_def)

lemma validIdentifier_plain: "validIdentifier s \<Longrightarrow> json_plain s"
  unfolding json_plain_def list_all_iff
  by (blast intro: identifier_json_char dest: validIdentifier_chars)

lemma digits_no_slash: "list_all is_digit s \<Longrightarrow> CHR ''/'' \<notin> set s"
  by (auto simp: list_all_iff is_digit_def)

lemma ParseKeyRef_Validate: "ParseKeyRef s = Inr r \<Longrightarrow> KeyRef_Validate r = Inr ()"
  by (auto simp: ParseKeyRef_def Let_def split: list.splits if_splits option.splits)

lemma unat_u32_bound: "unat (w :: u32) < 2 ^ 32"
  using unsigned_less [of w] by simp

lemma ParseKeyRef_String [simp]:
  assumes "validIdentifier (kr_ClusterID r)" and "validIdentifier (kr_KeyID r)"
    and "kr_Version r \<noteq> 0"
  shows "ParseKeyRef (KeyRef_String r) = Inr r"
proof -
  have v: "CHR ''/'' \<notin> set (CHR ''v'' # format_uint (unat (kr_Version r)))"
    using digits_no_slash [OF format_uint_digits] by simp
  have "KeyRef_String r = kr_ClusterID r @ CHR ''/'' # kr_KeyID r @ CHR ''/'' #
          CHR ''v'' # format_uint (unat (kr_Version r))"
    by (simp add: KeyRef_String_def)
  then have "split_on (CHR ''/'') (KeyRef_String r) =
      [kr_ClusterID r, kr_KeyID r, CHR ''v'' # format_uint (unat (kr_Version r))]"
    using validIdentifier_no_slash [OF assms(1)] validIdentifier_no_slash [OF assms(2)] v
    by (simp del: split_on.simps)
  then show ?thesis
    using assms unat_u32_bound [of "kr_Version r"]
    by (simp add: ParseKeyRef_def HasPrefix_def TrimPrefix_def Let_def)
qed

lemma sameRef_eq [simp]: "sameRef l r \<longleftrightarrow> l = r"
  by (auto simp: sameRef_def)

lemma containsRef_iff [simp]: "containsRef vs ref \<longleftrightarrow> ref \<in> kv_Ref ` set vs"
  by (induction vs) auto

section \<open>Rings\<close>

text \<open>The invariant of a ring: valid versions, distinct references, exactly one active version.\<close>

definition ring_wf :: "KeyVersion list \<Rightarrow> bool" where
  "ring_wf vs \<longleftrightarrow>
     list_all (\<lambda>v. KeyVersion_Validate v = Inr ()) vs \<and> distinct (map kv_Ref vs) \<and>
     length (filter canEncrypt vs) = 1"

lemma NewRing_loop_eq_Inr:
  "distinct (map kv_Ref copied) \<Longrightarrow>
   NewRing_loop copied n vs = Inr (out, k) \<longleftrightarrow>
     out = copied @ vs \<and> k = n + length (filter canEncrypt vs) \<and>
     list_all (\<lambda>v. KeyVersion_Validate v = Inr ()) vs \<and> distinct (map kv_Ref (copied @ vs))"
proof (induction vs arbitrary: copied n)
  case Nil
  then show ?case by auto
next
  case (Cons v vs)
  show ?case
  proof (cases "kv_Ref v \<in> kv_Ref ` set copied")
    case True
    then show ?thesis by auto
  next
    case False
    with Cons.prems have "distinct (map kv_Ref (copied @ [v]))" by simp
    from Cons.IH [OF this] False show ?thesis by (auto simp: canEncrypt_def)
  qed
qed

lemma NewRing_eq_Inr: "NewRing vs = Inr r \<longleftrightarrow> ring_wf vs \<and> versions r = vs"
  unfolding NewRing_def
  by (cases r) (auto simp: NewRing_loop_eq_Inr ring_wf_def split: prod.splits if_splits)

lemma first_active_find:
  "first_active vs = (case find canEncrypt vs of None \<Rightarrow> Inl ErrKeyNotUsable | Some v \<Rightarrow> Inr v)"
  by (induction vs) auto

lemma first_for_decrypt_find:
  "first_for_decrypt vs ref = (case find (\<lambda>v. kv_Ref v = ref) vs of
      None \<Rightarrow> Inl ErrKeyNotFound | Some v \<Rightarrow> if canDecrypt v then Inr v else Inl ErrKeyNotUsable)"
  by (induction vs) auto

lemma find_distinct_key:
  "distinct (map f vs) \<Longrightarrow> v \<in> set vs \<Longrightarrow> find (\<lambda>w. f w = f v) vs = Some v"
  by (induction vs) auto

lemma find_None_key: "find (\<lambda>w. f w = k) vs = None \<longleftrightarrow> k \<notin> f ` set vs"
  by (auto simp: find_None_iff)

lemma first_for_decrypt_eq:
  assumes "distinct (map kv_Ref vs)" and "v \<in> set vs"
  shows "first_for_decrypt vs (kv_Ref v) = (if canDecrypt v then Inr v else Inl ErrKeyNotUsable)"
  by (simp add: first_for_decrypt_find find_distinct_key [OF assms])

lemma first_for_decrypt_eq_Inr:
  "first_for_decrypt vs ref = Inr v \<Longrightarrow> v \<in> set vs \<and> kv_Ref v = ref \<and> canDecrypt v"
  by (induction vs) (auto split: if_splits)

lemma first_active_eq_Inr: "first_active vs = Inr v \<Longrightarrow> v \<in> set vs \<and> canEncrypt v"
  by (induction vs) (auto split: if_splits)

lemma first_active_wf:
  assumes "length (filter canEncrypt vs) = 1" and "v \<in> set vs" and "canEncrypt v"
  shows "first_active vs = Inr v"
  using assms
proof (induction vs)
  case (Cons w vs)
  then show ?case by (cases "canEncrypt w") (auto simp: filter_empty_conv)
qed simp

lemma ring_wf_Active: "ring_wf vs \<Longrightarrow> \<exists>v. first_active vs = Inr v"
proof -
  assume wf: "ring_wf vs"
  then have "length (filter canEncrypt vs) = 1" by (simp add: ring_wf_def)
  then have "filter canEncrypt vs \<noteq> []" by fastforce
  then obtain v where "v \<in> set vs" "canEncrypt v" by (auto simp: filter_empty_conv)
  with wf first_active_wf show ?thesis by (auto simp: ring_wf_def)
qed

lemma KeyVersion_Validate_eq_Inr [simp, succ_inv]:
  "KeyVersion_Validate v = Inr u \<longleftrightarrow>
     KeyRef_Validate (kv_Ref v) = Inr () \<and> Status_known (kv_Status v) \<and>
     kv_Algorithm v = AlgorithmAES256GCM \<and> validIdentifier (kv_PolicyID v) \<and>
     length (kv_Material v) = KeySize"
  by (auto simp: KeyVersion_Validate_def simp del: KeyRef_Validate_eq_Inr)

section \<open>Authenticated data\<close>

lemma Metadata_Validate_eq_Inr [simp, succ_inv]:
  "Metadata_Validate m = Inr u \<longleftrightarrow>
     md_SchemaVersion m = schemaVersion \<and> md_Purpose m = Purpose \<and>
     md_Algorithm m = AlgorithmAES256GCM \<and> md_BlobFormat m = BlobFormat \<and>
     validIdentifier (md_ClusterID m) \<and> validIdentifier (md_KeyID m) \<and> md_KeyVersion m \<noteq> 0 \<and>
     validIdentifier (md_PolicyID m)"
  by (auto simp: Metadata_Validate_def)

lemma validIdentifier_json:
  "validIdentifier s \<Longrightarrow> json_string s = CHR 0x22 # s @ [CHR 0x22]"
  "validIdentifier s \<Longrightarrow> CHR 0x22 \<notin> set s"
  by (simp_all add: validIdentifier_plain json_string_plain json_plain_no_quote)

lemma format_uint_no_comma: "CHR '','' \<notin> set (format_uint n)"
  using format_uint_digits [of n] by (auto simp: list_all_iff is_digit_def)

lemma bytes_of_inj [simp]: "bytes_of s = bytes_of t \<longleftrightarrow> s = t"
proof -
  have "inj (of_char :: char \<Rightarrow> byte)"
  proof (rule injI)
    fix a b :: char
    assume "(of_char a :: byte) = of_char b"
    then have "(of_nat (of_char a) :: byte) = of_nat (of_char b)" by (simp only: of_nat_of_char)
    then have "(of_char a :: nat) = of_char b" by (simp add: word_of_nat_eq_iff take_bit_eq_mod)
    then show "a = b" by simp
  qed
  then show ?thesis unfolding bytes_of_def by (simp add: inj_map_eq_map)
qed

lemma Metadata_json_append:
  assumes "Metadata_Validate m = Inr ()" and "Metadata_Validate m' = Inr ()"
    and "Metadata_json m @ s = Metadata_json m' @ t"
  shows "m = m' \<and> s = t"
  using assms
  by (cases m; cases m')
    (auto simp: Metadata_json_def json_object_def json_field_def json_u32_def validIdentifier_json
      append_sep_inj format_uint_no_comma word_unat_eq_iff)

lemma CanonicalAAD_eq_Inr [succ_inv]:
  "CanonicalAAD m a = Inr x \<longleftrightarrow>
     Metadata_Validate m = Inr () \<and> x = bytes_of (authenticatedData_json m a)"
  by (auto simp: CanonicalAAD_def simp del: Metadata_Validate_eq_Inr)

lemma authenticatedData_json_inj:
  assumes "Metadata_Validate m = Inr ()" and "Metadata_Validate m' = Inr ()"
    and "authenticatedData_json m a = authenticatedData_json m' b"
  shows "m = m' \<and> a = b"
proof -
  let ?c = "\<lambda>a. if a = [] then [] else [json_field ''caller_aad'' (json_bytes a)]"
  let ?t = "\<lambda>a. (if a = [] then [] else CHR '','' # json_field ''caller_aad'' (json_bytes a)) @ ''}''"
  have split: "authenticatedData_json m a = CHR ''{'' # json_string ''metadata'' @ CHR '':'' # Metadata_json m @ ?t a" for m a
    by (simp add: authenticatedData_json_def json_object_def json_field_def)
  have "Metadata_json m @ ?t a = Metadata_json m' @ ?t b" using assms(3) by (simp add: split)
  from Metadata_json_append [OF assms(1,2) this] have "m = m'" and "?t a = ?t b" by simp_all
  moreover from \<open>?t a = ?t b\<close> have "a = b"
    by (auto simp: json_field_def split: if_splits)
  ultimately show ?thesis by simp
qed

section \<open>Encryption and decryption\<close>

lemma ctxE_None [simp]: "ctxE None = Inr ()"
  by (simp add: ctxE_def)

lemma ctxE_eq_Inr [simp, succ_inv]: "ctxE ctx = Inr u \<longleftrightarrow> ctx = None"
  by (simp add: ctxE_def split: option.splits)

lemma NewMetadata_Validate:
  "KeyVersion_Validate v = Inr () \<Longrightarrow> Metadata_Validate (NewMetadata v) = Inr ()"
  by (simp add: NewMetadata_def)

text \<open>Two versions are interchangeable for decryption when they agree on all but the status.\<close>

definition same_key :: "KeyVersion \<Rightarrow> KeyVersion \<Rightarrow> bool" where
  "same_key v w \<longleftrightarrow> kv_Ref v = kv_Ref w \<and> kv_Algorithm v = kv_Algorithm w \<and>
     kv_PolicyID v = kv_PolicyID w \<and> kv_Material v = kv_Material w"

lemma same_key_NewMetadata: "same_key v w \<Longrightarrow> NewMetadata v = NewMetadata w"
  by (simp add: same_key_def NewMetadata_def)

lemma ReadFull_length: "ReadFull rng n = Some bs \<Longrightarrow> length bs = n"
  by (auto simp: ReadFull_def)

lemma Encrypt_eq_Inr:
  "Encrypt E ctx rng r pt a = Inr blob \<longleftrightarrow>
     ctx = None \<and> (\<exists>v nonce. Active r = Inr v \<and> Metadata_Validate (NewMetadata v) = Inr () \<and>
       newAEAD (kv_Material v) = Inr () \<and> ReadFull rng NonceSize = Some nonce \<and>
       blob = \<lparr>bi_Ciphertext = gcm_seal E (kv_Material v) nonce pt
                  (bytes_of (authenticatedData_json (NewMetadata v) a)),
               bi_Iv = nonce,
               bi_KeyInfo = Some \<lparr>ki_Mechanism = BlobMechanismAES256GCM,
                                  ki_KeyId = KeyRef_String (kv_Ref v)\<rparr> \<rparr>)"
  by (auto simp: Encrypt_def CanonicalAAD_eq_Inr simp del: Metadata_Validate_eq_Inr
      split: option.splits)

lemma Decrypt_eq_Inr:
  "Decrypt E ctx r (Some blob) a = Inr pt \<longleftrightarrow>
     ctx = None \<and> (\<exists>ref v. validateBlob (Some blob) = Inr ref \<and> keyForDecrypt r ref = Inr v \<and>
       Metadata_Validate (NewMetadata v) = Inr () \<and> newAEAD (kv_Material v) = Inr () \<and>
       bi_Ciphertext blob = gcm_seal E (kv_Material v) (bi_Iv blob) pt
         (bytes_of (authenticatedData_json (NewMetadata v) a)))"
  (is "?d = Inr pt \<longleftrightarrow> ?rhs")
proof
  assume "?d = Inr pt"
  then show ?rhs
    by (auto simp: Decrypt_def CanonicalAAD_eq_Inr gcm_open_eq_Some
        simp del: Metadata_Validate_eq_Inr split: option.splits)
next
  assume ?rhs
  then obtain ref v where "ctx = None" "validateBlob (Some blob) = Inr ref"
      "keyForDecrypt r ref = Inr v" "Metadata_Validate (NewMetadata v) = Inr ()"
      "newAEAD (kv_Material v) = Inr ()"
      "bi_Ciphertext blob = gcm_seal E (kv_Material v) (bi_Iv blob) pt
         (bytes_of (authenticatedData_json (NewMetadata v) a))"
    by blast
  then show "?d = Inr pt"
    by (simp add: Decrypt_def CanonicalAAD_def del: Metadata_Validate_eq_Inr)
qed

lemma Decrypt_Encrypt:
  assumes enc: "Encrypt E ctx rng (Some r) pt a = Inr blob"
    and r: "NewRing vs = Inr r" and r': "NewRing vs' = Inr r'"
    and keep: "Active (Some r) = Inr v" "v' \<in> set vs'" "same_key v v'" "canDecrypt v'"
  shows "Decrypt E None (Some r') (Some blob) a = Inr pt"
proof -
  from r' have wf: "ring_wf vs'" and vs': "versions r' = vs'" by (simp_all add: NewRing_eq_Inr)
  have val: "KeyVersion_Validate v' = Inr ()"
    using wf keep(2) by (simp add: ring_wf_def list_all_iff)
  have "keyForDecrypt (Some r') (kv_Ref v) = Inr v'"
    using first_for_decrypt_eq [of vs' v'] wf keep
    by (simp add: keyForDecrypt_def vs' ring_wf_def same_key_def)
  moreover have "validateBlob (Some blob) = Inr (kv_Ref v)"
    using enc keep(1,3) val
    by (auto simp: Encrypt_eq_Inr validateBlob_def ReadFull_length same_key_def)
  ultimately show ?thesis
    using enc keep(1,3) val same_key_NewMetadata [OF keep(3)]
    by (auto simp: Encrypt_eq_Inr Decrypt_eq_Inr same_key_def NewMetadata_Validate
        simp del: Metadata_Validate_eq_Inr)
qed

section \<open>Properties\<close>

text \<open>
  The text form of a key reference is a faithful encoding: \<^verbatim>\<open>ParseKeyRef\<close> reads a
  reference back from its \<^verbatim>\<open>String()\<close> form exactly when the reference passes \<^verbatim>\<open>Validate\<close>.
\<close>

theorem key_ref_round_trip:
  "ParseKeyRef (KeyRef_String r) = Inr r \<longleftrightarrow> KeyRef_Validate r = Inr ()"
  using ParseKeyRef_Validate by auto

text \<open>
  C25.  A ring is built exactly from a non-empty list of valid versions with distinct references
  and exactly one active version, and then \<^verbatim>\<open>Active\<close> returns that one version, while
  \<^verbatim>\<open>keyForDecrypt\<close> returns the version with the reference asked for when its status allows
  decryption, \<^verbatim>\<open>ErrKeyNotUsable\<close> when it does not, and \<^verbatim>\<open>ErrKeyNotFound\<close> for any other
  reference.
\<close>

theorem ring_selects_versions:
  "NewRing vs = Inr r \<longleftrightarrow>
     versions r = vs \<and> list_all (\<lambda>v. KeyVersion_Validate v = Inr ()) vs \<and> distinct (map kv_Ref vs) \<and>
     (\<exists>v. filter canEncrypt vs = [v] \<and> Active (Some r) = Inr v) \<and>
     (keyForDecrypt (Some r) = (\<lambda>ref. case map_of (map (\<lambda>v. (kv_Ref v, v)) vs) ref of
         None \<Rightarrow> Inl ErrKeyNotFound
       | Some v \<Rightarrow> if canDecrypt v then Inr v else Inl ErrKeyNotUsable))"
proof -
  have "find (\<lambda>v. kv_Ref v = ref) vs = map_of (map (\<lambda>v. (kv_Ref v, v)) vs) ref" for ref
    by (induction vs) auto
  then have dec: "versions r = vs \<Longrightarrow> keyForDecrypt (Some r) =
      (\<lambda>ref. case map_of (map (\<lambda>v. (kv_Ref v, v)) vs) ref of
         None \<Rightarrow> Inl ErrKeyNotFound | Some v \<Rightarrow> if canDecrypt v then Inr v else Inl ErrKeyNotUsable)"
    by (simp add: keyForDecrypt_def first_for_decrypt_find fun_eq_iff)
  have act: "\<exists>v. filter canEncrypt vs = [v] \<and> first_active vs = Inr v"
    if one: "length (filter canEncrypt vs) = 1"
  proof -
    obtain v where v: "filter canEncrypt vs = [v]" using one by (auto simp: length_Suc_conv)
    then have "v \<in> set (filter canEncrypt vs)" by simp
    then have "v \<in> set vs" "canEncrypt v" by simp_all
    with one v show ?thesis by (blast intro: first_active_wf)
  qed
  show ?thesis
    unfolding NewRing_eq_Inr ring_wf_def
    using dec act by (auto simp: Active_def)
qed

text \<open>
  C24.  The authenticated data of a ciphertext determines every field of the key metadata
  and the additional data of the caller: two successful \<^verbatim>\<open>CanonicalAAD\<close> calls give the same
  bytes only for the same metadata and the same caller data.
\<close>

theorem canonical_aad_injective:
  assumes "CanonicalAAD m a = Inr x" and "CanonicalAAD m' a' = Inr x"
  shows "m = m' \<and> a = a'"
  using assms authenticatedData_json_inj [of m m' a a']
  by (simp add: CanonicalAAD_eq_Inr del: Metadata_Validate_eq_Inr)

definition demo_key :: "u32 \<Rightarrow> Status \<Rightarrow> KeyVersion" where
  "demo_key n st = \<lparr>
     kv_Ref = \<lparr>kr_ClusterID = ''prod'', kr_KeyID = ''root'', kr_Version = n\<rparr>,
     kv_Status = st, kv_Algorithm = AlgorithmAES256GCM, kv_PolicyID = ''default'',
     kv_Material = replicate 32 (ucast n)\<rparr>"

lemma demo_key_valid [simp]:
  "n \<noteq> 0 \<Longrightarrow> Status_known st \<Longrightarrow> KeyVersion_Validate (demo_key n st) = Inr ()"
  by (simp add: demo_key_def identifier_char_def KeySize_def)

theorem canonical_aad_injective_witness:
  "CanonicalAAD (NewMetadata (demo_key 1 StatusActive)) [7] =
     Inr (bytes_of (authenticatedData_json (NewMetadata (demo_key 1 StatusActive)) [7])) \<and>
   CanonicalAAD (NewMetadata (demo_key 1 StatusActive)) [7] \<noteq>
     CanonicalAAD (NewMetadata (demo_key 2 StatusActive)) [7]"
proof -
  let ?x = "bytes_of (authenticatedData_json (NewMetadata (demo_key 1 StatusActive)) [7])"
  have ok: "CanonicalAAD (NewMetadata (demo_key 1 StatusActive)) [7] = Inr ?x"
    by (simp add: CanonicalAAD_eq_Inr NewMetadata_Validate Status_known_def
        del: Metadata_Validate_eq_Inr)
  have "NewMetadata (demo_key 1 StatusActive) \<noteq> NewMetadata (demo_key 2 StatusActive)"
    by (simp add: NewMetadata_def demo_key_def)
  with ok show ?thesis using canonical_aad_injective [OF ok] by metis
qed

text \<open>
  A payload encrypted under the active version of a ring decrypts to the same payload,
  with the same additional data, under every later ring that still holds that version with a
  status that allows decryption, whatever else the later ring holds.
\<close>

theorem decrypt_after_rotation:
  assumes "NewRing vs = Inr r" and "Encrypt E ctx rng (Some r) pt a = Inr blob"
    and "NewRing vs' = Inr r'" and "Active (Some r) = Inr v"
    and "v' \<in> set vs'" and "same_key v v'" and "canDecrypt v'"
  shows "Decrypt E None (Some r') (Some blob) a = Inr pt"
  using Decrypt_Encrypt assms by blast

definition demo_ring :: "KeyVersion list" where
  "demo_ring = [demo_key 1 StatusActive]"

definition demo_ring' :: "KeyVersion list" where
  "demo_ring' = [demo_key 2 StatusActive, demo_key 1 StatusDecryptOnly]"

lemma demo_rings [simp]:
  "NewRing demo_ring = Inr \<lparr>versions = demo_ring\<rparr>" "NewRing demo_ring' = Inr \<lparr>versions = demo_ring'\<rparr>"
  "Active (Some \<lparr>versions = demo_ring\<rparr>) = Inr (demo_key 1 StatusActive)"
  by (simp_all add: NewRing_eq_Inr ring_wf_def demo_ring_def demo_ring'_def Status_known_def
      Active_def del: KeyVersion_Validate_eq_Inr)
    (simp_all add: demo_key_def canEncrypt_def)

lemma demo_encrypt:
  "\<exists>blob. Encrypt E None (Some (\<lambda>_. 0)) (Some \<lparr>versions = demo_ring\<rparr>) pt a = Inr blob"
  by (simp add: Encrypt_eq_Inr ReadFull_def NewMetadata_Validate Status_known_def
      del: Metadata_Validate_eq_Inr)
    (simp add: newAEAD_def demo_key_def)

theorem decrypt_after_rotation_witness:
  "\<exists>blob. Encrypt (\<lambda>_ b. b) None (Some (\<lambda>_. 0)) (Some \<lparr>versions = demo_ring\<rparr>) [1, 2] [3] = Inr blob \<and>
     Decrypt (\<lambda>_ b. b) None (Some \<lparr>versions = demo_ring'\<rparr>) (Some blob) [3] = Inr [1, 2]"
proof -
  obtain blob where
    enc: "Encrypt (\<lambda>_ b. b) None (Some (\<lambda>_. 0)) (Some \<lparr>versions = demo_ring\<rparr>) [1, 2] [3] = Inr blob"
    using demo_encrypt by blast
  have "demo_key 1 StatusDecryptOnly \<in> set demo_ring'"
    and "same_key (demo_key 1 StatusActive) (demo_key 1 StatusDecryptOnly)"
    and "canDecrypt (demo_key 1 StatusDecryptOnly)"
    by (simp_all add: demo_ring'_def same_key_def canDecrypt_def demo_key_def)
  from decrypt_after_rotation [OF demo_rings(1) enc demo_rings(2,3) this] enc
  show ?thesis by blast
qed



end
