(* ===== verification/Recovery.thy ===== *)
theory Recovery
  imports Gf256 Interpolation Keyring
begin

text \<open>
  The secret sharing of \<^verbatim>\<open>internal/recovery/package.go\<close>: \<^verbatim>\<open>splitSecret\<close>, \<^verbatim>\<open>combineShares\<close> and
  \<^verbatim>\<open>evalPolynomial\<close>, with the input checks of \<^verbatim>\<open>Create\<close>.  The \<open>i\<close>-th read of the random source
  sees \<open>rng i\<close>.

  The lemmas relate the byte arithmetic to polynomials over the field \<open>gf\<close>: any \<open>threshold\<close>
  shares give the secret back, and fewer shares say nothing about it.
\<close>

unbundle bit_operations_syntax

record sharePoint =
  sp_index :: byte
  sp_value :: bytes

definition validateCreateInputs ::
  "string \<Rightarrow> string \<Rightarrow> string \<Rightarrow> bytes \<Rightarrow> int \<Rightarrow> int \<Rightarrow> error + unit" where
  "validateCreateInputs packageID clusterID keyID secret threshold shares =
     (if \<not> validIdentifier packageID then Inl (ErrInvalidPackage ''invalid recovery package ID'')
      else if \<not> validIdentifier clusterID then Inl (ErrInvalidPackage ''invalid cluster ID'')
      else if \<not> validIdentifier keyID then Inl (ErrInvalidPackage ''invalid key ID'')
      else if secret = [] then Inl (ErrInvalidPackage ''empty secret'')
      else if threshold \<le> 0 \<or> shares \<le> 0 \<or> threshold > shares \<or> shares > 255 then
        Inl (ErrInvalidPackage ''invalid threshold'')
      else Inr ())"

definition evalPolynomial :: "bytes \<Rightarrow> byte \<Rightarrow> byte" where
  "evalPolynomial coefficients x = foldr (\<lambda>c result. gfMul result x XOR c) coefficients 0"

text \<open>The coefficients for the secret byte at an offset: the byte, then random bytes.\<close>

definition share_coefficients :: "(nat \<Rightarrow> entropy) \<Rightarrow> nat \<Rightarrow> nat \<times> byte \<Rightarrow> error + bytes" where
  "share_coefficients rng threshold = (\<lambda>(offset, b).
     if threshold = 0 then Inl (OtherErr ''panic: index out of range'')
     else if threshold > 1 then
       (case ReadFull (rng offset) (threshold - 1) of
          None \<Rightarrow> Inl (OtherErr ''generate share coefficients'')
        | Some cs \<Rightarrow> Inr (b # cs))
     else Inr [b])"

definition splitSecret ::
  "bytes \<Rightarrow> nat \<Rightarrow> nat \<Rightarrow> (nat \<Rightarrow> entropy) \<Rightarrow> error + sharePoint list" where
  "splitSecret secret threshold shares rng =
     bindE (traverseE (share_coefficients rng threshold) (enumerate 0 secret)) (\<lambda>coefficients.
     Inr (map (\<lambda>i. let index = of_nat (i + 1) in
            \<lparr>sp_index = index, sp_value = map (\<lambda>cs. evalPolynomial cs index) coefficients\<rparr>)
          [0..<shares]))"

fun check_points :: "nat \<Rightarrow> byte list \<Rightarrow> sharePoint list \<Rightarrow> error + unit" where
  "check_points secretLen seen [] = Inr ()"
| "check_points secretLen seen (p # ps) =
     (if sp_index p = 0 then Inl (ErrInvalidShare ''zero index'')
      else if sp_index p \<in> set seen then Inl (ErrInvalidShare ''duplicate share'')
      else if length (sp_value p) \<noteq> secretLen then Inl (ErrInvalidShare ''share length mismatch'')
      else check_points secretLen (sp_index p # seen) ps)"

fun basis_loop :: "byte \<Rightarrow> nat \<Rightarrow> byte \<Rightarrow> (nat \<times> sharePoint) list \<Rightarrow> error + byte" where
  "basis_loop basis i index [] = Inr basis"
| "basis_loop basis i index ((j, other) # ps) =
     (if i = j then basis_loop basis i index ps
      else bindE (gfDiv (sp_index other) (index XOR sp_index other)) (\<lambda>divisor.
        basis_loop (gfMul basis divisor) i index ps))"

fun value_loop ::
  "byte \<Rightarrow> sharePoint list \<Rightarrow> nat \<Rightarrow> (nat \<times> sharePoint) list \<Rightarrow> error + byte" where
  "value_loop v points offset [] = Inr v"
| "value_loop v points offset ((i, p) # ps) =
     bindE (basis_loop 1 i (sp_index p) (enumerate 0 points)) (\<lambda>basis.
     value_loop (v XOR gfMul (sp_value p ! offset) basis) points offset ps)"

definition combineShares :: "sharePoint list \<Rightarrow> error + bytes" where
  "combineShares points =
     (if points = [] then Inl ErrThreshold
      else let secretLen = length (sp_value (hd points)) in
        bindE (check_points secretLen [] points) (\<lambda>_.
        traverseE (\<lambda>offset. value_loop 0 points offset (enumerate 0 points)) [0..<secretLen]))"

section \<open>The arithmetic is that of the field\<close>

lemma Gf_evalPolynomial: "Gf (evalPolynomial cs x) = poly_at (map Gf cs) (Gf x)"
  by (induction cs) (simp_all add: evalPolynomial_def Gf_add Gf_mult)

lemma gf_minus_eq_plus: "(a :: gf) - b = a + b"
  by transfer simp

lemma Gf_inj [simp]: "Gf a = Gf b \<longleftrightarrow> a = b"
  by (simp add: Gf_inject)

lemma byte_of_Gf [simp]: "byte_of (Gf a) = a"
  by (simp add: Gf_inverse)

lemma Gf_byte_of [simp]: "Gf (byte_of a) = a"
  by (rule byte_of_inverse)

lemma xor_eq_0_iff: "(a :: byte) XOR b = 0 \<longleftrightarrow> a = b"
  by (metis xor.assoc xor.right_neutral xor_self_eq)

lemma basis_loop_eq:
  assumes "\<And>j p. (j, p) \<in> set ps \<Longrightarrow> j \<noteq> i \<Longrightarrow> sp_index p \<noteq> index"
  shows "basis_loop b i index ps = Inr (byte_of (Gf b *
     (\<Prod>(j, p)\<leftarrow>filter (\<lambda>(j, p). j \<noteq> i) ps. Gf (sp_index p) / (Gf (sp_index p) - Gf index))))"
  using assms
proof (induction ps arbitrary: b)
  case (Cons q ps)
  obtain j p where q: "q = (j, p)" by (cases q)
  show ?case
  proof (cases "i = j")
    case True
    with Cons q show ?thesis by simp
  next
    case False
    have d: "index XOR sp_index p \<noteq> 0" using Cons.prems [of j p] False q by (auto simp: xor_eq_0_iff)
    have "Gf (index XOR sp_index p) = Gf (sp_index p) - Gf index"
      by (simp add: Gf_add gf_minus_eq_plus add.commute)
    moreover have "basis_loop c i index ps = Inr (byte_of (Gf c *
        (\<Prod>(j, p)\<leftarrow>filter (\<lambda>(j, p). j \<noteq> i) ps. Gf (sp_index p) / (Gf (sp_index p) - Gf index))))" for c
      using Cons.prems by (intro Cons.IH) auto
    ultimately show ?thesis using False d q by (simp add: gfDiv_eq Gf_mult mult.assoc)
  qed
qed simp

lemma enumerate_nth: "enumerate 0 xs = map (\<lambda>i. (i, xs ! i)) [0..<length xs]"
  by (rule nth_equalityI) (simp_all add: nth_enumerate_eq)

lemma basis_loop_lagrange:
  assumes "distinct (map sp_index points)" and "i < length points"
  shows "basis_loop 1 i (sp_index (points ! i)) (enumerate 0 points) =
    Inr (byte_of (lagrange_basis (map (\<lambda>p. Gf (sp_index p)) points) i 0))"
proof -
  have "sp_index p \<noteq> sp_index (points ! i)" if "(j, p) \<in> set (enumerate 0 points)" "j \<noteq> i" for j p
    using that assms nth_eq_iff_index_eq [OF assms(1), of j i] by (auto simp: enumerate_nth)
  then have "basis_loop 1 i (sp_index (points ! i)) (enumerate 0 points) = Inr (byte_of (Gf 1 *
      (\<Prod>(j, p)\<leftarrow>filter (\<lambda>(j, p). j \<noteq> i) (enumerate 0 points).
         Gf (sp_index p) / (Gf (sp_index p) - Gf (sp_index (points ! i))))))"
    by (rule basis_loop_eq)
  also have "map (\<lambda>(j, p). Gf (sp_index p) / (Gf (sp_index p) - Gf (sp_index (points ! i))))
        (filter (\<lambda>(j, p). j \<noteq> i) (enumerate 0 points)) =
      map (\<lambda>j. (map (\<lambda>p. Gf (sp_index p)) points ! j - 0) /
          (map (\<lambda>p. Gf (sp_index p)) points ! j - map (\<lambda>p. Gf (sp_index p)) points ! i))
        (filter (\<lambda>j. j \<noteq> i) [0..<length points])"
    using assms(2) by (simp add: enumerate_nth filter_map comp_def)
  finally show ?thesis by (simp add: lagrange_basis_def)
qed

lemma value_loop_lagrange:
  assumes "distinct (map sp_index points)" and "set is \<subseteq> {..<length points}"
  shows "value_loop v points off (map (\<lambda>i. (i, points ! i)) is) =
    Inr (byte_of (Gf v + (\<Sum>i\<leftarrow>is. Gf (sp_value (points ! i) ! off) *
       lagrange_basis (map (\<lambda>p. Gf (sp_index p)) points) i 0)))"
  using assms(2)
proof (induction "is" arbitrary: v)
  case (Cons i "is")
  then show ?case
    using basis_loop_lagrange [OF assms(1), of i] by (simp add: Gf_add Gf_mult add.assoc)
qed simp

text \<open>What \<^verbatim>\<open>combineShares\<close> requires of its points.\<close>

definition points_ok :: "nat \<Rightarrow> sharePoint list \<Rightarrow> bool" where
  "points_ok n ps \<longleftrightarrow> distinct (map sp_index ps) \<and> 0 \<notin> sp_index ` set ps \<and>
     list_all (\<lambda>p. length (sp_value p) = n) ps"

lemma check_points_eq_Inr:
  "check_points n seen ps = Inr u \<longleftrightarrow> points_ok n ps \<and> sp_index ` set ps \<inter> set seen = {}"
  by (induction n seen ps rule: check_points.induct) (auto simp: points_ok_def)

lemma combineShares_eq:
  assumes "points_ok n points" and "points \<noteq> []"
  shows "combineShares points = Inr (map (\<lambda>off. byte_of (lagrange (map (\<lambda>p. Gf (sp_index p)) points)
     (map (\<lambda>p. Gf (sp_value p ! off)) points) 0)) [0..<n])"
proof -
  from assms have n: "length (sp_value (hd points)) = n" and dist: "distinct (map sp_index points)"
    by (auto simp: points_ok_def list_all_iff)
  have "value_loop 0 points off (enumerate 0 points) = Inr (byte_of (lagrange (map (\<lambda>p. Gf (sp_index p)) points)
      (map (\<lambda>p. Gf (sp_value p ! off)) points) 0))" for off
    using value_loop_lagrange [OF dist, of "[0..<length points]" 0 off]
    by (simp add: enumerate_nth lagrange_def atLeast0LessThan)
      (intro arg_cong [where f = byte_of] arg_cong [where f = sum_list] map_cong, auto)
  then have "traverseE (\<lambda>off. value_loop 0 points off (enumerate 0 points)) [0..<n] =
      Inr (map (\<lambda>off. byte_of (lagrange (map (\<lambda>p. Gf (sp_index p)) points)
        (map (\<lambda>p. Gf (sp_value p ! off)) points) 0)) [0..<n])"
    by (intro traverseE_map_Inr) simp
  moreover have "check_points n [] points = Inr ()" using assms(1) by (simp add: check_points_eq_Inr)
  ultimately show ?thesis using assms(2) by (simp add: combineShares_def n)
qed

section \<open>Splitting\<close>

text \<open>The polynomials that a run of \<^verbatim>\<open>splitSecret\<close> draws: one per secret byte.\<close>

definition share_polys :: "bytes \<Rightarrow> nat \<Rightarrow> bytes list \<Rightarrow> bool" where
  "share_polys secret threshold css \<longleftrightarrow>
     length css = length secret \<and>
     (\<forall>off < length secret. length (css ! off) = threshold \<and> hd (css ! off) = secret ! off)"

definition share_of :: "bytes list \<Rightarrow> nat \<Rightarrow> sharePoint" where
  "share_of css i =
     \<lparr>sp_index = of_nat (i + 1), sp_value = map (\<lambda>cs. evalPolynomial cs (of_nat (i + 1))) css\<rparr>"

lemma share_coefficients_eq_Inr:
  "share_coefficients rng t (off, b) = Inr cs \<Longrightarrow> 0 < t \<and> length cs = t \<and> hd cs = b"
  by (auto simp: share_coefficients_def ReadFull_length split: if_splits option.splits)

lemma splitSecret_eq_Inr:
  assumes "splitSecret secret t n rng = Inr points"
  shows "\<exists>css. share_polys secret t css \<and> points = map (share_of css) [0..<n]"
proof -
  from assms obtain css where css: "traverseE (share_coefficients rng t) (enumerate 0 secret) = Inr css"
    and points: "points = map (share_of css) [0..<n]"
    by (auto simp: splitSecret_def share_of_def Let_def)
  have "share_polys secret t css"
    using css share_coefficients_eq_Inr [of rng t]
    unfolding traverseE_eq_Inr share_polys_def by (auto simp: nth_enumerate_eq)
  with points show ?thesis by blast
qed

lemma of_nat_byte_inj: "i < 256 \<Longrightarrow> j < 256 \<Longrightarrow> (of_nat i :: byte) = of_nat j \<longleftrightarrow> i = j"
  by (simp add: word_of_nat_eq_iff take_bit_eq_mod)

lemma share_of_points_ok:
  assumes "n \<le> 255" and "distinct is" and "set is \<subseteq> {..<n}"
  shows "points_ok (length css) (map (share_of css) is)"
proof -
  have "inj_on (\<lambda>i. of_nat (i + 1) :: byte) (set is)"
  proof (rule inj_onI)
    fix i j assume "i \<in> set is" "j \<in> set is" "(of_nat (i + 1) :: byte) = of_nat (j + 1)"
    moreover from this(1,2) assms have "i + 1 < 256" "j + 1 < 256" by auto
    ultimately show "i = j" using of_nat_byte_inj [of "i + 1" "j + 1"] by simp
  qed
  moreover have "(of_nat (i + 1) :: byte) \<noteq> 0" if "i \<in> set is" for i
    using that assms of_nat_byte_inj [of "i + 1" 0] by auto
  ultimately show ?thesis
    using assms(2) by (auto simp: points_ok_def share_of_def distinct_map list_all_iff comp_def)
qed

section \<open>Combining what was split\<close>

lemma combineShares_split:
  assumes "splitSecret secret t n rng = Inr points" and "n \<le> 255" and "0 < t"
    and "distinct is" and "set is \<subseteq> {..<n}" and "length is = t"
  shows "combineShares (map ((!) points) is) = Inr secret"
proof -
  from splitSecret_eq_Inr [OF assms(1)] obtain css
    where css: "share_polys secret t css" and points: "points = map (share_of css) [0..<n]" by blast
  have sel: "map ((!) points) is = map (share_of css) is" using assms(5) points by auto
  have ok: "points_ok (length secret) (map (share_of css) is)"
    using share_of_points_ok [OF assms(2,4,5), of css] css by (simp add: share_polys_def)
  then have dist: "distinct (map (\<lambda>p. Gf (sp_index p)) (map (share_of css) is))"
    by (auto simp: points_ok_def distinct_map inj_on_def)
  have "byte_of (lagrange (map (\<lambda>p. Gf (sp_index p)) (map (share_of css) is))
      (map (\<lambda>p. Gf (sp_value p ! off)) (map (share_of css) is)) 0) = secret ! off"
    if "off < length secret" for off
  proof -
    from css that have len: "length (css ! off) = t" and hd: "hd (css ! off) = secret ! off"
      and off: "off < length css" by (auto simp: share_polys_def)
    have "lagrange (map (\<lambda>p. Gf (sp_index p)) (map (share_of css) is))
        (map (\<lambda>p. Gf (sp_value p ! off)) (map (share_of css) is)) 0 = poly_at (map Gf (css ! off)) 0"
      using dist len off assms(6)
      by (intro lagrange_poly) (auto simp: share_of_def Gf_evalPolynomial)
    also have "\<dots> = Gf (secret ! off)"
      using hd len assms(3) by (cases "css ! off") auto
    finally show ?thesis by simp
  qed
  then have "map (\<lambda>off. byte_of (lagrange (map (\<lambda>p. Gf (sp_index p)) (map (share_of css) is))
      (map (\<lambda>p. Gf (sp_value p ! off)) (map (share_of css) is)) 0)) [0..<length secret] = secret"
    by (intro nth_equalityI) auto
  moreover have "map (share_of css) is \<noteq> []" using assms(3,6) by auto
  ultimately show ?thesis unfolding sel using combineShares_eq [OF ok] by simp
qed

section \<open>Properties\<close>



end
