(* ===== verification/Go_Time.thy ===== *)
theory Go_Time
  imports Prelude
begin

text \<open>
  The text form of an instant: \<^verbatim>\<open>t.UTC().Format(time.RFC3339Nano)\<close> of the Go standard library, for
  instants that are nanoseconds since the zero time.  The fraction of a second is written
  without trailing zeros and is omitted when it is zero.
\<close>

fun pad_left :: "nat \<Rightarrow> string \<Rightarrow> string" where
  "pad_left w s = replicate (w - length s) (CHR ''0'') @ s"

definition civil :: "int \<Rightarrow> int \<times> int \<times> int" where
  "civil days =
     (let z = days + 306; era = z div 146097; doe = z mod 146097;
          yoe = (doe - doe div 1460 + doe div 36524 - doe div 146096) div 365;
          doy = doe - (365 * yoe + yoe div 4 - yoe div 100);
          mp = (5 * doy + 2) div 153;
          m = (if mp < 10 then mp + 3 else mp - 9) in
      (yoe + era * 400 + (if m \<le> 2 then 1 else 0), m, doy - (153 * mp + 2) div 5 + 1))"

definition pad_dec :: "nat \<Rightarrow> int \<Rightarrow> string" where
  "pad_dec w i = pad_left w (format_uint (nat i))"

definition fraction :: "int \<Rightarrow> string" where
  "fraction nanos =
     (if nanos = 0 then []
      else CHR ''.'' # rev (dropWhile (\<lambda>c. c = CHR ''0'') (rev (pad_dec 9 nanos))))"

definition date_time :: "int \<Rightarrow> string" where
  "date_time secs =
     (let (y, m, d) = civil (secs div 86400); s = secs mod 86400 in
      pad_dec 4 y @ ''-'' @ pad_dec 2 m @ ''-'' @ pad_dec 2 d @ ''T'' @
      pad_dec 2 (s div 3600) @ '':'' @ pad_dec 2 (s div 60 mod 60) @ '':'' @ pad_dec 2 (s mod 60))"

definition FormatRFC3339Nano :: "time \<Rightarrow> string" where
  "FormatRFC3339Nano t = date_time (t div second) @ fraction (t mod second) @ ''Z''"

end
