(* ===== verification/Recovery_Package.thy ===== *)
theory Recovery_Package
  imports Recovery Go_Time
begin

text \<open>
  Recovery packages of \<^verbatim>\<open>internal/recovery/package.go\<close>: \<^verbatim>\<open>Create\<close> splits a secret into printable
  shares with metadata that is not secret, \<^verbatim>\<open>Recover\<close> gives the secret back from enough of them.

  \<open>recovery_lib\<close> holds the parameters: SHA-256, the decoder of \<^verbatim>\<open>encoding/json\<close> for a share and
  whether \<^verbatim>\<open>time.Parse\<close> accepts a text.  The round trip needs that the decoder inverts the encoder
  on the shares of the package and that the formatted time parses.
\<close>

section \<open>Shares\<close>

record shareEnvelope =
  se_SchemaVersion :: u32
  se_PackageID :: string
  se_Index :: int
  se_Value :: string

record recovery_lib =
  rl_sha256 :: "bytes \<Rightarrow> bytes"
  rl_Unmarshal :: "bytes \<Rightarrow> shareEnvelope option"
  rl_time_Parse :: "string \<Rightarrow> bool"

definition RecoverySchemaVersion :: u32 where "RecoverySchemaVersion = 1"

definition SharePrefix :: string where "SharePrefix = ''raus1.''"

definition json_int :: "int \<Rightarrow> string" where
  "json_int i = (if i < 0 then CHR ''-'' # format_uint (nat (- i)) else format_uint (nat i))"

definition shareEnvelope_json :: "shareEnvelope \<Rightarrow> string" where
  "shareEnvelope_json share = json_object
     [json_field ''schema_version'' (format_uint (unat (se_SchemaVersion share))),
      json_field ''recovery_package_id'' (json_string (se_PackageID share)),
      json_field ''index'' (json_int (se_Index share)), json_field ''value'' (json_string (se_Value share))]"

definition encodeShare :: "shareEnvelope \<Rightarrow> string" where
  "encodeShare share = SharePrefix @ b64_encode RawURLEncoding (bytes_of (shareEnvelope_json share))"

definition parseShare :: "recovery_lib \<Rightarrow> string \<Rightarrow> error + shareEnvelope" where
  "parseShare R encoded =
     (if \<not> HasPrefix encoded SharePrefix then Inl (ErrInvalidShare ''missing prefix'')
      else (case b64_decode RawURLEncoding (TrimPrefix encoded SharePrefix) of
          None \<Rightarrow> Inl (ErrInvalidShare ''decode share'')
        | Some raw \<Rightarrow>
            (case rl_Unmarshal R raw of
               None \<Rightarrow> Inl (ErrInvalidShare ''parse share'')
             | Some share \<Rightarrow>
                 if se_SchemaVersion share \<noteq> RecoverySchemaVersion then
                   Inl (ErrInvalidShare ''unsupported schema version'')
                 else Inr share)))"

definition checksum :: "recovery_lib \<Rightarrow> bytes \<Rightarrow> string" where
  "checksum R secret = ''sha256:'' @ hex_encode (rl_sha256 R secret)"

section \<open>Packages\<close>

record PackageMetadata =
  rd_SchemaVersion :: u32
  rd_PackageID :: string
  rd_ClusterID :: string
  rd_KeyID :: string
  rd_CreatedAt :: string
  rd_Threshold :: int
  rd_Shares :: int
  rd_KDF :: string
  rd_WrappingAlgorithm :: string
  rd_SecretChecksum :: string
  rd_AllowedOperations :: "string list"

record Package =
  pkg_Metadata :: PackageMetadata
  pkg_Shares :: "string list"

definition PackageMetadata_Validate :: "recovery_lib \<Rightarrow> PackageMetadata \<Rightarrow> error + unit" where
  "PackageMetadata_Validate R m =
     (if rd_SchemaVersion m \<noteq> RecoverySchemaVersion then Inl (ErrInvalidPackage ''unsupported schema version'')
      else if \<not> validIdentifier (rd_PackageID m) then Inl (ErrInvalidPackage ''invalid recovery package ID'')
      else if \<not> validIdentifier (rd_ClusterID m) then Inl (ErrInvalidPackage ''invalid cluster ID'')
      else if \<not> validIdentifier (rd_KeyID m) then Inl (ErrInvalidPackage ''invalid key ID'')
      else if rd_Threshold m \<le> 0 \<or> rd_Shares m \<le> 0 \<or> rd_Threshold m > rd_Shares m \<or> rd_Shares m > 255 then
        Inl (ErrInvalidPackage ''invalid threshold'')
      else if rd_KDF m \<noteq> ''none'' then Inl (ErrInvalidPackage ''unsupported KDF'')
      else if rd_WrappingAlgorithm m \<noteq> AlgorithmAES256GCM then
        Inl (ErrInvalidPackage ''unsupported wrapping algorithm'')
      else if \<not> HasPrefix (rd_SecretChecksum m) ''sha256:'' then Inl (ErrInvalidPackage ''invalid checksum'')
      else if \<not> rl_time_Parse R (rd_CreatedAt m) then Inl (ErrInvalidPackage ''invalid created_at'')
      else if ''recover-enroll'' \<notin> set (rd_AllowedOperations m) then
        Inl (ErrInvalidPackage ''missing recover-enroll operation'')
      else Inr ())"

definition share_envelope :: "string \<Rightarrow> sharePoint \<Rightarrow> shareEnvelope" where
  "share_envelope packageID point = \<lparr>se_SchemaVersion = RecoverySchemaVersion, se_PackageID = packageID,
     se_Index = uint (sp_index point), se_Value = b64_encode StdEncoding (sp_value point)\<rparr>"

definition Recovery_Create ::
  "recovery_lib \<Rightarrow> (nat \<Rightarrow> entropy) \<Rightarrow> string \<Rightarrow> string \<Rightarrow> string \<Rightarrow> bytes \<Rightarrow> int \<Rightarrow> int \<Rightarrow> time \<Rightarrow> error + Package" where
  "Recovery_Create R rng packageID clusterID keyID secret threshold shares now =
     bindE (validateCreateInputs packageID clusterID keyID secret threshold shares) (\<lambda>_.
     bindE (splitSecret secret (nat threshold) (nat shares) rng) (\<lambda>points.
     Inr \<lparr>pkg_Metadata = \<lparr>rd_SchemaVersion = RecoverySchemaVersion, rd_PackageID = packageID,
         rd_ClusterID = clusterID, rd_KeyID = keyID, rd_CreatedAt = FormatRFC3339Nano now,
         rd_Threshold = threshold, rd_Shares = shares, rd_KDF = ''none'',
         rd_WrappingAlgorithm = AlgorithmAES256GCM, rd_SecretChecksum = checksum R secret,
         rd_AllowedOperations = [''recover-enroll'']\<rparr>,
       pkg_Shares = map (\<lambda>point. encodeShare (share_envelope packageID point)) points\<rparr>))"

fun recover_points ::
  "recovery_lib \<Rightarrow> PackageMetadata \<Rightarrow> byte list \<Rightarrow> string list \<Rightarrow> error + sharePoint list" where
  "recover_points R m seen [] = Inr []"
| "recover_points R m seen (encoded # rest) =
     bindE (parseShare R encoded) (\<lambda>share.
     if se_PackageID share \<noteq> rd_PackageID m then Inl (ErrInvalidShare ''package ID mismatch'')
     else if se_Index share \<le> 0 \<or> se_Index share > rd_Shares m then
       Inl (ErrInvalidShare ''share index out of range'')
     else let index = word_of_int (se_Index share) in
       if index \<in> set seen then Inl (ErrInvalidShare ''duplicate share'')
       else (case b64_decode StdEncoding (se_Value share) of
           None \<Rightarrow> Inl (ErrInvalidShare ''decode share value'')
         | Some v \<Rightarrow>
             bindE (recover_points R m (index # seen) rest) (\<lambda>points.
             Inr (\<lparr>sp_index = index, sp_value = v\<rparr> # points))))"

definition Recover :: "recovery_lib \<Rightarrow> PackageMetadata \<Rightarrow> string list \<Rightarrow> error + bytes" where
  "Recover R metadata encodedShares =
     bindE (PackageMetadata_Validate R metadata) (\<lambda>_.
     if int (length encodedShares) < rd_Threshold metadata then Inl ErrThreshold
     else bindE (recover_points R metadata [] encodedShares) (\<lambda>points.
       if int (length points) < rd_Threshold metadata then Inl ErrThreshold
       else bindE (combineShares (take (nat (rd_Threshold metadata)) points)) (\<lambda>secret.
         if checksum R secret \<noteq> rd_SecretChecksum metadata then Inl (ErrInvalidShare ''checksum mismatch'')
         else Inr secret)))"

section \<open>The shares of a package parse back\<close>

definition shares_decode :: "recovery_lib \<Rightarrow> string \<Rightarrow> sharePoint list \<Rightarrow> bool" where
  "shares_decode R packageID points \<longleftrightarrow> list_all (\<lambda>p. rl_Unmarshal R (bytes_of (shareEnvelope_json (share_envelope packageID p))) =
     Some (share_envelope packageID p)) points"

lemma parseShare_encode:
  "rl_Unmarshal R (bytes_of (shareEnvelope_json s)) = Some s \<Longrightarrow> se_SchemaVersion s = RecoverySchemaVersion \<Longrightarrow>
     parseShare R (encodeShare s) = Inr s"
  by (simp add: parseShare_def encodeShare_def)

lemma recover_points_shares:
  assumes "shares_decode R (rd_PackageID m) ps" and "distinct (map sp_index ps)" and "sp_index ` set ps \<inter> set seen = {}"
    and "list_all (\<lambda>p. 0 < uint (sp_index p) \<and> uint (sp_index p) \<le> rd_Shares m) ps"
  shows "recover_points R m seen (map (\<lambda>p. encodeShare (share_envelope (rd_PackageID m) p)) ps) = Inr ps"
  using assms
proof (induction ps arbitrary: seen)
  case (Cons p ps)
  have "parseShare R (encodeShare (share_envelope (rd_PackageID m) p)) = Inr (share_envelope (rd_PackageID m) p)"
    using Cons.prems(1) by (intro parseShare_encode) (simp_all add: shares_decode_def share_envelope_def)
  moreover have "recover_points R m (sp_index p # seen) (map (\<lambda>p. encodeShare (share_envelope (rd_PackageID m) p)) ps) = Inr ps"
    using Cons.prems by (intro Cons.IH) (auto simp: shares_decode_def)
  ultimately show ?case using Cons.prems by (simp add: share_envelope_def)
qed simp

lemma recover_points_length: "recover_points R m seen es = Inr ps \<Longrightarrow> length ps = length es"
  by (induction es arbitrary: seen ps) (auto simp: Let_def bindE_eq_Inr split: if_splits option.splits)

text \<open>
  C19.  A recovery package gives its secret back: the metadata of a created package validates, any
  \<open>threshold\<close> or more distinct shares of it, in any order, recover exactly the secret, fewer shares
  are refused, and whatever shares are presented, a recovered secret has the checksum of the one
  that was split.
\<close>

theorem recovery_round_trip:
  assumes "Recovery_Create R rng packageID clusterID keyID secret threshold shares now = Inr pkg"
    and "splitSecret secret (nat threshold) (nat shares) rng = Inr points"
    and "shares_decode R packageID points" and "rl_time_Parse R (FormatRFC3339Nano now)"
    and "distinct is" and "set is \<subseteq> {..<nat shares}"
  shows "PackageMetadata_Validate R (pkg_Metadata pkg) = Inr () \<and>
    Recover R (pkg_Metadata pkg) (map ((!) (pkg_Shares pkg)) is) =
      (if int (length is) < threshold then Inl ErrThreshold else Inr secret) \<and>
    (\<forall>es s. Recover R (pkg_Metadata pkg) es = Inr s \<longrightarrow> rl_sha256 R s = rl_sha256 R secret \<and>
      threshold \<le> int (length es))"
proof -
  let ?m = "pkg_Metadata pkg"
  from assms(1,2) have inputs: "validateCreateInputs packageID clusterID keyID secret threshold shares = Inr ()"
    and pkg: "pkg_Shares pkg = map (\<lambda>point. encodeShare (share_envelope packageID point)) points"
      "rd_PackageID ?m = packageID" "rd_Threshold ?m = threshold" "rd_Shares ?m = shares" "rd_SecretChecksum ?m = checksum R secret"
    by (auto simp: Recovery_Create_def)
  from inputs have t: "0 < threshold" "threshold \<le> shares" "shares \<le> 255"
    by (auto simp: validateCreateInputs_def split: if_splits)
  have valid: "PackageMetadata_Validate R ?m = Inr ()"
    using assms(1,4) inputs t
    by (auto simp: Recovery_Create_def PackageMetadata_Validate_def validateCreateInputs_def
        checksum_def HasPrefix_def split: if_splits)
  obtain css where css: "points = map (share_of css) [0..<nat shares]" using splitSecret_eq_Inr [OF assms(2)] by blast
  let ?ps = "map ((!) points) is"
  have sel: "?ps = map (share_of css) is" using assms(6) css by auto
  have enc: "map ((!) (pkg_Shares pkg)) is = map (\<lambda>p. encodeShare (share_envelope packageID p)) ?ps"
    using assms(6) pkg(1) css by auto
  have "points_ok (length css) ?ps" unfolding sel using share_of_points_ok [OF _ assms(5,6)] t(3) by simp
  then have "distinct (map sp_index ?ps)" by (simp add: points_ok_def)
  moreover have "uint (sp_index (share_of css i)) = int i + 1" if "i \<in> set is" for i
  proof -
    from that assms(6) t(3) have "i + 1 < 256" by auto
    then have "uint (of_nat (i + 1) :: byte) = int (i + 1)"
      by (simp only: uint_nat unat_of_nat) simp
    then show ?thesis by (simp add: share_of_def)
  qed
  then have "list_all (\<lambda>p. 0 < uint (sp_index p) \<and> uint (sp_index p) \<le> shares) ?ps"
    unfolding sel using assms(6) by (fastforce simp: list_all_iff)
  moreover have "shares_decode R packageID ?ps"
    using assms(3,6) css by (auto simp: shares_decode_def list_all_iff)
  ultimately have points: "recover_points R ?m [] (map ((!) (pkg_Shares pkg)) is) = Inr ?ps"
    unfolding enc using recover_points_shares [of R ?m ?ps "[]"] pkg by simp
  have "combineShares (take (nat threshold) ?ps) = Inr secret" if "threshold \<le> int (length is)"
    unfolding take_map
    using that t assms(5,6) by (intro combineShares_split [OF assms(2)]) (auto dest: in_set_takeD)
  then have "Recover R ?m (map ((!) (pkg_Shares pkg)) is) = (if int (length is) < threshold then Inl ErrThreshold else Inr secret)"
    using valid points pkg by (simp add: Recover_def)
  moreover have "rl_sha256 R s = rl_sha256 R secret \<and> threshold \<le> int (length es)" if "Recover R ?m es = Inr s" for es s
    using that pkg by (auto simp: Recover_def bindE_eq_Inr checksum_def split: if_splits)
  ultimately show ?thesis using valid by blast
qed

text \<open>A package of the secret byte 42 with threshold 2, and a decoder that knows its two shares.\<close>

definition demo_share :: "nat \<Rightarrow> sharePoint" where
  "demo_share i = \<lparr>sp_index = of_nat (i + 1), sp_value = [evalPolynomial [42, 5] (of_nat (i + 1))]\<rparr>"

definition demo_recovery_lib :: recovery_lib where
  "demo_recovery_lib =
     \<lparr>rl_sha256 = (\<lambda>s. replicate 32 (fold (+) s 0)),
      rl_Unmarshal = (\<lambda>raw. find (\<lambda>e. bytes_of (shareEnvelope_json e) = raw)
        [share_envelope ''rp1'' (demo_share 0), share_envelope ''rp1'' (demo_share 1)]),
      rl_time_Parse = (\<lambda>s. s = ''0001-01-01T00:00:05Z'')\<rparr>"

lemma demo_split: "splitSecret [42] 2 2 (\<lambda>_. Some (\<lambda>_. 5)) = Inr [demo_share 0, demo_share 1]"
  by (simp add: splitSecret_def share_coefficients_def ReadFull_def demo_share_def upt_rec Let_def)

lemma demo_shares_decode: "shares_decode demo_recovery_lib ''rp1'' [demo_share 0, demo_share 1]"
proof -
  have "bytes_of (shareEnvelope_json (share_envelope ''rp1'' (demo_share 0))) \<noteq>
      bytes_of (shareEnvelope_json (share_envelope ''rp1'' (demo_share 1)))"
    by (simp add: shareEnvelope_json_def share_envelope_def demo_share_def json_object_def json_field_def
        json_string_def json_char_def json_int_def bytes_of_def RecoverySchemaVersion_def format_uint.simps digit_char_def
        char_of_def of_char_def)
  then show ?thesis by (simp add: shares_decode_def demo_recovery_lib_def)
qed

theorem recovery_round_trip_witness:
  "\<exists>pkg. Recovery_Create demo_recovery_lib (\<lambda>_. Some (\<lambda>_. 5)) ''rp1'' ''c1'' ''root'' [42] 2 2 (5 * second) = Inr pkg \<and>
     Recover demo_recovery_lib (pkg_Metadata pkg) [pkg_Shares pkg ! 1, pkg_Shares pkg ! 0] = Inr [42]"
proof -
  have "\<exists>pkg. Recovery_Create demo_recovery_lib (\<lambda>_. Some (\<lambda>_. 5)) ''rp1'' ''c1'' ''root'' [42] 2 2 (5 * second) = Inr pkg"
    using demo_split by (simp add: Recovery_Create_def validateCreateInputs_def validIdentifier.simps identifier_char_def)
  then obtain pkg where pkg: "Recovery_Create demo_recovery_lib (\<lambda>_. Some (\<lambda>_. 5)) ''rp1'' ''c1'' ''root'' [42] 2 2
      (5 * second) = Inr pkg" by blast
  have "rl_time_Parse demo_recovery_lib (FormatRFC3339Nano (5 * second))"
    by (simp add: demo_recovery_lib_def) code_simp
  then have "Recover demo_recovery_lib (pkg_Metadata pkg) (map ((!) (pkg_Shares pkg)) [1, 0]) = Inr [42]"
    using recovery_round_trip [OF pkg, of "[demo_share 0, demo_share 1]" "[1, 0]"] demo_split demo_shares_decode
    by auto
  with pkg show ?thesis by auto
qed

end
