(* ===== verification/Key_Protection.thy ===== *)
theory Key_Protection
  imports Keyring
begin

text \<open>
  The package \<^verbatim>\<open>internal/keyprotection\<close>: the durable form of a key version, the protector that
  converts between the two forms, and the loader that rebuilds a ring from the records of a
  repository (\<^verbatim>\<open>protection.go\<close>), with the development protector (\<^verbatim>\<open>development.go\<close>).

  The Go interface \<^verbatim>\<open>Protector\<close> is the locale \<open>protector\<close>: what a loader relies on is that
  unprotecting inverts protecting.  The loader's correctness is proved once in the locale; the
  development protector is an interpretation of it.
\<close>

definition ProfileDevelopment :: string where
  "ProfileDevelopment = ''development''"

definition FormatDevelopmentPlaintextV1 :: string where
  "FormatDevelopmentPlaintextV1 = ''openbao-attested-unseal.development-plaintext.v1''"

record ProtectedKey =
  pk_Ref :: KeyRef
  pk_Status :: Status
  pk_Algorithm :: string
  pk_PolicyID :: string
  pk_ProtectorProfile :: string
  pk_Format :: string
  pk_Payload :: bytes

definition metadata_error_text :: "error \<Rightarrow> string" where
  "metadata_error_text e =
     (case e of ErrInvalidMetadata s \<Rightarrow> ''invalid key metadata: '' @ s | _ \<Rightarrow> [])"

definition ProtectedKey_Validate :: "ProtectedKey \<Rightarrow> error + unit" where
  "ProtectedKey_Validate k =
     bindE (mapErr (\<lambda>e. ErrInvalidProtectedKey (metadata_error_text e)) (KeyRef_Validate (pk_Ref k))) (\<lambda>_.
     if \<not> Status_known (pk_Status k) then Inl (ErrInvalidProtectedKey ''unsupported key status'')
     else if pk_Algorithm k \<noteq> AlgorithmAES256GCM then
       Inl (ErrInvalidProtectedKey ''unsupported key algorithm'')
     else if \<not> validIdentifier (pk_PolicyID k) then Inl (ErrInvalidProtectedKey ''invalid policy ID'')
     else if \<not> validIdentifier (pk_ProtectorProfile k) then
       Inl (ErrInvalidProtectedKey ''invalid protector profile'')
     else if TrimSpace (pk_Format k) = [] then
       Inl (ErrInvalidProtectedKey ''protected format is required'')
     else if pk_Payload k = [] then
       Inl (ErrInvalidProtectedKey ''protected payload is required'')
     else Inr ())"

definition ProtectedKey_Metadata :: "ProtectedKey \<Rightarrow> KeyVersion" where
  "ProtectedKey_Metadata k = \<lparr>
     kv_Ref = pk_Ref k, kv_Status = pk_Status k, kv_Algorithm = pk_Algorithm k,
     kv_PolicyID = pk_PolicyID k, kv_Material = []\<rparr>"

section \<open>The development protector\<close>

definition Protect :: "error option \<Rightarrow> KeyVersion \<Rightarrow> error + ProtectedKey" where
  "Protect ctx v =
     bindE (ctxE ctx) (\<lambda>_.
     bindE (KeyVersion_Validate v) (\<lambda>_.
     (let record = \<lparr>
        pk_Ref = kv_Ref v, pk_Status = kv_Status v, pk_Algorithm = kv_Algorithm v,
        pk_PolicyID = kv_PolicyID v, pk_ProtectorProfile = ProfileDevelopment,
        pk_Format = FormatDevelopmentPlaintextV1, pk_Payload = kv_Material v\<rparr> in
      bindE (ProtectedKey_Validate record) (\<lambda>_. Inr record))))"

definition Unprotect :: "error option \<Rightarrow> ProtectedKey \<Rightarrow> error + KeyVersion" where
  "Unprotect ctx k =
     bindE (ctxE ctx) (\<lambda>_.
     bindE (ProtectedKey_Validate k) (\<lambda>_.
     if pk_ProtectorProfile k \<noteq> ProfileDevelopment \<or> pk_Format k \<noteq> FormatDevelopmentPlaintextV1
     then Inl ErrProtectorMismatch
     else (let version = (ProtectedKey_Metadata k)\<lparr>kv_Material := pk_Payload k\<rparr> in
       bindE (KeyVersion_Validate version) (\<lambda>_. Inr version))))"

section \<open>The loader\<close>

text \<open>
  The loader is given the results of its two interfaces: \<open>profile\<close> and \<open>unprotect\<close> of the
  protector and the records that \<^verbatim>\<open>Repository.ProtectedKeys\<close> returned.
\<close>

definition load_record ::
  "string \<Rightarrow> (ProtectedKey \<Rightarrow> error + KeyVersion) \<Rightarrow> ProtectedKey \<Rightarrow> error + KeyVersion" where
  "load_record profile unprotect k =
     (if pk_ProtectorProfile k \<noteq> profile then Inl ErrProtectorMismatch else unprotect k)"

definition LoadKeyring ::
  "string \<Rightarrow> (ProtectedKey \<Rightarrow> error + KeyVersion) \<Rightarrow> error + ProtectedKey list \<Rightarrow> error + Ring" where
  "LoadKeyring profile unprotect records =
     bindE records (\<lambda>ks.
     bindE (traverseE (load_record profile unprotect) ks) NewRing)"

lemma map_eq_nth:
  "length xs = length ys \<Longrightarrow> (\<And>i. i < length ys \<Longrightarrow> f (xs ! i) = g (ys ! i)) \<Longrightarrow> map f xs = map g ys"
  by (rule nth_equalityI) simp_all

section \<open>The contract of a protector\<close>

locale protector =
  fixes profile :: string
    and protect :: "KeyVersion \<Rightarrow> error + ProtectedKey"
    and unprotect :: "ProtectedKey \<Rightarrow> error + KeyVersion"
  assumes protect_profile: "protect v = Inr k \<Longrightarrow> pk_ProtectorProfile k = profile"
    and unprotect_protect: "protect v = Inr k \<Longrightarrow> unprotect k = Inr v"
    and unprotect_metadata: "unprotect k = Inr v \<Longrightarrow>
      kv_Ref v = pk_Ref k \<and> kv_Status v = pk_Status k \<and> kv_PolicyID v = pk_PolicyID k"
    and unprotect_status: "unprotect k = Inr v \<Longrightarrow> Status_known st \<Longrightarrow>
      unprotect (k\<lparr>pk_Status := st\<rparr>) = Inr (v\<lparr>kv_Status := st\<rparr>)"
begin

text \<open>Loading protected versions is building the ring of those versions.\<close>

lemma load_protected:
  assumes "traverseE protect vs = Inr ks"
  shows "LoadKeyring profile unprotect (Inr ks) = NewRing vs"
proof -
  from assms have "length ks = length vs" and "\<And>i. i < length vs \<Longrightarrow> protect (vs ! i) = Inr (ks ! i)"
    by (auto simp: traverseE_eq_Inr)
  then have "traverseE (load_record profile unprotect) ks = Inr vs"
    unfolding traverseE_eq_Inr load_record_def
    using protect_profile unprotect_protect by (metis (no_types, lifting))
  then show ?thesis by (simp add: LoadKeyring_def)
qed

text \<open>A loaded ring lists the records in order, with their references, statuses and policies.\<close>

lemma load_records:
  assumes "LoadKeyring profile unprotect (Inr ks) = Inr r"
  shows "map kv_Ref (versions r) = map pk_Ref ks \<and> map kv_Status (versions r) = map pk_Status ks \<and>
    map kv_PolicyID (versions r) = map pk_PolicyID ks"
proof -
  from assms obtain vs where vs: "traverseE (load_record profile unprotect) ks = Inr vs" "NewRing vs = Inr r"
    by (auto simp: LoadKeyring_def)
  then have "versions r = vs" by (simp add: NewRing_eq_Inr)
  moreover from vs(1) have "length vs = length ks"
    "\<And>i. i < length ks \<Longrightarrow> unprotect (ks ! i) = Inr (vs ! i)"
    unfolding traverseE_eq_Inr load_record_def by (auto split: if_splits)
  ultimately show ?thesis using unprotect_metadata by (intro conjI map_eq_nth) auto
qed

end

section \<open>The development protector meets the contract\<close>

lemma ProtectedKey_Validate_eq_Inr [simp, succ_inv]:
  "ProtectedKey_Validate k = Inr u \<longleftrightarrow>
     KeyRef_Validate (pk_Ref k) = Inr () \<and> Status_known (pk_Status k) \<and>
     pk_Algorithm k = AlgorithmAES256GCM \<and> validIdentifier (pk_PolicyID k) \<and>
     validIdentifier (pk_ProtectorProfile k) \<and> TrimSpace (pk_Format k) \<noteq> [] \<and> pk_Payload k \<noteq> []"
  by (auto simp: ProtectedKey_Validate_def simp del: KeyRef_Validate_eq_Inr)

lemma Unprotect_eq_Inr:
  "Unprotect ctx k = Inr v \<longleftrightarrow>
     ctx = None \<and> ProtectedKey_Validate k = Inr () \<and> pk_ProtectorProfile k = ProfileDevelopment \<and>
     pk_Format k = FormatDevelopmentPlaintextV1 \<and> length (pk_Payload k) = KeySize \<and>
     v = (ProtectedKey_Metadata k)\<lparr>kv_Material := pk_Payload k\<rparr>"
  by (auto simp: Unprotect_def Let_def ProtectedKey_Metadata_def simp del: KeyRef_Validate_eq_Inr)

lemma Protect_eq_Inr:
  "Protect ctx v = Inr k \<longleftrightarrow>
     ctx = None \<and> KeyVersion_Validate v = Inr () \<and> ProtectedKey_Validate k = Inr () \<and>
     k = \<lparr>pk_Ref = kv_Ref v, pk_Status = kv_Status v, pk_Algorithm = kv_Algorithm v,
          pk_PolicyID = kv_PolicyID v, pk_ProtectorProfile = ProfileDevelopment,
          pk_Format = FormatDevelopmentPlaintextV1, pk_Payload = kv_Material v\<rparr>"
  by (auto simp: Protect_def Let_def simp del: KeyRef_Validate_eq_Inr)

interpretation development: protector ProfileDevelopment "Protect None" "Unprotect None"
proof unfold_locales
  fix v k
  assume "Protect None v = Inr k"
  then show "pk_ProtectorProfile k = ProfileDevelopment" and "Unprotect None k = Inr v"
    by (auto simp: Protect_eq_Inr Unprotect_eq_Inr ProtectedKey_Metadata_def simp del: KeyRef_Validate_eq_Inr)
next
  fix v k
  assume "Unprotect None k = Inr v"
  then show "kv_Ref v = pk_Ref k \<and> kv_Status v = pk_Status k \<and> kv_PolicyID v = pk_PolicyID k"
    by (simp add: Unprotect_eq_Inr ProtectedKey_Metadata_def)
next
  fix k v st
  assume "Unprotect None k = Inr v" and "Status_known st"
  then show "Unprotect None (k\<lparr>pk_Status := st\<rparr>) = Inr (v\<lparr>kv_Status := st\<rparr>)"
    by (auto simp: Unprotect_eq_Inr ProtectedKey_Metadata_def)
qed

lemma format_development_nonblank: "TrimSpace FormatDevelopmentPlaintextV1 \<noteq> []"
  by (subst TrimSpace_graphic) (simp_all add: FormatDevelopmentPlaintextV1_def graphic_def)

lemma Protect_valid: "KeyVersion_Validate v = Inr () \<Longrightarrow> \<exists>k. Protect None v = Inr k"
  using format_development_nonblank
  by (auto simp: Protect_eq_Inr ProfileDevelopment_def identifier_char_def KeySize_def)

section \<open>Properties\<close>

text \<open>
  C23.  The versions of a well-formed ring, and only those, survive storage: each can be
  protected, and the loader rebuilds from the stored records the ring of exactly these versions.
\<close>

theorem protect_then_load:
  "(\<exists>ks. traverseE (Protect None) vs = Inr ks \<and>
     LoadKeyring ProfileDevelopment (Unprotect None) (Inr ks) = Inr \<lparr>versions = vs\<rparr>) \<longleftrightarrow> ring_wf vs"
proof
  assume "\<exists>ks. traverseE (Protect None) vs = Inr ks \<and>
    LoadKeyring ProfileDevelopment (Unprotect None) (Inr ks) = Inr \<lparr>versions = vs\<rparr>"
  then show "ring_wf vs" using development.load_protected by (metis NewRing_eq_Inr)
next
  assume wf: "ring_wf vs"
  then have "\<forall>v \<in> set vs. \<exists>k. Protect None v = Inr k"
    using Protect_valid by (simp add: ring_wf_def list_all_iff del: KeyVersion_Validate_eq_Inr)
  then obtain f where "\<And>v. v \<in> set vs \<Longrightarrow> Protect None v = Inr (f v)" by metis
  then have ks: "traverseE (Protect None) vs = Inr (map f vs)" by (rule traverseE_map_Inr)
  moreover from wf have "NewRing vs = Inr \<lparr>versions = vs\<rparr>" by (simp add: NewRing_eq_Inr)
  ultimately show "\<exists>ks. traverseE (Protect None) vs = Inr ks \<and>
      LoadKeyring ProfileDevelopment (Unprotect None) (Inr ks) = Inr \<lparr>versions = vs\<rparr>"
    using development.load_protected [OF ks] by auto
qed

text \<open>
  A ring loaded from stored records exposes exactly the stored records, in their order: the
  references, statuses and policies are those of the records, every record had the profile and
  format of the protector, and no record is skipped.
\<close>

theorem loaded_ring_matches_records:
  assumes "LoadKeyring ProfileDevelopment (Unprotect None) (Inr ks) = Inr r"
  shows "map kv_Ref (versions r) = map pk_Ref ks \<and> map kv_Status (versions r) = map pk_Status ks \<and>
    map kv_PolicyID (versions r) = map pk_PolicyID ks \<and> map kv_Material (versions r) = map pk_Payload ks \<and>
    list_all (\<lambda>k. pk_ProtectorProfile k = ProfileDevelopment \<and> pk_Format k = FormatDevelopmentPlaintextV1) ks"
proof -
  from assms obtain vs where vs: "traverseE (load_record ProfileDevelopment (Unprotect None)) ks = Inr vs"
      and "NewRing vs = Inr r" by (auto simp: LoadKeyring_def)
  then have r: "versions r = vs" by (simp add: NewRing_eq_Inr)
  from vs have len: "length vs = length ks"
    and each: "\<And>i. i < length ks \<Longrightarrow> Unprotect None (ks ! i) = Inr (vs ! i)"
    unfolding traverseE_eq_Inr load_record_def by (auto split: if_splits)
  have "map kv_Material vs = map pk_Payload ks"
    using len each by (intro map_eq_nth) (auto simp: Unprotect_eq_Inr ProtectedKey_Metadata_def)
  moreover have "list_all (\<lambda>k. pk_ProtectorProfile k = ProfileDevelopment \<and>
      pk_Format k = FormatDevelopmentPlaintextV1) ks"
    using each by (auto simp: list_all_length Unprotect_eq_Inr)
  ultimately show ?thesis using development.load_records [OF assms] r by simp
qed

definition demo_record :: ProtectedKey where
  "demo_record = \<lparr>pk_Ref = kv_Ref (demo_key 1 StatusActive), pk_Status = StatusActive,
     pk_Algorithm = AlgorithmAES256GCM, pk_PolicyID = ''default'',
     pk_ProtectorProfile = ProfileDevelopment, pk_Format = FormatDevelopmentPlaintextV1,
     pk_Payload = replicate 32 1\<rparr>"

lemma demo_record_unprotects: "Unprotect None demo_record = Inr (demo_key 1 StatusActive)"
  using format_development_nonblank
  by (simp add: Unprotect_eq_Inr demo_record_def ProtectedKey_Metadata_def demo_key_def
      ProfileDevelopment_def identifier_char_def KeySize_def Status_known_def)

theorem loaded_ring_matches_records_witness:
  "LoadKeyring ProfileDevelopment (Unprotect None) (Inr [demo_record]) = Inr \<lparr>versions = demo_ring\<rparr> \<and>
   map kv_Ref demo_ring = [pk_Ref demo_record]"
proof -
  have load: "LoadKeyring ProfileDevelopment (Unprotect None) (Inr [demo_record]) = Inr \<lparr>versions = demo_ring\<rparr>"
    using demo_rings(1)
    by (simp add: LoadKeyring_def load_record_def demo_record_unprotects demo_ring_def)
      (simp add: demo_record_def)
  from loaded_ring_matches_records [OF load] load show ?thesis by simp
qed

end
