(* ===== verification/Tpm.thy ===== *)
theory Tpm
  imports Prelude
begin

text \<open>
  The package \<^verbatim>\<open>internal/tpm\<close>: PCR selections and digests (\<^verbatim>\<open>pcr.go\<close>), the verification of a
  quote (\<^verbatim>\<open>quote.go\<close>) and of an enrolled policy (\<^verbatim>\<open>policy.go\<close>), and the provider's \<^verbatim>\<open>Verify\<close>
  (\<^verbatim>\<open>internal/attestation/providers/tpm/provider.go\<close>).

  The TPM structures are decoded and the signatures checked by \<^verbatim>\<open>github.com/google/go-tpm\<close> and
  the \<^verbatim>\<open>crypto\<close> packages; these functions are the fields of the parameter \<open>tpm_lib\<close>.  A Go map that
  the code iterates is an association list in the order of the iteration.
\<close>

section \<open>PCR selections\<close>

definition HashSHA1 :: string where "HashSHA1 = ''sha1''"

definition HashSHA256 :: string where "HashSHA256 = ''sha256''"

definition HashSHA384 :: string where "HashSHA384 = ''sha384''"

definition HashSHA512 :: string where "HashSHA512 = ''sha512''"

definition hashDigestSize :: "string \<Rightarrow> nat option" where
  "hashDigestSize name =
     (if ToLower name = HashSHA1 then Some 20
      else if ToLower name = HashSHA256 then Some 32
      else if ToLower name = HashSHA384 then Some 48
      else if ToLower name = HashSHA512 then Some 64
      else None)"

definition validateHashName :: "string \<Rightarrow> bool" where
  "validateHashName name \<longleftrightarrow> ToLower name \<in> {HashSHA1, HashSHA256, HashSHA384, HashSHA512}"

record PCRSelection =
  sel_Hash :: string
  sel_PCRs :: "int list"

fun pcrs_check :: "int option \<Rightarrow> int list \<Rightarrow> error + unit" where
  "pcrs_check prev [] = Inr ()"
| "pcrs_check prev (p # ps) =
     (if p < 0 \<or> p > 23 then Inl (OtherErr ''PCR index is out of range'')
      else if prev = Some p then Inl (OtherErr ''duplicate PCR index'')
      else pcrs_check (Some p) ps)"

definition PCRSelection_Normalize :: "PCRSelection \<Rightarrow> error + PCRSelection" where
  "PCRSelection_Normalize s =
     (let lowered = ToLower (TrimSpace (sel_Hash s));
          hashName = (if lowered = [] then HashSHA256 else lowered) in
      if \<not> validateHashName hashName then Inl (OtherErr ''unsupported hash'')
      else if sel_PCRs s = [] then Inl (OtherErr ''PCR selection must include at least one PCR'')
      else let pcrs = sort (sel_PCRs s) in
        bindE (pcrs_check None pcrs) (\<lambda>_. Inr \<lparr>sel_Hash = hashName, sel_PCRs = pcrs\<rparr>))"

definition PCRSelection_contains :: "PCRSelection \<Rightarrow> int \<Rightarrow> bool" where
  "PCRSelection_contains s index \<longleftrightarrow> index \<in> set (sel_PCRs s)"

definition sameSelection :: "PCRSelection \<Rightarrow> PCRSelection \<Rightarrow> bool" where
  "sameSelection l r \<longleftrightarrow>
     sel_Hash l = sel_Hash r \<and> length (sel_PCRs l) = length (sel_PCRs r) \<and>
     list_all2 (=) (sel_PCRs l) (sel_PCRs r)"

section \<open>PCR values and digests\<close>

text \<open>\<^verbatim>\<open>strconv.Atoi\<close> on a 64-bit platform.\<close>

definition Atoi :: "string \<Rightarrow> int option" where
  "Atoi s = (case s of
      [] \<Rightarrow> None
    | c # cs \<Rightarrow>
        if c = CHR ''-'' then
          (case ParseUint cs 64 of Some n \<Rightarrow> if n \<le> 2 ^ 63 then Some (- int n) else None | None \<Rightarrow> None)
        else
          (case ParseUint (if c = CHR ''+'' then cs else s) 64 of
             Some n \<Rightarrow> if n < 2 ^ 63 then Some (int n) else None | None \<Rightarrow> None))"

fun decode_pcr_entries ::
  "(int \<rightharpoonup> bytes) \<Rightarrow> (string \<times> string) list \<Rightarrow> error + (int \<rightharpoonup> bytes)" where
  "decode_pcr_entries out [] = Inr out"
| "decode_pcr_entries out ((rawIndex, rawValue) # rest) =
     (case Atoi rawIndex of
        None \<Rightarrow> Inl (OtherErr ''invalid PCR index'')
      | Some index \<Rightarrow>
          if index < 0 \<or> index > 23 then Inl (OtherErr ''invalid PCR index'')
          else (case hex_decode (TrimPrefix rawValue ''0x'') of
             None \<Rightarrow> Inl (OtherErr ''decode PCR value'')
           | Some value \<Rightarrow> decode_pcr_entries (out(index \<mapsto> value)) rest))"

definition DecodePCRValues :: "(string \<times> string) list \<Rightarrow> error + (int \<rightharpoonup> bytes)" where
  "DecodePCRValues values =
     (if values = [] then Inl (OtherErr ''PCR values are required'')
      else decode_pcr_entries Map.empty values)"

definition EncodePCRValues :: "(int \<times> bytes) list \<Rightarrow> (string \<times> string) list" where
  "EncodePCRValues values = map (\<lambda>(index, v). (Itoa index, hex_encode v)) values"

fun split_first :: "char \<Rightarrow> string \<Rightarrow> (string \<times> string) option" where
  "split_first c [] = None"
| "split_first c (x # xs) =
     (if x = c then Some ([], xs) else map_option (\<lambda>(a, b). (x # a, b)) (split_first c xs))"

definition parseDigestString :: "string \<Rightarrow> error + string \<times> bytes" where
  "parseDigestString raw =
     (case split_first (CHR '':'') raw of
        None \<Rightarrow> Inl (OtherErr ''digest must use hash:hex format'')
      | Some (name, digits) \<Rightarrow>
          if \<not> validateHashName (ToLower name) then Inl (OtherErr ''unsupported hash'')
          else (case hex_decode digits of
             None \<Rightarrow> Inl (OtherErr ''decode digest'')
           | Some digest \<Rightarrow> Inr (ToLower name, digest)))"

definition digestString :: "string \<Rightarrow> bytes \<Rightarrow> string" where
  "digestString hashName digest = ToLower hashName @ '':'' @ hex_encode digest"

text \<open>The hash functions are a parameter \<open>H name message\<close>.\<close>

fun pcr_concat :: "nat \<Rightarrow> (int \<rightharpoonup> bytes) \<Rightarrow> int list \<Rightarrow> error + bytes" where
  "pcr_concat n values [] = Inr []"
| "pcr_concat n values (pcr # pcrs) =
     (case values pcr of
        None \<Rightarrow> Inl (OtherErr ''PCR value is required'')
      | Some v \<Rightarrow>
          if length v \<noteq> n then Inl (OtherErr ''PCR digest size'')
          else bindE (pcr_concat n values pcrs) (\<lambda>rest. Inr (v @ rest)))"

definition ComputePCRDigest ::
  "(string \<Rightarrow> bytes \<Rightarrow> bytes) \<Rightarrow> PCRSelection \<Rightarrow> (int \<rightharpoonup> bytes) \<Rightarrow> error + bytes" where
  "ComputePCRDigest H selection values =
     bindE (PCRSelection_Normalize selection) (\<lambda>normalized.
     case hashDigestSize (sel_Hash normalized) of
        None \<Rightarrow> Inl (OtherErr ''unsupported hash'')
      | Some digestSize \<Rightarrow>
          bindE (pcr_concat digestSize values (sel_PCRs normalized)) (\<lambda>msg.
          Inr (H (sel_Hash normalized) msg)))"

section \<open>Evidence and quotes\<close>

definition EvidenceSchemaVersion :: u32 where "EvidenceSchemaVersion = 1"

definition EvidenceFormat :: string where
  "EvidenceFormat = ''openbao-attested-unseal.tpm2-quote.v1''"

record TpmEvidence =
  te_SchemaVersion :: u32
  te_ChallengeID :: string
  te_NonceHash :: string
  te_AKPublic :: bytes
  te_Quote :: bytes
  te_Signature :: bytes
  te_PCRSelection :: PCRSelection
  te_PCRValues :: "(string \<times> string) list"
  te_EKPublicHash :: string
  te_PlatformHint :: string
  te_CollectedBy :: string
  te_CollectedAtUTC :: string

record QuoteClaims =
  qc_AKPublicHash :: string
  qc_PCRSelection :: PCRSelection
  qc_PCRDigest :: string
  qc_NonceHash :: string

text \<open>What \<^verbatim>\<open>go-tpm\<close> decodes.  \<open>att_is_quote\<close>: the type is TagAttestQuote and the quote info is present.\<close>

datatype public_key = RSAPublic bytes | ECDSAPublic bytes | OtherPublic

datatype tpm_signature =
    SigRSASSA "(nat \<times> bytes) option"
  | SigRSAPSS "(nat \<times> bytes) option"
  | SigECDSA "(nat \<times> int \<times> int) option"
  | SigOther nat

record attestation_data =
  att_is_quote :: bool
  att_ExtraData :: bytes
  att_PCRSelection :: PCRSelection
  att_PCRDigest :: bytes

record tpm_lib =
  lib_hash :: "string \<Rightarrow> bytes \<Rightarrow> bytes"
  lib_alg_hash :: "nat \<Rightarrow> (bytes \<Rightarrow> bytes) option"
  lib_DecodePublic :: "bytes \<Rightarrow> bool"
  lib_Key :: "bytes \<Rightarrow> public_key option"
  lib_DecodeSignature :: "bytes \<Rightarrow> tpm_signature option"
  lib_DecodeAttestationData :: "bytes \<Rightarrow> attestation_data option"
  lib_VerifyPSS :: "bytes \<Rightarrow> nat \<Rightarrow> bytes \<Rightarrow> bytes \<Rightarrow> bool"
  lib_VerifyPKCS1v15 :: "bytes \<Rightarrow> nat \<Rightarrow> bytes \<Rightarrow> bytes \<Rightarrow> bool"
  lib_ecdsa_Verify :: "bytes \<Rightarrow> bytes \<Rightarrow> int \<Rightarrow> int \<Rightarrow> bool"

definition NonceDigest :: "tpm_lib \<Rightarrow> bytes \<Rightarrow> string" where
  "NonceDigest L nonce = ''sha256:'' @ hex_encode (lib_hash L HashSHA256 nonce)"

definition PublicDigest :: "tpm_lib \<Rightarrow> bytes \<Rightarrow> string" where
  "PublicDigest L public = ''sha256:'' @ hex_encode (lib_hash L HashSHA256 public)"

definition TpmEvidence_Validate :: "TpmEvidence \<Rightarrow> error + unit" where
  "TpmEvidence_Validate e =
     (if te_SchemaVersion e \<noteq> EvidenceSchemaVersion then
        Inl (ErrInvalidEvidence ''unsupported schema version'')
      else if TrimSpace (te_ChallengeID e) = [] then
        Inl (ErrInvalidEvidence ''challenge ID is required'')
      else (case parseDigestString (te_NonceHash e) of
          Inl _ \<Rightarrow> Inl (ErrInvalidEvidence ''nonce hash must be sha256:hex'')
        | Inr (_, digest) \<Rightarrow>
            if length digest \<noteq> 32 then Inl (ErrInvalidEvidence ''nonce hash must be sha256:hex'')
            else if te_AKPublic e = [] then Inl (ErrInvalidEvidence ''AK public area is required'')
            else if te_Quote e = [] then Inl (ErrInvalidEvidence ''quote is required'')
            else if te_Signature e = [] then Inl (ErrInvalidEvidence ''quote signature is required'')
            else (case PCRSelection_Normalize (te_PCRSelection e) of
                Inl _ \<Rightarrow> Inl (ErrInvalidEvidence ''PCR selection'')
              | Inr _ \<Rightarrow>
                  (case DecodePCRValues (te_PCRValues e) of
                     Inl _ \<Rightarrow> Inl (ErrInvalidEvidence ''PCR values'')
                   | Inr values \<Rightarrow>
                       if list_all (\<lambda>pcr. values pcr \<noteq> None) (sel_PCRs (te_PCRSelection e)) then Inr ()
                       else Inl (ErrInvalidEvidence ''PCR value is required'')))))"

definition verifyNonceHash :: "tpm_lib \<Rightarrow> TpmEvidence \<Rightarrow> bytes \<Rightarrow> error + unit" where
  "verifyNonceHash L e expectedNonce =
     (if expectedNonce = [] then Inl (ErrQuoteVerification ''expected nonce is required'')
      else if te_NonceHash e \<noteq> NonceDigest L expectedNonce then
        Inl (ErrQuoteVerification ''nonce hash mismatch'')
      else Inr ())"

definition verifyRSASignature ::
  "tpm_lib \<Rightarrow> public_key \<Rightarrow> (nat \<times> bytes) option \<Rightarrow> bytes \<Rightarrow> bool \<Rightarrow> error + unit" where
  "verifyRSASignature L key signature message pss =
     (case signature of
        None \<Rightarrow> Inl (ErrQuoteVerification ''missing RSA signature'')
      | Some (alg, sig) \<Rightarrow>
          (case lib_alg_hash L alg of
             None \<Rightarrow> Inl (ErrQuoteVerification ''hash'')
           | Some hash \<Rightarrow>
               (case key of
                  RSAPublic k \<Rightarrow>
                    if pss then
                      (if lib_VerifyPSS L k alg (hash message) sig then Inr ()
                       else Inl (ErrQuoteVerification ''RSA-PSS signature mismatch''))
                    else
                      (if lib_VerifyPKCS1v15 L k alg (hash message) sig then Inr ()
                       else Inl (ErrQuoteVerification ''RSA signature mismatch''))
                | _ \<Rightarrow> Inl (ErrQuoteVerification ''AK is not an RSA key''))))"

definition verifyECDSASignature ::
  "tpm_lib \<Rightarrow> public_key \<Rightarrow> (nat \<times> int \<times> int) option \<Rightarrow> bytes \<Rightarrow> error + unit" where
  "verifyECDSASignature L key signature message =
     (case signature of
        None \<Rightarrow> Inl (ErrQuoteVerification ''missing ECDSA signature'')
      | Some (alg, r, s) \<Rightarrow>
          (case lib_alg_hash L alg of
             None \<Rightarrow> Inl (ErrQuoteVerification ''hash'')
           | Some hash \<Rightarrow>
               (case key of
                  ECDSAPublic k \<Rightarrow>
                    if lib_ecdsa_Verify L k (hash message) r s then Inr ()
                    else Inl (ErrQuoteVerification ''ECDSA signature mismatch'')
                | _ \<Rightarrow> Inl (ErrQuoteVerification ''AK is not an ECDSA key''))))"

definition verifySignature ::
  "tpm_lib \<Rightarrow> public_key \<Rightarrow> tpm_signature \<Rightarrow> bytes \<Rightarrow> error + unit" where
  "verifySignature L key signature message =
     (case signature of
        SigRSASSA s \<Rightarrow> verifyRSASignature L key s message False
      | SigRSAPSS s \<Rightarrow> verifyRSASignature L key s message True
      | SigECDSA s \<Rightarrow> verifyECDSASignature L key s message
      | SigOther _ \<Rightarrow> Inl (ErrQuoteVerification ''unsupported signature algorithm''))"

definition verifyAKSignature :: "tpm_lib \<Rightarrow> TpmEvidence \<Rightarrow> error + string" where
  "verifyAKSignature L e =
     (if \<not> lib_DecodePublic L (te_AKPublic e) then Inl (ErrQuoteVerification ''decode AK public'')
      else (case lib_Key L (te_AKPublic e) of
          None \<Rightarrow> Inl (ErrQuoteVerification ''decode AK public key'')
        | Some key \<Rightarrow>
            (case lib_DecodeSignature L (te_Signature e) of
               None \<Rightarrow> Inl (ErrQuoteVerification ''decode signature'')
             | Some signature \<Rightarrow>
                 bindE (verifySignature L key signature (te_Quote e)) (\<lambda>_.
                 Inr (PublicDigest L (te_AKPublic e))))))"

definition verifyAttestation :: "tpm_lib \<Rightarrow> TpmEvidence \<Rightarrow> bytes \<Rightarrow> error + attestation_data" where
  "verifyAttestation L e expectedNonce =
     (case lib_DecodeAttestationData L (te_Quote e) of
        None \<Rightarrow> Inl (ErrQuoteVerification ''decode attestation'')
      | Some att \<Rightarrow>
          if \<not> att_is_quote att then Inl (ErrQuoteVerification ''attestation is not a quote'')
          else if att_ExtraData att \<noteq> expectedNonce then
            Inl (ErrQuoteVerification ''quote nonce mismatch'')
          else Inr att)"

definition verifyAttestedPCRs ::
  "tpm_lib \<Rightarrow> TpmEvidence \<Rightarrow> attestation_data \<Rightarrow> error + PCRSelection \<times> bytes" where
  "verifyAttestedPCRs L e att =
     bindE (mapErr (\<lambda>_. ErrQuoteVerification ''quote PCR selection'')
       (PCRSelection_Normalize (att_PCRSelection att))) (\<lambda>quoteSelection.
     bindE (PCRSelection_Normalize (te_PCRSelection e)) (\<lambda>evidenceSelection.
     if \<not> sameSelection quoteSelection evidenceSelection then
       Inl (ErrQuoteVerification ''quote PCR selection mismatch'')
     else
       bindE (mapErr (\<lambda>_. ErrQuoteVerification ''PCR values'') (DecodePCRValues (te_PCRValues e))) (\<lambda>values.
       bindE (mapErr (\<lambda>_. ErrQuoteVerification ''compute PCR digest'')
         (ComputePCRDigest (lib_hash L) evidenceSelection values)) (\<lambda>computed.
       if att_PCRDigest att \<noteq> computed then Inl (ErrQuoteVerification ''PCR digest mismatch'')
       else Inr (evidenceSelection, computed)))))"

definition VerifyQuote :: "tpm_lib \<Rightarrow> TpmEvidence \<Rightarrow> bytes \<Rightarrow> error + QuoteClaims" where
  "VerifyQuote L e expectedNonce =
     bindE (TpmEvidence_Validate e) (\<lambda>_.
     bindE (verifyNonceHash L e expectedNonce) (\<lambda>_.
     bindE (verifyAKSignature L e) (\<lambda>akPublicHash.
     bindE (verifyAttestation L e expectedNonce) (\<lambda>att.
     bindE (verifyAttestedPCRs L e att) (\<lambda>(selection, digest).
     Inr \<lparr>qc_AKPublicHash = akPublicHash, qc_PCRSelection = selection,
          qc_PCRDigest = digestString (sel_Hash selection) digest,
          qc_NonceHash = te_NonceHash e\<rparr>)))))"

section \<open>Policies\<close>

definition PolicyModeTPMOnly :: string where "PolicyModeTPMOnly = ''tpm-only''"

definition PolicyModeSecureBoot :: string where "PolicyModeSecureBoot = ''secureboot''"

definition PolicyModeMeasured :: string where "PolicyModeMeasured = ''measured''"

definition ProfileGenericPCSecureBoot :: string where
  "ProfileGenericPCSecureBoot = ''generic-pc-secureboot''"

record PCRPolicy =
  pp_Selection :: PCRSelection
  pp_ExpectedDigest :: string
  pp_CapturedValues :: "(string \<times> string) list"
  pp_Profile :: string

record TpmPolicy =
  tp_Mode :: string
  tp_EnrolledAKPublicHash :: string
  tp_PCRPolicy :: "PCRPolicy option"
  tp_ProviderProfile :: string

record TpmClaims =
  tc_SubjectFingerprint :: string
  tc_AKPublicHash :: string
  tc_PCRSelection :: PCRSelection
  tc_PCRDigest :: string
  tc_SecureBoot :: bool
  tc_Fresh :: bool
  tc_PolicyMode :: string
  tc_ProviderProfile :: string

definition NewPCRPolicy ::
  "(string \<Rightarrow> bytes \<Rightarrow> bytes) \<Rightarrow> PCRSelection \<Rightarrow> (int \<times> bytes) list \<Rightarrow> string \<Rightarrow> error + PCRPolicy" where
  "NewPCRPolicy H selection values profile =
     bindE (ComputePCRDigest H selection (map_of values)) (\<lambda>digest.
     bindE (PCRSelection_Normalize selection) (\<lambda>normalized.
     Inr \<lparr>pp_Selection = normalized, pp_ExpectedDigest = digestString (sel_Hash normalized) digest,
          pp_CapturedValues = EncodePCRValues values, pp_Profile = profile\<rparr>))"

definition PCRPolicy_Validate :: "PCRPolicy \<Rightarrow> error + unit" where
  "PCRPolicy_Validate p =
     bindE (mapErr (\<lambda>_. ErrAttestationPolicy ''invalid PCR policy selection'')
       (PCRSelection_Normalize (pp_Selection p))) (\<lambda>selection.
     bindE (mapErr (\<lambda>_. ErrAttestationPolicy ''invalid PCR policy digest'')
       (parseDigestString (pp_ExpectedDigest p))) (\<lambda>(hash, digest).
     if hash \<noteq> sel_Hash selection then Inl (ErrAttestationPolicy ''PCR policy digest hash mismatch'')
     else (case hashDigestSize hash of
         None \<Rightarrow> Inl (OtherErr ''unsupported hash'')
       | Some digestSize \<Rightarrow>
           if length digest \<noteq> digestSize then Inl (ErrAttestationPolicy ''PCR policy digest size'')
           else Inr ())))"

definition ak_hash_ok :: "string \<Rightarrow> bool" where
  "ak_hash_ok h \<longleftrightarrow> (case parseDigestString h of
      Inl _ \<Rightarrow> False | Inr (hashName, digest) \<Rightarrow> hashName = HashSHA256 \<and> length digest = 32)"

definition TpmPolicy_Validate :: "TpmPolicy \<Rightarrow> error + unit" where
  "TpmPolicy_Validate p =
     (let mode = TrimSpace (tp_Mode p) in
      if mode \<notin> {PolicyModeTPMOnly, PolicyModeSecureBoot, PolicyModeMeasured} then
        Inl (ErrAttestationPolicy ''unsupported policy mode'')
      else if tp_EnrolledAKPublicHash p \<noteq> [] \<and> \<not> ak_hash_ok (tp_EnrolledAKPublicHash p) then
        Inl (ErrAttestationPolicy ''enrolled AK public hash must be sha256:hex'')
      else if mode = PolicyModeSecureBoot then
        if tp_ProviderProfile p = [] then Inl (ErrAttestationPolicy ''secureboot profile is required'')
        else if tp_ProviderProfile p \<noteq> ProfileGenericPCSecureBoot then
          Inl (ErrUnsupportedProfile (tp_ProviderProfile p))
        else (case tp_PCRPolicy p of
            None \<Rightarrow> Inl (ErrAttestationPolicy ''PCR policy is required for secureboot'')
          | Some pp \<Rightarrow>
              bindE (PCRPolicy_Validate pp) (\<lambda>_.
              if \<not> PCRSelection_contains (pp_Selection pp) 7 then
                Inl (ErrAttestationPolicy ''generic secureboot profile requires PCR 7'')
              else Inr ()))
      else Inr ())"

text \<open>\<open>verifySecureBootPolicy\<close> dereferences the PCR policy; \<^verbatim>\<open>Validate\<close> has rejected a nil one.\<close>

definition verifySecureBootPolicy :: "QuoteClaims \<Rightarrow> PCRPolicy \<Rightarrow> error + unit" where
  "verifySecureBootPolicy claims pp =
     (if pp_ExpectedDigest pp \<noteq> qc_PCRDigest claims then
        Inl (ErrAttestationPolicy ''secureboot PCR policy mismatch'')
      else if \<not> sameSelection (pp_Selection pp) (qc_PCRSelection claims) then
        Inl (ErrAttestationPolicy ''secureboot PCR selection mismatch'')
      else Inr ())"

definition EvaluatePolicy :: "tpm_lib \<Rightarrow> TpmEvidence \<Rightarrow> bytes \<Rightarrow> TpmPolicy \<Rightarrow> error + TpmClaims" where
  "EvaluatePolicy L e expectedNonce p =
     bindE (TpmPolicy_Validate p) (\<lambda>_.
     bindE (VerifyQuote L e expectedNonce) (\<lambda>qc.
     if tp_EnrolledAKPublicHash p \<noteq> [] \<and> tp_EnrolledAKPublicHash p \<noteq> qc_AKPublicHash qc then
       Inl (ErrAttestationPolicy ''AK public hash mismatch'')
     else
       (let claims = \<lparr>tc_SubjectFingerprint = qc_AKPublicHash qc, tc_AKPublicHash = qc_AKPublicHash qc,
            tc_PCRSelection = qc_PCRSelection qc, tc_PCRDigest = qc_PCRDigest qc,
            tc_SecureBoot = False, tc_Fresh = True, tc_PolicyMode = tp_Mode p,
            tc_ProviderProfile = tp_ProviderProfile p\<rparr> in
        if tp_Mode p = PolicyModeTPMOnly then Inr claims
        else if tp_Mode p = PolicyModeSecureBoot then
          (case tp_PCRPolicy p of
             None \<Rightarrow> Inl (OtherErr ''panic: nil pointer dereference'')
           | Some pp \<Rightarrow>
               bindE (verifySecureBootPolicy qc pp) (\<lambda>_. Inr (claims\<lparr>tc_SecureBoot := True\<rparr>)))
        else if tp_Mode p = PolicyModeMeasured then
          Inl (ErrAttestationPolicy ''measured mode requires policy-update flow'')
        else Inl (ErrAttestationPolicy ''unsupported policy mode''))))"

section \<open>Selections\<close>

lemma pcrs_check_eq_Inr:
  "sorted ps \<Longrightarrow> pcrs_check prev ps = Inr u \<longleftrightarrow>
     (\<forall>p \<in> set ps. 0 \<le> p \<and> p \<le> 23) \<and> distinct ps \<and> (ps \<noteq> [] \<longrightarrow> prev \<noteq> Some (hd ps))"
proof (induction prev ps rule: pcrs_check.induct)
  case (2 prev p ps)
  then have ps: "sorted ps" and le: "\<forall>q \<in> set ps. p \<le> q" by simp_all
  have "(ps \<noteq> [] \<longrightarrow> Some p \<noteq> Some (hd ps)) \<and> distinct ps \<longleftrightarrow> p \<notin> set ps \<and> distinct ps"
    using ps le by (cases ps) auto
  then show ?case using 2(1)[OF _ _ ps] by auto
qed simp

lemma hash_names:
  "h \<in> {HashSHA1, HashSHA256, HashSHA384, HashSHA512} \<Longrightarrow> ToLower h = h \<and> TrimSpace h = h \<and> h \<noteq> []"
  by (auto simp: HashSHA1_def HashSHA256_def HashSHA384_def HashSHA512_def ToLower_def lower_char_def
      TrimSpace_graphic graphic_def)

lemma ToLower_ToLower [simp]: "ToLower (ToLower s) = ToLower s"
proof -
  have "lower_char (lower_char c) = lower_char c" for c
    by (simp add: lower_char_def Let_def)
  then show ?thesis by (simp add: ToLower_def)
qed

lemma PCRSelection_Normalize_eq_Inr:
  "PCRSelection_Normalize s = Inr t \<longleftrightarrow>
     (let h = ToLower (TrimSpace (sel_Hash s)) in
        sel_Hash t = (if h = [] then HashSHA256 else h)) \<and>
     sel_Hash t \<in> {HashSHA1, HashSHA256, HashSHA384, HashSHA512} \<and>
     sel_PCRs t = sort (sel_PCRs s) \<and> sel_PCRs s \<noteq> [] \<and> distinct (sel_PCRs s) \<and>
     (\<forall>p \<in> set (sel_PCRs s). 0 \<le> p \<and> p \<le> 23)"
proof -
  let ?h = "ToLower (TrimSpace (sel_Hash s))"
  let ?n = "if ?h = [] then HashSHA256 else ?h"
  have low: "ToLower ?n = ?n" using hash_names [of HashSHA256] by simp
  show ?thesis
    unfolding PCRSelection_Normalize_def Let_def validateHashName_def low
    by (cases t) (auto simp: pcrs_check_eq_Inr)
qed

lemma PCRSelection_Normalize_idem:
  assumes "PCRSelection_Normalize s = Inr t"
  shows "PCRSelection_Normalize t = Inr t"
proof -
  from assms have h: "sel_Hash t \<in> {HashSHA1, HashSHA256, HashSHA384, HashSHA512}"
    and t: "sel_PCRs t = sort (sel_PCRs s)" "sel_PCRs s \<noteq> []" "distinct (sel_PCRs s)"
      "\<forall>p \<in> set (sel_PCRs s). 0 \<le> p \<and> p \<le> 23"
    by (auto simp: PCRSelection_Normalize_eq_Inr)
  from t have "sort (sel_PCRs t) = sel_PCRs t" by (simp add: sorted_sort_id)
  moreover from t have "sel_PCRs t \<noteq> []" by (metis set_empty set_sort)
  ultimately show ?thesis
    using hash_names [OF h] h t by (simp add: PCRSelection_Normalize_eq_Inr Let_def)
qed

lemma sameSelection_eq [simp]: "sameSelection l r \<longleftrightarrow> l = r"
  by (cases l; cases r) (auto simp: sameSelection_def list.rel_eq)

section \<open>Digest texts\<close>

lemma split_first_append: "c \<notin> set a \<Longrightarrow> split_first c (a @ c # b) = Some (a, b)"
  by (induction a) auto

lemma hash_name_no_colon:
  "h \<in> {HashSHA1, HashSHA256, HashSHA384, HashSHA512} \<Longrightarrow> CHR '':'' \<notin> set h"
  by (auto simp: HashSHA1_def HashSHA256_def HashSHA384_def HashSHA512_def)

lemma parse_digestString:
  assumes "h \<in> {HashSHA1, HashSHA256, HashSHA384, HashSHA512}"
  shows "parseDigestString (digestString h d) = Inr (h, d)"
  using assms hash_names [OF assms] hash_name_no_colon [OF assms]
  by (simp add: parseDigestString_def digestString_def split_first_append validateHashName_def)

section \<open>Quotes\<close>

lemma pcr_concat_eq_Inr:
  "pcr_concat n values pcrs = Inr msg \<longleftrightarrow>
     (\<forall>p \<in> set pcrs. \<exists>v. values p = Some v \<and> length v = n) \<and>
     msg = concat (map (\<lambda>p. the (values p)) pcrs)"
  by (induction n "values" pcrs arbitrary: msg rule: pcr_concat.induct) (auto split: option.splits)

lemma hashDigestSize_known:
  "h \<in> {HashSHA1, HashSHA256, HashSHA384, HashSHA512} \<Longrightarrow> \<exists>n. hashDigestSize h = Some n"
  using hash_names [of h] by (auto simp: hashDigestSize_def)

lemma ComputePCRDigest_normal:
  assumes "PCRSelection_Normalize s = Inr t"
  shows "ComputePCRDigest H t values = ComputePCRDigest H s values"
  using assms PCRSelection_Normalize_idem [OF assms] by (simp add: ComputePCRDigest_def)

lemma verifyAttestedPCRs_eq_Inr:
  "verifyAttestedPCRs L e att = Inr (sel, digest) \<longleftrightarrow>
     PCRSelection_Normalize (att_PCRSelection att) = Inr sel \<and>
     PCRSelection_Normalize (te_PCRSelection e) = Inr sel \<and> att_PCRDigest att = digest \<and>
     (\<exists>values. DecodePCRValues (te_PCRValues e) = Inr values \<and>
        ComputePCRDigest (lib_hash L) sel values = Inr digest)"
  by (auto simp: verifyAttestedPCRs_def)

text \<open>The signature of the attestation key covers the quote.\<close>

definition ak_signed :: "tpm_lib \<Rightarrow> TpmEvidence \<Rightarrow> bool" where
  "ak_signed L e \<longleftrightarrow> (\<exists>key signature. lib_DecodePublic L (te_AKPublic e) \<and>
     lib_Key L (te_AKPublic e) = Some key \<and> lib_DecodeSignature L (te_Signature e) = Some signature \<and>
     verifySignature L key signature (te_Quote e) = Inr ())"

lemma verifyAKSignature_eq_Inr:
  "verifyAKSignature L e = Inr h \<longleftrightarrow> ak_signed L e \<and> h = PublicDigest L (te_AKPublic e)"
  by (auto simp: verifyAKSignature_def ak_signed_def split: option.splits)

lemma verifyAttestation_eq_Inr:
  "verifyAttestation L e n = Inr att \<longleftrightarrow>
     lib_DecodeAttestationData L (te_Quote e) = Some att \<and> att_is_quote att \<and> att_ExtraData att = n"
  by (auto simp: verifyAttestation_def split: option.splits)

lemma verifyNonceHash_eq_Inr [simp]:
  "verifyNonceHash L e n = Inr u \<longleftrightarrow> n \<noteq> [] \<and> te_NonceHash e = NonceDigest L n"
  by (simp add: verifyNonceHash_def)

lemma VerifyQuote_eq_Inr:
  "VerifyQuote L e n = Inr qc \<longleftrightarrow>
     TpmEvidence_Validate e = Inr () \<and> n \<noteq> [] \<and> te_NonceHash e = NonceDigest L n \<and> ak_signed L e \<and>
     (\<exists>att sel digest. lib_DecodeAttestationData L (te_Quote e) = Some att \<and> att_is_quote att \<and>
        att_ExtraData att = n \<and> verifyAttestedPCRs L e att = Inr (sel, digest) \<and>
        qc = \<lparr>qc_AKPublicHash = PublicDigest L (te_AKPublic e), qc_PCRSelection = sel,
              qc_PCRDigest = digestString (sel_Hash sel) digest, qc_NonceHash = te_NonceHash e\<rparr>)"
  by (auto simp: VerifyQuote_def verifyAKSignature_eq_Inr verifyAttestation_eq_Inr)

lemma TpmPolicy_Validate_secureboot:
  assumes "TpmPolicy_Validate p = Inr ()" and "TrimSpace (tp_Mode p) = PolicyModeSecureBoot"
  obtains pp where "tp_PCRPolicy p = Some pp" and "PCRPolicy_Validate pp = Inr ()"
    and "7 \<in> set (sel_PCRs (pp_Selection pp))"
  using assms unfolding TpmPolicy_Validate_def Let_def PCRSelection_contains_def
  by (auto split: if_splits option.splits)

lemma TrimSpace_modes [simp]:
  "TrimSpace PolicyModeSecureBoot = PolicyModeSecureBoot" "TrimSpace PolicyModeTPMOnly = PolicyModeTPMOnly"
  by (simp_all add: TrimSpace_graphic graphic_def PolicyModeSecureBoot_def PolicyModeTPMOnly_def)

lemma modes_differ [simp]:
  "PolicyModeTPMOnly \<noteq> PolicyModeSecureBoot" "PolicyModeSecureBoot \<noteq> PolicyModeTPMOnly"
  by (simp_all add: PolicyModeSecureBoot_def PolicyModeTPMOnly_def)

lemma EvaluatePolicy_eq_Inr:
  "EvaluatePolicy L e n p = Inr c \<longleftrightarrow>
     TpmPolicy_Validate p = Inr () \<and>
     (\<exists>qc. VerifyQuote L e n = Inr qc \<and>
        (tp_EnrolledAKPublicHash p = [] \<or> tp_EnrolledAKPublicHash p = qc_AKPublicHash qc) \<and>
        (tp_Mode p = PolicyModeTPMOnly \<or>
         tp_Mode p = PolicyModeSecureBoot \<and> (\<exists>pp. tp_PCRPolicy p = Some pp \<and>
           pp_ExpectedDigest pp = qc_PCRDigest qc \<and> pp_Selection pp = qc_PCRSelection qc)) \<and>
        c = \<lparr>tc_SubjectFingerprint = qc_AKPublicHash qc, tc_AKPublicHash = qc_AKPublicHash qc,
             tc_PCRSelection = qc_PCRSelection qc, tc_PCRDigest = qc_PCRDigest qc,
             tc_SecureBoot = (tp_Mode p = PolicyModeSecureBoot), tc_Fresh = True,
             tc_PolicyMode = tp_Mode p, tc_ProviderProfile = tp_ProviderProfile p\<rparr>)"
proof (cases "TpmPolicy_Validate p")
  case (Inr u)
  then show ?thesis
  proof (cases "VerifyQuote L e n")
    case (Inr qc)
    with \<open>TpmPolicy_Validate p = Inr u\<close> show ?thesis
      by (cases "tp_PCRPolicy p"; cases "tp_Mode p = PolicyModeTPMOnly"; cases "tp_Mode p = PolicyModeSecureBoot")
        (auto simp: EvaluatePolicy_def Let_def verifySecureBootPolicy_def)
  qed (simp add: EvaluatePolicy_def)
qed (simp add: EvaluatePolicy_def)

section \<open>A concrete platform\<close>

text \<open>
  A library whose hashes are zero strings of the right size and whose keys accept every
  signature, and the evidence of a machine that quotes PCR 7; the witnesses are evaluated on it.
\<close>

definition demo_att :: attestation_data where
  "demo_att = \<lparr>att_is_quote = True, att_ExtraData = [1],
     att_PCRSelection = \<lparr>sel_Hash = ''sha256'', sel_PCRs = [7]\<rparr>, att_PCRDigest = replicate 32 0\<rparr>"

definition demo_lib :: tpm_lib where
  "demo_lib = \<lparr>
     lib_hash = (\<lambda>h _. replicate (case hashDigestSize h of Some n \<Rightarrow> n | None \<Rightarrow> 0) 0),
     lib_alg_hash = (\<lambda>_. Some (\<lambda>m. m)),
     lib_DecodePublic = (\<lambda>_. True),
     lib_Key = (\<lambda>k. Some (ECDSAPublic k)),
     lib_DecodeSignature = (\<lambda>_. Some (SigECDSA (Some (0, 0, 0)))),
     lib_DecodeAttestationData = (\<lambda>_. Some demo_att),
     lib_VerifyPSS = (\<lambda>_ _ _ _. False),
     lib_VerifyPKCS1v15 = (\<lambda>_ _ _ _. False),
     lib_ecdsa_Verify = (\<lambda>_ _ _ _. True)\<rparr>"

definition demo_evidence :: TpmEvidence where
  "demo_evidence = \<lparr>te_SchemaVersion = 1, te_ChallengeID = ''c'',
     te_NonceHash = ''sha256:'' @ hex_encode (replicate 32 0),
     te_AKPublic = [1], te_Quote = [2], te_Signature = [3],
     te_PCRSelection = \<lparr>sel_Hash = ''SHA256'', sel_PCRs = [7]\<rparr>,
     te_PCRValues = [(''7'', hex_encode (replicate 32 9))],
     te_EKPublicHash = [], te_PlatformHint = [], te_CollectedBy = [], te_CollectedAtUTC = []\<rparr>"

definition demo_claims :: QuoteClaims where
  "demo_claims = \<lparr>qc_AKPublicHash = ''sha256:'' @ hex_encode (replicate 32 0),
     qc_PCRSelection = \<lparr>sel_Hash = ''sha256'', sel_PCRs = [7]\<rparr>,
     qc_PCRDigest = ''sha256:'' @ hex_encode (replicate 32 0),
     qc_NonceHash = ''sha256:'' @ hex_encode (replicate 32 0)\<rparr>"

definition demo_pcr_policy :: PCRPolicy where
  "demo_pcr_policy = \<lparr>pp_Selection = \<lparr>sel_Hash = ''sha256'', sel_PCRs = [7]\<rparr>,
     pp_ExpectedDigest = ''sha256:'' @ hex_encode (replicate 32 0),
     pp_CapturedValues = [(''7'', hex_encode (replicate 32 9))], pp_Profile = ''lab''\<rparr>"

lemma eq_char_of_iff: "c = char_of (n :: nat) \<longleftrightarrow> of_char c = take_bit 8 n"
  using char_of_eq_iff [of n c] by auto

lemma demo_selection:
  "PCRSelection_Normalize \<lparr>sel_Hash = ''SHA256'', sel_PCRs = [7]\<rparr> = Inr \<lparr>sel_Hash = ''sha256'', sel_PCRs = [7]\<rparr>"
  "PCRSelection_Normalize \<lparr>sel_Hash = ''sha256'', sel_PCRs = [7]\<rparr> = Inr \<lparr>sel_Hash = ''sha256'', sel_PCRs = [7]\<rparr>"
  by (simp_all add: PCRSelection_Normalize_eq_Inr TrimSpace_graphic graphic_def ToLower_def lower_char_def
      HashSHA256_def char_of_eq_iff eq_char_of_iff)

lemma demo_values: "DecodePCRValues [(''7'', hex_encode (replicate 32 9))] = Inr [7 \<mapsto> replicate 32 9]"
proof -
  have "\<not> HasPrefix (hex_encode (replicate 32 9)) ''0x''"
  proof -
    have "replicate 32 (9 :: byte) = 9 # replicate 31 9" by (simp flip: replicate_Suc)
    then show ?thesis by (simp add: HasPrefix_def hex_digit_def char_of_eq_iff)
  qed
  moreover have "Atoi ''7'' = Some 7"
    by (simp add: Atoi_def ParseUint_def is_digit_def dec_val_def digit_val_def)
  ultimately show ?thesis by (simp add: DecodePCRValues_def TrimPrefix_def)
qed

lemma demo_hash: "hashDigestSize h = Some n \<Longrightarrow> length (lib_hash demo_lib h m) = n"
  "lib_hash demo_lib ''sha256'' m = replicate 32 0"
  by (simp_all add: demo_lib_def hashDigestSize_def ToLower_def lower_char_def HashSHA1_def HashSHA256_def)

lemma demo_digest:
  "ComputePCRDigest (lib_hash demo_lib) \<lparr>sel_Hash = ''sha256'', sel_PCRs = [7]\<rparr> [7 \<mapsto> replicate 32 9] =
   Inr (replicate 32 0)"
  by (simp add: ComputePCRDigest_def demo_selection demo_hash hashDigestSize_def ToLower_def
      lower_char_def HashSHA1_def HashSHA256_def)

lemma demo_digest_text: "digestString ''sha256'' d = ''sha256:'' @ hex_encode d"
  by (simp add: digestString_def ToLower_def lower_char_def)

lemma demo_quote: "VerifyQuote demo_lib demo_evidence [1] = Inr demo_claims"
proof -
  have "parseDigestString (''sha256:'' @ hex_encode (replicate 32 0)) = Inr (''sha256'', replicate 32 0)"
    using parse_digestString [of HashSHA256 "replicate 32 0"] demo_digest_text by (simp add: HashSHA256_def)
  then have "TpmEvidence_Validate demo_evidence = Inr ()"
    by (simp add: TpmEvidence_Validate_def demo_evidence_def EvidenceSchemaVersion_def demo_selection
        demo_values TrimSpace_graphic graphic_def del: append.simps)
  moreover have "ak_signed demo_lib demo_evidence"
    by (simp add: ak_signed_def demo_lib_def verifySignature_def verifyECDSASignature_def)
  moreover have "verifyAttestedPCRs demo_lib demo_evidence demo_att =
      Inr (\<lparr>sel_Hash = ''sha256'', sel_PCRs = [7]\<rparr>, replicate 32 0)"
    by (simp add: verifyAttestedPCRs_eq_Inr demo_evidence_def demo_att_def demo_selection demo_values demo_digest)
  moreover have "lib_DecodeAttestationData demo_lib q = Some demo_att" for q by (simp add: demo_lib_def)
  moreover have "te_NonceHash demo_evidence = NonceDigest demo_lib [1]"
    and "PublicDigest demo_lib k = ''sha256:'' @ hex_encode (replicate 32 0)" for k
    by (simp_all add: demo_evidence_def NonceDigest_def PublicDigest_def demo_hash HashSHA256_def)
  moreover have "att_is_quote demo_att" and "att_ExtraData demo_att = [1]" by (simp_all add: demo_att_def)
  ultimately show ?thesis
    unfolding VerifyQuote_eq_Inr
    by (simp add: demo_claims_def demo_digest_text del: append.simps)
      (simp add: NonceDigest_def demo_hash HashSHA256_def)
qed

lemma demo_capture:
  "NewPCRPolicy (lib_hash demo_lib) \<lparr>sel_Hash = ''sha256'', sel_PCRs = [7]\<rparr> [(7, replicate 32 9)] ''lab'' =
   Inr demo_pcr_policy"
  by (simp add: NewPCRPolicy_def demo_digest demo_selection demo_pcr_policy_def demo_digest_text
      EncodePCRValues_def Itoa_def format_uint.simps digit_char_def char_of_eq_iff)

section \<open>Properties\<close>

text \<open>
  C21.  Accepting a TPM policy means what it says: an accepted quote is signed by the key in the
  evidence, carries the expected non-empty nonce, and its signed PCR digest is the hash of the
  reported values of exactly the quoted PCRs in ascending order; the key is the enrolled one when
  one is enrolled; the mode is tpm-only or secureboot, and in secureboot mode the quoted
  selection contains PCR 7 and its signed digest is the one of the policy.
\<close>

theorem accepted_policy_sound:
  assumes "EvaluatePolicy L e nonce p = Inr claims"
  shows "ak_signed L e \<and> nonce \<noteq> [] \<and>
    (tp_EnrolledAKPublicHash p \<noteq> [] \<longrightarrow>
       tp_EnrolledAKPublicHash p = ''sha256:'' @ hex_encode (lib_hash L HashSHA256 (te_AKPublic e))) \<and>
    (\<exists>att values. lib_DecodeAttestationData L (te_Quote e) = Some att \<and> att_is_quote att \<and>
       att_ExtraData att = nonce \<and> DecodePCRValues (te_PCRValues e) = Inr values \<and>
       att_PCRDigest att = lib_hash L (sel_Hash (tc_PCRSelection claims))
         (concat (map (\<lambda>pcr. the (values pcr)) (sort (sel_PCRs (te_PCRSelection e))))) \<and>
       set (sel_PCRs (te_PCRSelection e)) \<subseteq> dom values \<and>
       (tp_Mode p = PolicyModeTPMOnly \<and> \<not> tc_SecureBoot claims \<or>
        tp_Mode p = PolicyModeSecureBoot \<and> tc_SecureBoot claims \<and> 7 \<in> set (sel_PCRs (te_PCRSelection e)) \<and>
        (\<exists>pp. tp_PCRPolicy p = Some pp \<and>
           pp_ExpectedDigest pp = digestString (sel_Hash (pp_Selection pp)) (att_PCRDigest att))))"
proof -
  from assms obtain qc where val: "TpmPolicy_Validate p = Inr ()" and qc: "VerifyQuote L e nonce = Inr qc"
    and ak: "tp_EnrolledAKPublicHash p = [] \<or> tp_EnrolledAKPublicHash p = qc_AKPublicHash qc"
    and mode: "tp_Mode p = PolicyModeTPMOnly \<or>
      tp_Mode p = PolicyModeSecureBoot \<and> (\<exists>pp. tp_PCRPolicy p = Some pp \<and>
        pp_ExpectedDigest pp = qc_PCRDigest qc \<and> pp_Selection pp = qc_PCRSelection qc)"
    and claims: "tc_SecureBoot claims = (tp_Mode p = PolicyModeSecureBoot)"
      "tc_PCRSelection claims = qc_PCRSelection qc"
    unfolding EvaluatePolicy_eq_Inr by auto
  from qc obtain att sel digest where att: "lib_DecodeAttestationData L (te_Quote e) = Some att"
      "att_is_quote att" "att_ExtraData att = nonce" "verifyAttestedPCRs L e att = Inr (sel, digest)"
    and signed: "ak_signed L e" "nonce \<noteq> []"
    and fields: "qc_AKPublicHash qc = PublicDigest L (te_AKPublic e)" "qc_PCRSelection qc = sel"
      "qc_PCRDigest qc = digestString (sel_Hash sel) digest"
    unfolding VerifyQuote_eq_Inr by auto
  from att(4) obtain "values" where norm: "PCRSelection_Normalize (te_PCRSelection e) = Inr sel"
      and "values": "DecodePCRValues (te_PCRValues e) = Inr values" "att_PCRDigest att = digest"
        "ComputePCRDigest (lib_hash L) sel values = Inr digest"
    unfolding verifyAttestedPCRs_eq_Inr by auto
  have sorted: "sel_PCRs sel = sort (sel_PCRs (te_PCRSelection e))"
    using norm by (simp add: PCRSelection_Normalize_eq_Inr)
  have comp: "digest = lib_hash L (sel_Hash sel) (concat (map (\<lambda>pcr. the (values pcr)) (sel_PCRs sel)))"
      "set (sel_PCRs sel) \<subseteq> dom values"
    using "values"(3) PCRSelection_Normalize_idem [OF norm]
    by (auto simp: ComputePCRDigest_def pcr_concat_eq_Inr split: option.splits)
  have pcr7: "7 \<in> set (sel_PCRs sel)" if "tp_Mode p = PolicyModeSecureBoot"
    using that mode fields(2) TpmPolicy_Validate_secureboot [OF val] by fastforce
  show ?thesis
    using signed ak mode claims att(1,2,3) "values"(1,2) comp sorted pcr7
    unfolding fields PublicDigest_def by (auto intro!: exI [of _ att])
qed

lemma demo_policy_accepts:
  "EvaluatePolicy demo_lib demo_evidence [1]
     \<lparr>tp_Mode = PolicyModeTPMOnly, tp_EnrolledAKPublicHash = [], tp_PCRPolicy = None, tp_ProviderProfile = []\<rparr> =
   Inr \<lparr>tc_SubjectFingerprint = qc_AKPublicHash demo_claims, tc_AKPublicHash = qc_AKPublicHash demo_claims,
        tc_PCRSelection = qc_PCRSelection demo_claims, tc_PCRDigest = qc_PCRDigest demo_claims,
        tc_SecureBoot = False, tc_Fresh = True, tc_PolicyMode = PolicyModeTPMOnly, tc_ProviderProfile = []\<rparr>"
  by (simp add: EvaluatePolicy_eq_Inr demo_quote TpmPolicy_Validate_def Let_def)

theorem accepted_policy_sound_witness:
  "\<exists>claims. EvaluatePolicy demo_lib demo_evidence [1]
     \<lparr>tp_Mode = PolicyModeTPMOnly, tp_EnrolledAKPublicHash = [], tp_PCRPolicy = None, tp_ProviderProfile = []\<rparr> = Inr claims \<and>
   ak_signed demo_lib demo_evidence \<and> \<not> tc_SecureBoot claims"
  using accepted_policy_sound [OF demo_policy_accepts] demo_policy_accepts by auto

text \<open>
  A policy captured from a machine admits that machine: \<^verbatim>\<open>NewPCRPolicy\<close> of a selection
  with PCR 7, used as a secureboot policy for the enrolled key, passes \<^verbatim>\<open>Validate\<close> and accepts every
  verified quote of the same selection over the same PCR digest.
\<close>

theorem captured_policy_accepts:
  assumes "NewPCRPolicy (lib_hash L) s values profile = Inr pp" and "7 \<in> set (sel_PCRs s)"
    and hash_size: "\<And>h m n. hashDigestSize h = Some n \<Longrightarrow> length (lib_hash L h m) = n"
    and "p = \<lparr>tp_Mode = PolicyModeSecureBoot, tp_EnrolledAKPublicHash = PublicDigest L (te_AKPublic e),
              tp_PCRPolicy = Some pp, tp_ProviderProfile = ProfileGenericPCSecureBoot\<rparr>"
    and "VerifyQuote L e nonce = Inr qc" and "qc_PCRSelection qc = pp_Selection pp"
    and "qc_PCRDigest qc = pp_ExpectedDigest pp"
  shows "TpmPolicy_Validate p = Inr () \<and> (\<exists>claims. EvaluatePolicy L e nonce p = Inr claims \<and> tc_SecureBoot claims)"
proof -
  from assms(1) obtain digest t where t: "PCRSelection_Normalize s = Inr t"
      "ComputePCRDigest (lib_hash L) s (map_of values) = Inr digest"
      "pp_Selection pp = t" "pp_ExpectedDigest pp = digestString (sel_Hash t) digest"
    unfolding NewPCRPolicy_def by auto
  have h: "sel_Hash t \<in> {HashSHA1, HashSHA256, HashSHA384, HashSHA512}"
    using t(1) by (auto simp: PCRSelection_Normalize_eq_Inr)
  obtain n where n: "hashDigestSize (sel_Hash t) = Some n" using hashDigestSize_known [OF h] by blast
  have "length digest = n"
    using t(1,2) n hash_size by (auto simp: ComputePCRDigest_def)
  then have "PCRPolicy_Validate pp = Inr ()"
    using PCRSelection_Normalize_idem [OF t(1)] n parse_digestString [OF h] by (simp add: PCRPolicy_Validate_def t(3,4))
  moreover have "ak_hash_ok (PublicDigest L (te_AKPublic e))"
  proof -
    have "PublicDigest L (te_AKPublic e) = digestString HashSHA256 (lib_hash L HashSHA256 (te_AKPublic e))"
      by (simp add: PublicDigest_def digestString_def HashSHA256_def ToLower_def lower_char_def)
    moreover have "hashDigestSize HashSHA256 = Some 32"
      by (simp add: hashDigestSize_def HashSHA1_def HashSHA256_def ToLower_def lower_char_def)
    ultimately show ?thesis
      using hash_size by (simp add: ak_hash_ok_def parse_digestString)
  qed
  moreover have "7 \<in> set (sel_PCRs (pp_Selection pp))"
    using assms(2) t(1,3) by (simp add: PCRSelection_Normalize_eq_Inr)
  moreover have "ProfileGenericPCSecureBoot \<noteq> []" by (simp add: ProfileGenericPCSecureBoot_def)
  ultimately have val: "TpmPolicy_Validate p = Inr ()"
    by (simp add: TpmPolicy_Validate_def assms(4) Let_def PCRSelection_contains_def)
  moreover have "qc_AKPublicHash qc = PublicDigest L (te_AKPublic e)"
    using assms(5) unfolding VerifyQuote_eq_Inr by auto
  ultimately show ?thesis
    using assms(4,5,6,7) by (simp add: EvaluatePolicy_eq_Inr)
qed

theorem captured_policy_accepts_witness:
  "\<exists>claims. EvaluatePolicy demo_lib demo_evidence [1]
     \<lparr>tp_Mode = PolicyModeSecureBoot, tp_EnrolledAKPublicHash = PublicDigest demo_lib (te_AKPublic demo_evidence),
      tp_PCRPolicy = Some demo_pcr_policy, tp_ProviderProfile = ProfileGenericPCSecureBoot\<rparr> = Inr claims \<and>
   tc_SecureBoot claims"
  using captured_policy_accepts [OF demo_capture _ _ refl demo_quote] demo_hash(1)
  by (simp add: demo_claims_def demo_pcr_policy_def)


end
