(* ===== verification/Broker_Schema.thy ===== *)
theory Broker_Schema
  imports Key_Protection Tpm Go_Time
begin

text \<open>
  The SQLite schema of the broker (\<^verbatim>\<open>SchemaSQL\<close> in \<^verbatim>\<open>internal/broker/sqlite.go\<close>) and the way its
  statements run.  A table is the list of its rows in insertion order; the constraints of the
  schema are \<open>row_constraints\<close> (primary keys, unique indexes, checks) and \<open>foreign_keys\<close>.  A
  statement fails when the driver fails or when the table it leaves violates a constraint.

  A driver failure is chosen by the parameter \<open>F label i\<close>: the \<open>i\<close>-th execution of the statement
  that the code labels \<open>label\<close> in its error text fails.  A transaction keeps all of its statements
  or none.  Instants are stored in text columns as RFC 3339 and parsed back; a column holds the
  instant that its text denotes, except in the audit table, which is ordered by the text.
\<close>

section \<open>Enumerations\<close>

text \<open>\<^verbatim>\<open>protocolv1.Operation\<close> is a protobuf enumeration: an integer with names for the known values.\<close>

type_synonym Operation = int

definition OPERATION_UNSPECIFIED :: Operation where "OPERATION_UNSPECIFIED = 0"

definition OPERATION_WRAP :: Operation where "OPERATION_WRAP = 1"

definition OPERATION_UNWRAP :: Operation where "OPERATION_UNWRAP = 2"

definition OPERATION_ENROLL :: Operation where "OPERATION_ENROLL = 3"

definition OPERATION_ROTATE :: Operation where "OPERATION_ROTATE = 4"

definition OPERATION_RECOVER :: Operation where "OPERATION_RECOVER = 5"

definition Operation_String :: "Operation \<Rightarrow> string" where
  "Operation_String op =
     (if op = 0 then ''OPERATION_UNSPECIFIED'' else if op = 1 then ''OPERATION_WRAP''
      else if op = 2 then ''OPERATION_UNWRAP'' else if op = 3 then ''OPERATION_ENROLL''
      else if op = 4 then ''OPERATION_ROTATE'' else if op = 5 then ''OPERATION_RECOVER''
      else Itoa op)"

datatype RotationStatus =
    RotationStatusStarted
  | RotationStatusActivated
  | RotationStatusCancelled
  | RotationStatusOther string

section \<open>Tables\<close>

record cluster_row =
  cl_id :: string
  cl_recovery_package_id :: "string option"
  cl_created_at :: time

record keyring_row =
  kg_cluster :: string
  kg_key :: string
  kg_profile :: string
  kg_created_at :: time

record key_row =
  kw_key :: ProtectedKey
  kw_created_at :: time

record rotation_row =
  ro_id :: string
  ro_cluster :: string
  ro_key :: string
  ro_from :: u32
  ro_to :: u32
  ro_status :: RotationStatus
  ro_created_at :: time
  ro_updated_at :: time
  ro_activated_at :: "time option"

record verification_row =
  ve_operation :: string
  ve_name :: string
  ve_verified_at :: time
  ve_detail :: string

record subject_row =
  su_cluster :: string
  su_subject :: string
  su_revoked :: bool
  su_created_at :: time
  su_revoked_at :: "time option"

record policy_row =
  po_cluster :: string
  po_policy :: string
  po_body :: string
  po_created_at :: time

record challenge_row =
  ch_id :: string
  ch_nonce :: bytes
  ch_cluster :: string
  ch_subject :: string
  ch_operation :: string
  ch_expires_at :: time
  ch_consumed_at :: "time option"
  ch_created_at :: time

record recovery_row =
  rp_id :: string
  rp_cluster :: string
  rp_key :: string
  rp_threshold :: int
  rp_shares :: int
  rp_checksum :: string
  rp_body :: string
  rp_created_at :: time

record request_row =
  rq_id :: string
  rq_cluster :: string
  rq_subject :: string
  rq_body :: string
  rq_expires_at :: time
  rq_created_at :: time

record grant_row =
  gr_id :: string
  gr_request :: string
  gr_cluster :: string
  gr_subject :: string
  gr_body :: string
  gr_expires_at :: time
  gr_consumed_at :: "time option"
  gr_created_at :: time

record AuditEvent =
  ae_SchemaVersion :: u32
  ae_AuditID :: string
  ae_Time :: string
  ae_Subject :: string
  ae_Operation :: string
  ae_ClusterID :: string
  ae_KeyID :: string
  ae_KeyVersion :: u32
  ae_Decision :: string
  ae_PolicyID :: string
  ae_Reason :: string
  ae_EvidenceHash :: string
  ae_RemoteAddress :: string
  ae_ErrorCode :: string
  ae_Actor :: string
  ae_Target :: string
  ae_CorrelationID :: string
  ae_RequestID :: string

record node_evidence_row =
  nv_cluster :: string
  nv_node :: string
  nv_uid :: "string option"
  nv_provider :: string
  nv_hash :: string
  nv_collected_at :: time
  nv_expires_at :: time
  nv_updated_at :: time
  nv_revision :: "int option"

record enrollment_row =
  nr_cluster :: string
  nr_node :: string
  nr_uid :: string
  nr_provider :: string
  nr_policy :: TpmPolicy
  nr_revision :: int
  nr_enrolled_at :: time
  nr_updated_at :: time
  nr_revoked_at :: "time option"

record publisher_row =
  pb_cluster :: string
  pb_node :: string
  pb_certificate :: string
  pb_created_at :: time

record db =
  clusters :: "cluster_row list"
  keyrings :: "keyring_row list"
  key_versions :: "key_row list"
  rotation_operations :: "rotation_row list"
  rotation_verifications :: "verification_row list"
  subjects :: "subject_row list"
  policies :: "policy_row list"
  challenges :: "challenge_row list"
  recovery_packages :: "recovery_row list"
  enrollment_requests :: "request_row list"
  enrollment_grants :: "grant_row list"
  audit_events :: "AuditEvent list"
  node_evidence :: "node_evidence_row list"
  node_evidence_enrollments :: "enrollment_row list"
  node_evidence_publishers :: "publisher_row list"

definition empty_db :: db where
  "empty_db = \<lparr>clusters = [], keyrings = [], key_versions = [], rotation_operations = [],
     rotation_verifications = [], subjects = [], policies = [], challenges = [],
     recovery_packages = [], enrollment_requests = [], enrollment_grants = [], audit_events = [],
     node_evidence = [], node_evidence_enrollments = [], node_evidence_publishers = []\<rparr>"

section \<open>Constraints\<close>

definition kw_ref :: "key_row \<Rightarrow> KeyRef" where
  "kw_ref r = pk_Ref (kw_key r)"

definition kw_ring :: "key_row \<Rightarrow> string \<times> string" where
  "kw_ring r = (kr_ClusterID (kw_ref r), kr_KeyID (kw_ref r))"

definition kw_active :: "key_row \<Rightarrow> bool" where
  "kw_active r \<longleftrightarrow> pk_Status (kw_key r) = StatusActive"

definition ro_ring :: "rotation_row \<Rightarrow> string \<times> string" where
  "ro_ring r = (ro_cluster r, ro_key r)"

definition ro_started :: "rotation_row \<Rightarrow> bool" where
  "ro_started r \<longleftrightarrow> ro_status r = RotationStatusStarted"

definition ro_from_ref :: "rotation_row \<Rightarrow> KeyRef" where
  "ro_from_ref r = \<lparr>kr_ClusterID = ro_cluster r, kr_KeyID = ro_key r, kr_Version = ro_from r\<rparr>"

definition ro_to_ref :: "rotation_row \<Rightarrow> KeyRef" where
  "ro_to_ref r = \<lparr>kr_ClusterID = ro_cluster r, kr_KeyID = ro_key r, kr_Version = ro_to r\<rparr>"

text \<open>Primary keys, unique indexes and checks of each table.\<close>

definition keys_ok :: "key_row list \<Rightarrow> bool" where
  "keys_ok ks \<longleftrightarrow> distinct (map kw_ref ks) \<and> distinct (map kw_ring (filter kw_active ks)) \<and>
     list_all (\<lambda>r. kr_Version (kw_ref r) \<noteq> 0) ks"

definition rotations_ok :: "rotation_row list \<Rightarrow> bool" where
  "rotations_ok rs \<longleftrightarrow> distinct (map ro_id rs) \<and> distinct (map ro_ring (filter ro_started rs)) \<and>
     list_all (\<lambda>r. ro_from r \<noteq> 0 \<and> ro_to r \<noteq> 0) rs"

definition challenges_ok :: "challenge_row list \<Rightarrow> bool" where
  "challenges_ok cs \<longleftrightarrow> distinct (map ch_id cs) \<and> distinct (map ch_nonce cs)"

definition enrollments_ok :: "enrollment_row list \<Rightarrow> bool" where
  "enrollments_ok es \<longleftrightarrow> distinct (map (\<lambda>e. (nr_cluster e, nr_node e)) es) \<and>
     list_all (\<lambda>e. nr_revision e > 0) es"

definition row_constraints :: "db \<Rightarrow> bool" where
  "row_constraints d \<longleftrightarrow>
     distinct (map cl_id (clusters d)) \<and>
     distinct (map (\<lambda>r. (kg_cluster r, kg_key r)) (keyrings d)) \<and>
     keys_ok (key_versions d) \<and>
     rotations_ok (rotation_operations d) \<and>
     distinct (map (\<lambda>r. (ve_operation r, ve_name r)) (rotation_verifications d)) \<and>
     distinct (map (\<lambda>r. (su_cluster r, su_subject r)) (subjects d)) \<and>
     distinct (map (\<lambda>r. (po_cluster r, po_policy r)) (policies d)) \<and>
     challenges_ok (challenges d) \<and>
     distinct (map rp_id (recovery_packages d)) \<and>
     distinct (map rq_id (enrollment_requests d)) \<and>
     distinct (map gr_id (enrollment_grants d)) \<and>
     distinct (map ae_AuditID (audit_events d)) \<and>
     distinct (map (\<lambda>r. (nv_cluster r, nv_node r)) (node_evidence d)) \<and>
     enrollments_ok (node_evidence_enrollments d) \<and>
     distinct (map (\<lambda>r. (pb_cluster r, pb_node r, pb_certificate r)) (node_evidence_publishers d))"

definition refs :: "('a \<Rightarrow> 'k) \<Rightarrow> 'a list \<Rightarrow> ('b \<Rightarrow> 'k) \<Rightarrow> 'b list \<Rightarrow> bool" where
  "refs f xs g ys \<longleftrightarrow> list_all (\<lambda>x. list_ex (\<lambda>y. g y = f x) ys) xs"

definition foreign_keys :: "db \<Rightarrow> bool" where
  "foreign_keys d \<longleftrightarrow>
     refs kg_cluster (keyrings d) cl_id (clusters d) \<and>
     refs kw_ring (key_versions d) (\<lambda>r. (kg_cluster r, kg_key r)) (keyrings d) \<and>
     refs ro_ring (rotation_operations d) (\<lambda>r. (kg_cluster r, kg_key r)) (keyrings d) \<and>
     refs ro_from_ref (rotation_operations d) kw_ref (key_versions d) \<and>
     refs ro_to_ref (rotation_operations d) kw_ref (key_versions d) \<and>
     refs ve_operation (rotation_verifications d) ro_id (rotation_operations d) \<and>
     refs su_cluster (subjects d) cl_id (clusters d) \<and>
     refs po_cluster (policies d) cl_id (clusters d) \<and>
     refs ch_cluster (challenges d) cl_id (clusters d) \<and>
     refs (\<lambda>r. (rp_cluster r, rp_key r)) (recovery_packages d) (\<lambda>r. (kg_cluster r, kg_key r)) (keyrings d) \<and>
     refs rq_cluster (enrollment_requests d) cl_id (clusters d) \<and>
     refs gr_request (enrollment_grants d) rq_id (enrollment_requests d) \<and>
     refs gr_cluster (enrollment_grants d) cl_id (clusters d) \<and>
     refs nv_cluster (node_evidence d) cl_id (clusters d) \<and>
     refs nr_cluster (node_evidence_enrollments d) cl_id (clusters d) \<and>
     refs (\<lambda>r. (pb_cluster r, pb_node r)) (node_evidence_publishers d)
       (\<lambda>r. (nr_cluster r, nr_node r)) (node_evidence_enrollments d)"

definition schema_ok :: "db \<Rightarrow> bool" where
  "schema_ok d \<longleftrightarrow> row_constraints d \<and> foreign_keys d"

section \<open>Statements and transactions\<close>

type_synonym faults = "string \<Rightarrow> nat \<Rightarrow> bool"

text \<open>A statement inside a transaction, or a call on it, gives an error or a result and the new state.\<close>

type_synonym 'a tx = "db \<Rightarrow> error + 'a \<times> db"

definition stmt :: "faults \<Rightarrow> string \<Rightarrow> nat \<Rightarrow> (db \<Rightarrow> db) \<Rightarrow> unit tx" where
  "stmt F label i f d =
     (if F label i \<or> \<not> schema_ok (f d) then Inl (DbErr label) else Inr ((), f d))"

text \<open>\<^verbatim>\<open>INSERT OR IGNORE\<close> skips a row that violates a row constraint; foreign keys still fail.\<close>

definition stmt_ignore :: "faults \<Rightarrow> string \<Rightarrow> nat \<Rightarrow> (db \<Rightarrow> db) \<Rightarrow> unit tx" where
  "stmt_ignore F label i f d =
     (if F label i then Inl (DbErr label)
      else if \<not> row_constraints (f d) then Inr ((), d)
      else if \<not> foreign_keys (f d) then Inl (DbErr label)
      else Inr ((), f d))"

definition query :: "faults \<Rightarrow> string \<Rightarrow> nat \<Rightarrow> (db \<Rightarrow> 'a) \<Rightarrow> 'a tx" where
  "query F label i q d = (if F label i then Inl (DbErr label) else Inr (q d, d))"

definition tx_return :: "'a \<Rightarrow> 'a tx" where
  "tx_return x d = Inr (x, d)"

definition tx_fail :: "error \<Rightarrow> 'a tx" where
  "tx_fail e d = Inl e"

definition tx_bind :: "'a tx \<Rightarrow> ('a \<Rightarrow> 'b tx) \<Rightarrow> 'b tx" where
  "tx_bind m f d = bindE (m d) (\<lambda>(x, d'). f x d')"

definition tx_lift :: "error + 'a \<Rightarrow> 'a tx" where
  "tx_lift r d = bindE r (\<lambda>x. Inr (x, d))"

fun tx_each :: "(nat \<Rightarrow> 'a \<Rightarrow> unit tx) \<Rightarrow> nat \<Rightarrow> 'a list \<Rightarrow> unit tx" where
  "tx_each f i [] = tx_return ()"
| "tx_each f i (x # xs) = tx_bind (f i x) (\<lambda>_. tx_each f (i + 1) xs)"

text \<open>\<^verbatim>\<open>BeginTx\<close>, the body, \<^verbatim>\<open>Commit\<close>; the deferred rollback restores the state on every error.\<close>

definition with_tx :: "faults \<Rightarrow> string \<Rightarrow> string \<Rightarrow> 'a tx \<Rightarrow> db \<Rightarrow> (error + 'a) \<times> db" where
  "with_tx F begin_label commit_label body d =
     (if F begin_label 0 then (Inl (DbErr begin_label), d)
      else case body d of
        Inl e \<Rightarrow> (Inl e, d)
      | Inr (x, d') \<Rightarrow>
          if F commit_label 0 then (Inl (DbErr commit_label), d) else (Inr x, d'))"

text \<open>The same for a method with several commits; the body names the one it reached.\<close>

definition with_tx_commits :: "faults \<Rightarrow> string \<Rightarrow> ('a \<times> string) tx \<Rightarrow> db \<Rightarrow> (error + 'a) \<times> db" where
  "with_tx_commits F begin_label body d =
     (if F begin_label 0 then (Inl (DbErr begin_label), d)
      else case body d of
        Inl e \<Rightarrow> (Inl e, d)
      | Inr ((x, commit_label), d') \<Rightarrow>
          if F commit_label 0 then (Inl (DbErr commit_label), d) else (Inr x, d'))"

text \<open>A statement outside a transaction commits by itself.\<close>

definition auto_commit :: "'a tx \<Rightarrow> db \<Rightarrow> (error + 'a) \<times> db" where
  "auto_commit m d = (case m d of Inl e \<Rightarrow> (Inl e, d) | Inr (x, d') \<Rightarrow> (Inr x, d'))"

text \<open>An \<^verbatim>\<open>UPDATE\<close> whose \<^verbatim>\<open>RowsAffected\<close> the code reads.\<close>

definition set_where :: "('r \<Rightarrow> bool) \<Rightarrow> ('r \<Rightarrow> 'r) \<Rightarrow> 'r list \<Rightarrow> 'r list" where
  "set_where P g rows = map (\<lambda>r. if P r then g r else r) rows"

definition count_where :: "('r \<Rightarrow> bool) \<Rightarrow> 'r list \<Rightarrow> nat" where
  "count_where P rows = length (filter P rows)"

definition stmt_count ::
  "faults \<Rightarrow> string \<Rightarrow> string \<Rightarrow> nat \<Rightarrow> (db \<Rightarrow> nat) \<Rightarrow> (db \<Rightarrow> db) \<Rightarrow> nat tx" where
  "stmt_count F label read_label i count f d =
     (if F label i \<or> \<not> schema_ok (f d) then Inl (DbErr label)
      else if F read_label i then Inl (DbErr read_label)
      else Inr (count d, f d))"

text \<open>The checks a method makes before it touches the database.\<close>

definition checked :: "error + 'b \<Rightarrow> ('b \<Rightarrow> db \<Rightarrow> (error + 'a) \<times> db) \<Rightarrow> db \<Rightarrow> (error + 'a) \<times> db" where
  "checked r k d = (case r of Inl e \<Rightarrow> (Inl e, d) | Inr x \<Rightarrow> k x d)"

section \<open>Transactions keep the schema, and change nothing when they fail\<close>

named_theorems tx_simps \<open>unfolding of transaction combinators\<close>

lemma tx_bind_eq_Inr [simp, tx_simps]:
  "tx_bind m f d = Inr z \<longleftrightarrow> (\<exists>x d'. m d = Inr (x, d') \<and> f x d' = Inr z)"
  by (auto simp: tx_bind_def)

lemma tx_bind_Inl [simp]: "m d = Inl e \<Longrightarrow> tx_bind m f d = Inl e"
  by (simp add: tx_bind_def)

lemma tx_bind_Inr [simp]: "m d = Inr (x, d') \<Longrightarrow> tx_bind m f d = f x d'"
  by (simp add: tx_bind_def)

lemma tx_basic [simp, tx_simps]:
  "tx_return x d = Inr (x, d)" "tx_fail e d = Inl e"
  "tx_lift r d = Inr (x, d') \<longleftrightarrow> r = Inr x \<and> d' = d"
  by (auto simp: tx_return_def tx_fail_def tx_lift_def)

lemma tx_lift_cases [simp]: "tx_lift (Inl e) d = Inl e" "tx_lift (Inr x) d = Inr (x, d)"
  by (simp_all add: tx_lift_def)

lemma stmt_eq_Inr [simp, tx_simps]:
  "stmt F l i f d = Inr (u, d') \<longleftrightarrow> \<not> F l i \<and> schema_ok (f d) \<and> d' = f d"
  by (auto simp: stmt_def)

lemma query_eq_Inr [simp, tx_simps]: "query F l i q d = Inr (x, d') \<longleftrightarrow> \<not> F l i \<and> x = q d \<and> d' = d"
  by (auto simp: query_def)

lemma stmt_count_eq_Inr [simp, tx_simps]:
  "stmt_count F l rl i n f d = Inr (x, d') \<longleftrightarrow>
     \<not> F l i \<and> \<not> F rl i \<and> schema_ok (f d) \<and> x = n d \<and> d' = f d"
  by (auto simp: stmt_count_def)

lemma stmt_ignore_eq_Inr [simp, tx_simps]:
  "stmt_ignore F l i f d = Inr (u, d') \<longleftrightarrow>
     \<not> F l i \<and> (\<not> row_constraints (f d) \<and> d' = d \<or> schema_ok (f d) \<and> d' = f d)"
  by (auto simp: stmt_ignore_def schema_ok_def)

text \<open>A body keeps a property of the database.\<close>

definition tx_keeps :: "(db \<Rightarrow> bool) \<Rightarrow> 'a tx \<Rightarrow> bool" where
  "tx_keeps P m \<longleftrightarrow> (\<forall>d x d'. P d \<longrightarrow> m d = Inr (x, d') \<longrightarrow> P d')"

named_theorems tx_keeps_rules \<open>bodies that keep a property\<close>

lemma tx_keeps_basic [tx_keeps_rules]:
  "tx_keeps P (tx_return x)" "tx_keeps P (tx_fail e)" "tx_keeps P (tx_lift r)" "tx_keeps P (query F l i q)"
  by (auto simp: tx_keeps_def)

lemma tx_keeps_stmt [tx_keeps_rules]:
  "(\<And>d. P d \<Longrightarrow> schema_ok (f d) \<Longrightarrow> P (f d)) \<Longrightarrow> tx_keeps P (stmt F l i f)"
  "(\<And>d. P d \<Longrightarrow> schema_ok (f d) \<Longrightarrow> P (f d)) \<Longrightarrow> tx_keeps P (stmt_ignore F l i f)"
  "(\<And>d. P d \<Longrightarrow> schema_ok (f d) \<Longrightarrow> P (f d)) \<Longrightarrow> tx_keeps P (stmt_count F l rl i n f)"
  by (auto simp: tx_keeps_def)

lemma tx_keeps_bind [tx_keeps_rules]:
  "tx_keeps P m \<Longrightarrow> (\<And>x. tx_keeps P (f x)) \<Longrightarrow> tx_keeps P (tx_bind m f)"
  unfolding tx_keeps_def tx_bind_eq_Inr by blast

lemma tx_keeps_if [tx_keeps_rules]:
  "(b \<Longrightarrow> tx_keeps P m) \<Longrightarrow> (\<not> b \<Longrightarrow> tx_keeps P m') \<Longrightarrow> tx_keeps P (if b then m else m')"
  by simp

lemma tx_keeps_option [tx_keeps_rules]:
  "tx_keeps P m \<Longrightarrow> (\<And>x. tx_keeps P (f x)) \<Longrightarrow> tx_keeps P (case y of None \<Rightarrow> m | Some x \<Rightarrow> f x)"
  by (cases y) simp_all

lemma tx_keeps_prod [tx_keeps_rules]:
  "(\<And>a b. tx_keeps P (f a b)) \<Longrightarrow> tx_keeps P (case y of (a, b) \<Rightarrow> f a b)"
  by (cases y) simp

lemma tx_keeps_each [tx_keeps_rules]: "(\<And>i x. tx_keeps P (f i x)) \<Longrightarrow> tx_keeps P (tx_each f i xs)"
  by (induction xs arbitrary: i) (auto intro: tx_keeps_rules)

text \<open>Whatever a body keeps, the method keeps: a failed one leaves the database as it was.\<close>

lemma with_tx_keeps: "tx_keeps P m \<Longrightarrow> P d \<Longrightarrow> P (snd (with_tx F b c m d))"
  by (auto simp: with_tx_def tx_keeps_def split: sum.splits)

lemma with_tx_commits_keeps: "tx_keeps P m \<Longrightarrow> P d \<Longrightarrow> P (snd (with_tx_commits F b m d))"
  by (auto simp: with_tx_commits_def tx_keeps_def split: sum.splits)

lemma auto_commit_keeps: "tx_keeps P m \<Longrightarrow> P d \<Longrightarrow> P (snd (auto_commit m d))"
  by (auto simp: auto_commit_def tx_keeps_def split: sum.splits)

lemma checked_keeps:
  "P d \<Longrightarrow> (\<And>x. r = Inr x \<Longrightarrow> P (snd (k x d))) \<Longrightarrow> P (snd (checked r k d))"
  by (auto simp: checked_def split: sum.splits)

lemmas method_keeps = checked_keeps with_tx_keeps with_tx_commits_keeps auto_commit_keeps

lemma with_tx_atomic: "with_tx F b c m d = (Inl e, d') \<Longrightarrow> d' = d"
  by (auto simp: with_tx_def split: if_splits sum.splits)

lemma with_tx_commits_atomic: "with_tx_commits F b m d = (Inl e, d') \<Longrightarrow> d' = d"
  by (auto simp: with_tx_commits_def split: if_splits sum.splits)

lemma auto_commit_atomic: "auto_commit m d = (Inl e, d') \<Longrightarrow> d' = d"
  by (auto simp: auto_commit_def split: sum.splits)

lemma with_tx_eq_Inr [simp, tx_simps]:
  "with_tx F b c m d = (Inr x, d') \<longleftrightarrow> \<not> F b 0 \<and> \<not> F c 0 \<and> m d = Inr (x, d')"
  by (auto simp: with_tx_def split: if_splits sum.splits)

lemma with_tx_commits_eq_Inr [simp, tx_simps]:
  "with_tx_commits F b m d = (Inr x, d') \<longleftrightarrow> \<not> F b 0 \<and> (\<exists>c. \<not> F c 0 \<and> m d = Inr ((x, c), d'))"
  by (auto simp: with_tx_commits_def split: if_splits sum.splits)

lemma auto_commit_eq_Inr [simp, tx_simps]: "auto_commit m d = (Inr x, d') \<longleftrightarrow> m d = Inr (x, d')"
  by (auto simp: auto_commit_def split: sum.splits)

lemma checked_eq_Inr [simp, tx_simps]:
  "checked r k d = (Inr x, d') \<longleftrightarrow> (\<exists>y. r = Inr y \<and> k y d = (Inr x, d'))"
  by (auto simp: checked_def split: sum.splits)

lemma checked_atomic:
  "checked r k d = (Inl e, d') \<Longrightarrow> (\<And>x. k x d = (Inl e, d') \<Longrightarrow> d' = d) \<Longrightarrow> d' = d"
  by (auto simp: checked_def split: sum.splits)

lemma set_where_map [simp]: "(\<And>r. P r \<Longrightarrow> h (g r) = h r) \<Longrightarrow> map h (set_where P g rows) = map h rows"
  by (auto simp: set_where_def)

lemma set_where_set: "set (set_where P g rows) = {g r |r. r \<in> set rows \<and> P r} \<union> {r \<in> set rows. \<not> P r}"
  by (auto simp: set_where_def)

lemma refs_iff: "refs f xs g ys \<longleftrightarrow> f ` set xs \<subseteq> g ` set ys"
  by (force simp: refs_def list_all_iff list_ex_iff)

lemma set_eq_of_map_eq: "map f xs = map f ys \<Longrightarrow> f ` set xs = f ` set ys"
  by (metis set_map)

lemma find_SomeD: "find P xs = Some x \<Longrightarrow> x \<in> set xs \<and> P x"
  by (auto simp: find_Some_iff)

lemma find_unique:
  "distinct (map f xs) \<Longrightarrow> x \<in> set xs \<Longrightarrow> find (\<lambda>y. f y = f x) xs = Some x"
  by (induction xs) (auto simp: image_iff)

lemma empty_db_schema [simp]: "schema_ok empty_db"
  by (simp add: schema_ok_def row_constraints_def foreign_keys_def empty_db_def refs_def
      keys_ok_def rotations_ok_def challenges_ok_def enrollments_ok_def)

lemma Operation_String_inj [simp]: "Operation_String a = Operation_String b \<longleftrightarrow> a = b"
proof
  have neq: "''OPERATION_'' @ s \<noteq> Itoa n" for s n
  proof
    assume "''OPERATION_'' @ s = Itoa n"
    then have hd: "hd (Itoa n) = CHR ''O''" by (metis append_Cons list.sel(1))
    show False
    proof (cases "n < 0")
      case True
      then show ?thesis using hd by (simp add: Itoa_def)
    next
      case False
      then have "is_digit (CHR ''O'')" using hd format_uint_hd_digit [of "nat n"] by (simp add: Itoa_def)
      then show ?thesis by (simp add: is_digit_def)
    qed
  qed
  assume "Operation_String a = Operation_String b"
  then show "a = b"
    using neq [of _ a] neq [of _ b] by (auto simp: Operation_String_def dest: sym split: if_splits)
qed simp

end
