(* ===== verification/Node_Evidence.thy ===== *)
theory Node_Evidence
  imports Tpm "HOL-Library.AList"
begin

text \<open>
  The package \<^verbatim>\<open>internal/nodeevidence\<close>: the normalisation of evidence records, challenge
  requests, submissions and enrollments, and the two process-local repositories
  (\<^verbatim>\<open>evidence.go\<close>, \<^verbatim>\<open>enrollment.go\<close>).  A Go map is an association list with distinct keys in an
  arbitrary order; a nil receiver is \<open>None\<close>; \<open>clock\<close> is the value of \<^verbatim>\<open>time.Now()\<close>.

  The locale \<open>evidence_repository\<close> states what the broker relies on when it stores and reads
  node evidence; the process-local repository is one interpretation, the SQLite store another.
\<close>

section \<open>Evidence records\<close>

definition ProviderFakeLocal :: string where "ProviderFakeLocal = ''fake-local''"

definition ProviderTPM2Quote :: string where "ProviderTPM2Quote = ''generic-tpm2-quote''"

definition FormatFakeLocal :: string where
  "FormatFakeLocal = ''openbao-attested-unseal.fake-local.v1''"

record NodeChallengeRequest =
  cr_ClusterID :: string
  cr_NodeName :: string
  cr_NodeUID :: string
  cr_Provider :: string

record NodeChallenge =
  nc_ID :: string
  nc_Nonce :: bytes
  nc_ExpiresAt :: time

record Submission =
  sb_ClusterID :: string
  sb_NodeName :: string
  sb_NodeUID :: string
  sb_Provider :: string
  sb_Format :: string
  sb_Payload :: bytes
  sb_ChallengeID :: string
  sb_RequestedTTL :: duration

record Evidence =
  ev_ClusterID :: string
  ev_NodeName :: string
  ev_NodeUID :: string
  ev_Provider :: string
  ev_EvidenceHash :: string
  ev_CollectedAt :: time
  ev_ExpiresAt :: time

definition trim_evidence :: "Evidence \<Rightarrow> Evidence" where
  "trim_evidence e = e\<lparr>
     ev_ClusterID := TrimSpace (ev_ClusterID e), ev_NodeName := TrimSpace (ev_NodeName e),
     ev_NodeUID := TrimSpace (ev_NodeUID e), ev_Provider := TrimSpace (ev_Provider e),
     ev_EvidenceHash := TrimSpace (ev_EvidenceHash e)\<rparr>"

definition Normalize :: "Evidence \<Rightarrow> error + Evidence" where
  "Normalize evidence =
     (let e = trim_evidence evidence in
      if ev_ClusterID e = [] \<or> ev_NodeName e = [] \<or> ev_Provider e = [] \<or> ev_EvidenceHash e = [] then
        Inl (ErrNodeEvidenceInvalid ''cluster_id, node_name, provider, and evidence_hash are required'')
      else if ev_CollectedAt e = 0 \<or> ev_ExpiresAt e = 0 then
        Inl (ErrNodeEvidenceInvalid ''collected_at and expires_at are required'')
      else if \<not> ev_ExpiresAt e > ev_CollectedAt e then
        Inl (ErrNodeEvidenceInvalid ''expires_at must be after collected_at'')
      else Inr e)"

definition NormalizeChallengeRequest :: "NodeChallengeRequest \<Rightarrow> error + NodeChallengeRequest" where
  "NormalizeChallengeRequest request =
     (let r = \<lparr>cr_ClusterID = TrimSpace (cr_ClusterID request), cr_NodeName = TrimSpace (cr_NodeName request),
              cr_NodeUID = TrimSpace (cr_NodeUID request), cr_Provider = TrimSpace (cr_Provider request)\<rparr> in
      if cr_ClusterID r = [] \<or> cr_NodeName r = [] \<or> cr_Provider r = [] then
        Inl (ErrNodeEvidenceInvalid ''cluster_id, node_name, and provider are required'')
      else Inr r)"

definition NormalizeChallenge :: "NodeChallenge \<Rightarrow> error + NodeChallenge" where
  "NormalizeChallenge c =
     (let c = c\<lparr>nc_ID := TrimSpace (nc_ID c)\<rparr> in
      if nc_ID c = [] \<or> nc_Nonce c = [] \<or> nc_ExpiresAt c = 0 then
        Inl (ErrNodeEvidenceInvalid ''challenge id, nonce, and expiry are required'')
      else Inr c)"

definition NormalizeSubmission :: "Submission \<Rightarrow> error + Submission" where
  "NormalizeSubmission submission =
     (let s = submission\<lparr>
          sb_ClusterID := TrimSpace (sb_ClusterID submission), sb_NodeName := TrimSpace (sb_NodeName submission),
          sb_NodeUID := TrimSpace (sb_NodeUID submission), sb_Provider := TrimSpace (sb_Provider submission),
          sb_Format := TrimSpace (sb_Format submission),
          sb_ChallengeID := TrimSpace (sb_ChallengeID submission)\<rparr> in
      if sb_ClusterID s = [] \<or> sb_NodeName s = [] \<or> sb_Provider s = [] then
        Inl (ErrNodeEvidenceInvalid ''cluster_id, node_name, and provider are required'')
      else if sb_Format s = [] \<or> sb_Payload s = [] \<or> sb_ChallengeID s = [] then
        Inl (ErrNodeEvidenceInvalid ''format, payload, and challenge_id are required'')
      else if sb_RequestedTTL s \<le> 0 then
        Inl (ErrNodeEvidenceInvalid ''requested_ttl must be greater than zero'')
      else Inr s)"

text \<open>\<^verbatim>\<open>strings.Join\<close> with a NUL separator; \<open>H\<close> is \<^verbatim>\<open>sha256.Sum256\<close>.\<close>

abbreviation join_nul :: "string list \<Rightarrow> string" where
  "join_nul \<equiv> join_on CHR 0x00"

definition FakeLocalPayload ::
  "(bytes \<Rightarrow> bytes) \<Rightarrow> NodeChallengeRequest \<Rightarrow> NodeChallenge \<Rightarrow> error + bytes" where
  "FakeLocalPayload H request challenge =
     bindE (NormalizeChallengeRequest request) (\<lambda>r.
     let ID = TrimSpace (nc_ID challenge) in
     if ID = [] \<or> nc_Nonce challenge = [] then
       Inl (ErrNodeEvidenceInvalid ''challenge id and nonce are required'')
     else Inr (H (bytes_of (join_nul
       [cr_ClusterID r, cr_NodeName r, cr_NodeUID r, cr_Provider r, ID, string_of (nc_Nonce challenge)]))))"

section \<open>The process-local evidence repository\<close>

type_synonym evidenceKey = "string \<times> string"
type_synonym MemoryRepository = "(evidenceKey \<times> Evidence) list"

definition Mem_PutNodeEvidence ::
  "MemoryRepository option \<Rightarrow> Evidence \<Rightarrow> (error + unit) \<times> MemoryRepository option" where
  "Mem_PutNodeEvidence r evidence =
     (case r of
        None \<Rightarrow> (Inl (ErrNodeEvidenceInvalid ''repository is nil''), None)
      | Some records \<Rightarrow>
          (case Normalize evidence of
             Inl e \<Rightarrow> (Inl e, r)
           | Inr n \<Rightarrow> (Inr (), Some (AList.update (ev_ClusterID n, ev_NodeName n) n records))))"

definition Mem_NodeEvidence :: "MemoryRepository option \<Rightarrow> string \<Rightarrow> string \<Rightarrow> error + Evidence" where
  "Mem_NodeEvidence r clusterID nodeName =
     (case r of
        None \<Rightarrow> Inl ErrNodeEvidenceNotFound
      | Some records \<Rightarrow>
          (case map_of records (TrimSpace clusterID, TrimSpace nodeName) of
             None \<Rightarrow> Inl ErrNodeEvidenceNotFound
           | Some e \<Rightarrow> Inr e))"

definition Mem_FreshNodeEvidence ::
  "time \<Rightarrow> MemoryRepository option \<Rightarrow> string \<Rightarrow> string \<Rightarrow> time \<Rightarrow> error + Evidence" where
  "Mem_FreshNodeEvidence clock r clusterID nodeName now =
     (case r of
        None \<Rightarrow> Inl ErrNodeEvidenceNotFound
      | Some records \<Rightarrow>
          (let now = (if now = 0 then clock else now) in
           case map_of records (TrimSpace clusterID, TrimSpace nodeName) of
             None \<Rightarrow> Inl ErrNodeEvidenceNotFound
           | Some e \<Rightarrow> if \<not> ev_ExpiresAt e > now then Inl ErrNodeEvidenceStale else Inr e))"

definition Mem_ListNodeEvidence ::
  "MemoryRepository option \<Rightarrow> string \<Rightarrow> string \<Rightarrow> error + Evidence list" where
  "Mem_ListNodeEvidence r clusterID nodeName =
     (case r of
        None \<Rightarrow> Inl ErrNodeEvidenceNotFound
      | Some records \<Rightarrow>
          (let c = TrimSpace clusterID; n = TrimSpace nodeName;
               out = map snd (filter (\<lambda>((kc, kn), e). kc = c \<and> (n = [] \<or> kn = n)) records) in
           if out = [] then Inl ErrNodeEvidenceNotFound else Inr out))"

definition Mem_PruneNodeEvidence ::
  "time \<Rightarrow> MemoryRepository option \<Rightarrow> string \<Rightarrow> time \<Rightarrow> (error + nat) \<times> MemoryRepository option" where
  "Mem_PruneNodeEvidence clock r clusterID expiredBefore =
     (case r of
        None \<Rightarrow> (Inl ErrNodeEvidenceNotFound, None)
      | Some records \<Rightarrow>
          (let c = TrimSpace clusterID; before = (if expiredBefore = 0 then clock else expiredBefore);
               gone = (\<lambda>((kc, kn), e). kc = c \<and> ev_ExpiresAt e < before) in
           (Inr (length (filter gone records)), Some (filter (\<lambda>x. \<not> gone x) records))))"

section \<open>Enrollments\<close>

record EnrollmentRequest =
  er_ClusterID :: string
  er_NodeName :: string
  er_NodeUID :: string
  er_Provider :: string
  er_TPMPolicy :: TpmPolicy
  er_PublisherCertificateHashes :: "string list"
  er_EnrolledAt :: time

record Enrollment =
  en_ClusterID :: string
  en_NodeName :: string
  en_NodeUID :: string
  en_Provider :: string
  en_TPMPolicy :: TpmPolicy
  en_PublisherCertificateHashes :: "string list"
  en_Revision :: u64
  en_EnrolledAt :: time
  en_UpdatedAt :: time
  en_RevokedAt :: time

definition Enrollment_Active :: "Enrollment \<Rightarrow> bool" where
  "Enrollment_Active e \<longleftrightarrow> en_RevokedAt e = 0"

definition CanonicalSHA256Digest :: "string \<Rightarrow> error + string" where
  "CanonicalSHA256Digest v =
     (if \<not> HasPrefix v ''sha256:'' then Inl (OtherErr ''SHA-256 digest prefix is required'')
      else (case hex_decode (TrimPrefix v ''sha256:'') of
          None \<Rightarrow> Inl (OtherErr ''SHA-256 digest must contain 32 bytes'')
        | Some raw \<Rightarrow>
            if length raw \<noteq> 32 then Inl (OtherErr ''SHA-256 digest must contain 32 bytes'')
            else (let canonical = ''sha256:'' @ hex_encode raw in
              if canonical \<noteq> v then Inl (OtherErr ''SHA-256 digest is not canonical'')
              else Inr canonical)))"

fun canonical_hashes :: "string list \<Rightarrow> string list \<Rightarrow> error + string list" where
  "canonical_hashes seen [] = Inr []"
| "canonical_hashes seen (v # vs) =
     (case CanonicalSHA256Digest v of
        Inl _ \<Rightarrow> Inl (ErrInvalidEnrollment ''invalid publisher certificate hash'')
      | Inr canonical \<Rightarrow>
          if canonical \<in> set seen then Inl (ErrInvalidEnrollment ''duplicate publisher certificate hash'')
          else bindE (canonical_hashes (canonical # seen) vs) (\<lambda>cs. Inr (canonical # cs)))"

definition NormalizeEnrollmentRequest :: "EnrollmentRequest \<Rightarrow> error + EnrollmentRequest" where
  "NormalizeEnrollmentRequest request =
     (let r = request\<lparr>
          er_ClusterID := TrimSpace (er_ClusterID request), er_NodeName := TrimSpace (er_NodeName request),
          er_NodeUID := TrimSpace (er_NodeUID request), er_Provider := TrimSpace (er_Provider request)\<rparr> in
      if er_ClusterID r = [] \<or> er_NodeName r = [] \<or> er_NodeUID r = [] then
        Inl (ErrInvalidEnrollment ''cluster_id, node_name, and node_uid are required'')
      else if er_Provider r \<noteq> ProviderTPM2Quote then Inl (ErrInvalidEnrollment ''unsupported provider'')
      else if TrimSpace (tp_EnrolledAKPublicHash (er_TPMPolicy r)) = [] then
        Inl (ErrInvalidEnrollment ''enrolled AK public hash is required'')
      else bindE (mapErr (\<lambda>_. ErrInvalidEnrollment ''tpm policy'') (TpmPolicy_Validate (er_TPMPolicy r))) (\<lambda>_.
        if er_PublisherCertificateHashes r = [] then
          Inl (ErrInvalidEnrollment ''at least one publisher certificate hash is required'')
        else bindE (canonical_hashes [] (er_PublisherCertificateHashes r)) (\<lambda>hashes.
          if er_EnrolledAt r = 0 then Inl (ErrInvalidEnrollment ''enrolled_at is required'')
          else Inr (r\<lparr>er_PublisherCertificateHashes := sort hashes\<rparr>))))"

definition NormalizeEnrollment :: "Enrollment \<Rightarrow> error + Enrollment" where
  "NormalizeEnrollment e =
     bindE (NormalizeEnrollmentRequest \<lparr>
         er_ClusterID = en_ClusterID e, er_NodeName = en_NodeName e, er_NodeUID = en_NodeUID e,
         er_Provider = en_Provider e, er_TPMPolicy = en_TPMPolicy e,
         er_PublisherCertificateHashes = en_PublisherCertificateHashes e, er_EnrolledAt = en_EnrolledAt e\<rparr>)
     (\<lambda>r.
       if en_Revision e = 0 \<or> en_UpdatedAt e = 0 then
         Inl (ErrInvalidEnrollment ''revision and updated_at are required'')
       else if en_UpdatedAt e < er_EnrolledAt r then
         Inl (ErrInvalidEnrollment ''updated_at precedes enrolled_at'')
       else if en_RevokedAt e \<noteq> 0 \<and> en_RevokedAt e < en_UpdatedAt e then
         Inl (ErrInvalidEnrollment ''revoked_at precedes updated_at'')
       else Inr \<lparr>en_ClusterID = er_ClusterID r, en_NodeName = er_NodeName r, en_NodeUID = er_NodeUID r,
                 en_Provider = er_Provider r, en_TPMPolicy = er_TPMPolicy r,
                 en_PublisherCertificateHashes = er_PublisherCertificateHashes r,
                 en_Revision = en_Revision e, en_EnrolledAt = er_EnrolledAt r,
                 en_UpdatedAt = en_UpdatedAt e, en_RevokedAt = en_RevokedAt e\<rparr>)"

definition AuthorizesPublisher :: "Enrollment \<Rightarrow> string \<Rightarrow> bool" where
  "AuthorizesPublisher e certificateHash =
     (case CanonicalSHA256Digest certificateHash of
        Inl _ \<Rightarrow> False
      | Inr canonical \<Rightarrow> list_ex (\<lambda>allowed. allowed = canonical) (en_PublisherCertificateHashes e))"

section \<open>The process-local enrollment repository\<close>

record MemoryEnrollmentRepository =
  me_enrollments :: "(evidenceKey \<times> Enrollment) list"
  me_evidence :: "MemoryRepository option"

definition Mem_EnrollNodeEvidence ::
  "EnrollmentRequest \<Rightarrow> MemoryEnrollmentRepository \<Rightarrow> (error + Enrollment) \<times> MemoryEnrollmentRepository" where
  "Mem_EnrollNodeEvidence request r =
     (case NormalizeEnrollmentRequest request of
        Inl e \<Rightarrow> (Inl e, r)
      | Inr q \<Rightarrow>
          (let key = (er_ClusterID q, er_NodeName q);
               revision = (case map_of (me_enrollments r) key of None \<Rightarrow> 1 | Some c \<Rightarrow> en_Revision c + 1);
               enrollment = \<lparr>en_ClusterID = er_ClusterID q, en_NodeName = er_NodeName q,
                 en_NodeUID = er_NodeUID q, en_Provider = er_Provider q, en_TPMPolicy = er_TPMPolicy q,
                 en_PublisherCertificateHashes = er_PublisherCertificateHashes q, en_Revision = revision,
                 en_EnrolledAt = er_EnrolledAt q, en_UpdatedAt = er_EnrolledAt q, en_RevokedAt = 0\<rparr> in
           (Inr enrollment, r\<lparr>me_enrollments := AList.update key enrollment (me_enrollments r),
                              me_evidence := map_option (AList.delete key) (me_evidence r)\<rparr>)))"

definition Mem_RevokeNodeEvidence ::
  "string \<Rightarrow> string \<Rightarrow> time \<Rightarrow> MemoryEnrollmentRepository
   \<Rightarrow> (error + Enrollment) \<times> MemoryEnrollmentRepository" where
  "Mem_RevokeNodeEvidence clusterID nodeName now r =
     (if now = 0 then (Inl (ErrInvalidEnrollment ''revocation time is required''), r)
      else let key = (TrimSpace clusterID, TrimSpace nodeName) in
        case map_of (me_enrollments r) key of
          None \<Rightarrow> (Inl ErrEnrollmentNotFound, r)
        | Some e \<Rightarrow>
            if \<not> Enrollment_Active e then (Inl ErrEnrollmentRevoked, r)
            else (let e' = e\<lparr>en_Revision := en_Revision e + 1, en_UpdatedAt := now, en_RevokedAt := now\<rparr> in
              (Inr e', r\<lparr>me_enrollments := AList.update key e' (me_enrollments r),
                         me_evidence := map_option (AList.delete key) (me_evidence r)\<rparr>)))"

definition Mem_ActiveNodeEvidenceEnrollment ::
  "string \<Rightarrow> string \<Rightarrow> MemoryEnrollmentRepository \<Rightarrow> error + Enrollment" where
  "Mem_ActiveNodeEvidenceEnrollment clusterID nodeName r =
     (case map_of (me_enrollments r) (TrimSpace clusterID, TrimSpace nodeName) of
        None \<Rightarrow> Inl ErrEnrollmentNotFound
      | Some e \<Rightarrow> if \<not> Enrollment_Active e then Inl ErrEnrollmentRevoked else NormalizeEnrollment e)"

definition Mem_ListNodeEvidenceEnrollments ::
  "string \<Rightarrow> string \<Rightarrow> bool \<Rightarrow> MemoryEnrollmentRepository \<Rightarrow> error + Enrollment list" where
  "Mem_ListNodeEvidenceEnrollments clusterID nodeName includeRevoked r =
     (let c = TrimSpace clusterID; n = TrimSpace nodeName;
          kept = filter (\<lambda>((kc, kn), e). kc = c \<and> (n = [] \<or> kn = n) \<and> (includeRevoked \<or> Enrollment_Active e))
            (me_enrollments r) in
      bindE (traverseE NormalizeEnrollment (map snd kept)) (\<lambda>out.
      if out = [] then Inl ErrEnrollmentNotFound else Inr (sort_key en_NodeName out)))"

definition Mem_PutEnrolledNodeEvidence ::
  "Evidence \<Rightarrow> u64 \<Rightarrow> MemoryEnrollmentRepository \<Rightarrow> (error + unit) \<times> MemoryEnrollmentRepository" where
  "Mem_PutEnrolledNodeEvidence evidence revision r =
     (case map_of (me_enrollments r) (ev_ClusterID evidence, ev_NodeName evidence) of
        None \<Rightarrow> (Inl ErrEnrollmentChanged, r)
      | Some e \<Rightarrow>
          if \<not> Enrollment_Active e \<or> en_Revision e \<noteq> revision then (Inl ErrEnrollmentChanged, r)
          else (case me_evidence r of
              None \<Rightarrow> (Inl (ErrInvalidEnrollment ''evidence repository is nil''), r)
            | Some _ \<Rightarrow>
                (case Mem_PutNodeEvidence (me_evidence r) evidence of
                   (res, ev) \<Rightarrow> (res, r\<lparr>me_evidence := ev\<rparr>))))"

section \<open>Normalisation\<close>

lemma trim_evidence_idem [simp]: "trim_evidence (trim_evidence e) = trim_evidence e"
  by (simp add: trim_evidence_def)

lemma Normalize_eq_Inr [succ_inv]:
  "Normalize e = Inr n \<longleftrightarrow>
     n = trim_evidence e \<and> ev_ClusterID n \<noteq> [] \<and> ev_NodeName n \<noteq> [] \<and> ev_Provider n \<noteq> [] \<and>
     ev_EvidenceHash n \<noteq> [] \<and> ev_CollectedAt n \<noteq> 0 \<and> ev_ExpiresAt n \<noteq> 0 \<and>
     ev_CollectedAt n < ev_ExpiresAt n"
  by (auto simp: Normalize_def Let_def)

lemma Normalize_idem: "Normalize e = Inr n \<Longrightarrow> Normalize n = Inr n"
  by (auto simp: Normalize_eq_Inr)

lemma Normalize_trimmed:
  "Normalize e = Inr n \<Longrightarrow> TrimSpace (ev_ClusterID n) = ev_ClusterID n \<and> TrimSpace (ev_NodeName n) = ev_NodeName n"
  by (auto simp: Normalize_eq_Inr trim_evidence_def)

lemma CanonicalSHA256Digest_eq_Inr:
  "CanonicalSHA256Digest v = Inr c \<longleftrightarrow>
     c = v \<and> (\<exists>raw. length raw = 32 \<and> v = ''sha256:'' @ hex_encode raw)"
proof
  assume "CanonicalSHA256Digest v = Inr c"
  then show "c = v \<and> (\<exists>raw. length raw = 32 \<and> v = ''sha256:'' @ hex_encode raw)"
    by (auto simp: CanonicalSHA256Digest_def Let_def split: if_splits option.splits)
next
  assume "c = v \<and> (\<exists>raw. length raw = 32 \<and> v = ''sha256:'' @ hex_encode raw)"
  then obtain raw where "length raw = 32" and v: "c = v" "v = ''sha256:'' @ hex_encode raw" by blast
  have "TrimPrefix v ''sha256:'' = hex_encode raw" and "HasPrefix v ''sha256:''"
    unfolding v(2) by (rule TrimPrefix_append, rule HasPrefix_append)
  with \<open>length raw = 32\<close> v show "CanonicalSHA256Digest v = Inr c"
    by (simp add: CanonicalSHA256Digest_def Let_def)
qed

lemma canonical_hashes_eq_Inr:
  "canonical_hashes seen vs = Inr cs \<longleftrightarrow>
     cs = vs \<and> list_all (\<lambda>v. CanonicalSHA256Digest v = Inr v) vs \<and> distinct vs \<and> set seen \<inter> set vs = {}"
proof (induction seen vs arbitrary: cs rule: canonical_hashes.induct)
  case (2 seen v vs)
  show ?case
  proof (cases "CanonicalSHA256Digest v")
    case (Inr c)
    then have "c = v" by (simp add: CanonicalSHA256Digest_eq_Inr)
    with Inr 2 show ?thesis by auto
  qed simp
qed auto

lemma NormalizeEnrollmentRequest_eq_Inr:
  "NormalizeEnrollmentRequest q = Inr r \<longleftrightarrow>
     r = q\<lparr>er_ClusterID := TrimSpace (er_ClusterID q), er_NodeName := TrimSpace (er_NodeName q),
           er_NodeUID := TrimSpace (er_NodeUID q), er_Provider := TrimSpace (er_Provider q),
           er_PublisherCertificateHashes := sort (er_PublisherCertificateHashes q)\<rparr> \<and>
     er_ClusterID r \<noteq> [] \<and> er_NodeName r \<noteq> [] \<and> er_NodeUID r \<noteq> [] \<and> er_Provider r = ProviderTPM2Quote \<and>
     TrimSpace (tp_EnrolledAKPublicHash (er_TPMPolicy q)) \<noteq> [] \<and> TpmPolicy_Validate (er_TPMPolicy q) = Inr () \<and>
     er_PublisherCertificateHashes q \<noteq> [] \<and>
     list_all (\<lambda>v. CanonicalSHA256Digest v = Inr v) (er_PublisherCertificateHashes q) \<and>
     distinct (er_PublisherCertificateHashes q) \<and> er_EnrolledAt q \<noteq> 0"
  by (auto simp: NormalizeEnrollmentRequest_def Let_def canonical_hashes_eq_Inr)

lemma NormalizeEnrollmentRequest_idem:
  "NormalizeEnrollmentRequest q = Inr r \<Longrightarrow> NormalizeEnrollmentRequest r = Inr r"
  unfolding NormalizeEnrollmentRequest_eq_Inr
  by (auto simp: sorted_sort_id list_all_iff simp flip: set_empty)

section \<open>The contract of an evidence repository\<close>

locale evidence_repository =
  fixes inv :: "'s \<Rightarrow> bool"
    and put :: "Evidence \<Rightarrow> 's \<Rightarrow> (error + unit) \<times> 's"
    and read :: "'s \<Rightarrow> string \<Rightarrow> string \<Rightarrow> error + Evidence"
    and fresh :: "'s \<Rightarrow> string \<Rightarrow> string \<Rightarrow> time \<Rightarrow> error + Evidence"
    and prune :: "string \<Rightarrow> time \<Rightarrow> 's \<Rightarrow> (error + nat) \<times> 's"
  assumes put_stores: "inv s \<Longrightarrow> put e s = (Inr u, s') \<Longrightarrow>
      inv s' \<and> (\<exists>n. Normalize e = Inr n \<and> (\<forall>c m. read s' c m =
        (if (TrimSpace c, TrimSpace m) = (ev_ClusterID n, ev_NodeName n) then Inr n else read s c m)))"
    and put_fails: "put e s = (Inl x, s') \<Longrightarrow> s' = s"
    and fresh_reads: "now \<noteq> 0 \<Longrightarrow> fresh s c m now =
      bindE (read s c m) (\<lambda>e. if ev_ExpiresAt e > now then Inr e else Inl ErrNodeEvidenceStale)"
    and prune_removes: "inv s \<Longrightarrow> before \<noteq> 0 \<Longrightarrow> prune c before s = (Inr k, s') \<Longrightarrow>
      inv s' \<and> read s' c' m = (case read s c' m of
          Inl x \<Rightarrow> Inl x
        | Inr e \<Rightarrow> if TrimSpace c' = TrimSpace c \<and> ev_ExpiresAt e < before
                  then Inl ErrNodeEvidenceNotFound else Inr e)"
begin

text \<open>Stored evidence is what is read until it expires, and stale from then on.\<close>

lemma fresh_after_put:
  assumes "inv s" and "put e s = (Inr u, s')" and "Normalize e = Inr n" and "now \<noteq> 0"
  shows "fresh s' (ev_ClusterID n) (ev_NodeName n) now =
    (if ev_ExpiresAt n > now then Inr n else Inl ErrNodeEvidenceStale)"
  using put_stores [OF assms(1,2)] Normalize_trimmed [OF assms(3)] assms(3,4) by (auto simp: fresh_reads)

text \<open>Pruning what expired before a cutoff does not change what is fresh at the cutoff or later.\<close>

lemma prune_keeps_fresh:
  assumes "inv s" and "prune c before s = (Inr k, s')" and "before \<noteq> 0" and "now \<noteq> 0" and "before \<le> now"
  shows "fresh s' c' m now = Inr e \<longleftrightarrow> fresh s c' m now = Inr e"
  using prune_removes [OF assms(1,3,2), of c' m] assms(4,5)
  by (auto simp: fresh_reads split: sum.splits if_splits)

end

section \<open>The process-local repository meets the contract\<close>

definition mem_inv :: "MemoryRepository option \<Rightarrow> bool" where
  "mem_inv r \<longleftrightarrow> (\<exists>records. r = Some records \<and> distinct (map fst records))"

lemma map_of_filter:
  "distinct (map fst xs) \<Longrightarrow> map_of (filter P xs) k =
     (case map_of xs k of None \<Rightarrow> None | Some v \<Rightarrow> if P (k, v) then Some v else None)"
  by (induction xs) (auto split: option.splits simp: map_of_eq_None_iff)

interpretation mem: evidence_repository mem_inv "\<lambda>e r. Mem_PutNodeEvidence r e" Mem_NodeEvidence
  "Mem_FreshNodeEvidence clock" "\<lambda>c b r. Mem_PruneNodeEvidence clock r c b" for clock
proof (unfold_locales, goal_cases)
  case (1 s e u s')
  then show ?case
    by (auto simp: mem_inv_def Mem_PutNodeEvidence_def Mem_NodeEvidence_def distinct_update update_conv'
        split: option.splits sum.splits if_splits)
next
  case (2 e s x s')
  then show ?case by (auto simp: Mem_PutNodeEvidence_def split: option.splits sum.splits)
next
  case (3 now s c m)
  then show ?case
    by (auto simp: Mem_FreshNodeEvidence_def Mem_NodeEvidence_def Let_def split: option.splits)
next
  case (4 s before c k s' c' m)
  then obtain records where "s = Some records" "distinct (map fst records)" by (auto simp: mem_inv_def)
  with 4 show ?case
    by (auto simp: mem_inv_def Mem_PruneNodeEvidence_def Mem_NodeEvidence_def Let_def map_of_filter
        distinct_map_filter split: option.splits)
qed

end
