(* ===== verification/Broker_Config.thy ===== *)
theory Broker_Config
  imports Node_Evidence Key_Protection Codec
begin

text \<open>
  The broker configuration (\<^verbatim>\<open>internal/broker/config.go\<close>) after it has been read: its derived
  values and its validation.  Reading the files and decoding their JSON is not part of the
  model; \<open>WithLoadedPolicy\<close> takes the result of \<^verbatim>\<open>LoadPolicyDocument\<close>.  The map of control-plane
  identities is an association list in the order of the iteration.  Seconds are 64-bit
  integers and their conversion to a duration wraps around.
\<close>

record PolicyDocument =
  pd_PolicyID :: string
  pd_Mode :: string
  pd_DevelopmentSubjects :: "string list"

record ControlPlaneIdentity =
  ci_Roles :: "string list"
  ci_ClusterIDs :: "string list"

record KubernetesConfig =
  k8_Enabled :: bool
  k8_APIServer :: string
  k8_CACertFile :: string
  k8_BearerTokenFile :: string
  k8_TokenReviewAudience :: string
  k8_Namespace :: string
  k8_ServiceAccount :: string
  k8_NodeEvidenceTTLSeconds :: int
  k8_NodeEvidenceRetentionSeconds :: int
  k8_APITimeoutSeconds :: int
  k8_AllowUnboundServiceAccountTokens :: bool
  k8_AllowFakeNodeEvidencePublish :: bool
  k8_NodeEvidencePublishProviders :: "string list"

record Config =
  cf_ListenAddress :: string
  cf_TLSCertFile :: string
  cf_TLSKeyFile :: string
  cf_ClientCAFile :: string
  cf_RequireClientCert :: bool
  cf_AllowPlaintextForTests :: bool
  cf_SQLitePath :: string
  cf_AuditFilePath :: string
  cf_AuditFsync :: bool
  cf_OTelExporter :: string
  cf_DefaultPolicyPath :: string
  cf_KeyringProtectionProfile :: string
  cf_ClusterID :: string
  cf_KeyID :: string
  cf_PolicyID :: string
  cf_Identities :: "(string \<times> ControlPlaneIdentity) list"
  cf_DevelopmentSubject :: string
  cf_DevelopmentWrappingKeyB64 :: string
  cf_ChallengeTTLSeconds :: int
  cf_Kubernetes :: KubernetesConfig
  cf_DefaultPolicy :: PolicyDocument

definition PolicyModeDevelopmentSubject :: string where
  "PolicyModeDevelopmentSubject = ''development-subject''"

definition OTelExporterNone :: string where "OTelExporterNone = ''none''"

definition OTelExporterStdout :: string where "OTelExporterStdout = ''stdout''"

definition ControlPlaneRoleNodeEvidenceAdmin :: string where
  "ControlPlaneRoleNodeEvidenceAdmin = ''node-evidence-admin''"

definition DefaultChallengeTTL :: duration where "DefaultChallengeTTL = 120 * second"

definition DefaultKubernetesNodeEvidenceTTL :: duration where
  "DefaultKubernetesNodeEvidenceTTL = 300 * second"

definition DefaultKubernetesNodeEvidenceRetention :: duration where
  "DefaultKubernetesNodeEvidenceRetention = 86400 * second"

definition DefaultKubernetesAPITimeout :: duration where
  "DefaultKubernetesAPITimeout = 10 * second"

section \<open>Derived values\<close>

text \<open>\<^verbatim>\<open>time.Duration(n) * time.Second\<close> on 64-bit integers.\<close>

definition seconds64 :: "int \<Rightarrow> duration" where
  "seconds64 n = sint (word_of_int (n * second) :: 64 word)"

definition ChallengeTTL :: "Config \<Rightarrow> duration" where
  "ChallengeTTL c =
     (if cf_ChallengeTTLSeconds c = 0 then DefaultChallengeTTL else seconds64 (cf_ChallengeTTLSeconds c))"

definition NodeEvidenceTTL :: "KubernetesConfig \<Rightarrow> duration" where
  "NodeEvidenceTTL k =
     (if k8_NodeEvidenceTTLSeconds k = 0 then DefaultKubernetesNodeEvidenceTTL
      else seconds64 (k8_NodeEvidenceTTLSeconds k))"

definition NodeEvidenceRetention :: "KubernetesConfig \<Rightarrow> duration" where
  "NodeEvidenceRetention k =
     (if k8_NodeEvidenceRetentionSeconds k = 0 then DefaultKubernetesNodeEvidenceRetention
      else seconds64 (k8_NodeEvidenceRetentionSeconds k))"

definition APITimeout :: "KubernetesConfig \<Rightarrow> duration" where
  "APITimeout k =
     (if k8_APITimeoutSeconds k = 0 then DefaultKubernetesAPITimeout
      else seconds64 (k8_APITimeoutSeconds k))"

definition RequirePodBoundToken :: "KubernetesConfig \<Rightarrow> bool" where
  "RequirePodBoundToken k \<longleftrightarrow> \<not> k8_AllowUnboundServiceAccountTokens k"

definition Profile :: "Config \<Rightarrow> string" where
  "Profile c =
     (if TrimSpace (cf_KeyringProtectionProfile c) = [] then ProfileDevelopment
      else TrimSpace (cf_KeyringProtectionProfile c))"

definition Policy :: "Config \<Rightarrow> string" where
  "Policy c =
     (if TrimSpace (pd_PolicyID (cf_DefaultPolicy c)) \<noteq> [] then TrimSpace (pd_PolicyID (cf_DefaultPolicy c))
      else if TrimSpace (cf_PolicyID c) = [] then ''development''
      else TrimSpace (cf_PolicyID c))"

definition Exporter :: "Config \<Rightarrow> string" where
  "Exporter c =
     (if TrimSpace (cf_OTelExporter c) = [] then OTelExporterNone else TrimSpace (cf_OTelExporter c))"

fun add_subjects :: "string list \<Rightarrow> string list \<Rightarrow> string list" where
  "add_subjects acc [] = acc"
| "add_subjects acc (s # ss) =
     (let t = TrimSpace s in
      if t = [] \<or> t \<in> set acc then add_subjects acc ss else add_subjects (acc @ [t]) ss)"

definition DevelopmentSubjects :: "Config \<Rightarrow> string list" where
  "DevelopmentSubjects c =
     sort (add_subjects [] (cf_DevelopmentSubject c # pd_DevelopmentSubjects (cf_DefaultPolicy c)))"

definition DevelopmentWrappingKey :: "Config \<Rightarrow> error + bytes" where
  "DevelopmentWrappingKey c =
     (let raw = TrimSpace (cf_DevelopmentWrappingKeyB64 c) in
      if raw = [] then Inl (OtherErr ''development_wrapping_key_b64 is required'')
      else (case b64_decode StdEncoding raw of
          None \<Rightarrow> Inl (OtherErr ''decode development_wrapping_key_b64'')
        | Some key \<Rightarrow>
            if length key \<noteq> KeySize then Inl (OtherErr ''development_wrapping_key_b64 must decode to 32 bytes'')
            else Inr key))"

section \<open>Validation\<close>

definition PolicyDocument_Validate :: "PolicyDocument \<Rightarrow> error + unit" where
  "PolicyDocument_Validate p =
     (if \<not> validIdentifier (pd_PolicyID p) then Inl (ErrInvalidMetadata ''invalid default policy policy_id'')
      else if pd_Mode p \<noteq> PolicyModeDevelopmentSubject then
        Inl (OtherErr ''unsupported default policy mode'')
      else if pd_DevelopmentSubjects p = [] then
        Inl (OtherErr ''default policy development_subjects must not be empty'')
      else if \<not> list_all validIdentifier (pd_DevelopmentSubjects p) then
        Inl (ErrInvalidMetadata ''invalid default policy development subject'')
      else Inr ())"

definition WithLoadedPolicy :: "error + PolicyDocument \<Rightarrow> Config \<Rightarrow> error + Config" where
  "WithLoadedPolicy loaded c =
     (if TrimSpace (cf_DefaultPolicyPath c) = [] then Inr c
      else bindE loaded (\<lambda>policy.
        if TrimSpace (cf_PolicyID c) \<noteq> [] \<and> cf_PolicyID c \<noteq> pd_PolicyID policy then
          Inl (OtherErr ''policy_id does not match default policy file policy_id'')
        else Inr (c\<lparr>cf_DefaultPolicy := policy\<rparr>)))"

definition validateRequiredPaths :: "Config \<Rightarrow> error + unit" where
  "validateRequiredPaths c =
     (if TrimSpace (cf_ListenAddress c) = [] then Inl (OtherErr ''listen_address is required'')
      else if TrimSpace (cf_SQLitePath c) = [] then Inl (OtherErr ''sqlite_path is required'')
      else if TrimSpace (cf_AuditFilePath c) = [] then Inl (OtherErr ''audit_file_path is required'')
      else Inr ())"

definition validateTLS :: "Config \<Rightarrow> error + unit" where
  "validateTLS c =
     (if \<not> cf_AllowPlaintextForTests c \<and> TrimSpace (cf_TLSCertFile c) = [] then
        Inl (OtherErr ''tls_cert_file is required'')
      else if \<not> cf_AllowPlaintextForTests c \<and> TrimSpace (cf_TLSKeyFile c) = [] then
        Inl (OtherErr ''tls_key_file is required'')
      else if cf_RequireClientCert c \<and> TrimSpace (cf_ClientCAFile c) = [] then
        Inl (OtherErr ''client_ca_file is required'')
      else Inr ())"

definition validateIdentifiers :: "Config \<Rightarrow> error + unit" where
  "validateIdentifiers c =
     (if \<not> validIdentifier (cf_ClusterID c) then Inl (ErrInvalidMetadata ''invalid cluster_id'')
      else if \<not> validIdentifier (cf_KeyID c) then Inl (ErrInvalidMetadata ''invalid key_id'')
      else if \<not> validIdentifier (Policy c) then Inl (ErrInvalidMetadata ''invalid policy_id'')
      else Inr ())"

definition validateModes :: "Config \<Rightarrow> error + unit" where
  "validateModes c =
     (if Profile c \<noteq> ProfileDevelopment then Inl (OtherErr ''unsupported keyring_protection_profile'')
      else if Exporter c \<notin> {OTelExporterNone, OTelExporterStdout} then
        Inl (OtherErr ''unsupported otel_exporter'')
      else Inr ())"

definition validateDefaultPolicy :: "Config \<Rightarrow> error + unit" where
  "validateDefaultPolicy c =
     (if TrimSpace (cf_DefaultPolicyPath c) = [] then Inr ()
      else if pd_PolicyID (cf_DefaultPolicy c) = [] then
        Inl (OtherErr ''default_policy_path must be loaded before validation'')
      else PolicyDocument_Validate (cf_DefaultPolicy c))"

definition validateDevelopment :: "Config \<Rightarrow> error + unit" where
  "validateDevelopment c =
     (if \<not> list_all validIdentifier (DevelopmentSubjects c) then
        Inl (ErrInvalidMetadata ''invalid development subject'')
      else if DevelopmentSubjects c \<noteq> [] then bindE (DevelopmentWrappingKey c) (\<lambda>_. Inr ())
      else Inr ())"

definition validateChallengeTTL :: "Config \<Rightarrow> error + unit" where
  "validateChallengeTTL c =
     assertE (ChallengeTTL c > 0) (OtherErr ''challenge_ttl_seconds must be greater than zero'')"

fun check_roles :: "string list \<Rightarrow> string list \<Rightarrow> error + unit" where
  "check_roles seen [] = Inr ()"
| "check_roles seen (r # rs) =
     (if r \<noteq> ControlPlaneRoleNodeEvidenceAdmin then Inl (OtherErr ''unsupported role'')
      else if r \<in> set seen then Inl (OtherErr ''duplicate role'')
      else check_roles (r # seen) rs)"

fun check_clusters :: "string list \<Rightarrow> string list \<Rightarrow> error + unit" where
  "check_clusters seen [] = Inr ()"
| "check_clusters seen (c # cs) =
     (if c \<noteq> TrimSpace c then Inl (OtherErr ''non-canonical cluster ID'')
      else if \<not> validIdentifier c then Inl (ErrInvalidMetadata ''invalid cluster ID'')
      else if c \<in> set seen then Inl (OtherErr ''duplicate cluster ID'')
      else check_clusters (c # seen) cs)"

definition validateControlPlaneIdentity :: "string \<Rightarrow> ControlPlaneIdentity \<Rightarrow> error + unit" where
  "validateControlPlaneIdentity certificateHash identity =
     (if CanonicalSHA256Digest certificateHash \<noteq> Inr certificateHash then
        Inl (OtherErr ''non-canonical certificate SHA-256 hash'')
      else if ci_Roles identity = [] then Inl (OtherErr ''identity requires roles'')
      else bindE (check_roles [] (ci_Roles identity)) (\<lambda>_.
        if ci_ClusterIDs identity = [] then Inl (OtherErr ''identity requires cluster_ids'')
        else check_clusters [] (ci_ClusterIDs identity)))"

fun check_identities :: "(string \<times> ControlPlaneIdentity) list \<Rightarrow> error + unit" where
  "check_identities [] = Inr ()"
| "check_identities ((h, i) # is) =
     bindE (validateControlPlaneIdentity h i) (\<lambda>_. check_identities is)"

definition validateControlPlane :: "Config \<Rightarrow> error + unit" where
  "validateControlPlane c =
     (if cf_Identities c = [] then Inr ()
      else if cf_AllowPlaintextForTests c then Inl (OtherErr ''plaintext transport is not allowed'')
      else if \<not> cf_RequireClientCert c then Inl (OtherErr ''require_client_cert must be true'')
      else check_identities (cf_Identities c))"

definition controlPlaneHasRole :: "Config \<Rightarrow> string \<Rightarrow> string \<Rightarrow> bool" where
  "controlPlaneHasRole c role clusterID \<longleftrightarrow>
     list_ex (\<lambda>(_, i). role \<in> set (ci_Roles i) \<and> clusterID \<in> set (ci_ClusterIDs i)) (cf_Identities c)"

definition normalizedProviderIDs :: "string list \<Rightarrow> string list" where
  "normalizedProviderIDs providers = remdups_adj (sort (map TrimSpace providers))"

definition validateNodeEvidenceProviders :: "string list \<Rightarrow> error + bool" where
  "validateNodeEvidenceProviders providers =
     bindE (traverseE (\<lambda>p.
         if TrimSpace p = [] then Inl (OtherErr ''providers must not contain empty values'')
         else if TrimSpace p \<noteq> ProviderTPM2Quote then Inl (OtherErr ''unsupported publish provider'')
         else Inr ()) providers) (\<lambda>_.
     Inr (ProviderTPM2Quote \<in> set (normalizedProviderIDs providers)))"

definition validateTPMNodeEvidenceTransport :: "bool \<Rightarrow> bool \<Rightarrow> bool \<Rightarrow> bool \<Rightarrow> error + unit" where
  "validateTPMNodeEvidenceTransport tpmEnabled requireClientCert allowPlaintext hasAdmin =
     (if tpmEnabled \<and> allowPlaintext then Inl (OtherErr ''plaintext transport is not allowed'')
      else if tpmEnabled \<and> \<not> requireClientCert then Inl (OtherErr ''require_client_cert must be true'')
      else if tpmEnabled \<and> \<not> hasAdmin then Inl (OtherErr ''a node-evidence-admin identity is required'')
      else Inr ())"

definition validateEnabledKubernetes :: "KubernetesConfig \<Rightarrow> error + unit" where
  "validateEnabledKubernetes k =
     (if TrimSpace (k8_TokenReviewAudience k) = [] then Inl (OtherErr ''token_review_audience is required'')
      else if TrimSpace (k8_Namespace k) = [] then Inl (OtherErr ''namespace is required'')
      else if \<not> validIdentifier (TrimSpace (k8_Namespace k)) then Inl (ErrInvalidMetadata ''invalid namespace'')
      else if TrimSpace (k8_ServiceAccount k) = [] then Inl (OtherErr ''service_account is required'')
      else if \<not> validIdentifier (TrimSpace (k8_ServiceAccount k)) then
        Inl (ErrInvalidMetadata ''invalid service_account'')
      else if NodeEvidenceTTL k \<le> 0 then Inl (OtherErr ''node_evidence_ttl_seconds must be greater than zero'')
      else if APITimeout k \<le> 0 then Inl (OtherErr ''api_timeout_seconds must be greater than zero'')
      else Inr ())"

definition validateKubernetesNodeEvidence ::
  "KubernetesConfig \<Rightarrow> bool \<Rightarrow> bool \<Rightarrow> bool \<Rightarrow> error + unit" where
  "validateKubernetesNodeEvidence k requireClientCert allowPlaintext hasAdmin =
     bindE (validateNodeEvidenceProviders (k8_NodeEvidencePublishProviders k)) (\<lambda>tpmEnabled.
     validateTPMNodeEvidenceTransport tpmEnabled requireClientCert allowPlaintext hasAdmin)"

definition validateKubernetes :: "Config \<Rightarrow> error + unit" where
  "validateKubernetes c =
     (let k = cf_Kubernetes c in
      bindE (validateKubernetesNodeEvidence k (cf_RequireClientCert c) (cf_AllowPlaintextForTests c)
        (controlPlaneHasRole c ControlPlaneRoleNodeEvidenceAdmin (cf_ClusterID c))) (\<lambda>_.
      if k8_NodeEvidenceTTLSeconds k < 0 then Inl (OtherErr ''node_evidence_ttl_seconds must not be negative'')
      else if k8_NodeEvidenceRetentionSeconds k < 0 then
        Inl (OtherErr ''node_evidence_retention_seconds must not be negative'')
      else if k8_APITimeoutSeconds k < 0 then Inl (OtherErr ''api_timeout_seconds must not be negative'')
      else if \<not> k8_Enabled k then Inr ()
      else validateEnabledKubernetes k))"

fun run_validators :: "(error + unit) list \<Rightarrow> error + unit" where
  "run_validators [] = Inr ()"
| "run_validators (v # vs) = bindE v (\<lambda>_. run_validators vs)"

definition Config_Validate :: "Config \<Rightarrow> error + unit" where
  "Config_Validate c = run_validators
     [validateRequiredPaths c, validateTLS c, validateIdentifiers c, validateModes c,
      validateDefaultPolicy c, validateDevelopment c, validateChallengeTTL c,
      validateControlPlane c, validateKubernetes c]"

section \<open>What a validated configuration guarantees\<close>

lemma run_validators_eq_Inr [simp]: "run_validators vs = Inr () \<longleftrightarrow> list_all (\<lambda>v. v = Inr ()) vs"
  by (induction vs) (auto simp: bindE_eq_Inr)

lemma check_identities_eq_Inr [simp]:
  "check_identities is = Inr () \<longleftrightarrow> (\<forall>(h, i) \<in> set is. validateControlPlaneIdentity h i = Inr ())"
  by (induction "is" rule: check_identities.induct) (auto simp: bindE_eq_Inr)

lemma check_roles_eq_Inr:
  "check_roles seen rs = Inr () \<longleftrightarrow>
     set rs \<subseteq> {ControlPlaneRoleNodeEvidenceAdmin} \<and> distinct rs \<and> set rs \<inter> set seen = {}"
  by (induction seen rs rule: check_roles.induct) auto

lemma check_clusters_eq_Inr:
  "check_clusters seen cs = Inr () \<longleftrightarrow>
     (\<forall>c \<in> set cs. c = TrimSpace c \<and> validIdentifier c) \<and> distinct cs \<and> set cs \<inter> set seen = {}"
  by (induction seen cs rule: check_clusters.induct) auto

lemma validateControlPlaneIdentity_eq_Inr:
  "validateControlPlaneIdentity h i = Inr () \<longleftrightarrow>
     CanonicalSHA256Digest h = Inr h \<and> ci_Roles i = [ControlPlaneRoleNodeEvidenceAdmin] \<and>
     ci_ClusterIDs i \<noteq> [] \<and> distinct (ci_ClusterIDs i) \<and>
     (\<forall>c \<in> set (ci_ClusterIDs i). c = TrimSpace c \<and> validIdentifier c)"
proof -
  have "rs \<noteq> [] \<and> set rs \<subseteq> {a} \<and> distinct rs \<longleftrightarrow> rs = [a]" for rs and a :: string
    by (cases rs; cases "tl rs") auto
  then show ?thesis
    by (auto simp: validateControlPlaneIdentity_def bindE_eq_Inr check_roles_eq_Inr
        check_clusters_eq_Inr)
qed

lemma validateNodeEvidenceProviders_eq_Inr:
  "validateNodeEvidenceProviders ps = Inr b \<longleftrightarrow>
     (\<forall>p \<in> set ps. TrimSpace p = ProviderTPM2Quote) \<and> (b \<longleftrightarrow> ps \<noteq> [])"
proof -
  have "ProviderTPM2Quote \<noteq> []" by (simp add: ProviderTPM2Quote_def)
  moreover have "traverseE (\<lambda>p. if TrimSpace p = [] then Inl e else if TrimSpace p \<noteq> q then Inl e'
      else Inr ()) ps = Inr us \<longleftrightarrow>
      us = map (\<lambda>_. ()) ps \<and> (\<forall>p \<in> set ps. TrimSpace p \<noteq> [] \<and> TrimSpace p = q)"
    for e e' :: error and q us
    by (induction ps arbitrary: us) (auto simp: bindE_eq_Inr)
  ultimately show ?thesis
    by (cases ps) (auto simp: validateNodeEvidenceProviders_def normalizedProviderIDs_def set_insort_key)
qed

lemma seconds64_exact: "0 \<le> n \<Longrightarrow> n \<le> 9223372036 \<Longrightarrow> seconds64 n = n * second"
  unfolding seconds64_def second_def sint_sbintrunc'
  by (simp add: signed_take_bit_int_eq_self)

text \<open>C26. A configuration that passes validation and lists a TPM quote provider runs the broker only
  over mutual TLS with a client CA, and maps some canonical certificate digest to the
  node-evidence administrator role for the configured cluster.\<close>

theorem tpm_config_requires_mutual_tls:
  assumes "Config_Validate c = Inr ()"
    and "k8_NodeEvidencePublishProviders (cf_Kubernetes c) \<noteq> []"
  shows "cf_RequireClientCert c \<and> \<not> cf_AllowPlaintextForTests c \<and>
    TrimSpace (cf_ClientCAFile c) \<noteq> [] \<and> TrimSpace (cf_TLSCertFile c) \<noteq> [] \<and>
    TrimSpace (cf_TLSKeyFile c) \<noteq> [] \<and>
    (\<exists>h i. (h, i) \<in> set (cf_Identities c) \<and> CanonicalSHA256Digest h = Inr h \<and>
       ci_Roles i = [ControlPlaneRoleNodeEvidenceAdmin] \<and> cf_ClusterID c \<in> set (ci_ClusterIDs i))"
proof -
  have valid: "validateTLS c = Inr ()" "validateControlPlane c = Inr ()" "validateKubernetes c = Inr ()"
    using assms(1) by (simp_all add: Config_Validate_def)
  have transport: "cf_RequireClientCert c" "\<not> cf_AllowPlaintextForTests c"
    "controlPlaneHasRole c ControlPlaneRoleNodeEvidenceAdmin (cf_ClusterID c)"
    using valid(3) assms(2)
    by (auto simp: validateKubernetes_def Let_def validateKubernetesNodeEvidence_def
        validateNodeEvidenceProviders_eq_Inr validateTPMNodeEvidenceTransport_def split: if_splits)
  then obtain h i where hi: "(h, i) \<in> set (cf_Identities c)"
      "ControlPlaneRoleNodeEvidenceAdmin \<in> set (ci_Roles i)" "cf_ClusterID c \<in> set (ci_ClusterIDs i)"
    by (auto simp: controlPlaneHasRole_def list_ex_iff)
  then have "validateControlPlaneIdentity h i = Inr ()"
    using valid(2) transport by (auto simp: validateControlPlane_def split: if_splits)
  with hi transport valid(1) show ?thesis
    unfolding validateControlPlaneIdentity_eq_Inr validateTLS_def by (auto split: if_splits)
qed

text \<open>C27. A validated configuration is usable: the challenge lifetime is positive, the identifiers
  and every development subject are valid, and when there is a development subject the wrapping
  key decodes to exactly the key size.\<close>

theorem validated_config_usable:
  assumes "Config_Validate c = Inr ()"
  shows "ChallengeTTL c > 0 \<and> Profile c = ProfileDevelopment \<and>
    validIdentifier (cf_ClusterID c) \<and> validIdentifier (cf_KeyID c) \<and> validIdentifier (Policy c) \<and>
    (\<forall>s \<in> set (DevelopmentSubjects c). validIdentifier s) \<and>
    (DevelopmentSubjects c \<noteq> [] \<longrightarrow> (\<exists>key. DevelopmentWrappingKey c = Inr key \<and> length key = KeySize))"
proof -
  have key: "DevelopmentWrappingKey c = Inr key \<Longrightarrow> length key = KeySize" for key
    by (auto simp: DevelopmentWrappingKey_def Let_def split: if_splits option.splits)
  have valid: "validateIdentifiers c = Inr ()" "validateModes c = Inr ()"
    "validateDevelopment c = Inr ()" "validateChallengeTTL c = Inr ()"
    using assms by (simp_all add: Config_Validate_def)
  then show ?thesis
    using key unfolding validateIdentifiers_def validateModes_def validateDevelopment_def
      validateChallengeTTL_def assertE_def list_all_iff
    by (auto split: if_splits)
qed

text \<open>C28. The conversion of the configured seconds to a duration wraps around: a challenge lifetime
  of 18446744074 seconds, some 584 years, passes the validation and is in force as less than a third of a
  second; up to 9223372036 seconds the lifetime is the configured one.\<close>

theorem challenge_ttl_wraps:
  "(0 < cf_ChallengeTTLSeconds c \<and> cf_ChallengeTTLSeconds c \<le> 9223372036 \<longrightarrow>
      ChallengeTTL c = cf_ChallengeTTLSeconds c * second) \<and>
   (cf_ChallengeTTLSeconds c = 18446744074 \<longrightarrow>
      validateChallengeTTL c = Inr () \<and> ChallengeTTL c = 290448384)"
  by (auto simp: ChallengeTTL_def seconds64_exact validateChallengeTTL_def assertE_def)
    (simp_all add: seconds64_def second_def signed_take_bit_int_eq_self signed_take_bit_eq_take_bit_minus take_bit_eq_mod)

definition demo_config :: Config where
  "demo_config = \<lparr>cf_ListenAddress = '':8443'', cf_TLSCertFile = ''cert'', cf_TLSKeyFile = ''key'',
     cf_ClientCAFile = ''ca'', cf_RequireClientCert = True, cf_AllowPlaintextForTests = False,
     cf_SQLitePath = ''db'', cf_AuditFilePath = ''audit'', cf_AuditFsync = True, cf_OTelExporter = [],
     cf_DefaultPolicyPath = [], cf_KeyringProtectionProfile = [], cf_ClusterID = ''c1'',
     cf_KeyID = ''k1'', cf_PolicyID = [],
     cf_Identities = [(''sha256:'' @ hex_encode (replicate 32 7),
       \<lparr>ci_Roles = [ControlPlaneRoleNodeEvidenceAdmin], ci_ClusterIDs = [''c1'']\<rparr>)],
     cf_DevelopmentSubject = [], cf_DevelopmentWrappingKeyB64 = [], cf_ChallengeTTLSeconds = 60,
     cf_Kubernetes = \<lparr>k8_Enabled = False, k8_APIServer = [], k8_CACertFile = [],
       k8_BearerTokenFile = [], k8_TokenReviewAudience = [], k8_Namespace = [],
       k8_ServiceAccount = [], k8_NodeEvidenceTTLSeconds = 0, k8_NodeEvidenceRetentionSeconds = 0,
       k8_APITimeoutSeconds = 0, k8_AllowUnboundServiceAccountTokens = False,
       k8_AllowFakeNodeEvidencePublish = False,
       k8_NodeEvidencePublishProviders = [ProviderTPM2Quote]\<rparr>,
     cf_DefaultPolicy = \<lparr>pd_PolicyID = [], pd_Mode = [], pd_DevelopmentSubjects = []\<rparr>\<rparr>"

lemma demo_config_valid: "Config_Validate demo_config = Inr ()"
proof -
  have trim: "TrimSpace '':8443'' = '':8443''" "TrimSpace ''cert'' = ''cert''" "TrimSpace ''key'' = ''key''"
    "TrimSpace ''ca'' = ''ca''" "TrimSpace ''db'' = ''db''" "TrimSpace ''audit'' = ''audit''"
    "TrimSpace ''c1'' = ''c1''" "TrimSpace ProviderTPM2Quote = ProviderTPM2Quote" "TrimSpace [] = []"
    by (simp_all add: TrimSpace_graphic graphic_def ProviderTPM2Quote_def)
  have canonical: "CanonicalSHA256Digest (''sha256:'' @ hex_encode (replicate 32 7)) =
      Inr (''sha256:'' @ hex_encode (replicate 32 7))"
    unfolding CanonicalSHA256Digest_eq_Inr by (metis length_replicate)
  then have "validateControlPlane demo_config = Inr ()"
    by (simp add: validateControlPlane_def demo_config_def validateControlPlaneIdentity_eq_Inr trim
        canonical identifier_char_def)
  moreover have "validateKubernetes demo_config = Inr ()"
    by (auto simp: validateKubernetes_def Let_def validateKubernetesNodeEvidence_def
        validateNodeEvidenceProviders_eq_Inr validateTPMNodeEvidenceTransport_def trim
        demo_config_def controlPlaneHasRole_def intro: exI [of _ True])
  moreover have "validateRequiredPaths demo_config = Inr ()" "validateTLS demo_config = Inr ()"
    "validateIdentifiers demo_config = Inr ()" "validateModes demo_config = Inr ()"
    "validateDefaultPolicy demo_config = Inr ()" "validateDevelopment demo_config = Inr ()"
    "validateChallengeTTL demo_config = Inr ()"
    by (simp_all add: demo_config_def validateRequiredPaths_def validateTLS_def validateIdentifiers_def
        validateModes_def validateDefaultPolicy_def validateDevelopment_def validateChallengeTTL_def
        trim Policy_def Profile_def Exporter_def DevelopmentSubjects_def ChallengeTTL_def
        seconds64_exact second_def assertE_def identifier_char_def)
  ultimately show ?thesis by (simp add: Config_Validate_def)
qed

theorem tpm_config_requires_mutual_tls_witness:
  "cf_RequireClientCert demo_config \<and> TrimSpace (cf_ClientCAFile demo_config) \<noteq> []"
  using tpm_config_requires_mutual_tls [OF demo_config_valid] by (simp add: demo_config_def)

theorem validated_config_usable_witness: "ChallengeTTL demo_config > 0"
  using validated_config_usable [OF demo_config_valid] by simp

theorem challenge_ttl_wraps_witness:
  "ChallengeTTL demo_config = 60 * second \<and>
   ChallengeTTL (demo_config\<lparr>cf_ChallengeTTLSeconds := 18446744074\<rparr>) = 290448384"
  using challenge_ttl_wraps [of demo_config]
    challenge_ttl_wraps [of "demo_config\<lparr>cf_ChallengeTTLSeconds := 18446744074\<rparr>"]
  by (simp add: demo_config_def)

end
