(* ===== verification/Key_Store.thy ===== *)
theory Key_Store
  imports Broker_Schema Broker_Config "HOL-Library.Product_Lexorder"
begin

text \<open>
  The durable keyring of the broker: the methods of \<^verbatim>\<open>SQLiteStore\<close> (\<^verbatim>\<open>internal/broker/sqlite.go\<close>)
  that create, read and rotate key versions, with the request checks of
  \<^verbatim>\<open>internal/broker/rotation.go\<close> and the records of \<^verbatim>\<open>internal/broker/store.go\<close>.

  Every method takes the fault pattern of the driver and the database, and returns its result
  and the new database.  \<open>clock\<close> is the reading of the system clock where the method takes one.
\<close>

section \<open>Records\<close>

record BootstrapKeyringRequest =
  bk_Key :: ProtectedKey
  bk_RecoveryPackageID :: string
  bk_RecoveryThreshold :: int
  bk_RecoveryShares :: int
  bk_RecoveryChecksum :: string
  bk_RecoveryMetadataJSON :: string
  bk_CreatedAt :: time

record RotationStartRequest =
  rs_OperationID :: string
  rs_Key :: ProtectedKey
  rs_CreatedAt :: time

record RotationOperation =
  rot_OperationID :: string
  rot_ClusterID :: string
  rot_KeyID :: string
  rot_FromVersion :: u32
  rot_ToVersion :: u32
  rot_Status :: RotationStatus
  rot_CreatedAt :: time
  rot_UpdatedAt :: time
  rot_ActivatedAt :: time

record RotationVerification =
  rv_OperationID :: string
  rv_Name :: string
  rv_VerifiedAt :: time
  rv_Detail :: string

definition RotationVerificationOpenBAORoot :: string where
  "RotationVerificationOpenBAORoot = ''openbao-root''"

definition RotationVerificationRestart :: string where
  "RotationVerificationRestart = ''restart''"

definition RotationVerificationKeyVersion :: string where
  "RotationVerificationKeyVersion = ''key-version''"

definition maxKeyVersion :: int where
  "maxKeyVersion = 4294967295"

section \<open>Creating a keyring\<close>

definition nullableString :: "string \<Rightarrow> string option" where
  "nullableString v = (if v = [] then None else Some v)"

definition BootstrapKeyring ::
  "faults \<Rightarrow> BootstrapKeyringRequest \<Rightarrow> db \<Rightarrow> (error + unit) \<times> db" where
  "BootstrapKeyring F request =
     (let key = bk_Key request; ref = pk_Ref key; now = bk_CreatedAt request in
      checked (ProtectedKey_Validate key) (\<lambda>_.
      checked (assertE (pk_Status key = StatusActive \<and> kr_Version ref = 1)
        (OtherErr ''bootstrap key must be active version 1'')) (\<lambda>_.
      with_tx F ''begin keyring bootstrap transaction'' ''commit keyring bootstrap transaction''
       (tx_bind (stmt F ''insert cluster'' 0 (\<lambda>d. d\<lparr>clusters := clusters d @
          [\<lparr>cl_id = kr_ClusterID ref,
            cl_recovery_package_id = nullableString (bk_RecoveryPackageID request),
            cl_created_at = now\<rparr>]\<rparr>)) (\<lambda>_.
        tx_bind (stmt F ''insert keyring'' 0 (\<lambda>d. d\<lparr>keyrings := keyrings d @
          [\<lparr>kg_cluster = kr_ClusterID ref, kg_key = kr_KeyID ref,
            kg_profile = pk_ProtectorProfile key, kg_created_at = now\<rparr>]\<rparr>)) (\<lambda>_.
        tx_bind (stmt F ''insert key version'' 0 (\<lambda>d. d\<lparr>key_versions := key_versions d @
          [\<lparr>kw_key = key, kw_created_at = now\<rparr>]\<rparr>)) (\<lambda>_.
        tx_bind (stmt F ''insert policy'' 0 (\<lambda>d. d\<lparr>policies := policies d @
          [\<lparr>po_cluster = kr_ClusterID ref, po_policy = pk_PolicyID key,
            po_body = ''default-deny-with-enrolled-subjects'', po_created_at = now\<rparr>]\<rparr>)) (\<lambda>_.
        if bk_RecoveryPackageID request \<noteq> [] then
          stmt F ''insert recovery package'' 0 (\<lambda>d. d\<lparr>recovery_packages := recovery_packages d @
            [\<lparr>rp_id = bk_RecoveryPackageID request, rp_cluster = kr_ClusterID ref, rp_key = kr_KeyID ref,
              rp_threshold = bk_RecoveryThreshold request, rp_shares = bk_RecoveryShares request,
              rp_checksum = bk_RecoveryChecksum request, rp_body = bk_RecoveryMetadataJSON request,
              rp_created_at = now\<rparr>]\<rparr>)
        else tx_return ()))))))))"

definition validateDevelopmentProtectedKey :: "Config \<Rightarrow> ProtectedKey \<Rightarrow> error + unit" where
  "validateDevelopmentProtectedKey config key =
     bindE (ProtectedKey_Validate key) (\<lambda>_.
     if kr_ClusterID (pk_Ref key) \<noteq> cf_ClusterID config \<or> kr_KeyID (pk_Ref key) \<noteq> cf_KeyID config \<or>
        kr_Version (pk_Ref key) \<noteq> 1 \<or> pk_Status key \<noteq> StatusActive \<or>
        pk_PolicyID key \<noteq> Policy config \<or> pk_ProtectorProfile key \<noteq> Profile config then
       Inl (OtherErr ''development protected key does not match broker configuration'')
     else Inr ())"

definition ConfigureDevelopment ::
  "faults \<Rightarrow> time \<Rightarrow> Config \<Rightarrow> ProtectedKey \<Rightarrow> db \<Rightarrow> (error + unit) \<times> db" where
  "ConfigureDevelopment F clock config key =
     checked (validateDevelopmentProtectedKey config key) (\<lambda>_.
     with_tx F ''begin development seed transaction'' ''commit development seed transaction''
      (tx_bind (stmt_ignore F ''insert cluster'' 0 (\<lambda>d. d\<lparr>clusters := clusters d @
         [\<lparr>cl_id = cf_ClusterID config, cl_recovery_package_id = None, cl_created_at = clock\<rparr>]\<rparr>)) (\<lambda>_.
       tx_bind (stmt_ignore F ''insert keyring'' 0 (\<lambda>d. d\<lparr>keyrings := keyrings d @
         [\<lparr>kg_cluster = cf_ClusterID config, kg_key = cf_KeyID config, kg_profile = Profile config,
           kg_created_at = clock\<rparr>]\<rparr>)) (\<lambda>_.
       tx_bind (stmt_ignore F ''insert key version'' 0 (\<lambda>d. d\<lparr>key_versions := key_versions d @
         [\<lparr>kw_key = key\<lparr>pk_Ref := (pk_Ref key)\<lparr>kr_ClusterID := cf_ClusterID config,
             kr_KeyID := cf_KeyID config\<rparr>\<rparr>, kw_created_at = clock\<rparr>]\<rparr>)) (\<lambda>_.
       tx_bind (stmt_ignore F ''insert policy'' 0 (\<lambda>d. d\<lparr>policies := policies d @
         [\<lparr>po_cluster = cf_ClusterID config, po_policy = Policy config,
           po_body = ''default-deny-with-development-subject'', po_created_at = clock\<rparr>]\<rparr>)) (\<lambda>_.
       tx_each (\<lambda>i subject. stmt_ignore F ''insert development subject'' i (\<lambda>d.
           d\<lparr>subjects := subjects d @ [\<lparr>su_cluster = cf_ClusterID config, su_subject = subject,
             su_revoked = False, su_created_at = clock, su_revoked_at = None\<rparr>]\<rparr>)) 0
         (DevelopmentSubjects config)))))))"

section \<open>Reading key versions\<close>

definition uint32KeyVersion :: "int \<Rightarrow> error + u32" where
  "uint32KeyVersion v =
     (if v \<le> 0 \<or> v > maxKeyVersion then Inl (OtherErr ''key version exceeds uint32'')
      else Inr (word_of_int v))"

definition scan_protected_key :: "string \<Rightarrow> key_row \<Rightarrow> error + ProtectedKey" where
  "scan_protected_key clusterID r =
     bindE (uint32KeyVersion (uint (kr_Version (kw_ref r)))) (\<lambda>version.
     (let record = (kw_key r)\<lparr>pk_Ref := \<lparr>kr_ClusterID = clusterID, kr_KeyID = kr_KeyID (kw_ref r),
        kr_Version = version\<rparr>\<rparr> in
      bindE (ProtectedKey_Validate record) (\<lambda>_. Inr record)))"

definition cluster_rows :: "string \<Rightarrow> db \<Rightarrow> key_row list" where
  "cluster_rows clusterID d =
     sort_key (\<lambda>r. (kr_KeyID (kw_ref r), kr_Version (kw_ref r)))
       (filter (\<lambda>r. kr_ClusterID (kw_ref r) = clusterID) (key_versions d))"

definition ProtectedKeys :: "faults \<Rightarrow> string \<Rightarrow> db \<Rightarrow> error + ProtectedKey list" where
  "ProtectedKeys F clusterID d =
     (if F ''query key versions'' 0 then Inl (DbErr ''query key versions'')
      else bindE (traverseE (scan_protected_key clusterID) (cluster_rows clusterID d)) (\<lambda>records.
        if F ''iterate key versions'' 0 then Inl (DbErr ''iterate key versions'')
        else if records = [] then Inl ErrKeyNotFound
        else Inr records))"

definition LoadProtectedKey :: "faults \<Rightarrow> KeyRef \<Rightarrow> db \<Rightarrow> error + ProtectedKey" where
  "LoadProtectedKey F ref d =
     (if F ''query key version'' 0 then Inl (DbErr ''query key version'')
      else (case find (\<lambda>r. kw_ref r = ref) (key_versions d) of
          None \<Rightarrow> Inl ErrKeyNotFound
        | Some r \<Rightarrow>
            (let record = (kw_key r)\<lparr>pk_Ref := ref\<rparr> in
             bindE (ProtectedKey_Validate record) (\<lambda>_. Inr record))))"

section \<open>Rotation\<close>

definition validateRotationStart :: "RotationStartRequest \<Rightarrow> error + unit" where
  "validateRotationStart request =
     (let key = rs_Key request in
      if rs_OperationID request = [] then Inl (ErrRotationInvalidTransition ''operation_id is required'')
      else bindE (mapErr (\<lambda>_. ErrRotationInvalidTransition []) (ProtectedKey_Validate key)) (\<lambda>_.
        if \<not> validIdentifier (kr_ClusterID (pk_Ref key)) then Inl (ErrInvalidMetadata ''invalid cluster_id'')
        else if \<not> validIdentifier (kr_KeyID (pk_Ref key)) then Inl (ErrInvalidMetadata ''invalid key_id'')
        else if \<not> validIdentifier (pk_PolicyID key) then Inl (ErrInvalidMetadata ''invalid policy_id'')
        else if pk_Status key \<noteq> StatusPending then
          Inl (ErrRotationInvalidTransition ''new rotation key must be pending'')
        else Inr ()))"

definition validateRotationVerification :: "string \<Rightarrow> string \<Rightarrow> error + unit" where
  "validateRotationVerification name detail =
     (if name \<notin> {RotationVerificationOpenBAORoot, RotationVerificationRestart,
           RotationVerificationKeyVersion} then
        Inl (ErrRotationInvalidTransition ''unsupported rotation verification'')
      else if TrimSpace detail = [] then Inl (OtherErr ''rotation verification detail is required'')
      else Inr ())"

definition ensureNoStartedRotation :: "faults \<Rightarrow> string \<Rightarrow> string \<Rightarrow> unit tx" where
  "ensureNoStartedRotation F clusterID keyID =
     tx_bind (query F ''query started rotation operation'' 0
       (\<lambda>d. find (\<lambda>r. ro_ring r = (clusterID, keyID) \<and> ro_started r) (rotation_operations d))) (\<lambda>row.
     case row of None \<Rightarrow> tx_return () | Some r \<Rightarrow> tx_fail (ErrRotationInProgress (ro_id r)))"

definition nextRotationVersions :: "faults \<Rightarrow> string \<Rightarrow> string \<Rightarrow> (u32 \<times> u32) tx" where
  "nextRotationVersions F clusterID keyID =
     tx_bind (query F ''query active key version'' 0
       (\<lambda>d. find (\<lambda>r. kw_ring r = (clusterID, keyID) \<and> kw_active r) (key_versions d))) (\<lambda>active.
     case active of None \<Rightarrow> tx_fail ErrKeyNotUsable
     | Some a \<Rightarrow>
         tx_bind (query F ''query max key version'' 0
           (\<lambda>d. Max (set (map (\<lambda>r. uint (kr_Version (kw_ref r)))
             (filter (\<lambda>r. kw_ring r = (clusterID, keyID)) (key_versions d)))))) (\<lambda>maxVersion.
         if maxVersion \<ge> maxKeyVersion then
           tx_fail (ErrRotationInvalidTransition ''key version limit reached'')
         else tx_lift (bindE (uint32KeyVersion (uint (kr_Version (kw_ref a)))) (\<lambda>fromVersion.
           bindE (uint32KeyVersion (maxVersion + 1)) (\<lambda>toVersion. Inr (fromVersion, toVersion))))))"

definition NextRotationKeyRef :: "faults \<Rightarrow> string \<Rightarrow> string \<Rightarrow> db \<Rightarrow> (error + KeyRef) \<times> db" where
  "NextRotationKeyRef F clusterID keyID =
     with_tx F ''begin next rotation key transaction'' ''commit next rotation key transaction''
      (tx_bind (nextRotationVersions F clusterID keyID) (\<lambda>(_, version).
       tx_return \<lparr>kr_ClusterID = clusterID, kr_KeyID = keyID, kr_Version = version\<rparr>))"

definition StartRotation ::
  "faults \<Rightarrow> time \<Rightarrow> RotationStartRequest \<Rightarrow> db \<Rightarrow> (error + RotationOperation) \<times> db" where
  "StartRotation F clock request =
     checked (validateRotationStart request) (\<lambda>_.
     (let now = (if rs_CreatedAt request = 0 then clock else rs_CreatedAt request);
          ref = pk_Ref (rs_Key request) in
      with_tx F ''begin rotation start transaction'' ''commit rotation start transaction''
       (tx_bind (ensureNoStartedRotation F (kr_ClusterID ref) (kr_KeyID ref)) (\<lambda>_.
        tx_bind (nextRotationVersions F (kr_ClusterID ref) (kr_KeyID ref)) (\<lambda>(fromVersion, toVersion).
        if kr_Version ref \<noteq> toVersion then
          tx_fail (ErrRotationInvalidTransition ''pending key version does not match next version'')
        else
          tx_bind (stmt F ''insert pending key version'' 0 (\<lambda>d. d\<lparr>key_versions := key_versions d @
            [\<lparr>kw_key = (rs_Key request)\<lparr>pk_Ref := ref\<lparr>kr_Version := toVersion\<rparr>\<rparr>, kw_created_at = now\<rparr>]\<rparr>)) (\<lambda>_.
          tx_bind (stmt F ''insert rotation operation'' 0 (\<lambda>d. d\<lparr>rotation_operations := rotation_operations d @
            [\<lparr>ro_id = rs_OperationID request, ro_cluster = kr_ClusterID ref, ro_key = kr_KeyID ref,
              ro_from = fromVersion, ro_to = toVersion, ro_status = RotationStatusStarted,
              ro_created_at = now, ro_updated_at = now, ro_activated_at = None\<rparr>]\<rparr>)) (\<lambda>_.
          tx_return \<lparr>rot_OperationID = rs_OperationID request, rot_ClusterID = kr_ClusterID ref,
            rot_KeyID = kr_KeyID ref, rot_FromVersion = fromVersion, rot_ToVersion = toVersion,
            rot_Status = RotationStatusStarted, rot_CreatedAt = now, rot_UpdatedAt = now,
            rot_ActivatedAt = 0\<rparr>)))))))"

definition updateKeyStatus :: "faults \<Rightarrow> nat \<Rightarrow> KeyRef \<Rightarrow> Status \<Rightarrow> Status \<Rightarrow> unit tx" where
  "updateKeyStatus F i ref from to =
     (let P = (\<lambda>r. kw_ref r = ref \<and> pk_Status (kw_key r) = from) in
      tx_bind (stmt_count F ''update key version status'' ''read key status update result'' i
        (\<lambda>d. count_where P (key_versions d))
        (\<lambda>d. d\<lparr>key_versions := set_where P (\<lambda>r. r\<lparr>kw_key := (kw_key r)\<lparr>pk_Status := to\<rparr>\<rparr>) (key_versions d)\<rparr>))
        (\<lambda>affected. if affected \<noteq> 1 then tx_fail (ErrRotationInvalidTransition []) else tx_return ()))"

definition scanRotationOperation :: "rotation_row option \<Rightarrow> error + RotationOperation" where
  "scanRotationOperation row =
     (case row of None \<Rightarrow> Inl ErrRotationNotFound
      | Some r \<Rightarrow>
          bindE (uint32KeyVersion (uint (ro_from r))) (\<lambda>fromVersion.
          bindE (uint32KeyVersion (uint (ro_to r))) (\<lambda>toVersion.
          Inr \<lparr>rot_OperationID = ro_id r, rot_ClusterID = ro_cluster r, rot_KeyID = ro_key r,
            rot_FromVersion = fromVersion, rot_ToVersion = toVersion, rot_Status = ro_status r,
            rot_CreatedAt = ro_created_at r, rot_UpdatedAt = ro_updated_at r,
            rot_ActivatedAt = (case ro_activated_at r of None \<Rightarrow> 0 | Some t \<Rightarrow> t)\<rparr>)))"

definition queryRotationOperation :: "faults \<Rightarrow> string \<Rightarrow> RotationOperation tx" where
  "queryRotationOperation F operationID =
     tx_bind (query F ''query rotation operation'' 0
       (\<lambda>d. find (\<lambda>r. ro_id r = operationID) (rotation_operations d))) (\<lambda>row.
     tx_lift (scanRotationOperation row))"

definition GetRotationOperation :: "faults \<Rightarrow> string \<Rightarrow> db \<Rightarrow> (error + RotationOperation) \<times> db" where
  "GetRotationOperation F operationID = auto_commit (queryRotationOperation F operationID)"

definition activated_at :: "time \<Rightarrow> rotation_row \<Rightarrow> rotation_row" where
  "activated_at now r =
     r\<lparr>ro_status := RotationStatusActivated, ro_activated_at := Some now, ro_updated_at := now\<rparr>"

definition ActivateRotation ::
  "faults \<Rightarrow> time \<Rightarrow> string \<Rightarrow> time \<Rightarrow> db \<Rightarrow> (error + RotationOperation) \<times> db" where
  "ActivateRotation F clock operationID now' =
     (let now = (if now' = 0 then clock else now') in
      with_tx_commits F ''begin rotation activation transaction''
       (tx_bind (queryRotationOperation F operationID) (\<lambda>operation.
        case rot_Status operation of
          RotationStatusActivated \<Rightarrow> tx_return (operation, ''commit idempotent rotation activation'')
        | RotationStatusStarted \<Rightarrow>
            (let ref = (\<lambda>v. \<lparr>kr_ClusterID = rot_ClusterID operation, kr_KeyID = rot_KeyID operation,
                kr_Version = v\<rparr>) in
             tx_bind (updateKeyStatus F 0 (ref (rot_FromVersion operation)) StatusActive StatusDecryptOnly) (\<lambda>_.
             tx_bind (updateKeyStatus F 1 (ref (rot_ToVersion operation)) StatusPending StatusActive) (\<lambda>_.
             tx_bind (stmt F ''update rotation operation'' 0 (\<lambda>d. d\<lparr>rotation_operations :=
               set_where (\<lambda>r. ro_id r = rot_OperationID operation)
                 (activated_at now) (rotation_operations d)\<rparr>)) (\<lambda>_.
             tx_return (operation\<lparr>rot_Status := RotationStatusActivated, rot_UpdatedAt := now,
               rot_ActivatedAt := now\<rparr>, ''commit rotation activation transaction'')))))
        | _ \<Rightarrow> tx_fail (ErrRotationInvalidTransition []))))"

definition RecordRotationVerification ::
  "faults \<Rightarrow> time \<Rightarrow> string \<Rightarrow> string \<Rightarrow> string \<Rightarrow> time \<Rightarrow> db \<Rightarrow> (error + RotationVerification) \<times> db" where
  "RecordRotationVerification F clock operationID name detail now' =
     checked (validateRotationVerification name detail) (\<lambda>_.
     (let now = (if now' = 0 then clock else now') in
      with_tx F ''begin rotation verification transaction'' ''commit rotation verification transaction''
       (tx_bind (queryRotationOperation F operationID) (\<lambda>_.
        tx_bind (stmt F ''record rotation verification'' 0 (\<lambda>d. d\<lparr>rotation_verifications :=
          (if list_ex (\<lambda>r. ve_operation r = operationID \<and> ve_name r = name) (rotation_verifications d) then
             set_where (\<lambda>r. ve_operation r = operationID \<and> ve_name r = name)
               (\<lambda>r. r\<lparr>ve_verified_at := now, ve_detail := detail\<rparr>) (rotation_verifications d)
           else rotation_verifications d @ [\<lparr>ve_operation = operationID, ve_name = name,
             ve_verified_at = now, ve_detail = detail\<rparr>])\<rparr>)) (\<lambda>_.
        tx_return \<lparr>rv_OperationID = operationID, rv_Name = name, rv_VerifiedAt = now,
          rv_Detail = detail\<rparr>)))))"

definition RotationVerifications ::
  "faults \<Rightarrow> string \<Rightarrow> db \<Rightarrow> error + RotationVerification list" where
  "RotationVerifications F operationID d =
     bindE (fst (GetRotationOperation F operationID d)) (\<lambda>_.
     if F ''query rotation verifications'' 0 then Inl (DbErr ''query rotation verifications'')
     else if F ''iterate rotation verifications'' 0 then Inl (DbErr ''iterate rotation verifications'')
     else Inr (map (\<lambda>r. \<lparr>rv_OperationID = ve_operation r, rv_Name = ve_name r,
         rv_VerifiedAt = ve_verified_at r, rv_Detail = ve_detail r\<rparr>)
       (sort_key ve_name (filter (\<lambda>r. ve_operation r = operationID) (rotation_verifications d)))))"

section \<open>The stored keys as a map\<close>

definition key_view :: "db \<Rightarrow> KeyRef \<rightharpoonup> ProtectedKey" where
  "key_view d = map_of (map (\<lambda>r. (kw_ref r, kw_key r)) (key_versions d))"

lemma schema_distinct_refs: "schema_ok d \<Longrightarrow> distinct (map kw_ref (key_versions d))"
  by (simp add: schema_ok_def row_constraints_def keys_ok_def)

lemma key_view_eq_Some:
  "schema_ok d \<Longrightarrow> key_view d ref = Some k \<longleftrightarrow>
     (\<exists>r \<in> set (key_versions d). kw_ref r = ref \<and> kw_key r = k)"
  unfolding key_view_def using schema_distinct_refs [of d]
  by (subst map_of_eq_Some_iff) (auto simp: comp_def image_iff)

lemma key_view_ref: "key_view d ref = Some k \<Longrightarrow> pk_Ref k = ref"
  unfolding key_view_def by (drule map_of_SomeD) (auto simp: kw_ref_def)

lemma key_view_append:
  assumes "schema_ok d'" and "key_versions d' = key_versions d @ [r]"
  shows "key_view d (kw_ref r) = None \<and> key_view d' = (key_view d)(kw_ref r \<mapsto> kw_key r)"
proof -
  have "kw_ref r \<notin> kw_ref ` set (key_versions d)"
    using schema_distinct_refs [OF assms(1)] assms(2) by simp
  then have "key_view d (kw_ref r) = None"
    by (auto simp: key_view_def map_of_eq_None_iff image_iff)
  then show ?thesis
    by (auto simp: key_view_def assms(2) map_add_def fun_eq_iff split: option.splits)
qed

lemma key_view_cong: "key_versions d' = key_versions d \<Longrightarrow> key_view d' = key_view d"
  by (simp add: key_view_def)

text \<open>A guarded status update changes one entry of the map.\<close>

lemma map_of_set_where:
  assumes "distinct (map kw_ref rows)" and "r \<in> set rows" and "kw_ref r = ref" and "Q r"
    and "\<And>r. kw_ref (g r) = kw_ref r"
  shows "map_of (map (\<lambda>r. (kw_ref r, kw_key r)) (set_where (\<lambda>r. kw_ref r = ref \<and> Q r) g rows)) =
    (map_of (map (\<lambda>r. (kw_ref r, kw_key r)) rows))(ref \<mapsto> kw_key (g r))"
  using assms(1,2)
proof (induction rows)
  case (Cons x xs)
  have skip: "ref \<notin> kw_ref ` set xs \<Longrightarrow> set_where (\<lambda>r. kw_ref r = ref \<and> Q r) g xs = xs"
    by (auto simp: set_where_def intro!: map_idI)
  show ?case
  proof (cases "x = r")
    case True
    with Cons.prems skip show ?thesis using assms(3-5) by (auto simp: set_where_def)
  next
    case False
    with Cons.prems have mem: "r \<in> set xs" by simp
    then have "kw_ref x \<noteq> ref" using Cons.prems(1) assms(3) by (auto simp: image_iff)
    with Cons.IH mem Cons.prems(1) show ?thesis by (auto simp: set_where_def fun_upd_twist)
  qed
qed simp

lemma updateKeyStatus_success:
  assumes "updateKeyStatus F i ref from to d = Inr (u, d')" and "schema_ok d"
  shows "schema_ok d' \<and> (\<exists>k. key_view d ref = Some k \<and> pk_Status k = from \<and>
    key_view d' = (key_view d)(ref \<mapsto> k\<lparr>pk_Status := to\<rparr>)) \<and>
    d' = d\<lparr>key_versions := key_versions d'\<rparr>"
proof -
  let ?P = "\<lambda>r. kw_ref r = ref \<and> pk_Status (kw_key r) = from"
  let ?g = "\<lambda>r. r\<lparr>kw_key := (kw_key r)\<lparr>pk_Status := to\<rparr>\<rparr>"
  from assms(1) have d': "d' = d\<lparr>key_versions := set_where ?P ?g (key_versions d)\<rparr>" "schema_ok d'"
    and "length (filter ?P (key_versions d)) = 1"
    by (auto simp: updateKeyStatus_def Let_def count_where_def split: if_splits)
  then have "filter ?P (key_versions d) \<noteq> []" by auto
  then obtain r where r: "r \<in> set (key_versions d)" "?P r" unfolding filter_empty_conv by blast
  then have "key_view d ref = Some (kw_key r)" using assms(2) by (auto simp: key_view_eq_Some)
  moreover have "key_view d' = (key_view d)(ref \<mapsto> (kw_key r)\<lparr>pk_Status := to\<rparr>)"
    using map_of_set_where [OF schema_distinct_refs [OF assms(2)] r(1), of ref "\<lambda>r. pk_Status (kw_key r) = from" ?g] r(2)
    by (simp add: key_view_def d'(1) kw_ref_def)
  ultimately show ?thesis using r d' by auto
qed

section \<open>Success of the rotation methods\<close>

lemma uint32KeyVersion_eq_Inr [simp]:
  "uint32KeyVersion v = Inr w \<longleftrightarrow> 0 < v \<and> v \<le> maxKeyVersion \<and> w = word_of_int v"
  by (auto simp: uint32KeyVersion_def)

lemma uint_maxKeyVersion [simp]: "uint (w :: u32) \<le> maxKeyVersion"
  using uint_bounded [of w] by (simp add: maxKeyVersion_def)

lemma uint_word_of_version: "0 < v \<Longrightarrow> v \<le> maxKeyVersion \<Longrightarrow> uint (word_of_int v :: u32) = v"
  by (simp add: uint_word_of_int maxKeyVersion_def)

lemma nextRotationVersions_success:
  assumes "nextRotationVersions F c k d = Inr ((f, t), d')"
  shows "d' = d \<and> (\<exists>a \<in> set (key_versions d). kw_ring a = (c, k) \<and> kw_active a \<and> f = kr_Version (kw_ref a)) \<and>
    (\<forall>r \<in> set (key_versions d). kw_ring r = (c, k) \<longrightarrow> kr_Version (kw_ref r) < t)"
proof -
  let ?S = "set (map (\<lambda>r. uint (kr_Version (kw_ref r))) (filter (\<lambda>r. kw_ring r = (c, k)) (key_versions d)))"
  from assms obtain a where a: "find (\<lambda>r. kw_ring r = (c, k) \<and> kw_active r) (key_versions d) = Some a"
      and "d' = d" "f = kr_Version (kw_ref a)"
      and t: "Max ?S < maxKeyVersion" "0 < Max ?S + 1" "t = word_of_int (Max ?S + 1)"
    by (auto simp: nextRotationVersions_def split: option.splits if_splits)
  have "uint t = Max ?S + 1"
    unfolding t(3) by (rule uint_word_of_version) (use t(1,2) in auto)
  moreover have "\<forall>r \<in> set (key_versions d). kw_ring r = (c, k) \<longrightarrow> uint (kr_Version (kw_ref r)) \<le> Max ?S"
    by (auto intro!: Max_ge)
  ultimately have "\<forall>r \<in> set (key_versions d). kw_ring r = (c, k) \<longrightarrow> kr_Version (kw_ref r) < t"
    by (fastforce simp: word_less_def)
  then show ?thesis using find_SomeD [OF a] \<open>d' = d\<close> \<open>f = _\<close> by blast
qed

lemma StartRotation_success:
  assumes "StartRotation F clock q d = (Inr operation, d')"
  shows "\<exists>a now. validateRotationStart q = Inr () \<and>
    a \<in> set (key_versions d) \<and> kw_active a \<and> kw_ring a = (kr_ClusterID (pk_Ref (rs_Key q)), kr_KeyID (pk_Ref (rs_Key q))) \<and>
    (\<forall>r \<in> set (key_versions d). kw_ring r = kw_ring a \<longrightarrow> kr_Version (kw_ref r) < kr_Version (pk_Ref (rs_Key q))) \<and>
    (\<forall>r \<in> set (rotation_operations d). \<not> (ro_ring r = kw_ring a \<and> ro_started r)) \<and>
    operation = \<lparr>rot_OperationID = rs_OperationID q, rot_ClusterID = kr_ClusterID (kw_ref a),
      rot_KeyID = kr_KeyID (kw_ref a), rot_FromVersion = kr_Version (kw_ref a),
      rot_ToVersion = kr_Version (pk_Ref (rs_Key q)), rot_Status = RotationStatusStarted,
      rot_CreatedAt = now, rot_UpdatedAt = now, rot_ActivatedAt = 0\<rparr> \<and>
    schema_ok d' \<and>
    d' = d\<lparr>key_versions := key_versions d @ [\<lparr>kw_key = rs_Key q, kw_created_at = now\<rparr>],
      rotation_operations := rotation_operations d @
        [\<lparr>ro_id = rs_OperationID q, ro_cluster = kr_ClusterID (kw_ref a), ro_key = kr_KeyID (kw_ref a),
          ro_from = kr_Version (kw_ref a), ro_to = kr_Version (pk_Ref (rs_Key q)),
          ro_status = RotationStatusStarted, ro_created_at = now, ro_updated_at = now,
          ro_activated_at = None\<rparr>]\<rparr>"
proof -
  let ?ref = "pk_Ref (rs_Key q)"
  from assms obtain f t d1 now where valid: "validateRotationStart q = Inr ()"
    and none: "find (\<lambda>r. ro_ring r = (kr_ClusterID ?ref, kr_KeyID ?ref) \<and> ro_started r) (rotation_operations d) = None"
    and versions: "nextRotationVersions F (kr_ClusterID ?ref) (kr_KeyID ?ref) d = Inr ((f, t), d1)"
    and t: "kr_Version ?ref = t"
    and d': "operation = \<lparr>rot_OperationID = rs_OperationID q, rot_ClusterID = kr_ClusterID ?ref,
      rot_KeyID = kr_KeyID ?ref, rot_FromVersion = f, rot_ToVersion = t, rot_Status = RotationStatusStarted,
      rot_CreatedAt = now, rot_UpdatedAt = now, rot_ActivatedAt = 0\<rparr>" "schema_ok d'"
      "d' = d1\<lparr>key_versions := key_versions d1 @ [\<lparr>kw_key = (rs_Key q)\<lparr>pk_Ref := ?ref\<lparr>kr_Version := t\<rparr>\<rparr>, kw_created_at = now\<rparr>],
      rotation_operations := rotation_operations d1 @
        [\<lparr>ro_id = rs_OperationID q, ro_cluster = kr_ClusterID ?ref, ro_key = kr_KeyID ?ref,
          ro_from = f, ro_to = t, ro_status = RotationStatusStarted, ro_created_at = now, ro_updated_at = now,
          ro_activated_at = None\<rparr>]\<rparr>"
    by (auto simp: StartRotation_def Let_def ensureNoStartedRotation_def split: option.splits if_splits)
  from nextRotationVersions_success [OF versions] obtain a where a: "d1 = d" "a \<in> set (key_versions d)"
      "kw_ring a = (kr_ClusterID ?ref, kr_KeyID ?ref)" "kw_active a" "f = kr_Version (kw_ref a)"
      "\<forall>r \<in> set (key_versions d). kw_ring r = (kr_ClusterID ?ref, kr_KeyID ?ref) \<longrightarrow> kr_Version (kw_ref r) < t"
    by blast
  then have ring: "kr_ClusterID ?ref = kr_ClusterID (kw_ref a)" "kr_KeyID ?ref = kr_KeyID (kw_ref a)"
    by (simp_all add: kw_ring_def)
  have "(rs_Key q)\<lparr>pk_Ref := ?ref\<lparr>kr_Version := t\<rparr>\<rparr> = rs_Key q" using t by simp
  with valid none d' a ring t show ?thesis
    by (intro exI [of _ a] exI [of _ now]) (auto simp: find_None_iff)
qed

lemma ro_refs_uint [simp]: "word_of_int (uint (v :: u32)) = v"
  by simp

lemma queryRotationOperation_success:
  assumes "queryRotationOperation F i d = Inr (operation, d')"
  shows "d' = d \<and> (\<exists>r \<in> set (rotation_operations d). ro_id r = i \<and> rot_OperationID operation = i \<and>
    rot_ClusterID operation = ro_cluster r \<and> rot_KeyID operation = ro_key r \<and>
    rot_FromVersion operation = ro_from r \<and> rot_ToVersion operation = ro_to r \<and>
    rot_Status operation = ro_status r)"
  using assms
  by (auto simp: queryRotationOperation_def scanRotationOperation_def split: option.splits dest!: find_SomeD)

lemma ActivateRotation_success:
  assumes "ActivateRotation F clock i now d = (Inr operation, d')" and "schema_ok d"
  shows "rot_OperationID operation = i \<and> rot_Status operation = RotationStatusActivated \<and> schema_ok d' \<and>
    (\<exists>r \<in> set (rotation_operations d). ro_id r = i \<and>
     (d' = d \<and> ro_status r = RotationStatusActivated \<or>
      ro_started r \<and> (\<exists>kf kt now'. key_view d (ro_from_ref r) = Some kf \<and> pk_Status kf = StatusActive \<and>
        key_view d (ro_to_ref r) = Some kt \<and> pk_Status kt = StatusPending \<and>
        key_view d' = (key_view d)(ro_from_ref r \<mapsto> kf\<lparr>pk_Status := StatusDecryptOnly\<rparr>,
          ro_to_ref r \<mapsto> kt\<lparr>pk_Status := StatusActive\<rparr>) \<and>
        rotation_operations d' =
          set_where (\<lambda>r. ro_id r = i) (activated_at now') (rotation_operations d))))"
proof -
  from assms(1) obtain op0 d0 where op0: "queryRotationOperation F i d = Inr (op0, d0)"
    by (auto simp: ActivateRotation_def Let_def)
  from queryRotationOperation_success [OF op0] obtain r where d0: "d0 = d"
    and r: "r \<in> set (rotation_operations d)" "ro_id r = i" "rot_OperationID op0 = i"
      "rot_ClusterID op0 = ro_cluster r" "rot_KeyID op0 = ro_key r" "rot_FromVersion op0 = ro_from r"
      "rot_ToVersion op0 = ro_to r" "rot_Status op0 = ro_status r" by blast
  show ?thesis
  proof (cases "ro_status r")
    case RotationStatusStarted
    with assms(1) op0 d0 r obtain d1 d2 now' where
        one: "updateKeyStatus F 0 (ro_from_ref r) StatusActive StatusDecryptOnly d = Inr ((), d1)"
        and two: "updateKeyStatus F 1 (ro_to_ref r) StatusPending StatusActive d1 = Inr ((), d2)"
        and three: "d' = d2\<lparr>rotation_operations := set_where (\<lambda>r. ro_id r = i) (activated_at now') (rotation_operations d2)\<rparr>"
          "schema_ok d'" "rot_OperationID operation = i" "rot_Status operation = RotationStatusActivated"
      by (auto simp: ActivateRotation_def Let_def ro_from_ref_def ro_to_ref_def)
    from updateKeyStatus_success [OF one assms(2)] obtain kf where kf: "schema_ok d1"
      "key_view d (ro_from_ref r) = Some kf" "pk_Status kf = StatusActive"
      "key_view d1 = (key_view d)(ro_from_ref r \<mapsto> kf\<lparr>pk_Status := StatusDecryptOnly\<rparr>)"
      "d1 = d\<lparr>key_versions := key_versions d1\<rparr>" by blast
    from updateKeyStatus_success [OF two kf(1)] obtain kt where kt:
      "key_view d1 (ro_to_ref r) = Some kt" "pk_Status kt = StatusPending"
      "key_view d2 = (key_view d1)(ro_to_ref r \<mapsto> kt\<lparr>pk_Status := StatusActive\<rparr>)"
      "d2 = d1\<lparr>key_versions := key_versions d2\<rparr>" by blast
    have "key_view d (ro_to_ref r) = Some kt" using kt(1,2) kf(4) by (auto split: if_splits)
    moreover have "key_view d' = key_view d2" by (rule key_view_cong) (simp add: three(1))
    moreover have "rotation_operations d2 = rotation_operations d"
      using arg_cong [OF kt(4), of rotation_operations] arg_cong [OF kf(5), of rotation_operations] by simp
    then have "rotation_operations d' = set_where (\<lambda>r. ro_id r = i) (activated_at now') (rotation_operations d)"
      by (simp add: three(1))
    ultimately show ?thesis
      using r kf kt three RotationStatusStarted unfolding ro_started_def by fastforce
  qed (use assms op0 d0 r in \<open>auto simp: ActivateRotation_def Let_def\<close>)
qed

section \<open>The life cycle of keys\<close>

text \<open>
  What the store promises about keys, on the map of stored keys alone: a ring is created with an
  active key, a rotation adds a pending key whose version is above all others, and its activation
  demotes the active key and promotes the pending one.
\<close>

definition ring_of :: "ProtectedKey \<Rightarrow> string \<times> string" where
  "ring_of k = (kr_ClusterID (pk_Ref k), kr_KeyID (pk_Ref k))"

inductive key_step :: "(KeyRef \<rightharpoonup> ProtectedKey) \<Rightarrow> (KeyRef \<rightharpoonup> ProtectedKey) \<Rightarrow> bool" where
  stay: "key_step K K"
| create: "ProtectedKey_Validate k = Inr () \<Longrightarrow> pk_Status k = StatusActive \<Longrightarrow> kr_Version (pk_Ref k) = 1 \<Longrightarrow>
    \<forall>k' \<in> ran K. ring_of k' \<noteq> ring_of k \<Longrightarrow> key_step K (K(pk_Ref k \<mapsto> k))"
| start: "ProtectedKey_Validate k = Inr () \<Longrightarrow> pk_Status k = StatusPending \<Longrightarrow>
    a \<in> ran K \<Longrightarrow> ring_of a = ring_of k \<Longrightarrow> pk_Status a = StatusActive \<Longrightarrow>
    \<forall>k' \<in> ran K. ring_of k' = ring_of k \<longrightarrow> kr_Version (pk_Ref k') < kr_Version (pk_Ref k) \<Longrightarrow>
    key_step K (K(pk_Ref k \<mapsto> k))"
| activate: "K (pk_Ref f) = Some f \<Longrightarrow> pk_Status f = StatusActive \<Longrightarrow> K (pk_Ref t) = Some t \<Longrightarrow>
    pk_Status t = StatusPending \<Longrightarrow> ring_of f = ring_of t \<Longrightarrow>
    key_step K (K(pk_Ref f \<mapsto> f\<lparr>pk_Status := StatusDecryptOnly\<rparr>, pk_Ref t \<mapsto> t\<lparr>pk_Status := StatusActive\<rparr>))"

definition usable :: "ProtectedKey \<Rightarrow> bool" where
  "usable k \<longleftrightarrow> pk_Status k = StatusActive \<or> pk_Status k = StatusDecryptOnly"

text \<open>Two records are the same key when they differ at most in their status.\<close>

definition same_record :: "ProtectedKey \<Rightarrow> ProtectedKey \<Rightarrow> bool" where
  "same_record k k' \<longleftrightarrow> k' = k\<lparr>pk_Status := pk_Status k'\<rparr>"

lemma same_record_refl [simp, intro]: "same_record k k"
  by (simp add: same_record_def)

lemma same_record_trans: "same_record a b \<Longrightarrow> same_record b c \<Longrightarrow> same_record a c"
  by (cases a; cases b; cases c) (simp add: same_record_def)

lemma key_step_usable:
  assumes "key_step K K'" and "K r = Some k" and "usable k" and "pk_Ref k = r"
  shows "\<exists>k'. K' r = Some k' \<and> usable k' \<and> same_record k k'"
  using assms(1)
proof cases
  case (create k0)
  moreover have "k \<in> ran K" using assms(2) by (auto simp: ran_def)
  ultimately have "r \<noteq> pk_Ref k0" using assms(4) by (auto simp: ring_of_def)
  with create assms show ?thesis by simp
next
  case (start k0 a)
  moreover have "k \<in> ran K" using assms(2) by (auto simp: ran_def)
  ultimately have "r \<noteq> pk_Ref k0" using assms(4) by (auto simp: ring_of_def)
  with start assms show ?thesis by simp
next
  case (activate f t)
  consider "r = pk_Ref t" | "r = pk_Ref f" "r \<noteq> pk_Ref t" | "r \<noteq> pk_Ref t" "r \<noteq> pk_Ref f" by blast
  then show ?thesis
  proof cases
    case 1
    with activate(4,5) assms(2,3) show ?thesis by (simp add: usable_def)
  next
    case 2
    then have "k = f" using activate(2) assms(2) by simp
    with 2 show ?thesis unfolding activate(1) by (simp add: usable_def same_record_def)
  next
    case 3
    then show ?thesis using assms(2,3) unfolding activate(1) by simp
  qed
qed (use assms(2,3) in simp)

section \<open>The invariant of keys and rotations\<close>

text \<open>
  Every stored key is valid and its ring has an active key; a started rotation leads from the
  active key of its ring to a pending one, and every pending key belongs to a started rotation.
\<close>

definition rotation_open :: "(KeyRef \<rightharpoonup> ProtectedKey) \<Rightarrow> rotation_row \<Rightarrow> bool" where
  "rotation_open K r \<longleftrightarrow> (\<exists>f t. K (ro_from_ref r) = Some f \<and> pk_Status f = StatusActive \<and>
     K (ro_to_ref r) = Some t \<and> pk_Status t = StatusPending)"

definition keys_inv :: "(KeyRef \<rightharpoonup> ProtectedKey) \<Rightarrow> rotation_row set \<Rightarrow> bool" where
  "keys_inv K R \<longleftrightarrow>
     (\<forall>k \<in> ran K. ProtectedKey_Validate k = Inr () \<and>
        (\<exists>a \<in> ran K. ring_of a = ring_of k \<and> pk_Status a = StatusActive) \<and>
        (pk_Status k = StatusPending \<longrightarrow> (\<exists>r \<in> R. ro_started r \<and> ro_to_ref r = pk_Ref k))) \<and>
     (\<forall>r \<in> R. ro_started r \<longrightarrow> rotation_open K r)"

definition key_inv :: "db \<Rightarrow> bool" where
  "key_inv d \<longleftrightarrow> schema_ok d \<and> keys_inv (key_view d) (set (rotation_operations d))"

lemma key_inv_empty [simp]: "key_inv empty_db"
  by (simp add: key_inv_def keys_inv_def key_view_def) (simp add: empty_db_def)

lemma key_inv_cong:
  "key_inv d \<Longrightarrow> schema_ok d' \<Longrightarrow> key_versions d' = key_versions d \<Longrightarrow>
   rotation_operations d' = rotation_operations d \<Longrightarrow> key_inv d'"
  by (simp add: key_inv_def key_view_def)

lemma ran_key_view: "schema_ok d \<Longrightarrow> ran (key_view d) = kw_key ` set (key_versions d)"
  by (auto simp: ran_def key_view_eq_Some)

lemma ring_of_kw [simp]: "ring_of (kw_key r) = kw_ring r"
  by (simp add: ring_of_def kw_ring_def kw_ref_def)

text \<open>Adding a key under a new reference keeps the invariant, given its place in the life cycle.\<close>

lemma keys_inv_add:
  assumes "keys_inv K R" and "K (pk_Ref k) = None" and "ProtectedKey_Validate k = Inr ()"
    and "\<exists>a \<in> insert k (ran K). ring_of a = ring_of k \<and> pk_Status a = StatusActive"
    and "pk_Status k = StatusPending \<Longrightarrow> \<exists>r \<in> S. ro_started r \<and> ro_to_ref r = pk_Ref k"
    and "\<And>r. r \<in> S \<Longrightarrow> rotation_open (K(pk_Ref k \<mapsto> k)) r"
  shows "keys_inv (K(pk_Ref k \<mapsto> k)) (R \<union> S)"
proof -
  have "rotation_open (K(pk_Ref k \<mapsto> k)) r" if "r \<in> R" "ro_started r" for r
    using that assms(1,2) by (auto simp: keys_inv_def rotation_open_def)
  moreover have "ran (K(pk_Ref k \<mapsto> k)) = insert k (ran K)"
    using assms(2) by simp
  ultimately show ?thesis
    using assms(1,3-6) unfolding keys_inv_def by (auto 0 3)
qed

text \<open>Closing a rotation keeps it, when no other rotation of the ring is open.\<close>

lemma keys_inv_activate:
  assumes inv: "keys_inv K R" and r: "r \<in> R" "ro_started r"
    and f: "K (ro_from_ref r) = Some f" "pk_Status f = StatusActive"
    and t: "K (ro_to_ref r) = Some t" "pk_Status t = StatusPending"
    and refs: "\<And>x k. K x = Some k \<Longrightarrow> pk_Ref k = x"
    and only: "\<And>r'. r' \<in> R \<Longrightarrow> ro_started r' \<Longrightarrow> ro_ring r' = ro_ring r \<Longrightarrow> r' = r"
    and R': "\<And>r'. r' \<in> R' \<Longrightarrow> ro_started r' \<Longrightarrow> r' \<in> R - {r}"
      "\<And>r'. r' \<in> R - {r} \<Longrightarrow> ro_started r' \<Longrightarrow> r' \<in> R'"
  shows "keys_inv (K(ro_from_ref r \<mapsto> f\<lparr>pk_Status := StatusDecryptOnly\<rparr>,
    ro_to_ref r \<mapsto> t\<lparr>pk_Status := StatusActive\<rparr>)) R'"
    (is "keys_inv ?K R'")
proof -
  have ne: "ro_from_ref r \<noteq> ro_to_ref r" using f t by auto
  let ?t = "t\<lparr>pk_Status := StatusActive\<rparr>" and ?f = "f\<lparr>pk_Status := StatusDecryptOnly\<rparr>"
  have ring: "ring_of f = ro_ring r" "ring_of t = ro_ring r"
    using refs [OF f(1)] refs [OF t(1)] by (simp_all add: ring_of_def ro_ring_def ro_from_ref_def ro_to_ref_def)
  have tmem: "?t \<in> ran ?K" by (rule ranI [of _ "ro_to_ref r"]) simp
  have old: "k = ?t \<or> k = ?f \<or> (k \<in> ran K \<and> k \<noteq> f \<and> k \<noteq> t)" if "k \<in> ran ?K" for k
  proof -
    from that obtain x where x: "?K x = Some k" by (auto simp: ran_def)
    show ?thesis
    proof (cases "x = ro_to_ref r \<or> x = ro_from_ref r")
      case True
      with x show ?thesis by (auto split: if_splits)
    next
      case False
      with x have "K x = Some k" by simp
      with False refs f(1) t(1) show ?thesis by (metis ranI)
    qed
  qed
  have new: "k \<in> ran ?K" if "k \<in> ran K" "k \<noteq> f" "k \<noteq> t" for k
  proof -
    from that obtain x where x: "K x = Some k" by (auto simp: ran_def)
    with that f(1) t(1) have "x \<noteq> ro_to_ref r" "x \<noteq> ro_from_ref r" by auto
    with x show ?thesis by (intro ranI [of _ x]) simp
  qed
  have valid: "ProtectedKey_Validate (k\<lparr>pk_Status := s\<rparr>) = Inr ()"
    if "k \<in> ran K" "s = StatusActive \<or> s = StatusDecryptOnly" for k s
    using inv that by (auto simp: keys_inv_def ProtectedKey_Validate_eq_Inr Status_known_def)
  have keys: "ProtectedKey_Validate k = Inr () \<and>
      (\<exists>a \<in> ran ?K. ring_of a = ring_of k \<and> pk_Status a = StatusActive) \<and>
      (pk_Status k = StatusPending \<longrightarrow> (\<exists>r \<in> R'. ro_started r \<and> ro_to_ref r = pk_Ref k))"
    if k: "k \<in> ran ?K" for k
  proof -
    have active: "\<exists>a \<in> ran ?K. ring_of a = ring_of k' \<and> pk_Status a = StatusActive"
      if "k' \<in> ran K" for k'
    proof (cases "ring_of k' = ro_ring r")
      case True
      with tmem ring(2) show ?thesis by (intro bexI [of _ ?t]) (auto simp: ring_of_def)
    next
      case False
      from inv that obtain a where a: "a \<in> ran K" "ring_of a = ring_of k'" "pk_Status a = StatusActive"
        unfolding keys_inv_def by blast
      with False ring have "a \<noteq> f" "a \<noteq> t" by auto
      with a new show ?thesis by blast
    qed
    have mem: "f \<in> ran K" "t \<in> ran K" using f(1) t(1) by (auto simp: ran_def)
    from old [OF k] consider "k = ?t" | "k = ?f" | "k \<in> ran K" "k \<noteq> t" by blast
    then show ?thesis
    proof cases
      case 1
      with valid mem active [of t] show ?thesis by (auto simp: ring_of_def)
    next
      case 2
      with valid mem active [of f] show ?thesis by (auto simp: ring_of_def)
    next
      case 3
      have "\<exists>r' \<in> R'. ro_started r' \<and> ro_to_ref r' = pk_Ref k" if "pk_Status k = StatusPending"
      proof -
        from inv 3(1) that obtain r' where r': "r' \<in> R" "ro_started r'" "ro_to_ref r' = pk_Ref k"
          unfolding keys_inv_def by blast
        moreover have "r' \<noteq> r" using r'(3) 3 t(1) refs by (auto simp: ran_def)
        ultimately show ?thesis using R'(2) by blast
      qed
      with 3 inv active show ?thesis unfolding keys_inv_def by blast
    qed
  qed
  have "rotation_open ?K r'" if "r' \<in> R'" "ro_started r'" for r'
  proof -
    from R'(1) [OF that] have r': "r' \<in> R" "r' \<noteq> r" by auto
    then have "ro_ring r' \<noteq> ro_ring r" using only that(2) by blast
    then have "ro_from_ref r' \<notin> {ro_from_ref r, ro_to_ref r}" "ro_to_ref r' \<notin> {ro_from_ref r, ro_to_ref r}"
      by (auto simp: ro_ring_def ro_from_ref_def ro_to_ref_def)
    with r' that(2) inv show ?thesis by (auto simp: keys_inv_def rotation_open_def)
  qed
  with keys show ?thesis by (simp add: keys_inv_def)
qed

text \<open>One step of the store on keys: the invariant is kept and the life cycle is followed.\<close>

definition key_safe :: "db \<Rightarrow> db \<Rightarrow> bool" where
  "key_safe d d' \<longleftrightarrow> key_inv d' \<and> key_step\<^sup>*\<^sup>* (key_view d) (key_view d')"

lemma key_safe_refl: "key_inv d \<Longrightarrow> key_safe d d"
  by (simp add: key_safe_def)

lemma key_safe_trans: "key_safe d d' \<Longrightarrow> key_safe d' d'' \<Longrightarrow> key_safe d d''"
  by (auto simp: key_safe_def)

lemma key_safe_frame:
  "key_inv d \<Longrightarrow> schema_ok d' \<Longrightarrow> key_versions d' = key_versions d \<Longrightarrow>
   rotation_operations d' = rotation_operations d \<Longrightarrow> key_safe d d'"
  by (simp add: key_safe_def key_inv_cong key_view_def)

lemma kw_simps [simp]:
  "kw_ref \<lparr>kw_key = k, kw_created_at = t\<rparr> = pk_Ref k"
  "kw_ring \<lparr>kw_key = k, kw_created_at = t\<rparr> = ring_of k"
  "kw_active \<lparr>kw_key = k, kw_created_at = t\<rparr> \<longleftrightarrow> pk_Status k = StatusActive"
  by (simp_all add: kw_ref_def kw_ring_def kw_active_def ring_of_def)

text \<open>A new ring: no key of the ring is stored yet.\<close>

lemma key_safe_create:
  assumes inv: "key_inv d" and schema: "schema_ok d'"
    and d': "key_versions d' = key_versions d @ [\<lparr>kw_key = k, kw_created_at = t\<rparr>]"
      "rotation_operations d' = rotation_operations d"
    and k: "ProtectedKey_Validate k = Inr ()" "pk_Status k = StatusActive" "kr_Version (pk_Ref k) = 1"
  shows "key_safe d d'"
proof -
  let ?K = "key_view d"
  have view: "?K (pk_Ref k) = None" "key_view d' = ?K(pk_Ref k \<mapsto> k)"
    using key_view_append [OF schema d'(1)] by simp_all
  have "schema_ok d" using inv by (simp add: key_inv_def)
  have new: "ring_of k' \<noteq> ring_of k" if k': "k' \<in> ran ?K" for k'
  proof
    assume "ring_of k' = ring_of k"
    with inv k' obtain a where "a \<in> ran ?K" "ring_of a = ring_of k" "pk_Status a = StatusActive"
      unfolding key_inv_def keys_inv_def by metis
    then obtain r where "r \<in> set (filter kw_active (key_versions d))" "kw_ring r = ring_of k"
      using \<open>schema_ok d\<close> by (auto simp: ran_key_view kw_active_def)
    then have "ring_of k \<in> kw_ring ` set (filter kw_active (key_versions d))" by (metis imageI)
    moreover have "distinct (map kw_ring (filter kw_active (key_versions d')))"
      using schema by (simp add: schema_ok_def row_constraints_def keys_ok_def)
    ultimately show False using k(2) by (simp add: d'(1))
  qed
  then have "key_step ?K (key_view d')" unfolding view(2) using k by (intro key_step.create) auto
  moreover have "keys_inv (key_view d') (set (rotation_operations d) \<union> {})"
    unfolding view(2) by (rule keys_inv_add) (use inv view k in \<open>auto simp: key_inv_def\<close>)
  ultimately show ?thesis using schema d' by (simp add: key_safe_def key_inv_def)
qed

text \<open>The same for a statement in the middle of a method that began at \<open>d0\<close>.\<close>

lemma key_safe_frame_next:
  "key_safe d0 d \<Longrightarrow> schema_ok d' \<Longrightarrow> key_versions d' = key_versions d \<Longrightarrow>
   rotation_operations d' = rotation_operations d \<Longrightarrow> key_safe d0 d'"
  using key_safe_trans key_safe_frame key_safe_def by blast

lemma key_safe_create_next:
  "key_safe d0 d \<Longrightarrow> schema_ok d' \<Longrightarrow>
   key_versions d' = key_versions d @ [\<lparr>kw_key = k, kw_created_at = t\<rparr>] \<Longrightarrow>
   rotation_operations d' = rotation_operations d \<Longrightarrow>
   ProtectedKey_Validate k = Inr () \<Longrightarrow> pk_Status k = StatusActive \<Longrightarrow> kr_Version (pk_Ref k) = 1 \<Longrightarrow>
   key_safe d0 d'"
  using key_safe_trans key_safe_create key_safe_def by blast

lemma BootstrapKeyring_safe:
  assumes "key_inv d"
  shows "key_safe d (snd (BootstrapKeyring F q d))"
  unfolding BootstrapKeyring_def Let_def
  by (intro method_keeps [where P = "key_safe d"] tx_keeps_rules key_safe_refl assms)
    ((erule key_safe_frame_next, assumption, simp, simp)
      | (erule key_safe_create_next [of _ _ _ "bk_Key q" "bk_CreatedAt q"], assumption, simp_all))+

lemma ConfigureDevelopment_safe:
  assumes "key_inv d"
  shows "key_safe d (snd (ConfigureDevelopment F clock config key d))"
proof -
  have key: "key\<lparr>pk_Ref := (pk_Ref key)\<lparr>kr_ClusterID := cf_ClusterID config, kr_KeyID := cf_KeyID config\<rparr>\<rparr> = key"
    "ProtectedKey_Validate key = Inr ()" "pk_Status key = StatusActive" "kr_Version (pk_Ref key) = 1"
    if "validateDevelopmentProtectedKey config key = Inr u" for u
    using that by (auto simp: validateDevelopmentProtectedKey_def split: if_splits)
  show ?thesis
    unfolding ConfigureDevelopment_def
    by (intro method_keeps [where P = "key_safe d"] tx_keeps_rules key_safe_refl assms)
      ((erule key_safe_frame_next, assumption, simp, simp)
        | (erule key_safe_create_next [of _ _ _ key clock], assumption, simp add: key(1), simp, (erule key(2-4))+))+
qed

lemma StartRotation_atomic: "StartRotation F clock q d = (Inl e, d') \<Longrightarrow> d' = d"
  unfolding StartRotation_def Let_def by (erule checked_atomic, erule with_tx_atomic)

lemma ActivateRotation_atomic: "ActivateRotation F clock i now d = (Inl e, d') \<Longrightarrow> d' = d"
  unfolding ActivateRotation_def Let_def by (erule with_tx_commits_atomic)

lemma StartRotation_safe:
  assumes "key_inv d"
  shows "key_safe d (snd (StartRotation F clock q d))"
proof (cases "StartRotation F clock q d")
  case (Pair res d')
  show ?thesis
  proof (cases res)
    case (Inl e)
    with Pair have "d' = d" using StartRotation_atomic by simp
    with Pair assms show ?thesis by (simp add: key_safe_refl)
  next
    case (Inr operation)
    let ?k = "rs_Key q"
    from StartRotation_success [OF Pair [unfolded Inr]] obtain a now where
      valid: "validateRotationStart q = Inr ()" and a: "a \<in> set (key_versions d)" "kw_active a"
        "kw_ring a = ring_of ?k"
      and top: "\<forall>r \<in> set (key_versions d). kw_ring r = ring_of ?k \<longrightarrow> kr_Version (kw_ref r) < kr_Version (pk_Ref ?k)"
      and schema': "schema_ok d'"
      and d'_eq: "d' = d\<lparr>key_versions := key_versions d @ [\<lparr>kw_key = ?k, kw_created_at = now\<rparr>],
        rotation_operations := rotation_operations d @
          [\<lparr>ro_id = rs_OperationID q, ro_cluster = kr_ClusterID (kw_ref a), ro_key = kr_KeyID (kw_ref a),
            ro_from = kr_Version (kw_ref a), ro_to = kr_Version (pk_Ref ?k),
            ro_status = RotationStatusStarted, ro_created_at = now, ro_updated_at = now,
            ro_activated_at = None\<rparr>]\<rparr>"
      unfolding ring_of_def by metis
    define r where "r = last (rotation_operations d')"
    have r: "ro_from_ref r = kw_ref a" "ro_to_ref r = pk_Ref ?k" "ro_started r"
      and d': "key_versions d' = key_versions d @ [\<lparr>kw_key = ?k, kw_created_at = now\<rparr>]"
        "set (rotation_operations d') = set (rotation_operations d) \<union> {r}"
      using a(3) by (auto simp: r_def d'_eq ro_from_ref_def ro_to_ref_def ro_started_def ring_of_def kw_ring_def)
    have k: "ProtectedKey_Validate ?k = Inr ()" "pk_Status ?k = StatusPending"
      using valid by (auto simp: validateRotationStart_def Let_def split: if_splits)
    have schema: "schema_ok d" using assms by (simp add: key_inv_def)
    have view: "key_view d (pk_Ref ?k) = None" "key_view d' = (key_view d)(pk_Ref ?k \<mapsto> ?k)"
      using key_view_append [OF schema' d'(1)] by simp_all
    have active: "kw_key a \<in> ran (key_view d)" "pk_Status (kw_key a) = StatusActive"
      "key_view d (kw_ref a) = Some (kw_key a)"
      using a schema by (auto simp: ran_key_view kw_active_def key_view_eq_Some)
    then have ring: "\<exists>a \<in> insert ?k (ran (key_view d)). ring_of a = ring_of ?k \<and> pk_Status a = StatusActive"
      using a(3) by (intro bexI [of _ "kw_key a"]) auto
    have "key_step (key_view d) (key_view d')"
      unfolding view(2) using k active a(3) top schema
      by (intro key_step.start [of _ "kw_key a"]) (auto simp: ran_key_view kw_ref_def)
    moreover have "keys_inv (key_view d') (set (rotation_operations d) \<union> {r})"
      unfolding view(2)
      by (rule keys_inv_add)
        (use assms k active ring r view(1) in \<open>auto simp: key_inv_def rotation_open_def\<close>)
    ultimately show ?thesis using schema' d'(2) Pair by (auto simp: key_safe_def key_inv_def)
  qed
qed

lemma ActivateRotation_safe:
  assumes "key_inv d"
  shows "key_safe d (snd (ActivateRotation F clock i now d))"
proof (cases "ActivateRotation F clock i now d")
  case (Pair res d')
  have schema: "schema_ok d" using assms by (simp add: key_inv_def)
  show ?thesis
  proof (cases res)
    case (Inl e)
    with Pair have "d' = d" using ActivateRotation_atomic by simp
    with Pair assms show ?thesis by (simp add: key_safe_refl)
  next
    case (Inr operation)
    from ActivateRotation_success [OF Pair [unfolded Inr] schema] obtain r where
      r: "r \<in> set (rotation_operations d)" "ro_id r = i" and "schema_ok d'" and
      alt: "d' = d \<or> (ro_started r \<and> (\<exists>kf kt now'. key_view d (ro_from_ref r) = Some kf \<and> pk_Status kf = StatusActive \<and>
        key_view d (ro_to_ref r) = Some kt \<and> pk_Status kt = StatusPending \<and>
        key_view d' = (key_view d)(ro_from_ref r \<mapsto> kf\<lparr>pk_Status := StatusDecryptOnly\<rparr>,
          ro_to_ref r \<mapsto> kt\<lparr>pk_Status := StatusActive\<rparr>) \<and>
        rotation_operations d' = set_where (\<lambda>r. ro_id r = i) (activated_at now') (rotation_operations d)))"
      by blast
    show ?thesis
    proof (cases "d' = d")
      case False
      with alt obtain f t now' where start: "ro_started r" and
        f: "key_view d (ro_from_ref r) = Some f" "pk_Status f = StatusActive" and
        t: "key_view d (ro_to_ref r) = Some t" "pk_Status t = StatusPending" and
        view: "key_view d' = (key_view d)(ro_from_ref r \<mapsto> f\<lparr>pk_Status := StatusDecryptOnly\<rparr>,
          ro_to_ref r \<mapsto> t\<lparr>pk_Status := StatusActive\<rparr>)" and
        ops: "rotation_operations d' = set_where (\<lambda>r. ro_id r = i) (activated_at now') (rotation_operations d)"
        by blast
      have refs: "pk_Ref f = ro_from_ref r" "pk_Ref t = ro_to_ref r"
        using f(1) t(1) key_view_ref by blast+
      have "key_step (key_view d) (key_view d')"
        unfolding view refs [symmetric]
        by (rule key_step.activate) (use f t refs in \<open>auto simp: ring_of_def ro_from_ref_def ro_to_ref_def\<close>)
      moreover have "keys_inv (key_view d') (set (rotation_operations d'))"
        unfolding view
      proof (rule keys_inv_activate [OF _ r(1) start f t key_view_ref])
        show "keys_inv (key_view d) (set (rotation_operations d))" using assms by (simp add: key_inv_def)
        have unique: "distinct (map ro_id (rotation_operations d))"
          "distinct (map ro_ring (filter ro_started (rotation_operations d)))"
          using schema by (simp_all add: schema_ok_def row_constraints_def rotations_ok_def)
        show "r' = r" if "r' \<in> set (rotation_operations d)" "ro_started r'" "ro_ring r' = ro_ring r" for r'
          using inj_onD [OF distinct_map [THEN iffD1, OF unique(2), THEN conjunct2] that(3)] that r(1) start
          by simp
        have same: "r' = r" if "r' \<in> set (rotation_operations d)" "ro_id r' = i" for r'
          using inj_onD [OF distinct_map [THEN iffD1, OF unique(1), THEN conjunct2], of r' r] that r by simp
        show "r' \<in> set (rotation_operations d) - {r}" if "r' \<in> set (rotation_operations d')" "ro_started r'" for r'
        proof -
          have "\<not> ro_started (activated_at now' x)" for x by (simp add: activated_at_def ro_started_def)
          with that have "r' \<in> set (rotation_operations d)" "ro_id r' \<noteq> i"
            unfolding ops set_where_set by blast+
          with r(2) show ?thesis by blast
        qed
        show "r' \<in> set (rotation_operations d')" if "r' \<in> set (rotation_operations d) - {r}" "ro_started r'" for r'
          using that same unfolding ops set_where_set by blast
      qed
      ultimately show ?thesis using \<open>schema_ok d'\<close> Pair by (auto simp: key_safe_def key_inv_def)
    qed (use Pair assms in \<open>simp add: key_safe_refl\<close>)
  qed
qed

section \<open>A started rotation can always be activated\<close>

definition no_faults :: faults where
  "no_faults label i = False"

lemma no_faults_simp [simp]: "\<not> no_faults l i"
  by (simp add: no_faults_def)

lemma active_rings_distinct:
  "distinct (map kw_ref ks) \<Longrightarrow>
   distinct (map kw_ring (filter kw_active ks)) \<longleftrightarrow> inj_on kw_ring {r \<in> set ks. kw_active r}"
  by (auto simp: distinct_map)

lemma kw_ring_of_ref: "map kw_ref xs = map kw_ref ys \<Longrightarrow> map kw_ring xs = map kw_ring ys"
  by (induction xs ys rule: list_induct2') (auto simp: kw_ring_def)

text \<open>An update that keeps the references keeps the schema when the active keys stay unique.\<close>

lemma schema_update_keys:
  assumes "schema_ok d" and "map kw_ref ks = map kw_ref (key_versions d)"
    and "inj_on kw_ring {r \<in> set ks. kw_active r}"
  shows "schema_ok (d\<lparr>key_versions := ks\<rparr>)"
proof -
  note same = set_eq_of_map_eq [OF assms(2)] set_eq_of_map_eq [OF kw_ring_of_ref [OF assms(2)]]
  have "list_all (\<lambda>r. kr_Version (kw_ref r) \<noteq> 0) ks \<longleftrightarrow> 0 \<notin> kr_Version ` (kw_ref ` set ks)" for ks
    by (auto simp: list_all_iff)
  with assms same have "keys_ok ks"
    by (simp add: schema_ok_def row_constraints_def keys_ok_def active_rings_distinct)
  with assms(1) same show ?thesis
    by (simp add: schema_ok_def row_constraints_def foreign_keys_def refs_iff)
qed

lemma schema_update_rotations:
  assumes "schema_ok d" and "\<And>r. ro_id (g r) = ro_id r" "\<And>r. ro_from_ref (g r) = ro_from_ref r"
    "\<And>r. ro_to_ref (g r) = ro_to_ref r" "\<And>r. \<not> ro_started (g r)"
  shows "schema_ok (d\<lparr>rotation_operations := set_where P g (rotation_operations d)\<rparr>)"
proof -
  let ?ops = "rotation_operations d" and ?new = "set_where P g (rotation_operations d)"
  have fields: "ro_ring (g r) = ro_ring r" "ro_from (g r) = ro_from r" "ro_to (g r) = ro_to r" for r
    using assms(3) [of r] assms(4) [of r] by (simp_all add: ro_from_ref_def ro_to_ref_def ro_ring_def)
  have image: "h ` set ?new = h ` set ?ops" if "\<And>r. h (g r) = h r" for h :: "rotation_row \<Rightarrow> 'b"
    by (rule set_eq_of_map_eq) (simp add: that)
  have "filter ro_started (set_where P g rs) = filter (\<lambda>r. ro_started r \<and> \<not> P r) rs" for rs
    using assms(5) by (induction rs) (auto simp: set_where_def)
  then have "filter ro_started ?new = filter (\<lambda>r. \<not> P r) (filter ro_started ?ops)"
    by (simp add: conj_commute)
  moreover have old: "distinct (map ro_ring (filter ro_started ?ops))" "distinct (map ro_id ?ops)"
    "list_all (\<lambda>r. ro_from r \<noteq> 0 \<and> ro_to r \<noteq> 0) ?ops"
    using assms(1) by (simp_all add: schema_ok_def row_constraints_def rotations_ok_def)
  ultimately have "distinct (map ro_ring (filter ro_started ?new))"
    using distinct_map_filter [OF old(1)] by metis
  then have "rotations_ok ?new"
    using old(2,3) fields assms(2) by (auto simp: rotations_ok_def list_all_iff set_where_set)
  moreover have "refs ve_operation vs ro_id ?new = refs ve_operation vs ro_id ?ops" for vs
    by (simp add: refs_iff image assms)
  ultimately show ?thesis
    using assms(1) fields by (simp add: schema_ok_def row_constraints_def foreign_keys_def refs_iff image assms)
qed

text \<open>Absent driver failures, a guarded status update that finds its row succeeds.\<close>

lemma updateKeyStatus_ok:
  assumes "schema_ok d" and "key_view d ref = Some k" and "pk_Status k = from"
    and "to = StatusActive \<Longrightarrow> \<forall>a \<in> ran (key_view d). ring_of a = ring_of k \<longrightarrow> pk_Status a \<noteq> StatusActive"
  shows "\<exists>d'. updateKeyStatus no_faults i ref from to d = Inr ((), d')"
proof -
  let ?P = "\<lambda>r. kw_ref r = ref \<and> pk_Status (kw_key r) = from"
  let ?g = "\<lambda>r. r\<lparr>kw_key := (kw_key r)\<lparr>pk_Status := to\<rparr>\<rparr>"
  let ?ks = "set_where ?P ?g (key_versions d)"
  from assms(1,2) obtain r where r: "r \<in> set (key_versions d)" "kw_ref r = ref" "kw_key r = k"
    by (auto simp: key_view_eq_Some)
  have unique: "x = r" if "x \<in> set (key_versions d)" "kw_ref x = ref" for x
    using inj_onD [OF distinct_map [THEN iffD1, OF schema_distinct_refs [OF assms(1)], THEN conjunct2], of x r] that r by simp
  have "filter ?P (key_versions d) = filter (\<lambda>x. x = r) (key_versions d)"
  proof (rule filter_cong [OF refl])
    fix x
    assume "x \<in> set (key_versions d)"
    then show "?P x = (x = r)" using unique [of x] r(2,3) assms(3) by blast
  qed
  moreover have "distinct (key_versions d)" using schema_distinct_refs [OF assms(1)] by (simp add: distinct_map)
  ultimately have count: "count_where ?P (key_versions d) = 1"
    using r(1) by (simp add: count_where_def distinct_length_filter Int_absorb1)
  have old: "inj_on kw_ring {r \<in> set (key_versions d). kw_active r}"
    using assms(1) active_rings_distinct [OF schema_distinct_refs [OF assms(1)]]
    by (simp add: schema_ok_def row_constraints_def keys_ok_def)
  have ref_g: "kw_ref (?g x) = kw_ref x" "kw_ring (?g x) = kw_ring x" for x
    by (simp_all add: kw_ref_def kw_ring_def)
  have new: "x \<in> {?g r} \<or> x \<in> set (key_versions d)" if "x \<in> set ?ks" for x
    using that unique unfolding set_where_set by blast
  have ring: "kw_ring x \<noteq> kw_ring r" if "to = StatusActive" "x \<in> set (key_versions d)" "kw_active x" for x
  proof -
    have "kw_key x \<in> ran (key_view d)" using that(2) assms(1) by (simp add: ran_key_view)
    with assms(4) [OF that(1)] that(3) r(3) show ?thesis
      by (metis kw_active_def ring_of_kw)
  qed
  have "inj_on kw_ring {r \<in> set ?ks. kw_active r}"
  proof (cases "to = StatusActive")
    case True
    show ?thesis
    proof (rule inj_onI)
      fix x y
      assume "x \<in> {r \<in> set ?ks. kw_active r}" "y \<in> {r \<in> set ?ks. kw_active r}" "kw_ring x = kw_ring y"
      then have xy: "x \<in> set ?ks" "y \<in> set ?ks" "kw_active x" "kw_active y" "kw_ring x = kw_ring y" by auto
      from new [OF xy(1)] new [OF xy(2)]
      consider "x = ?g r" "y = ?g r" | "x = ?g r" "y \<in> set (key_versions d)"
        | "x \<in> set (key_versions d)" "y = ?g r" | "x \<in> set (key_versions d)" "y \<in> set (key_versions d)" by blast
      then show "x = y"
      proof cases
        case 2
        then show ?thesis using ring [OF True 2(2) xy(4)] xy(5) ref_g(2) [of r] by simp
      next
        case 3
        then show ?thesis using ring [OF True 3(1) xy(3)] xy(5) ref_g(2) [of r] by simp
      next
        case 4
        then show ?thesis using inj_onD [OF old xy(5)] xy(3,4) by simp
      qed simp
    qed
  next
    case False
    then have "\<not> kw_active (?g r)" by (simp add: kw_active_def)
    then have "{r \<in> set ?ks. kw_active r} \<subseteq> {r \<in> set (key_versions d). kw_active r}"
      using new by blast
    with old show ?thesis by (rule inj_on_subset)
  qed
  then have "schema_ok (d\<lparr>key_versions := ?ks\<rparr>)"
    by (intro schema_update_keys assms(1)) (simp_all add: kw_ref_def)
  with count show ?thesis by (simp add: updateKeyStatus_def Let_def)
qed

lemma activated_at_fields:
  "ro_id (activated_at now r) = ro_id r" "ro_from_ref (activated_at now r) = ro_from_ref r"
  "ro_to_ref (activated_at now r) = ro_to_ref r" "\<not> ro_started (activated_at now r)"
  by (simp_all add: activated_at_def ro_from_ref_def ro_to_ref_def ro_started_def)

lemma active_unique:
  assumes "schema_ok d" and "a \<in> ran (key_view d)" "b \<in> ran (key_view d)" "ring_of a = ring_of b"
    "pk_Status a = StatusActive" "pk_Status b = StatusActive"
  shows "a = b"
proof -
  from assms obtain x y where xy: "x \<in> set (key_versions d)" "y \<in> set (key_versions d)" "kw_key x = a" "kw_key y = b"
    by (auto simp: ran_key_view)
  have "inj_on kw_ring {r \<in> set (key_versions d). kw_active r}"
    using assms(1) active_rings_distinct [OF schema_distinct_refs [OF assms(1)]]
    by (simp add: schema_ok_def row_constraints_def keys_ok_def)
  from inj_onD [OF this, of x y] have "x = y"
    using xy assms(4-6) by (auto simp: kw_active_def simp flip: ring_of_kw)
  with xy show ?thesis by simp
qed

lemma queryRotationOperation_ok:
  assumes "schema_ok d" and "r \<in> set (rotation_operations d)"
  shows "\<exists>operation. queryRotationOperation no_faults (ro_id r) d = Inr (operation, d) \<and>
    rot_OperationID operation = ro_id r \<and>
    rot_ClusterID operation = ro_cluster r \<and> rot_KeyID operation = ro_key r \<and>
    rot_FromVersion operation = ro_from r \<and> rot_ToVersion operation = ro_to r \<and>
    rot_Status operation = ro_status r"
proof -
  have "distinct (map ro_id (rotation_operations d))" "ro_from r \<noteq> 0" "ro_to r \<noteq> 0"
    using assms by (auto simp: schema_ok_def row_constraints_def rotations_ok_def list_all_iff)
  then show ?thesis
    using find_unique [of ro_id, OF _ assms(2)]
    by (simp add: queryRotationOperation_def scanRotationOperation_def uint32KeyVersion_def
        tx_bind_def query_def linorder_not_less uint_0_iff)
qed

lemma ActivateRotation_idempotent:
  assumes "schema_ok d" and "r \<in> set (rotation_operations d)" and "ro_status r = RotationStatusActivated"
  shows "\<exists>operation. ActivateRotation no_faults clock (ro_id r) now d = (Inr operation, d)"
proof -
  from queryRotationOperation_ok [OF assms(1,2)] obtain operation
    where "queryRotationOperation no_faults (ro_id r) d = Inr (operation, d)"
      "rot_Status operation = RotationStatusActivated" using assms(3) by metis
  then show ?thesis by (simp add: ActivateRotation_def Let_def)
qed

text \<open>Once the key of the ring is demoted, the ring has no active key.\<close>

lemma demoted_ring:
  assumes "schema_ok d" and "key_view d x = Some f" "pk_Status f = StatusActive"
    and "a \<in> ran ((key_view d)(x \<mapsto> f\<lparr>pk_Status := StatusDecryptOnly\<rparr>))" "ring_of a = ring_of f"
  shows "pk_Status a \<noteq> StatusActive"
proof
  assume active: "pk_Status a = StatusActive"
  from assms(4) obtain y where y: "((key_view d)(x \<mapsto> f\<lparr>pk_Status := StatusDecryptOnly\<rparr>)) y = Some a"
    by (auto simp: ran_def)
  with active have "y \<noteq> x" "key_view d y = Some a" by (auto split: if_splits)
  then show False
    using active_unique [OF assms(1) ranI ranI, of y a x f] active assms(2,3,5) key_view_ref by metis
qed

lemma ActivateRotation_ok:
  assumes "schema_ok d" and "r \<in> set (rotation_operations d)" "ro_started r" "rotation_open (key_view d) r"
  shows "\<exists>operation d' t. ActivateRotation no_faults clock (ro_id r) now d = (Inr operation, d') \<and>
    activated_at t r \<in> set (rotation_operations d')"
proof -
  let ?now = "if now = 0 then clock else now"
  from assms(4) obtain f t where f: "key_view d (ro_from_ref r) = Some f" "pk_Status f = StatusActive"
    and t: "key_view d (ro_to_ref r) = Some t" "pk_Status t = StatusPending"
    by (auto simp: rotation_open_def)
  have ring: "ring_of t = ring_of f"
    using key_view_ref [OF f(1)] key_view_ref [OF t(1)] by (simp add: ring_of_def ro_from_ref_def ro_to_ref_def)
  from updateKeyStatus_ok [OF assms(1) f, of StatusDecryptOnly 0] obtain d1 where
    one: "updateKeyStatus no_faults 0 (ro_from_ref r) StatusActive StatusDecryptOnly d = Inr ((), d1)" by auto
  from updateKeyStatus_success [OF one assms(1)] f have
    d1: "schema_ok d1" "key_view d1 = (key_view d)(ro_from_ref r \<mapsto> f\<lparr>pk_Status := StatusDecryptOnly\<rparr>)"
      "d1 = d\<lparr>key_versions := key_versions d1\<rparr>" by auto
  have t1: "key_view d1 (ro_to_ref r) = Some t" using f t d1(2) by auto
  have "\<forall>a \<in> ran (key_view d1). ring_of a = ring_of t \<longrightarrow> pk_Status a \<noteq> StatusActive"
    unfolding d1(2) ring using demoted_ring [OF assms(1) f] by blast
  then obtain d2 where
    two: "updateKeyStatus no_faults 1 (ro_to_ref r) StatusPending StatusActive d1 = Inr ((), d2)"
    using updateKeyStatus_ok [OF d1(1) t1 t(2), of StatusActive 1] by auto
  from updateKeyStatus_success [OF two d1(1)] have
    d2: "schema_ok d2" "d2 = d1\<lparr>key_versions := key_versions d2\<rparr>" by auto
  let ?d = "d2\<lparr>rotation_operations := set_where (\<lambda>x. ro_id x = ro_id r) (activated_at ?now) (rotation_operations d2)\<rparr>"
  have schema': "schema_ok ?d" by (intro schema_update_rotations d2(1) activated_at_fields)
  from queryRotationOperation_ok [OF assms(1,2)] obtain op0 where
    "queryRotationOperation no_faults (ro_id r) d = Inr (op0, d)" "rot_OperationID op0 = ro_id r"
    "rot_ClusterID op0 = ro_cluster r" "rot_KeyID op0 = ro_key r" "rot_FromVersion op0 = ro_from r"
    "rot_ToVersion op0 = ro_to r" "rot_Status op0 = RotationStatusStarted"
    using assms(3) unfolding ro_started_def by metis
  then have "\<exists>operation. ActivateRotation no_faults clock (ro_id r) now d = (Inr operation, ?d)"
    using one two schema' by (simp add: ActivateRotation_def Let_def ro_from_ref_def ro_to_ref_def)
  moreover have "rotation_operations d2 = rotation_operations d"
    using arg_cong [OF d2(2), of rotation_operations] arg_cong [OF d1(3), of rotation_operations] by simp
  then have "activated_at ?now r \<in> set (rotation_operations ?d)"
    using assms(2) by (auto simp: set_where_set)
  ultimately show ?thesis by blast
qed

text \<open>C34. A started rotation is never stuck: absent driver failures its activation succeeds, demotes
  the key it rotates from to decrypt-only, promotes the pending key to active, and leaves every
  other key alone; activating it again succeeds and changes nothing.\<close>

theorem started_rotation_activates:
  assumes "key_inv d" and "r \<in> set (rotation_operations d)" and "ro_started r"
  shows "\<exists>operation operation' d' f t. ActivateRotation no_faults clock (ro_id r) now d = (Inr operation, d') \<and>
    key_view d (ro_from_ref r) = Some f \<and> key_view d (ro_to_ref r) = Some t \<and>
    key_view d' = (key_view d)(ro_from_ref r \<mapsto> f\<lparr>pk_Status := StatusDecryptOnly\<rparr>,
      ro_to_ref r \<mapsto> t\<lparr>pk_Status := StatusActive\<rparr>) \<and>
    ActivateRotation no_faults clock (ro_id r) now d' = (Inr operation', d')"
proof -
  from assms have schema: "schema_ok d" and "rotation_open (key_view d) r"
    by (auto simp: key_inv_def keys_inv_def)
  then obtain operation d' now' where
    run: "ActivateRotation no_faults clock (ro_id r) now d = (Inr operation, d')"
    and closed: "activated_at now' r \<in> set (rotation_operations d')"
    using ActivateRotation_ok assms(2,3) by metis
  from ActivateRotation_success [OF run schema] obtain r' where
    r': "r' \<in> set (rotation_operations d)" "ro_id r' = ro_id r" and schema': "schema_ok d'" and
    view: "ro_status r' = RotationStatusActivated \<or> (\<exists>f t. key_view d (ro_from_ref r') = Some f \<and>
        key_view d (ro_to_ref r') = Some t \<and>
        key_view d' = (key_view d)(ro_from_ref r' \<mapsto> f\<lparr>pk_Status := StatusDecryptOnly\<rparr>,
          ro_to_ref r' \<mapsto> t\<lparr>pk_Status := StatusActive\<rparr>))" by blast
  have "r' = r"
    using r' assms(2) schema
    by (auto simp: schema_ok_def row_constraints_def rotations_ok_def distinct_map dest: inj_onD)
  moreover obtain operation' where "ActivateRotation no_faults clock (ro_id r) now d' = (Inr operation', d')"
    using ActivateRotation_idempotent [OF schema' closed, of clock now] by (auto simp: activated_at_def)
  ultimately show ?thesis using view run assms(3) unfolding ro_started_def by fastforce
qed

definition demo_bootstrap :: BootstrapKeyringRequest where
  "demo_bootstrap = \<lparr>bk_Key = demo_record, bk_RecoveryPackageID = [], bk_RecoveryThreshold = 0,
     bk_RecoveryShares = 0, bk_RecoveryChecksum = [], bk_RecoveryMetadataJSON = [], bk_CreatedAt = 7\<rparr>"

definition demo_start :: RotationStartRequest where
  "demo_start = \<lparr>rs_OperationID = ''op1'', rs_Key = demo_record\<lparr>pk_Ref := (pk_Ref demo_record)\<lparr>kr_Version := 2\<rparr>,
     pk_Status := StatusPending\<rparr>, rs_CreatedAt = 8\<rparr>"

definition demo_db :: db where
  "demo_db = snd (BootstrapKeyring no_faults demo_bootstrap empty_db)"

definition demo_rotating :: db where
  "demo_rotating = snd (StartRotation no_faults 9 demo_start demo_db)"

lemma demo_record_valid: "ProtectedKey_Validate demo_record = Inr ()"
  using demo_record_unprotects unfolding Unprotect_eq_Inr by blast

lemmas schema_eval = schema_ok_def row_constraints_def foreign_keys_def refs_def keys_ok_def rotations_ok_def
  challenges_ok_def enrollments_ok_def kw_ref_def kw_ring_def kw_active_def ro_ring_def ro_started_def
  ro_from_ref_def ro_to_ref_def

lemma demo_db_run:
  "BootstrapKeyring no_faults demo_bootstrap empty_db =
    (Inr (), empty_db\<lparr>clusters := [\<lparr>cl_id = ''prod'', cl_recovery_package_id = None, cl_created_at = 7\<rparr>],
      keyrings := [\<lparr>kg_cluster = ''prod'', kg_key = ''root'', kg_profile = ProfileDevelopment, kg_created_at = 7\<rparr>],
      key_versions := [\<lparr>kw_key = demo_record, kw_created_at = 7\<rparr>],
      policies := [\<lparr>po_cluster = ''prod'', po_policy = ''default'', po_body = ''default-deny-with-enrolled-subjects'',
        po_created_at = 7\<rparr>]\<rparr>)"
  by (simp add: BootstrapKeyring_def Let_def demo_bootstrap_def nullableString_def demo_record_valid
      del: ProtectedKey_Validate_eq_Inr)
    (simp add: schema_eval demo_record_def demo_key_def empty_db_def)

lemma demo_rotating_run:
  "\<exists>operation d'. StartRotation no_faults 9 demo_start demo_db = (Inr operation, d') \<and>
     rotation_operations d' = [\<lparr>ro_id = ''op1'', ro_cluster = ''prod'', ro_key = ''root'', ro_from = 1, ro_to = 2,
       ro_status = RotationStatusStarted, ro_created_at = 8, ro_updated_at = 8, ro_activated_at = None\<rparr>]"
proof -
  have valid: "validateRotationStart demo_start = Inr ()"
    using demo_record_valid
    by (simp add: validateRotationStart_def Let_def demo_start_def)
      (simp add: demo_record_def demo_key_def Status_known_def)
  show ?thesis
    unfolding StartRotation_def demo_db_def demo_db_run snd_conv
    by (simp add: valid Let_def ensureNoStartedRotation_def nextRotationVersions_def uint32KeyVersion_def
        maxKeyVersion_def)
      (simp add: schema_eval demo_record_def demo_key_def demo_start_def empty_db_def maxKeyVersion_def)
qed

lemma demo_db_inv: "key_inv demo_db" "key_inv demo_rotating"
  using BootstrapKeyring_safe [OF key_inv_empty, of no_faults demo_bootstrap]
    StartRotation_safe [of demo_db no_faults 9 demo_start]
  by (simp_all add: demo_db_def demo_rotating_def key_safe_def)

theorem started_rotation_activates_witness:
  "\<exists>operation d'. ActivateRotation no_faults 10 ''op1'' 11 demo_rotating = (Inr operation, d')"
proof -
  from demo_rotating_run obtain r where "r \<in> set (rotation_operations demo_rotating)" "ro_started r" "ro_id r = ''op1''"
    unfolding demo_rotating_def ro_started_def by fastforce
  with started_rotation_activates [OF demo_db_inv(2), of r 10 11] show ?thesis by metis
qed

end
