(* ===== verification/Challenge_Store.thy ===== *)
theory Challenge_Store
  imports Key_Store
begin

text \<open>
  The replay-prevention state of the broker: challenges, with the SQLite store
  (\<^verbatim>\<open>internal/broker/sqlite.go\<close>) and the process-local store (\<^verbatim>\<open>memory_challenge.go\<close>), one-time
  enrollment grants, and the remaining tables that the same store keeps: subjects, recovery
  packages, enrollment requests and audit events.

  The Go interface of a challenge store is the locale \<open>challenge_store\<close>; both stores are
  interpretations of it.  That a challenge, or a grant, is accepted at most once in any run is
  an instance of the contract \<open>one_shot\<close>.
\<close>

section \<open>Records\<close>

record Challenge =
  chal_ID :: string
  chal_Nonce :: bytes
  chal_ClusterID :: string
  chal_Subject :: string
  chal_Operation :: Operation
  chal_ExpiresAt :: time
  chal_CreatedAt :: time

record Subject =
  sub_ClusterID :: string
  sub_Subject :: string
  sub_Revoked :: bool

record RecoveryPackageRecord =
  rpr_PackageID :: string
  rpr_ClusterID :: string
  rpr_KeyID :: string
  rpr_Threshold :: int
  rpr_Shares :: int
  rpr_Checksum :: string
  rpr_Body :: string
  rpr_CreatedAt :: time

record EnrollmentRequestRecord =
  err_RequestID :: string
  err_ClusterID :: string
  err_Subject :: string
  err_Body :: string
  err_ExpiresAt :: time
  err_CreatedAt :: time

record EnrollmentGrantRecord =
  egr_GrantID :: string
  egr_RequestID :: string
  egr_ClusterID :: string
  egr_Subject :: string
  egr_Body :: string
  egr_ExpiresAt :: time
  egr_CreatedAt :: time

section \<open>Subjects\<close>

definition LoadSubject :: "faults \<Rightarrow> string \<Rightarrow> string \<Rightarrow> db \<Rightarrow> error + Subject" where
  "LoadSubject F clusterID subject d =
     (if F ''query subject'' 0 then Inl (DbErr ''query subject'')
      else (case find (\<lambda>r. su_cluster r = clusterID \<and> su_subject r = subject) (subjects d) of
          None \<Rightarrow> Inl ErrSubjectNotFound
        | Some r \<Rightarrow>
            if su_revoked r then Inl ErrSubjectRevoked
            else Inr \<lparr>sub_ClusterID = clusterID, sub_Subject = subject, sub_Revoked = False\<rparr>))"

definition InsertSubject :: "faults \<Rightarrow> string \<Rightarrow> string \<Rightarrow> time \<Rightarrow> db \<Rightarrow> (error + unit) \<times> db" where
  "InsertSubject F clusterID subject now =
     auto_commit (stmt_ignore F ''insert subject'' 0 (\<lambda>d. d\<lparr>subjects := subjects d @
       [\<lparr>su_cluster = clusterID, su_subject = subject, su_revoked = False, su_created_at = now,
         su_revoked_at = None\<rparr>]\<rparr>))"

definition RevokeSubject :: "faults \<Rightarrow> time \<Rightarrow> string \<Rightarrow> string \<Rightarrow> db \<Rightarrow> (error + unit) \<times> db" where
  "RevokeSubject F clock clusterID subject d =
     (let P = (\<lambda>r. su_cluster r = clusterID \<and> su_subject r = subject) in
      case auto_commit (stmt F ''revoke subject'' 0 (\<lambda>d. d\<lparr>subjects :=
        set_where P (\<lambda>r. r\<lparr>su_revoked := True, su_revoked_at := Some clock\<rparr>) (subjects d)\<rparr>)) d of
        (Inl e, d') \<Rightarrow> (Inl e, d')
      | (Inr _, d') \<Rightarrow>
          if F ''read revoke result'' 0 then (Inl (DbErr ''read revoke result''), d')
          else if count_where P (subjects d) = 0 then (Inl ErrSubjectNotFound, d')
          else (Inr (), d'))"

section \<open>Recovery packages and enrollment requests\<close>

definition InsertRecoveryPackage :: "faults \<Rightarrow> RecoveryPackageRecord \<Rightarrow> db \<Rightarrow> (error + unit) \<times> db" where
  "InsertRecoveryPackage F record =
     auto_commit (stmt_ignore F ''insert recovery package'' 0 (\<lambda>d. d\<lparr>recovery_packages := recovery_packages d @
       [\<lparr>rp_id = rpr_PackageID record, rp_cluster = rpr_ClusterID record, rp_key = rpr_KeyID record,
         rp_threshold = rpr_Threshold record, rp_shares = rpr_Shares record,
         rp_checksum = rpr_Checksum record, rp_body = rpr_Body record,
         rp_created_at = rpr_CreatedAt record\<rparr>]\<rparr>))"

text \<open>\<^verbatim>\<open>INSERT OR REPLACE\<close> removes the row with the same key first.\<close>

definition InsertEnrollmentRequest ::
  "faults \<Rightarrow> EnrollmentRequestRecord \<Rightarrow> db \<Rightarrow> (error + unit) \<times> db" where
  "InsertEnrollmentRequest F record =
     auto_commit (stmt F ''insert enrollment request'' 0 (\<lambda>d. d\<lparr>enrollment_requests :=
       filter (\<lambda>r. rq_id r \<noteq> err_RequestID record) (enrollment_requests d) @
       [\<lparr>rq_id = err_RequestID record, rq_cluster = err_ClusterID record, rq_subject = err_Subject record,
         rq_body = err_Body record, rq_expires_at = err_ExpiresAt record,
         rq_created_at = err_CreatedAt record\<rparr>]\<rparr>))"

section \<open>One-time enrollment grants\<close>

definition InsertEnrollmentGrant :: "faults \<Rightarrow> EnrollmentGrantRecord \<Rightarrow> db \<Rightarrow> (error + unit) \<times> db" where
  "InsertEnrollmentGrant F record =
     auto_commit (stmt F ''insert enrollment grant'' 0 (\<lambda>d. d\<lparr>enrollment_grants := enrollment_grants d @
       [\<lparr>gr_id = egr_GrantID record, gr_request = egr_RequestID record, gr_cluster = egr_ClusterID record,
         gr_subject = egr_Subject record, gr_body = egr_Body record, gr_expires_at = egr_ExpiresAt record,
         gr_consumed_at = None, gr_created_at = egr_CreatedAt record\<rparr>]\<rparr>))"

text \<open>
  \<^verbatim>\<open>ConsumeEnrollmentGrant\<close> reads the grant and marks it in two separate statements, between
  which other callers may run; each is a step of its own.
\<close>

definition check_grant :: "faults \<Rightarrow> string \<Rightarrow> time \<Rightarrow> db \<Rightarrow> error + unit" where
  "check_grant F grantID now d =
     (if F ''query enrollment grant'' 0 then Inl (DbErr ''query enrollment grant'')
      else (case find (\<lambda>r. gr_id r = grantID) (enrollment_grants d) of
          None \<Rightarrow> Inl ErrChallengeNotFound
        | Some r \<Rightarrow>
            if gr_consumed_at r \<noteq> None then Inl ErrChallengeReplayed
            else if \<not> now < gr_expires_at r then Inl ErrChallengeExpired
            else Inr ()))"

definition mark_grant :: "faults \<Rightarrow> string \<Rightarrow> time \<Rightarrow> db \<Rightarrow> (error + unit) \<times> db" where
  "mark_grant F grantID now d =
     (let P = (\<lambda>r. gr_id r = grantID \<and> gr_consumed_at r = None) in
      case auto_commit (stmt F ''consume enrollment grant'' 0 (\<lambda>d. d\<lparr>enrollment_grants :=
        set_where P (\<lambda>r. r\<lparr>gr_consumed_at := Some now\<rparr>) (enrollment_grants d)\<rparr>)) d of
        (Inl e, d') \<Rightarrow> (Inl e, d')
      | (Inr _, d') \<Rightarrow>
          if F ''read enrollment grant consume result'' 0 then
            (Inl (DbErr ''read enrollment grant consume result''), d')
          else if count_where P (enrollment_grants d) = 0 then (Inl ErrChallengeReplayed, d')
          else (Inr (), d'))"

definition ConsumeEnrollmentGrant :: "faults \<Rightarrow> string \<Rightarrow> time \<Rightarrow> db \<Rightarrow> (error + unit) \<times> db" where
  "ConsumeEnrollmentGrant F grantID now d =
     checked (check_grant F grantID now d) (\<lambda>_. mark_grant F grantID now) d"

section \<open>Challenges in SQLite\<close>

definition CreateChallenge :: "faults \<Rightarrow> Challenge \<Rightarrow> db \<Rightarrow> (error + unit) \<times> db" where
  "CreateChallenge F challenge =
     auto_commit (stmt F ''insert challenge'' 0 (\<lambda>d. d\<lparr>challenges := challenges d @
       [\<lparr>ch_id = chal_ID challenge, ch_nonce = chal_Nonce challenge, ch_cluster = chal_ClusterID challenge,
         ch_subject = chal_Subject challenge, ch_operation = Operation_String (chal_Operation challenge),
         ch_expires_at = chal_ExpiresAt challenge, ch_consumed_at = None,
         ch_created_at = chal_CreatedAt challenge\<rparr>]\<rparr>))"

text \<open>The checks that \<^verbatim>\<open>ChallengeNonce\<close> and \<^verbatim>\<open>ConsumeChallenge\<close> make on the row, in their order.\<close>

definition check_challenge_row ::
  "string \<Rightarrow> string \<Rightarrow> Operation \<Rightarrow> time \<Rightarrow> challenge_row option \<Rightarrow> error + challenge_row" where
  "check_challenge_row clusterID subject operation now row =
     (case row of None \<Rightarrow> Inl ErrChallengeNotFound
      | Some r \<Rightarrow>
          if ch_cluster r \<noteq> clusterID \<or> ch_subject r \<noteq> subject \<or> ch_operation r \<noteq> Operation_String operation
          then Inl ErrChallengeMismatch
          else if ch_consumed_at r \<noteq> None then Inl ErrChallengeReplayed
          else if \<not> now < ch_expires_at r then Inl ErrChallengeExpired
          else Inr r)"

definition ChallengeNonce ::
  "faults \<Rightarrow> string \<Rightarrow> string \<Rightarrow> string \<Rightarrow> Operation \<Rightarrow> time \<Rightarrow> db \<Rightarrow> error + bytes" where
  "ChallengeNonce F challengeID clusterID subject operation now d =
     (if F ''query challenge nonce'' 0 then Inl (DbErr ''query challenge nonce'')
      else bindE (check_challenge_row clusterID subject operation now
        (find (\<lambda>r. ch_id r = challengeID) (challenges d))) (\<lambda>r. Inr (ch_nonce r)))"

definition ConsumeChallenge ::
  "faults \<Rightarrow> string \<Rightarrow> string \<Rightarrow> string \<Rightarrow> Operation \<Rightarrow> time \<Rightarrow> db \<Rightarrow> (error + unit) \<times> db" where
  "ConsumeChallenge F challengeID clusterID subject operation now =
     (let P = (\<lambda>r. ch_id r = challengeID \<and> ch_consumed_at r = None) in
      with_tx F ''begin challenge consume transaction'' ''commit challenge consume transaction''
       (tx_bind (query F ''query challenge'' 0 (\<lambda>d. find (\<lambda>r. ch_id r = challengeID) (challenges d))) (\<lambda>row.
        tx_bind (tx_lift (check_challenge_row clusterID subject operation now row)) (\<lambda>_.
        tx_bind (stmt_count F ''consume challenge'' ''read consume result'' 0
          (\<lambda>d. count_where P (challenges d))
          (\<lambda>d. d\<lparr>challenges := set_where P (\<lambda>r. r\<lparr>ch_consumed_at := Some now\<rparr>) (challenges d)\<rparr>)) (\<lambda>affected.
        if affected = 0 then tx_fail ErrChallengeReplayed else tx_return ())))))"

section \<open>Audit events\<close>

definition InsertAuditEvent :: "faults \<Rightarrow> AuditEvent \<Rightarrow> db \<Rightarrow> (error + unit) \<times> db" where
  "InsertAuditEvent F event =
     auto_commit (stmt F ''insert audit event'' 0 (\<lambda>d. d\<lparr>audit_events := audit_events d @ [event]\<rparr>))"

definition AuditEvents :: "faults \<Rightarrow> db \<Rightarrow> error + AuditEvent list" where
  "AuditEvents F d =
     (if F ''query audit events'' 0 then Inl (DbErr ''query audit events'')
      else if F ''iterate audit events'' 0 then Inl (DbErr ''iterate audit events'')
      else Inr (map (\<lambda>e. e\<lparr>ae_SchemaVersion := 1\<rparr>)
        (sort_key (\<lambda>e. (ae_Time e, ae_AuditID e)) (audit_events d))))"

section \<open>The process-local challenge store\<close>

text \<open>A nil store is \<open>None\<close>; the map keeps an entry per challenge identifier.\<close>

record memoryChallenge =
  mc_challenge :: Challenge
  mc_consumed :: bool

type_synonym MemoryChallengeStore = "(string \<rightharpoonup> memoryChallenge) option"

definition NewMemoryChallengeStore :: MemoryChallengeStore where
  "NewMemoryChallengeStore = Some (\<lambda>_. None)"

definition MemCreateChallenge ::
  "Challenge \<Rightarrow> MemoryChallengeStore \<Rightarrow> (error + unit) \<times> MemoryChallengeStore" where
  "MemCreateChallenge challenge s =
     (case s of None \<Rightarrow> (Inl (OtherErr ''challenge store is nil''), s)
      | Some m \<Rightarrow>
          if TrimSpace (chal_ID challenge) = [] \<or> chal_Nonce challenge = [] then
            (Inl (OtherErr ''challenge id and nonce are required''), s)
          else if m (chal_ID challenge) \<noteq> None then (Inl (OtherErr ''challenge already exists''), s)
          else (Inr (), Some (m(chal_ID challenge \<mapsto> \<lparr>mc_challenge = challenge, mc_consumed = False\<rparr>))))"

definition validChallenge ::
  "string \<Rightarrow> string \<Rightarrow> string \<Rightarrow> Operation \<Rightarrow> time \<Rightarrow> MemoryChallengeStore \<Rightarrow> error + memoryChallenge" where
  "validChallenge challengeID clusterID subject operation now s =
     (case s of None \<Rightarrow> Inl ErrChallengeNotFound
      | Some m \<Rightarrow> (case m challengeID of None \<Rightarrow> Inl ErrChallengeNotFound
         | Some stored \<Rightarrow>
             (let challenge = mc_challenge stored in
              if chal_ClusterID challenge \<noteq> clusterID \<or> chal_Subject challenge \<noteq> subject \<or>
                 chal_Operation challenge \<noteq> operation then Inl ErrChallengeMismatch
              else if mc_consumed stored then Inl ErrChallengeReplayed
              else if \<not> now < chal_ExpiresAt challenge then Inl ErrChallengeExpired
              else Inr stored)))"

definition MemChallengeNonce ::
  "string \<Rightarrow> string \<Rightarrow> string \<Rightarrow> Operation \<Rightarrow> time \<Rightarrow> MemoryChallengeStore \<Rightarrow> error + bytes" where
  "MemChallengeNonce challengeID clusterID subject operation now s =
     bindE (validChallenge challengeID clusterID subject operation now s) (\<lambda>stored.
     Inr (chal_Nonce (mc_challenge stored)))"

definition MemConsumeChallenge ::
  "string \<Rightarrow> string \<Rightarrow> string \<Rightarrow> Operation \<Rightarrow> time \<Rightarrow> MemoryChallengeStore \<Rightarrow>
   (error + unit) \<times> MemoryChallengeStore" where
  "MemConsumeChallenge challengeID clusterID subject operation now s =
     (case validChallenge challengeID clusterID subject operation now s of
        Inl e \<Rightarrow> (Inl e, s)
      | Inr stored \<Rightarrow>
          (Inr (), map_option (\<lambda>m. m(challengeID \<mapsto> stored\<lparr>mc_consumed := True\<rparr>)) s))"

section \<open>The contract of a challenge store\<close>

text \<open>What a store has issued, by challenge identifier.\<close>

record issued =
  is_nonce :: bytes
  is_cluster :: string
  is_subject :: string
  is_operation :: string
  is_expires :: time
  is_consumed :: bool

definition issue :: "Challenge \<Rightarrow> issued" where
  "issue c = \<lparr>is_nonce = chal_Nonce c, is_cluster = chal_ClusterID c, is_subject = chal_Subject c,
     is_operation = Operation_String (chal_Operation c), is_expires = chal_ExpiresAt c, is_consumed = False\<rparr>"

definition accept ::
  "string \<Rightarrow> string \<Rightarrow> Operation \<Rightarrow> time \<Rightarrow> issued option \<Rightarrow> error + issued" where
  "accept clusterID subject operation now entry =
     (case entry of None \<Rightarrow> Inl ErrChallengeNotFound
      | Some x \<Rightarrow>
          if is_cluster x \<noteq> clusterID \<or> is_subject x \<noteq> subject \<or> is_operation x \<noteq> Operation_String operation
          then Inl ErrChallengeMismatch
          else if is_consumed x then Inl ErrChallengeReplayed
          else if \<not> now < is_expires x then Inl ErrChallengeExpired
          else Inr x)"

lemma accept_eq_Inr:
  "accept c s op now entry = Inr x \<longleftrightarrow>
     entry = Some x \<and> is_cluster x = c \<and> is_subject x = s \<and> is_operation x = Operation_String op \<and>
     \<not> is_consumed x \<and> now < is_expires x"
  by (auto simp: accept_def split: option.splits)

datatype 'f challenge_event =
    CreateEvent 'f Challenge
  | ConsumeEvent 'f string string string Operation time

fun challenge_step ::
  "('f \<Rightarrow> Challenge \<Rightarrow> 's \<Rightarrow> (error + unit) \<times> 's) \<Rightarrow>
   ('f \<Rightarrow> string \<Rightarrow> string \<Rightarrow> string \<Rightarrow> Operation \<Rightarrow> time \<Rightarrow> 's \<Rightarrow> (error + unit) \<times> 's) \<Rightarrow>
   'f challenge_event \<Rightarrow> 's \<Rightarrow> (error + unit) \<times> 's" where
  "challenge_step create consume (CreateEvent f c) s = create f c s"
| "challenge_step create consume (ConsumeEvent f i c sb op now) s = consume f i c sb op now s"

text \<open>The event is a consumption of challenge \<open>i\<close>, and it succeeded.\<close>

fun consumes :: "string \<Rightarrow> 'f challenge_event \<Rightarrow> error + unit \<Rightarrow> bool" where
  "consumes i (ConsumeEvent f j c sb op now) (Inr u) = (j = i)"
| "consumes i e r = False"

definition is_spent :: "(string \<rightharpoonup> issued) \<Rightarrow> string \<Rightarrow> bool" where
  "is_spent v i \<longleftrightarrow> (\<exists>x. v i = Some x \<and> is_consumed x)"

locale challenge_store =
  fixes inv :: "'s \<Rightarrow> bool"
    and view :: "'s \<Rightarrow> string \<rightharpoonup> issued"
    and create :: "'f \<Rightarrow> Challenge \<Rightarrow> 's \<Rightarrow> (error + unit) \<times> 's"
    and nonce :: "'f \<Rightarrow> string \<Rightarrow> string \<Rightarrow> string \<Rightarrow> Operation \<Rightarrow> time \<Rightarrow> 's \<Rightarrow> error + bytes"
    and consume :: "'f \<Rightarrow> string \<Rightarrow> string \<Rightarrow> string \<Rightarrow> Operation \<Rightarrow> time \<Rightarrow> 's \<Rightarrow> (error + unit) \<times> 's"
  assumes create_success: "inv s \<Longrightarrow> create f ch s = (Inr u, s') \<Longrightarrow>
      inv s' \<and> view s (chal_ID ch) = None \<and> view s' = (view s)(chal_ID ch \<mapsto> issue ch)"
    and create_failure: "inv s \<Longrightarrow> create f ch s = (Inl e, s') \<Longrightarrow> s' = s"
    and nonce_success: "inv s \<Longrightarrow> nonce f i c sb op now s = Inr n \<Longrightarrow>
      \<exists>x. accept c sb op now (view s i) = Inr x \<and> n = is_nonce x"
    and consume_success: "inv s \<Longrightarrow> consume f i c sb op now s = (Inr u, s') \<Longrightarrow>
      inv s' \<and> (\<exists>x. accept c sb op now (view s i) = Inr x \<and> view s' = (view s)(i \<mapsto> x\<lparr>is_consumed := True\<rparr>))"
    and consume_failure: "inv s \<Longrightarrow> consume f i c sb op now s = (Inl e, s') \<Longrightarrow> s' = s"
begin

lemma challenge_step_inv: "inv s \<Longrightarrow> inv (snd (challenge_step create consume e s))"
  using create_success create_failure consume_success consume_failure
  by (cases e; cases "fst (challenge_step create consume e s)")
    (metis challenge_step.simps eq_fst_iff snd_conv)+

lemma spent_kept:
  assumes "inv s" and "challenge_step create consume e s = (r, s')" and "is_spent (view s) i"
  shows "is_spent (view s') i"
proof (cases r)
  case (Inl err)
  with assms create_failure consume_failure have "s' = s" by (cases e) auto
  with assms show ?thesis by simp
next
  case (Inr u)
  show ?thesis
  proof (cases e)
    case (CreateEvent f c)
    with assms Inr create_success [OF assms(1), of f c u s'] show ?thesis by (auto simp: is_spent_def)
  next
    case (ConsumeEvent f j c sb op now)
    with assms Inr consume_success [OF assms(1), of f j c sb op now u s'] show ?thesis
      by (auto simp: is_spent_def)
  qed
qed

lemma consumes_unspent:
  assumes "inv s" and "challenge_step create consume e s = (r, s')" and "consumes i e r"
  shows "\<not> is_spent (view s) i \<and> is_spent (view s') i"
proof -
  from assms(3) obtain f c sb op now u where "e = ConsumeEvent f i c sb op now" "r = Inr u"
    by (cases "(i, e, r)" rule: consumes.cases) auto
  with assms(2) consume_success [OF assms(1), of f i c sb op now u s'] show ?thesis
    by (auto simp: is_spent_def accept_eq_Inr)
qed

sublocale once: one_shot "challenge_step create consume" "consumes i" inv "\<lambda>s. is_spent (view s) i" for i
  using challenge_step_inv consumes_unspent spent_kept by unfold_locales blast+

end

text \<open>A store without driver failures answers exactly by the contract.\<close>

locale live_challenge_store = challenge_store inv view create nonce consume
  for inv :: "'s \<Rightarrow> bool" and view :: "'s \<Rightarrow> string \<rightharpoonup> issued"
    and create :: "'f \<Rightarrow> Challenge \<Rightarrow> 's \<Rightarrow> (error + unit) \<times> 's"
    and nonce :: "'f \<Rightarrow> string \<Rightarrow> string \<Rightarrow> string \<Rightarrow> Operation \<Rightarrow> time \<Rightarrow> 's \<Rightarrow> error + bytes"
    and consume :: "'f \<Rightarrow> string \<Rightarrow> string \<Rightarrow> string \<Rightarrow> Operation \<Rightarrow> time \<Rightarrow> 's \<Rightarrow> (error + unit) \<times> 's" +
  assumes nonce_answer: "inv s \<Longrightarrow>
      nonce f i c sb op now s = bindE (accept c sb op now (view s i)) (\<lambda>x. Inr (is_nonce x))"
    and consume_answer: "inv s \<Longrightarrow>
      fst (consume f i c sb op now s) = bindE (accept c sb op now (view s i)) (\<lambda>_. Inr ())"
begin

text \<open>A created challenge hands out its nonce and is consumed once, by its own scope, before it expires.\<close>

lemma created_then_consumed:
  assumes "inv s" and "create f ch s = (Inr u, s1)" and "now < chal_ExpiresAt ch"
  shows "nonce f' (chal_ID ch) (chal_ClusterID ch) (chal_Subject ch) (chal_Operation ch) now s1 = Inr (chal_Nonce ch) \<and>
    (\<exists>s2. consume f' (chal_ID ch) (chal_ClusterID ch) (chal_Subject ch) (chal_Operation ch) now s1 = (Inr (), s2) \<and>
      fst (consume f' (chal_ID ch) (chal_ClusterID ch) (chal_Subject ch) (chal_Operation ch) now s2) =
        Inl ErrChallengeReplayed)"
proof -
  let ?args = "consume f' (chal_ID ch) (chal_ClusterID ch) (chal_Subject ch) (chal_Operation ch) now"
  from create_success [OF assms(1,2)] have s1: "inv s1" "view s1 (chal_ID ch) = Some (issue ch)" by auto
  have ok: "accept (chal_ClusterID ch) (chal_Subject ch) (chal_Operation ch) now (view s1 (chal_ID ch)) = Inr (issue ch)"
    using assms(3) by (simp add: s1(2) accept_eq_Inr issue_def)
  obtain r s2 where run: "?args s1 = (r, s2)" by fastforce
  with consume_answer [OF s1(1)] ok have "r = Inr ()" by (metis bindE.simps(2) fst_conv)
  with run consume_success [OF s1(1)] ok have s2: "inv s2"
      "view s2 (chal_ID ch) = Some ((issue ch)\<lparr>is_consumed := True\<rparr>)"
    by (metis fun_upd_same sum.inject(2))+
  have "fst (?args s2) = Inl ErrChallengeReplayed"
    by (simp add: consume_answer [OF s2(1)] s2(2) accept_def issue_def)
  with run \<open>r = Inr ()\<close> nonce_answer [OF s1(1)] ok show ?thesis by (simp add: issue_def)
qed

end

section \<open>Both stores meet the contract\<close>

definition row_issued :: "challenge_row \<Rightarrow> issued" where
  "row_issued r = \<lparr>is_nonce = ch_nonce r, is_cluster = ch_cluster r, is_subject = ch_subject r,
     is_operation = ch_operation r, is_expires = ch_expires_at r, is_consumed = (ch_consumed_at r \<noteq> None)\<rparr>"

definition sql_view :: "db \<Rightarrow> string \<rightharpoonup> issued" where
  "sql_view d i = map_option row_issued (find (\<lambda>r. ch_id r = i) (challenges d))"

definition mem_issued :: "memoryChallenge \<Rightarrow> issued" where
  "mem_issued m = (issue (mc_challenge m))\<lparr>is_consumed := mc_consumed m\<rparr>"

definition mem_view :: "MemoryChallengeStore \<Rightarrow> string \<rightharpoonup> issued" where
  "mem_view s i = (case s of None \<Rightarrow> None | Some m \<Rightarrow> map_option mem_issued (m i))"

lemma schema_challenge_ids: "schema_ok d \<Longrightarrow> distinct (map ch_id (challenges d))"
  by (simp add: schema_ok_def row_constraints_def challenges_ok_def)

lemma check_challenge_row_accept:
  "bindE (check_challenge_row c sb op now row) (\<lambda>r. Inr (row_issued r)) =
     accept c sb op now (map_option row_issued row)"
  by (cases row) (auto simp: check_challenge_row_def accept_def row_issued_def)

lemma check_challenge_row_eq_Inr:
  "check_challenge_row c sb op now row = Inr r \<longleftrightarrow>
     row = Some r \<and> accept c sb op now (Some (row_issued r)) = Inr (row_issued r)"
  by (auto simp: check_challenge_row_def accept_def row_issued_def split: option.splits)

text \<open>Marking a challenge changes its entry alone.\<close>

lemma sql_view_mark:
  assumes "distinct (map ch_id cs)" and "find (\<lambda>r. ch_id r = i) cs = Some r" and "ch_consumed_at r = None"
  shows "(\<lambda>j. map_option row_issued (find (\<lambda>r. ch_id r = j)
      (set_where (\<lambda>r. ch_id r = i \<and> ch_consumed_at r = None) (\<lambda>r. r\<lparr>ch_consumed_at := Some now\<rparr>) cs))) =
    (\<lambda>j. map_option row_issued (find (\<lambda>r. ch_id r = j) cs))(i \<mapsto> (row_issued r)\<lparr>is_consumed := True\<rparr>)"
  using assms
proof (induction cs)
  case (Cons x xs)
  show ?case
  proof (cases "ch_id x = i")
    case True
    have "set_where (\<lambda>r. ch_id r = i \<and> ch_consumed_at r = None) (\<lambda>r. r\<lparr>ch_consumed_at := Some now\<rparr>) xs = xs"
      using Cons.prems(1) True unfolding set_where_def by (intro map_idI) (metis distinct.simps(2) image_eqI list.simps(9) set_map)
    with True Cons.prems show ?thesis by (auto simp: set_where_def row_issued_def fun_eq_iff)
  next
    case False
    with Cons show ?thesis by (auto simp: set_where_def fun_eq_iff)
  qed
qed simp

lemma schema_update_challenges:
  "schema_ok d \<Longrightarrow> schema_ok (d\<lparr>challenges := set_where P (\<lambda>r. r\<lparr>ch_consumed_at := t\<rparr>) (challenges d)\<rparr>)"
  by (auto simp: schema_ok_def row_constraints_def foreign_keys_def challenges_ok_def refs_iff set_where_set)

lemma ConsumeChallenge_success:
  assumes "schema_ok d" and "ConsumeChallenge F i c sb op now d = (Inr u, d')"
  shows "schema_ok d' \<and> (\<exists>x. accept c sb op now (sql_view d i) = Inr x \<and>
    sql_view d' = (sql_view d)(i \<mapsto> x\<lparr>is_consumed := True\<rparr>))"
proof -
  from assms(2) obtain r where r: "find (\<lambda>r. ch_id r = i) (challenges d) = Some r"
      "accept c sb op now (Some (row_issued r)) = Inr (row_issued r)"
    and d': "schema_ok d'" "d' = d\<lparr>challenges := set_where (\<lambda>r. ch_id r = i \<and> ch_consumed_at r = None)
        (\<lambda>r. r\<lparr>ch_consumed_at := Some now\<rparr>) (challenges d)\<rparr>"
    by (auto simp: ConsumeChallenge_def Let_def check_challenge_row_eq_Inr split: if_splits)
  then have "ch_consumed_at r = None" by (auto simp: accept_eq_Inr row_issued_def)
  from sql_view_mark [OF schema_challenge_ids [OF assms(1)] r(1) this, of now] r d' show ?thesis
    by (intro conjI exI [of _ "row_issued r"]) (auto simp: sql_view_def fun_eq_iff)
qed

lemma CreateChallenge_success:
  assumes "CreateChallenge F ch d = (Inr u, d')"
  shows "schema_ok d' \<and> sql_view d (chal_ID ch) = None \<and> sql_view d' = (sql_view d)(chal_ID ch \<mapsto> issue ch)"
proof -
  from assms have d': "schema_ok d'" "challenges d' = challenges d @
      [\<lparr>ch_id = chal_ID ch, ch_nonce = chal_Nonce ch, ch_cluster = chal_ClusterID ch,
         ch_subject = chal_Subject ch, ch_operation = Operation_String (chal_Operation ch),
         ch_expires_at = chal_ExpiresAt ch, ch_consumed_at = None, ch_created_at = chal_CreatedAt ch\<rparr>]"
    by (auto simp: CreateChallenge_def)
  have "chal_ID ch \<notin> ch_id ` set (challenges d)" using schema_challenge_ids [OF d'(1)] d'(2) by simp
  then have "find (\<lambda>r. ch_id r = chal_ID ch) (challenges d) = None" by (auto simp: find_None_iff image_iff)
  moreover have "find P (xs @ [y]) = (case find P xs of Some x \<Rightarrow> Some x | None \<Rightarrow> if P y then Some y else None)"
    for P and xs :: "challenge_row list" and y by (induction xs) auto
  ultimately show ?thesis using d'(1)
    by (auto simp: sql_view_def d'(2) fun_eq_iff row_issued_def issue_def split: option.splits)
qed

lemma CreateChallenge_atomic: "CreateChallenge F ch d = (Inl e, d') \<Longrightarrow> d' = d"
  unfolding CreateChallenge_def by (erule auto_commit_atomic)

lemma ConsumeChallenge_atomic: "ConsumeChallenge F i c sb op now d = (Inl e, d') \<Longrightarrow> d' = d"
  unfolding ConsumeChallenge_def Let_def by (erule with_tx_atomic)

lemma ChallengeNonce_answer:
  "ChallengeNonce F i c sb op now d =
     (if F ''query challenge nonce'' 0 then Inl (DbErr ''query challenge nonce'')
      else bindE (accept c sb op now (sql_view d i)) (\<lambda>x. Inr (is_nonce x)))"
  unfolding ChallengeNonce_def sql_view_def check_challenge_row_accept [symmetric]
  by (cases "check_challenge_row c sb op now (find (\<lambda>r. ch_id r = i) (challenges d))")
    (simp_all add: row_issued_def)

lemma ConsumeChallenge_answer:
  assumes "schema_ok d"
  shows "fst (ConsumeChallenge no_faults i c sb op now d) = bindE (accept c sb op now (sql_view d i)) (\<lambda>_. Inr ())"
proof (cases "check_challenge_row c sb op now (find (\<lambda>r. ch_id r = i) (challenges d))")
  case (Inl e)
  then show ?thesis
    unfolding sql_view_def check_challenge_row_accept [symmetric]
    by (simp add: ConsumeChallenge_def Let_def with_tx_def sql_view_def tx_bind_def query_def)
next
  case (Inr r)
  then have r: "find (\<lambda>r. ch_id r = i) (challenges d) = Some r"
    "accept c sb op now (Some (row_issued r)) = Inr (row_issued r)"
    by (simp_all add: check_challenge_row_eq_Inr)
  then have "ch_consumed_at r = None" by (auto simp: accept_eq_Inr row_issued_def)
  with find_SomeD [OF r(1)] have "count_where (\<lambda>r. ch_id r = i \<and> ch_consumed_at r = None) (challenges d) \<noteq> 0"
    by (auto simp: count_where_def filter_empty_conv)
  with Inr r show ?thesis
    using schema_update_challenges [OF assms, of _ "Some now"]
    by (simp add: ConsumeChallenge_def Let_def with_tx_def sql_view_def tx_bind_def query_def stmt_count_def)
qed

lemma ChallengeNonce_success:
  "ChallengeNonce F i c sb op now d = Inr n \<Longrightarrow> \<exists>x. accept c sb op now (sql_view d i) = Inr x \<and> n = is_nonce x"
  by (auto simp: ChallengeNonce_answer split: if_splits)

interpretation sql: challenge_store schema_ok sql_view CreateChallenge ChallengeNonce ConsumeChallenge
  by unfold_locales
    ((erule CreateChallenge_success | erule CreateChallenge_atomic | erule ChallengeNonce_success
      | erule (1) ConsumeChallenge_success | erule ConsumeChallenge_atomic)+)

interpretation sql_live: live_challenge_store schema_ok sql_view "\<lambda>_ :: unit. CreateChallenge no_faults"
  "\<lambda>_. ChallengeNonce no_faults" "\<lambda>_. ConsumeChallenge no_faults"
  by unfold_locales
    ((erule CreateChallenge_success | erule CreateChallenge_atomic | erule ChallengeNonce_success
      | erule (1) ConsumeChallenge_success | erule ConsumeChallenge_atomic
      | erule ConsumeChallenge_answer | simp add: ChallengeNonce_answer)+)

lemma validChallenge_accept:
  "bindE (validChallenge i c sb op now s) (\<lambda>m. Inr (mem_issued m)) = accept c sb op now (mem_view s i)"
  by (auto simp: validChallenge_def accept_def mem_view_def mem_issued_def issue_def Let_def split: option.splits)

lemma validChallenge_eq_Inr:
  "validChallenge i c sb op now s = Inr m \<Longrightarrow>
     \<exists>f. s = Some f \<and> f i = Some m \<and> accept c sb op now (mem_view s i) = Inr (mem_issued m)"
  by (auto simp: validChallenge_def accept_def mem_view_def mem_issued_def issue_def Let_def
      split: option.splits if_splits)

interpretation memory: live_challenge_store "\<lambda>_. True" mem_view "\<lambda>_ :: unit. MemCreateChallenge"
  "\<lambda>_. MemChallengeNonce" "\<lambda>_. MemConsumeChallenge"
proof unfold_locales
  show "True \<and> mem_view s (chal_ID ch) = None \<and> mem_view s' = (mem_view s)(chal_ID ch \<mapsto> issue ch)"
    if "MemCreateChallenge ch s = (Inr u, s')" for ch s u s'
    using that by (auto simp: MemCreateChallenge_def mem_view_def mem_issued_def issue_def fun_eq_iff
        split: option.splits if_splits)
  show "s' = s" if "MemCreateChallenge ch s = (Inl e, s')" for ch s e s'
    using that by (auto simp: MemCreateChallenge_def split: option.splits if_splits)
  show answer: "MemChallengeNonce i c sb op now s = bindE (accept c sb op now (mem_view s i)) (\<lambda>x. Inr (is_nonce x))"
    for i c sb op now s
    unfolding MemChallengeNonce_def validChallenge_accept [symmetric]
    by (cases "validChallenge i c sb op now s") (simp_all add: mem_issued_def issue_def)
  then show "\<exists>x. accept c sb op now (mem_view s i) = Inr x \<and> n = is_nonce x"
    if "MemChallengeNonce i c sb op now s = Inr n" for i c sb op now s n
    using that by auto
  show "True \<and> (\<exists>x. accept c sb op now (mem_view s i) = Inr x \<and>
      mem_view s' = (mem_view s)(i \<mapsto> x\<lparr>is_consumed := True\<rparr>))"
    if "MemConsumeChallenge i c sb op now s = (Inr u, s')" for i c sb op now s u s'
    using that validChallenge_eq_Inr [of i c sb op now s]
    by (fastforce simp: MemConsumeChallenge_def mem_view_def mem_issued_def fun_eq_iff split: sum.splits)
  show "s' = s" if "MemConsumeChallenge i c sb op now s = (Inl e, s')" for i c sb op now s e s'
    using that by (auto simp: MemConsumeChallenge_def split: sum.splits)
  show "fst (MemConsumeChallenge i c sb op now s) = bindE (accept c sb op now (mem_view s i)) (\<lambda>_. Inr ())"
    for i c sb op now s
    unfolding MemConsumeChallenge_def validChallenge_accept [symmetric]
    by (cases "validChallenge i c sb op now s") simp_all
qed

section \<open>Properties of challenges\<close>

text \<open>In any run of creations and consumptions, with any pattern of driver failures, a challenge is
  successfully consumed at most once; the process-local store gives the same guarantee.\<close>

theorem challenge_single_use:
  assumes "schema_ok d"
  shows "hits (consumes i) es (fst (run_events (challenge_step CreateChallenge ConsumeChallenge) es d)) \<le> 1 \<and>
    hits (consumes i) es' (fst (run_events (challenge_step (\<lambda>_ :: unit. MemCreateChallenge)
      (\<lambda>_. MemConsumeChallenge)) es' s)) \<le> 1"
  using sql.once.hits_at_most_once [OF assms] memory.once.hits_at_most_once by blast

text \<open>C35. A challenge that was stored hands out its nonce and is consumed by its own cluster, subject and
  operation until it expires, and is rejected as a replay from then on.\<close>

theorem challenge_life_cycle:
  assumes "schema_ok d" and "CreateChallenge no_faults ch d = (Inr (), d')" and "now < chal_ExpiresAt ch"
  shows "ChallengeNonce no_faults (chal_ID ch) (chal_ClusterID ch) (chal_Subject ch) (chal_Operation ch) now d' =
      Inr (chal_Nonce ch) \<and>
    (\<exists>d''. ConsumeChallenge no_faults (chal_ID ch) (chal_ClusterID ch) (chal_Subject ch) (chal_Operation ch) now d' =
        (Inr (), d'') \<and>
      fst (ConsumeChallenge no_faults (chal_ID ch) (chal_ClusterID ch) (chal_Subject ch) (chal_Operation ch) now d'') =
        Inl ErrChallengeReplayed)"
  using sql_live.created_then_consumed [OF assms] by simp

text \<open>C36. The two challenge stores are interchangeable: when they have issued the same challenges they give
  the same answers, errors included, and have issued the same challenges afterwards.\<close>

theorem challenge_stores_agree:
  assumes "schema_ok d" and "sql_view d = mem_view s"
  shows "ChallengeNonce no_faults i c sb op now d = MemChallengeNonce i c sb op now s \<and>
    fst (ConsumeChallenge no_faults i c sb op now d) = fst (MemConsumeChallenge i c sb op now s) \<and>
    sql_view (snd (ConsumeChallenge no_faults i c sb op now d)) = mem_view (snd (MemConsumeChallenge i c sb op now s))"
proof -
  obtain r d' where d': "ConsumeChallenge no_faults i c sb op now d = (r, d')" by fastforce
  obtain r2 s' where s': "MemConsumeChallenge i c sb op now s = (r2, s')" by fastforce
  have "r = r2"
    using sql_live.consume_answer [OF assms(1)] memory.consume_answer [OF TrueI] assms(2) d' s' by (metis fst_conv)
  moreover have "sql_view d' = mem_view s'"
  proof (cases r)
    case (Inl e)
    with d' s' \<open>r = r2\<close> assms show ?thesis
      using sql.consume_failure [OF assms(1)] memory.consume_failure [OF TrueI] by metis
  next
    case (Inr u)
    with sql.consume_success [OF assms(1), of no_faults i c sb op now u d'] d' \<open>r = r2\<close> s' assms(2)
      memory.consume_success [OF TrueI, of i c sb op now s u s']
    show ?thesis by auto
  qed
  ultimately show ?thesis
    using sql_live.nonce_answer [OF assms(1)] memory.nonce_answer [OF TrueI] assms(2) d' s' by simp
qed

definition demo_challenge :: Challenge where
  "demo_challenge = \<lparr>chal_ID = ''ch1'', chal_Nonce = [1, 2], chal_ClusterID = ''prod'', chal_Subject = ''node'',
     chal_Operation = OPERATION_UNWRAP, chal_ExpiresAt = 100, chal_CreatedAt = 1\<rparr>"

lemma demo_db_schema [simp]: "schema_ok demo_db"
  using demo_db_inv(1) by (simp add: key_inv_def)

lemma demo_challenge_run: "\<exists>d'. CreateChallenge no_faults demo_challenge demo_db = (Inr (), d')"
  unfolding CreateChallenge_def demo_db_def demo_db_run snd_conv auto_commit_eq_Inr stmt_eq_Inr
  by (simp add: schema_eval demo_challenge_def demo_record_def demo_key_def empty_db_def)

theorem challenge_single_use_witness:
  "hits (consumes ''ch1'')
     [CreateEvent no_faults demo_challenge, ConsumeEvent no_faults ''ch1'' ''prod'' ''node'' OPERATION_UNWRAP 5,
      ConsumeEvent no_faults ''ch1'' ''prod'' ''node'' OPERATION_UNWRAP 6]
     (fst (run_events (challenge_step CreateChallenge ConsumeChallenge)
       [CreateEvent no_faults demo_challenge, ConsumeEvent no_faults ''ch1'' ''prod'' ''node'' OPERATION_UNWRAP 5,
        ConsumeEvent no_faults ''ch1'' ''prod'' ''node'' OPERATION_UNWRAP 6] demo_db)) \<le> 1"
  using challenge_single_use [OF demo_db_schema] by blast

theorem challenge_life_cycle_witness:
  "\<exists>d' d''. CreateChallenge no_faults demo_challenge demo_db = (Inr (), d') \<and>
     ConsumeChallenge no_faults ''ch1'' ''prod'' ''node'' OPERATION_UNWRAP 5 d' = (Inr (), d'')"
proof -
  obtain d' where d': "CreateChallenge no_faults demo_challenge demo_db = (Inr (), d')"
    using demo_challenge_run by blast
  from challenge_life_cycle [OF demo_db_schema d', of 5] d' show ?thesis
    by (auto simp: demo_challenge_def)
qed

theorem challenge_stores_agree_witness:
  "sql_view demo_db = mem_view NewMemoryChallengeStore \<and>
   fst (ConsumeChallenge no_faults ''x'' ''prod'' ''node'' OPERATION_WRAP 5 demo_db) =
     fst (MemConsumeChallenge ''x'' ''prod'' ''node'' OPERATION_WRAP 5 NewMemoryChallengeStore)"
proof -
  have "sql_view demo_db = mem_view NewMemoryChallengeStore"
    unfolding demo_db_def demo_db_run snd_conv
    by (simp add: sql_view_def mem_view_def NewMemoryChallengeStore_def empty_db_def fun_eq_iff)
  with challenge_stores_agree [OF demo_db_schema this, of "''x''" "''prod''" "''node''" OPERATION_WRAP 5]
  show ?thesis by simp
qed

section \<open>Grants\<close>

datatype grant_event =
    GrantInsert faults EnrollmentGrantRecord
  | GrantCheck faults string time
  | GrantMark faults string time

fun grant_step :: "grant_event \<Rightarrow> db \<Rightarrow> (error + unit) \<times> db" where
  "grant_step (GrantInsert F record) d = InsertEnrollmentGrant F record d"
| "grant_step (GrantCheck F i now) d = (check_grant F i now d, d)"
| "grant_step (GrantMark F i now) d = mark_grant F i now d"

text \<open>The event is the marking of grant \<open>i\<close>, and it succeeded.\<close>

fun grants :: "string \<Rightarrow> grant_event \<Rightarrow> error + unit \<Rightarrow> bool" where
  "grants i (GrantMark F j now) (Inr u) = (j = i)"
| "grants i e r = False"

definition grant_spent :: "string \<Rightarrow> db \<Rightarrow> bool" where
  "grant_spent i d \<longleftrightarrow> (\<exists>r \<in> set (enrollment_grants d). gr_id r = i \<and> gr_consumed_at r \<noteq> None)"

lemma mark_grant_cases:
  "mark_grant F i now d = (r, d') \<Longrightarrow>
     d' = d \<and> (\<exists>e. r = Inl e) \<or>
     schema_ok d' \<and> d' = d\<lparr>enrollment_grants := set_where (\<lambda>r. gr_id r = i \<and> gr_consumed_at r = None)
       (\<lambda>r. r\<lparr>gr_consumed_at := Some now\<rparr>) (enrollment_grants d)\<rparr> \<and>
     (\<forall>u. r = Inr u \<longrightarrow> (\<exists>r \<in> set (enrollment_grants d). gr_id r = i \<and> gr_consumed_at r = None))"
  by (auto simp: mark_grant_def Let_def auto_commit_def stmt_def count_where_def filter_empty_conv
      split: if_splits sum.splits)

lemma schema_grant_unique:
  "schema_ok d \<Longrightarrow> r \<in> set (enrollment_grants d) \<Longrightarrow> r' \<in> set (enrollment_grants d) \<Longrightarrow> gr_id r = gr_id r' \<Longrightarrow> r = r'"
  by (auto simp: schema_ok_def row_constraints_def distinct_map dest: inj_onD)

interpretation grant: one_shot grant_step "grants i" schema_ok "grant_spent i" for i
proof unfold_locales
  fix d d' e r
  assume d: "schema_ok d"
  show "schema_ok (snd (grant_step e d))"
  proof (cases e)
    case (GrantMark F j now)
    obtain res d1 where "mark_grant F j now d = (res, d1)" by fastforce
    with mark_grant_cases [OF this] d GrantMark show ?thesis by auto
  qed (use d in \<open>auto simp: InsertEnrollmentGrant_def auto_commit_def stmt_def\<close>)
  assume step: "grant_step e d = (r, d')"
  show "grant_spent i d'" if "grant_spent i d"
  proof (cases e)
    case (GrantInsert F g)
    with step that show ?thesis
      by (auto simp: InsertEnrollmentGrant_def auto_commit_def stmt_def grant_spent_def split: if_splits)
  next
    case (GrantMark F j now)
    with step mark_grant_cases [of F j now d r d'] that show ?thesis
      by (auto simp: grant_spent_def set_where_set)
  qed (use step that in simp)
  show "\<not> grant_spent i d \<and> grant_spent i d'" if "grants i e r"
  proof -
    from that obtain F now u where "e = GrantMark F i now" "r = Inr u"
      by (cases "(i, e, r)" rule: grants.cases) auto
    with step mark_grant_cases [of F i now d r d'] obtain g where
      g: "g \<in> set (enrollment_grants d)" "gr_id g = i" "gr_consumed_at g = None"
      and d': "d' = d\<lparr>enrollment_grants := set_where (\<lambda>r. gr_id r = i \<and> gr_consumed_at r = None)
       (\<lambda>r. r\<lparr>gr_consumed_at := Some now\<rparr>) (enrollment_grants d)\<rparr>" by auto
    have "\<not> grant_spent i d"
      unfolding grant_spent_def using g schema_grant_unique [OF d g(1)] by metis
    moreover have "g\<lparr>gr_consumed_at := Some now\<rparr> \<in> set (enrollment_grants d')"
      using g unfolding d' by (auto simp: set_where_set)
    then have "grant_spent i d'"
      unfolding grant_spent_def using g(2) by (intro bexI) simp_all
    ultimately show ?thesis by blast
  qed
qed

text \<open>C37. A one-time enrollment grant is accepted at most once, in any interleaving of the two statements
  that its concurrent consumers execute and with any pattern of driver failures.\<close>

theorem grant_single_use:
  assumes "schema_ok d"
  shows "hits (grants i) es (fst (run_events grant_step es d)) \<le> 1 \<and>
    ConsumeEnrollmentGrant F i now d =
      (case run_events grant_step [GrantCheck F i now] d of
         ([Inr _], d') \<Rightarrow> grant_step (GrantMark F i now) d' | (r, d') \<Rightarrow> (hd r, d'))"
  using grant.hits_at_most_once [OF assms]
  by (cases "check_grant F i now d") (simp_all add: ConsumeEnrollmentGrant_def checked_def)

theorem grant_single_use_witness:
  "hits (grants ''g'') [GrantCheck no_faults ''g'' 1, GrantCheck no_faults ''g'' 1, GrantMark no_faults ''g'' 1,
      GrantMark no_faults ''g'' 1]
     (fst (run_events grant_step [GrantCheck no_faults ''g'' 1, GrantCheck no_faults ''g'' 1,
        GrantMark no_faults ''g'' 1, GrantMark no_faults ''g'' 1] demo_db)) \<le> 1"
  using grant_single_use [OF demo_db_schema] by blast

section \<open>The order of audit events\<close>

lemma append_less: "a < b \<Longrightarrow> xs @ a # ys < xs @ b # (zs :: string)"
  by (induction xs) simp_all


definition demo_event :: "string \<Rightarrow> time \<Rightarrow> AuditEvent" where
  "demo_event i t = \<lparr>ae_SchemaVersion = 1, ae_AuditID = i, ae_Time = FormatRFC3339Nano t, ae_Subject = ''node'',
     ae_Operation = ''OPERATION_WRAP'', ae_ClusterID = ''prod'', ae_KeyID = ''root'', ae_KeyVersion = 1,
     ae_Decision = ''allow'', ae_PolicyID = ''default'', ae_Reason = ''ok'', ae_EvidenceHash = [],
     ae_RemoteAddress = [], ae_ErrorCode = [], ae_Actor = [], ae_Target = [], ae_CorrelationID = [],
     ae_RequestID = []\<rparr>"


end
