(* ===== verification/Evidence_Store.thy ===== *)
theory Evidence_Store
  imports Key_Store
begin

text \<open>
  Node trust in SQLite (\<^verbatim>\<open>internal/broker/sqlite.go\<close>): the enrollments of nodes with their
  publisher certificates, and the verified evidence of nodes.  A trust change raises the revision
  of the enrollment and removes the evidence of the node in the same transaction; TPM evidence is
  stored only for the revision that is still active.

  The JSON column of the TPM policy holds the policy itself.  \<open>clock\<close> is the reading of the system
  clock where a method takes one.
\<close>

definition maxNodeEvidenceEnrollmentRevision :: int where
  "maxNodeEvidenceEnrollmentRevision = 9223372036854775807"

section \<open>Enrollments\<close>

definition nr_at :: "string \<Rightarrow> string \<Rightarrow> enrollment_row \<Rightarrow> bool" where
  "nr_at c n r \<longleftrightarrow> nr_cluster r = c \<and> nr_node r = n"

definition nv_at :: "string \<Rightarrow> string \<Rightarrow> node_evidence_row \<Rightarrow> bool" where
  "nv_at c n r \<longleftrightarrow> nv_cluster r = c \<and> nv_node r = n"

definition pb_at :: "string \<Rightarrow> string \<Rightarrow> publisher_row \<Rightarrow> bool" where
  "pb_at c n r \<longleftrightarrow> pb_cluster r = c \<and> pb_node r = n"

definition upsert :: "('r \<Rightarrow> bool) \<Rightarrow> 'r \<Rightarrow> 'r list \<Rightarrow> 'r list" where
  "upsert P new rows = (if list_ex P rows then set_where P (\<lambda>_. new) rows else rows @ [new])"

definition enrollment_row_of :: "EnrollmentRequest \<Rightarrow> int \<Rightarrow> enrollment_row" where
  "enrollment_row_of q revision =
     \<lparr>nr_cluster = er_ClusterID q, nr_node = er_NodeName q, nr_uid = er_NodeUID q, nr_provider = er_Provider q,
      nr_policy = er_TPMPolicy q, nr_revision = revision, nr_enrolled_at = er_EnrolledAt q,
      nr_updated_at = er_EnrolledAt q, nr_revoked_at = None\<rparr>"

definition enroll_tx :: "faults \<Rightarrow> EnrollmentRequest \<Rightarrow> int tx" where
  "enroll_tx F q =
     tx_bind (query F ''query node evidence enrollment revision'' 0
       (\<lambda>d. find (nr_at (er_ClusterID q) (er_NodeName q)) (node_evidence_enrollments d))) (\<lambda>row.
     let currentRevision = (case row of None \<Rightarrow> 0 | Some r \<Rightarrow> nr_revision r); revision = currentRevision + 1 in
     if currentRevision = maxNodeEvidenceEnrollmentRevision then
       tx_fail (OtherErr ''node evidence enrollment revision exhausted'')
     else
       tx_bind (stmt F ''upsert node evidence enrollment'' 0 (\<lambda>d. d\<lparr>node_evidence_enrollments :=
         upsert (nr_at (er_ClusterID q) (er_NodeName q)) (enrollment_row_of q revision)
           (node_evidence_enrollments d)\<rparr>)) (\<lambda>_.
       tx_bind (stmt F ''replace node evidence publishers'' 0 (\<lambda>d. d\<lparr>node_evidence_publishers :=
         filter (\<lambda>r. \<not> pb_at (er_ClusterID q) (er_NodeName q) r) (node_evidence_publishers d)\<rparr>)) (\<lambda>_.
       tx_bind (tx_each (\<lambda>i certificateHash. stmt F ''insert node evidence publisher'' i (\<lambda>d.
           d\<lparr>node_evidence_publishers := node_evidence_publishers d @
             [\<lparr>pb_cluster = er_ClusterID q, pb_node = er_NodeName q, pb_certificate = certificateHash,
               pb_created_at = er_EnrolledAt q\<rparr>]\<rparr>)) 0 (er_PublisherCertificateHashes q)) (\<lambda>_.
       tx_bind (stmt F ''invalidate node evidence after enrollment'' 0 (\<lambda>d. d\<lparr>node_evidence :=
         filter (\<lambda>r. \<not> nv_at (er_ClusterID q) (er_NodeName q) r) (node_evidence d)\<rparr>)) (\<lambda>_.
       tx_return revision)))))"

definition EnrollNodeEvidence ::
  "faults \<Rightarrow> EnrollmentRequest \<Rightarrow> db \<Rightarrow> (error + Enrollment) \<times> db" where
  "EnrollNodeEvidence F request =
     checked (NormalizeEnrollmentRequest request) (\<lambda>q d.
     case with_tx F ''begin node evidence enrollment transaction'' ''commit node evidence enrollment''
       (enroll_tx F q) d of
       (Inl e, d') \<Rightarrow> (Inl e, d')
     | (Inr revision, d') \<Rightarrow>
         (NormalizeEnrollment \<lparr>en_ClusterID = er_ClusterID q, en_NodeName = er_NodeName q,
            en_NodeUID = er_NodeUID q, en_Provider = er_Provider q, en_TPMPolicy = er_TPMPolicy q,
            en_PublisherCertificateHashes = er_PublisherCertificateHashes q,
            en_Revision = word_of_int revision, en_EnrolledAt = er_EnrolledAt q,
            en_UpdatedAt = er_EnrolledAt q, en_RevokedAt = 0\<rparr>, d'))"

definition scanNodeEvidenceEnrollment :: "enrollment_row option \<Rightarrow> error + Enrollment" where
  "scanNodeEvidenceEnrollment row =
     (case row of None \<Rightarrow> Inl ErrEnrollmentNotFound
      | Some r \<Rightarrow>
          if nr_revision r \<le> 0 then Inl (OtherErr ''invalid node evidence enrollment revision'')
          else Inr \<lparr>en_ClusterID = nr_cluster r, en_NodeName = nr_node r, en_NodeUID = nr_uid r,
            en_Provider = nr_provider r, en_TPMPolicy = nr_policy r, en_PublisherCertificateHashes = [],
            en_Revision = word_of_int (nr_revision r), en_EnrolledAt = nr_enrolled_at r,
            en_UpdatedAt = nr_updated_at r,
            en_RevokedAt = (case nr_revoked_at r of None \<Rightarrow> 0 | Some t \<Rightarrow> t)\<rparr>)"

definition nodeEvidencePublisherHashes :: "faults \<Rightarrow> string \<Rightarrow> string \<Rightarrow> db \<Rightarrow> error + string list" where
  "nodeEvidencePublisherHashes F clusterID nodeName d =
     (if F ''query node evidence publishers'' 0 then Inl (DbErr ''query node evidence publishers'')
      else if F ''iterate node evidence publishers'' 0 then Inl (DbErr ''iterate node evidence publishers'')
      else Inr (sort (map pb_certificate (filter (pb_at clusterID nodeName) (node_evidence_publishers d)))))"

definition revoke_tx :: "faults \<Rightarrow> string \<Rightarrow> string \<Rightarrow> time \<Rightarrow> Enrollment tx" where
  "revoke_tx F clusterID nodeName now =
     tx_bind (query F ''scan node evidence enrollment'' 0
       (\<lambda>d. find (nr_at clusterID nodeName) (node_evidence_enrollments d))) (\<lambda>row.
     tx_bind (tx_lift (scanNodeEvidenceEnrollment row)) (\<lambda>enrollment.
     if \<not> Enrollment_Active enrollment then tx_fail ErrEnrollmentRevoked
     else if uint (en_Revision enrollment) \<ge> maxNodeEvidenceEnrollmentRevision then
       tx_fail (OtherErr ''node evidence enrollment revision exhausted'')
     else
       (let enrollment = enrollment\<lparr>en_Revision := en_Revision enrollment + 1, en_UpdatedAt := now,
              en_RevokedAt := now\<rparr> in
        tx_bind (stmt F ''revoke node evidence enrollment'' 0 (\<lambda>d. d\<lparr>node_evidence_enrollments :=
          set_where (\<lambda>r. nr_at clusterID nodeName r \<and> nr_revoked_at r = None)
            (\<lambda>r. r\<lparr>nr_revision := uint (en_Revision enrollment), nr_updated_at := now,
              nr_revoked_at := Some now\<rparr>) (node_evidence_enrollments d)\<rparr>)) (\<lambda>_.
        tx_bind (stmt F ''invalidate revoked node evidence'' 0 (\<lambda>d. d\<lparr>node_evidence :=
          filter (\<lambda>r. \<not> nv_at clusterID nodeName r) (node_evidence d)\<rparr>)) (\<lambda>_.
        tx_return enrollment)))))"

definition RevokeNodeEvidence ::
  "faults \<Rightarrow> string \<Rightarrow> string \<Rightarrow> time \<Rightarrow> db \<Rightarrow> (error + Enrollment) \<times> db" where
  "RevokeNodeEvidence F clusterID nodeName now =
     (let c = TrimSpace clusterID; n = TrimSpace nodeName in
      checked (assertE (c \<noteq> [] \<and> n \<noteq> [] \<and> now \<noteq> 0)
        (ErrInvalidEnrollment ''cluster_id, node_name, and revocation time are required'')) (\<lambda>_ d.
      case with_tx F ''begin node evidence revocation transaction'' ''commit node evidence revocation''
        (revoke_tx F c n now) d of
        (Inl e, d') \<Rightarrow> (Inl e, d')
      | (Inr enrollment, d') \<Rightarrow>
          (bindE (nodeEvidencePublisherHashes F c n d') (\<lambda>hashes.
           NormalizeEnrollment (enrollment\<lparr>en_PublisherCertificateHashes := hashes\<rparr>)), d')))"

definition ActiveNodeEvidenceEnrollment :: "faults \<Rightarrow> string \<Rightarrow> string \<Rightarrow> db \<Rightarrow> error + Enrollment" where
  "ActiveNodeEvidenceEnrollment F clusterID nodeName d =
     (let c = TrimSpace clusterID; n = TrimSpace nodeName in
      if F ''scan node evidence enrollment'' 0 then Inl (DbErr ''scan node evidence enrollment'')
      else bindE (scanNodeEvidenceEnrollment (find (nr_at c n) (node_evidence_enrollments d))) (\<lambda>enrollment.
        if \<not> Enrollment_Active enrollment then Inl ErrEnrollmentRevoked
        else bindE (nodeEvidencePublisherHashes F c n d) (\<lambda>hashes.
          NormalizeEnrollment (enrollment\<lparr>en_PublisherCertificateHashes := hashes\<rparr>))))"

definition ListNodeEvidenceEnrollments ::
  "faults \<Rightarrow> string \<Rightarrow> string \<Rightarrow> bool \<Rightarrow> db \<Rightarrow> error + Enrollment list" where
  "ListNodeEvidenceEnrollments F clusterID nodeName includeRevoked d =
     (let c = TrimSpace clusterID; n = TrimSpace nodeName in
      if F ''query node evidence enrollments'' 0 then Inl (DbErr ''query node evidence enrollments'')
      else bindE (traverseE (\<lambda>r. scanNodeEvidenceEnrollment (Some r))
        (sort_key nr_node (filter (\<lambda>r. nr_cluster r = c \<and> (n = [] \<or> nr_node r = n) \<and>
          (includeRevoked \<or> nr_revoked_at r = None)) (node_evidence_enrollments d)))) (\<lambda>enrollments.
      if F ''iterate node evidence enrollments'' 0 then Inl (DbErr ''iterate node evidence enrollments'')
      else if F ''close node evidence enrollment rows'' 0 then Inl (DbErr ''close node evidence enrollment rows'')
      else if enrollments = [] then Inl ErrEnrollmentNotFound
      else traverseE (\<lambda>e.
        bindE (nodeEvidencePublisherHashes F (en_ClusterID e) (en_NodeName e) d) (\<lambda>hashes.
        NormalizeEnrollment (e\<lparr>en_PublisherCertificateHashes := hashes\<rparr>))) enrollments))"

section \<open>Evidence\<close>

definition evidence_row_of :: "Evidence \<Rightarrow> time \<Rightarrow> int option \<Rightarrow> node_evidence_row" where
  "evidence_row_of e clock revision =
     \<lparr>nv_cluster = ev_ClusterID e, nv_node = ev_NodeName e, nv_uid = nullableString (ev_NodeUID e),
      nv_provider = ev_Provider e, nv_hash = ev_EvidenceHash e, nv_collected_at = ev_CollectedAt e,
      nv_expires_at = ev_ExpiresAt e, nv_updated_at = clock, nv_revision = revision\<rparr>"

definition upsertNodeEvidence :: "faults \<Rightarrow> time \<Rightarrow> Evidence \<Rightarrow> int option \<Rightarrow> unit tx" where
  "upsertNodeEvidence F clock normalized enrollmentRevision =
     stmt F ''upsert node evidence'' 0 (\<lambda>d. d\<lparr>node_evidence :=
       upsert (nv_at (ev_ClusterID normalized) (ev_NodeName normalized))
         (evidence_row_of normalized clock enrollmentRevision) (node_evidence d)\<rparr>)"

definition PutEnrolledNodeEvidence ::
  "faults \<Rightarrow> time \<Rightarrow> Evidence \<Rightarrow> u64 \<Rightarrow> db \<Rightarrow> (error + unit) \<times> db" where
  "PutEnrolledNodeEvidence F clock evidence revision =
     checked (Normalize evidence) (\<lambda>normalized.
     checked (assertE (revision \<noteq> 0 \<and> uint revision \<le> maxNodeEvidenceEnrollmentRevision) ErrEnrollmentChanged) (\<lambda>_.
     with_tx F ''begin enrolled node evidence transaction'' ''commit enrolled node evidence''
      (tx_bind (query F ''query active node evidence enrollment revision'' 0
         (\<lambda>d. find (nr_at (ev_ClusterID normalized) (ev_NodeName normalized)) (node_evidence_enrollments d))) (\<lambda>row.
       case row of None \<Rightarrow> tx_fail ErrEnrollmentChanged
       | Some r \<Rightarrow>
           if nr_revision r \<le> 0 \<or> nr_revoked_at r \<noteq> None \<or> nr_revision r \<noteq> uint revision \<or>
              nr_uid r \<noteq> ev_NodeUID normalized \<or> nr_provider r \<noteq> ev_Provider normalized then
             tx_fail ErrEnrollmentChanged
           else upsertNodeEvidence F clock normalized (Some (nr_revision r))))))"

definition PutNodeEvidence :: "faults \<Rightarrow> time \<Rightarrow> Evidence \<Rightarrow> db \<Rightarrow> (error + unit) \<times> db" where
  "PutNodeEvidence F clock evidence =
     checked (Normalize evidence) (\<lambda>normalized.
     checked (assertE (ev_Provider normalized \<noteq> ProviderTPM2Quote) ErrEnrollmentChanged) (\<lambda>_.
     auto_commit (upsertNodeEvidence F clock normalized None)))"

definition scanNodeEvidence :: "node_evidence_row option \<Rightarrow> error + Evidence" where
  "scanNodeEvidence row =
     (case row of None \<Rightarrow> Inl ErrNodeEvidenceNotFound
      | Some r \<Rightarrow> Inr \<lparr>ev_ClusterID = nv_cluster r, ev_NodeName = nv_node r,
          ev_NodeUID = (case nv_uid r of None \<Rightarrow> [] | Some u \<Rightarrow> u), ev_Provider = nv_provider r,
          ev_EvidenceHash = nv_hash r, ev_CollectedAt = nv_collected_at r, ev_ExpiresAt = nv_expires_at r\<rparr>)"

definition LoadNodeEvidence :: "faults \<Rightarrow> db \<Rightarrow> string \<Rightarrow> string \<Rightarrow> error + Evidence" where
  "LoadNodeEvidence F d clusterID nodeName =
     (if F ''scan node evidence'' 0 then Inl (DbErr ''scan node evidence'')
      else scanNodeEvidence (find (nv_at (TrimSpace clusterID) (TrimSpace nodeName)) (node_evidence d)))"

definition FreshNodeEvidence :: "faults \<Rightarrow> time \<Rightarrow> db \<Rightarrow> string \<Rightarrow> string \<Rightarrow> time \<Rightarrow> error + Evidence" where
  "FreshNodeEvidence F clock d clusterID nodeName now' =
     (let now = (if now' = 0 then clock else now') in
      bindE (LoadNodeEvidence F d clusterID nodeName) (\<lambda>evidence.
      if \<not> ev_ExpiresAt evidence > now then Inl ErrNodeEvidenceStale else Inr evidence))"

definition ListNodeEvidence :: "faults \<Rightarrow> string \<Rightarrow> string \<Rightarrow> db \<Rightarrow> error + Evidence list" where
  "ListNodeEvidence F clusterID nodeName d =
     (let c = TrimSpace clusterID; n = TrimSpace nodeName in
      if F ''query node evidence'' 0 then Inl (DbErr ''query node evidence'')
      else bindE (traverseE (\<lambda>r. scanNodeEvidence (Some r))
        (sort_key nv_node (filter (\<lambda>r. nv_cluster r = c \<and> (n \<noteq> [] \<longrightarrow> nv_node r = n)) (node_evidence d)))) (\<lambda>records.
      if F ''iterate node evidence'' 0 then Inl (DbErr ''iterate node evidence'')
      else if records = [] then Inl ErrNodeEvidenceNotFound
      else Inr records))"

fun delete_each :: "faults \<Rightarrow> string \<Rightarrow> nat \<Rightarrow> string list \<Rightarrow> nat \<Rightarrow> nat tx" where
  "delete_each F clusterID i [] removed = tx_return removed"
| "delete_each F clusterID i (nodeName # names) removed =
     tx_bind (stmt_count F ''delete pruned node evidence'' ''read pruned node evidence result'' i
       (\<lambda>d. count_where (nv_at clusterID nodeName) (node_evidence d))
       (\<lambda>d. d\<lparr>node_evidence := filter (\<lambda>r. \<not> nv_at clusterID nodeName r) (node_evidence d)\<rparr>)) (\<lambda>affected.
     delete_each F clusterID (i + 1) names (removed + affected))"

definition PruneNodeEvidence :: "faults \<Rightarrow> time \<Rightarrow> string \<Rightarrow> time \<Rightarrow> db \<Rightarrow> (error + nat) \<times> db" where
  "PruneNodeEvidence F clock clusterID expiredBefore =
     (let c = TrimSpace clusterID; before = (if expiredBefore = 0 then clock else expiredBefore) in
      with_tx F ''begin node evidence prune transaction'' ''commit node evidence prune transaction''
       (tx_bind (query F ''query node evidence for prune'' 0 (\<lambda>d.
          map nv_node (filter (\<lambda>r. nv_cluster r = c \<and> nv_expires_at r < before) (node_evidence d)))) (\<lambda>expired.
        tx_bind (query F ''iterate node evidence for prune'' 0 (\<lambda>_. ())) (\<lambda>_.
        tx_bind (query F ''close node evidence prune rows'' 0 (\<lambda>_. ())) (\<lambda>_.
        delete_each F c 0 expired 0)))))"

section \<open>Looking up a row by its key\<close>

lemma find_upsert:
  assumes "key new = y"
  shows "find (\<lambda>r. key r = x) (upsert (\<lambda>r. key r = y) new rows) =
    (if x = y then Some new else find (\<lambda>r. key r = x) rows)"
proof -
  have other: "find (\<lambda>r. key r = x) (set_where (\<lambda>r. key r = y) (\<lambda>_. new) rows) = find (\<lambda>r. key r = x) rows"
    if "x \<noteq> y" for rows
    using assms that by (induction rows) (auto simp: set_where_def)
  have same: "find (\<lambda>r. key r = y) (set_where (\<lambda>r. key r = y) (\<lambda>_. new) rows) = Some new"
    if "list_ex (\<lambda>r. key r = y) rows" for rows
    using assms that by (induction rows) (auto simp: set_where_def)
  have new: "find (\<lambda>r. key r = x) (rows @ [new]) = (if x = y then Some new else find (\<lambda>r. key r = x) rows)"
    if "\<not> list_ex (\<lambda>r. key r = y) rows" for rows x
    using assms that by (induction rows) auto
  show ?thesis by (cases "x = y") (simp_all add: upsert_def other same new)
qed

lemma find_delete:
  "find (\<lambda>r. key r = x) (filter (\<lambda>r. \<not> key r = y) rows) = (if x = y then None else find (\<lambda>r. key r = x) rows)"
  by (induction rows) auto

lemma find_set_where:
  assumes "\<And>r. key (g r) = key r"
  shows "find (\<lambda>r. key r = x) (set_where (\<lambda>r. key r = y \<and> Q r) g rows) =
    (if x = y then map_option (\<lambda>r. if Q r then g r else r) (find (\<lambda>r. key r = x) rows)
     else find (\<lambda>r. key r = x) rows)"
  using assms by (induction rows) (auto simp: set_where_def)

definition nr_key :: "enrollment_row \<Rightarrow> string \<times> string" where
  "nr_key r = (nr_cluster r, nr_node r)"

definition nv_key :: "node_evidence_row \<Rightarrow> string \<times> string" where
  "nv_key r = (nv_cluster r, nv_node r)"

lemma row_at_key: "nr_at c n = (\<lambda>r. nr_key r = (c, n))" "nv_at c n = (\<lambda>r. nv_key r = (c, n))"
  by (auto simp: nr_at_def nr_key_def nv_at_def nv_key_def)

definition trust_row :: "db \<Rightarrow> string \<times> string \<Rightarrow> enrollment_row option" where
  "trust_row d k = find (\<lambda>r. nr_key r = k) (node_evidence_enrollments d)"

definition evidence_row :: "db \<Rightarrow> string \<times> string \<Rightarrow> node_evidence_row option" where
  "evidence_row d k = find (\<lambda>r. nv_key r = k) (node_evidence d)"

lemma key_of_rows [simp]:
  "nr_key (enrollment_row_of q v) = (er_ClusterID q, er_NodeName q)"
  "nv_key (evidence_row_of e clock w) = (ev_ClusterID e, ev_NodeName e)"
  by (simp_all add: nr_key_def nv_key_def enrollment_row_of_def evidence_row_of_def)

section \<open>What each method does to trust and evidence\<close>

lemma enroll_tx_effect:
  assumes "enroll_tx F q d = Inr (revision, d')"
  shows "schema_ok d' \<and>
    revision = (case trust_row d (er_ClusterID q, er_NodeName q) of None \<Rightarrow> 0 | Some r \<Rightarrow> nr_revision r) + 1 \<and>
    revision - 1 \<noteq> maxNodeEvidenceEnrollmentRevision \<and>
    trust_row d' = (trust_row d)((er_ClusterID q, er_NodeName q) \<mapsto> enrollment_row_of q revision) \<and>
    evidence_row d' = (evidence_row d)((er_ClusterID q, er_NodeName q) := None)"
proof -
  let ?k = "(er_ClusterID q, er_NodeName q)"
  let ?pub = "\<lambda>i certificateHash. stmt F ''insert node evidence publisher'' i (\<lambda>d.
           d\<lparr>node_evidence_publishers := node_evidence_publishers d @
             [\<lparr>pb_cluster = er_ClusterID q, pb_node = er_NodeName q, pb_certificate = certificateHash,
               pb_created_at = er_EnrolledAt q\<rparr>]\<rparr>)"
  from assms obtain d1 d2 u where
    pub: "tx_each ?pub 0 (er_PublisherCertificateHashes q) d1 = Inr (u, d2)"
    and rev: "revision = (case trust_row d ?k of None \<Rightarrow> 0 | Some r \<Rightarrow> nr_revision r) + 1"
      "revision - 1 \<noteq> maxNodeEvidenceEnrollmentRevision"
    and d1: "node_evidence_enrollments d1 = upsert (nr_at (er_ClusterID q) (er_NodeName q))
        (enrollment_row_of q revision) (node_evidence_enrollments d)" "node_evidence d1 = node_evidence d"
    and d': "schema_ok d'" "node_evidence_enrollments d' = node_evidence_enrollments d2"
      "node_evidence d' = filter (\<lambda>r. \<not> nv_at (er_ClusterID q) (er_NodeName q) r) (node_evidence d2)"
    by (clarsimp simp: enroll_tx_def Let_def trust_row_def split: if_splits) (erule that, simp_all add: trust_row_def row_at_key)
  have "tx_keeps (\<lambda>x. node_evidence_enrollments x = node_evidence_enrollments d1 \<and> node_evidence x = node_evidence d1)
      (tx_each ?pub 0 (er_PublisherCertificateHashes q))"
    by (intro tx_keeps_rules) simp
  with pub have d2: "node_evidence_enrollments d2 = node_evidence_enrollments d1" "node_evidence d2 = node_evidence d1"
    unfolding tx_keeps_def by blast+
  show ?thesis
    using rev d' by (simp add: trust_row_def evidence_row_def d'(2,3) d2 d1 row_at_key find_upsert find_delete fun_eq_iff)
qed

lemma EnrollNodeEvidence_cases:
  assumes "EnrollNodeEvidence F request d = (r, d')"
  shows "d' = d \<and> (\<exists>e. r = Inl e) \<or>
    (\<exists>q revision. NormalizeEnrollmentRequest request = Inr q \<and> schema_ok d' \<and>
      revision = (case trust_row d (er_ClusterID q, er_NodeName q) of None \<Rightarrow> 0 | Some r \<Rightarrow> nr_revision r) + 1 \<and>
      revision - 1 \<noteq> maxNodeEvidenceEnrollmentRevision \<and>
      trust_row d' = (trust_row d)((er_ClusterID q, er_NodeName q) \<mapsto> enrollment_row_of q revision) \<and>
      evidence_row d' = (evidence_row d)((er_ClusterID q, er_NodeName q) := None) \<and>
      r = NormalizeEnrollment \<lparr>en_ClusterID = er_ClusterID q, en_NodeName = er_NodeName q,
            en_NodeUID = er_NodeUID q, en_Provider = er_Provider q, en_TPMPolicy = er_TPMPolicy q,
            en_PublisherCertificateHashes = er_PublisherCertificateHashes q,
            en_Revision = word_of_int revision, en_EnrolledAt = er_EnrolledAt q,
            en_UpdatedAt = er_EnrolledAt q, en_RevokedAt = 0\<rparr>)"
proof (cases "NormalizeEnrollmentRequest request")
  case (Inl e)
  with assms show ?thesis by (auto simp: EnrollNodeEvidence_def checked_def)
next
  case (Inr q)
  obtain res d1 where run: "with_tx F ''begin node evidence enrollment transaction'' ''commit node evidence enrollment''
       (enroll_tx F q) d = (res, d1)" by fastforce
  show ?thesis
  proof (cases res)
    case (Inl e)
    with run with_tx_atomic have "d1 = d" by blast
    with Inl run Inr assms show ?thesis by (auto simp: EnrollNodeEvidence_def checked_def)
  next
    case (Inr revision)
    with run have effect: "enroll_tx F q d = Inr (revision, d1)" by simp
    from assms run Inr \<open>NormalizeEnrollmentRequest request = Inr q\<close> have "d1 = d'"
      "r = NormalizeEnrollment \<lparr>en_ClusterID = er_ClusterID q, en_NodeName = er_NodeName q,
            en_NodeUID = er_NodeUID q, en_Provider = er_Provider q, en_TPMPolicy = er_TPMPolicy q,
            en_PublisherCertificateHashes = er_PublisherCertificateHashes q,
            en_Revision = word_of_int revision, en_EnrolledAt = er_EnrolledAt q,
            en_UpdatedAt = er_EnrolledAt q, en_RevokedAt = 0\<rparr>"
      unfolding EnrollNodeEvidence_def checked_def by simp_all
    with enroll_tx_effect [OF effect] \<open>NormalizeEnrollmentRequest request = Inr q\<close> show ?thesis
      by blast
  qed
qed

definition enrollment_ok :: "enrollment_row \<Rightarrow> bool" where
  "enrollment_ok r \<longleftrightarrow> 0 < nr_revision r \<and> nr_revision r \<le> maxNodeEvidenceEnrollmentRevision \<and> nr_revoked_at r \<noteq> Some 0"

lemma uint_revision:
  "0 < v \<Longrightarrow> v \<le> maxNodeEvidenceEnrollmentRevision \<Longrightarrow> uint (word_of_int v :: u64) = v"
  by (simp add: maxNodeEvidenceEnrollmentRevision_def uint_word_of_int)

lemma uint_next_revision:
  assumes "0 < v" and "v < maxNodeEvidenceEnrollmentRevision"
  shows "uint (word_of_int v + 1 :: u64) = v + 1"
proof -
  have "word_of_int v + 1 = (word_of_int (v + 1) :: u64)" by simp
  then show ?thesis using assms uint_revision [of "v + 1"] by simp
qed

definition revoked_row :: "time \<Rightarrow> enrollment_row \<Rightarrow> enrollment_row" where
  "revoked_row now r = r\<lparr>nr_revision := nr_revision r + 1, nr_updated_at := now, nr_revoked_at := Some now\<rparr>"

lemma nr_key_update [simp]: "nr_key (r\<lparr>nr_revision := v, nr_updated_at := t, nr_revoked_at := x\<rparr>) = nr_key r"
  by (simp add: nr_key_def)

lemma revoke_tx_effect:
  assumes run: "revoke_tx F c n now d = Inr (enrollment, d')"
    and ok: "\<And>r. trust_row d (c, n) = Some r \<Longrightarrow> enrollment_ok r"
  shows "schema_ok d' \<and> (\<exists>r. trust_row d (c, n) = Some r \<and> nr_revoked_at r = None \<and>
    nr_revision r < maxNodeEvidenceEnrollmentRevision \<and>
    uint (en_Revision enrollment) = nr_revision r + 1 \<and>
    trust_row d' = (trust_row d)((c, n) \<mapsto> revoked_row now r)) \<and>
    evidence_row d' = (evidence_row d)((c, n) := None)"
proof -
  from run obtain r where row: "trust_row d (c, n) = Some r"
    by (auto simp: revoke_tx_def scanNodeEvidenceEnrollment_def trust_row_def row_at_key split: option.splits)
  have r: "enrollment_ok r" using ok row by blast
  from run row r have active: "nr_revoked_at r = None"
    by (auto simp: revoke_tx_def scanNodeEvidenceEnrollment_def trust_row_def row_at_key Enrollment_Active_def
        enrollment_ok_def split: if_splits option.splits)
  have scan: "scanNodeEvidenceEnrollment (Some r) = Inr e \<Longrightarrow> en_Revision e = word_of_int (nr_revision r)" for e
    by (auto simp: scanNodeEvidenceEnrollment_def split: if_splits)
  from run row obtain e where "scanNodeEvidenceEnrollment (Some r) = Inr e"
    and limit: "uint (word_of_int (nr_revision r) :: u64) < maxNodeEvidenceEnrollmentRevision"
    and enrollment: "enrollment = e\<lparr>en_Revision := word_of_int (nr_revision r) + 1, en_UpdatedAt := now, en_RevokedAt := now\<rparr>"
    and d': "schema_ok d'" "node_evidence d' = filter (\<lambda>r. \<not> nv_at c n r) (node_evidence d)"
      "node_evidence_enrollments d' = set_where (\<lambda>r. nr_at c n r \<and> nr_revoked_at r = None)
        (\<lambda>x. x\<lparr>nr_revision := uint (word_of_int (nr_revision r) + 1 :: u64), nr_updated_at := now,
          nr_revoked_at := Some now\<rparr>) (node_evidence_enrollments d)"
    by (clarsimp simp: revoke_tx_def Let_def trust_row_def row_at_key not_le scan split: if_splits)
  from r limit have small: "nr_revision r < maxNodeEvidenceEnrollmentRevision" "0 < nr_revision r"
    by (auto simp: enrollment_ok_def uint_revision)
  then have "uint (word_of_int (nr_revision r) + 1 :: u64) = nr_revision r + 1" by (rule uint_next_revision [rotated])
  with d' row active small enrollment show ?thesis
    by (simp add: trust_row_def evidence_row_def row_at_key find_set_where find_delete revoked_row_def fun_eq_iff)
qed

lemma RevokeNodeEvidence_cases:
  assumes run: "RevokeNodeEvidence F clusterID nodeName now d = (r, d')"
    and ok: "\<forall>k r. trust_row d k = Some r \<longrightarrow> enrollment_ok r"
  shows "d' = d \<and> (\<exists>e. r = Inl e) \<or>
    (\<exists>row. trust_row d (TrimSpace clusterID, TrimSpace nodeName) = Some row \<and> nr_revoked_at row = None \<and> now \<noteq> 0 \<and>
      schema_ok d' \<and> nr_revision row < maxNodeEvidenceEnrollmentRevision \<and>
      trust_row d' = (trust_row d)((TrimSpace clusterID, TrimSpace nodeName) \<mapsto> revoked_row now row) \<and>
      evidence_row d' = (evidence_row d)((TrimSpace clusterID, TrimSpace nodeName) := None))"
proof -
  let ?c = "TrimSpace clusterID" and ?n = "TrimSpace nodeName"
  obtain res d1 where tx: "with_tx F ''begin node evidence revocation transaction'' ''commit node evidence revocation''
        (revoke_tx F ?c ?n now) d = (res, d1)" by fastforce
  show ?thesis
  proof (cases "?c \<noteq> [] \<and> ?n \<noteq> [] \<and> now \<noteq> 0")
    case False
    with run show ?thesis by (auto simp: RevokeNodeEvidence_def Let_def checked_def assertE_def)
  next
    case guard: True
    show ?thesis
    proof (cases res)
      case (Inl e)
      with tx with_tx_atomic have "d1 = d" by blast
      with Inl tx run guard show ?thesis by (auto simp: RevokeNodeEvidence_def Let_def checked_def assertE_def)
    next
      case (Inr enrollment)
      with tx have effect: "revoke_tx F ?c ?n now d = Inr (enrollment, d1)" by simp
      have "snd (RevokeNodeEvidence F clusterID nodeName now d) = d1"
        unfolding RevokeNodeEvidence_def Let_def checked_def assertE_def if_P [OF guard] tx [unfolded Inr] by simp
      with run have "d1 = d'" by simp
      with revoke_tx_effect [OF effect ok [rule_format, of "(?c, ?n)"]] guard show ?thesis by blast
    qed
  qed
qed

lemma PutEnrolledNodeEvidence_cases:
  assumes "PutEnrolledNodeEvidence F clock evidence revision d = (r, d')"
  shows "d' = d \<and> (\<exists>e. r = Inl e) \<or>
    (\<exists>n row. r = Inr () \<and> Normalize evidence = Inr n \<and> schema_ok d' \<and>
      trust_row d (ev_ClusterID n, ev_NodeName n) = Some row \<and> nr_revoked_at row = None \<and>
      nr_revision row = uint revision \<and> nr_uid row = ev_NodeUID n \<and> nr_provider row = ev_Provider n \<and>
      trust_row d' = trust_row d \<and> evidence_row d' =
        (evidence_row d)((ev_ClusterID n, ev_NodeName n) \<mapsto> evidence_row_of n clock (Some (nr_revision row))))"
proof (cases r)
  case (Inl e)
  have "d' = d" using assms unfolding Inl PutEnrolledNodeEvidence_def
    by (elim checked_atomic) (auto dest: with_tx_atomic checked_atomic)
  with Inl show ?thesis by blast
next
  case (Inr u)
  with assms show ?thesis
    by (intro disjI2) (auto simp: PutEnrolledNodeEvidence_def upsertNodeEvidence_def trust_row_def evidence_row_def
        row_at_key find_upsert fun_eq_iff split: option.splits if_splits)
qed

lemma PutNodeEvidence_cases:
  assumes "PutNodeEvidence F clock evidence d = (r, d')"
  shows "d' = d \<and> (\<exists>e. r = Inl e) \<or>
    (\<exists>n. r = Inr () \<and> Normalize evidence = Inr n \<and> schema_ok d' \<and> ev_Provider n \<noteq> ProviderTPM2Quote \<and>
      trust_row d' = trust_row d \<and> evidence_row d' =
        (evidence_row d)((ev_ClusterID n, ev_NodeName n) \<mapsto> evidence_row_of n clock None))"
proof (cases r)
  case (Inl e)
  have "d' = d" using assms unfolding Inl PutNodeEvidence_def
    by (elim checked_atomic) (auto dest: auto_commit_atomic checked_atomic)
  with Inl show ?thesis by blast
next
  case (Inr u)
  with assms show ?thesis
    by (intro disjI2) (auto simp: PutNodeEvidence_def upsertNodeEvidence_def trust_row_def evidence_row_def
        row_at_key find_upsert fun_eq_iff)
qed

lemma find_filter_key:
  "distinct (map key rows) \<Longrightarrow> find (\<lambda>r. key r = k) (filter P rows) =
     (case find (\<lambda>r. key r = k) rows of None \<Rightarrow> None | Some r \<Rightarrow> if P r then Some r else None)"
  by (induction rows) (auto split: option.splits simp: find_None_iff dest!: find_SomeD)

lemma nv_keys_distinct: "schema_ok d \<Longrightarrow> distinct (map nv_key (node_evidence d))"
  by (simp add: schema_ok_def row_constraints_def nv_key_def [abs_def])

lemma delete_each_effect:
  assumes "delete_each F c i names removed d = Inr (k, d')" and "schema_ok d"
  shows "schema_ok d' \<and> node_evidence_enrollments d' = node_evidence_enrollments d \<and>
    node_evidence d' = filter (\<lambda>r. \<not> (nv_cluster r = c \<and> nv_node r \<in> set names)) (node_evidence d)"
  using assms
proof (induction names arbitrary: i removed d)
  case (Cons name names)
  then obtain j where "delete_each F c (i + 1) names j
      (d\<lparr>node_evidence := filter (\<lambda>r. \<not> nv_at c name r) (node_evidence d)\<rparr>) = Inr (k, d')"
    "schema_ok (d\<lparr>node_evidence := filter (\<lambda>r. \<not> nv_at c name r) (node_evidence d)\<rparr>)"
    by auto
  from Cons.IH [OF this] show ?case by (auto simp: nv_at_def intro!: filter_cong)
qed auto

definition expired_at :: "string \<Rightarrow> time \<Rightarrow> node_evidence_row \<Rightarrow> bool" where
  "expired_at c before r \<longleftrightarrow> nv_cluster r = c \<and> nv_expires_at r < before"

lemma PruneNodeEvidence_cases:
  assumes run: "PruneNodeEvidence F clock clusterID expiredBefore d = (r, d')" and d: "schema_ok d"
  shows "d' = d \<and> (\<exists>e. r = Inl e) \<or>
    (\<exists>k. r = Inr k) \<and> schema_ok d' \<and> trust_row d' = trust_row d \<and>
      node_evidence d' = filter (\<lambda>r. \<not> expired_at (TrimSpace clusterID)
        (if expiredBefore = 0 then clock else expiredBefore) r) (node_evidence d)"
proof (cases r)
  case (Inl e)
  with run have "d' = d" unfolding PruneNodeEvidence_def Let_def by (auto dest: with_tx_atomic)
  with Inl show ?thesis by blast
next
  case (Inr k)
  let ?c = "TrimSpace clusterID" and ?b = "if expiredBefore = 0 then clock else expiredBefore"
  from run Inr have "delete_each F ?c 0 (map nv_node (filter (expired_at ?c ?b) (node_evidence d))) 0 d = Inr (k, d')"
    by (auto simp: PruneNodeEvidence_def Let_def expired_at_def [abs_def])
  note effect = delete_each_effect [OF this d]
  have same: "(nv_cluster r = ?c \<and> nv_node r \<in> set (map nv_node (filter (expired_at ?c ?b) (node_evidence d)))) \<longleftrightarrow> expired_at ?c ?b r"
    if "r \<in> set (node_evidence d)" for r
  proof
    assume "nv_cluster r = ?c \<and> nv_node r \<in> set (map nv_node (filter (expired_at ?c ?b) (node_evidence d)))"
    then obtain x where "x \<in> set (node_evidence d)" "expired_at ?c ?b x" "nv_key x = nv_key r"
      by (auto simp: nv_key_def expired_at_def)
    with nv_keys_distinct [OF d] that have "x = r" by (auto simp: distinct_map dest: inj_onD)
    with \<open>expired_at ?c ?b x\<close> show "expired_at ?c ?b r" by simp
  qed (use that in \<open>auto simp: expired_at_def\<close>)
  have "filter (\<lambda>r. \<not> (nv_cluster r = ?c \<and> nv_node r \<in> set (map nv_node (filter (expired_at ?c ?b) (node_evidence d)))))
      (node_evidence d) = filter (\<lambda>r. \<not> expired_at ?c ?b r) (node_evidence d)"
    by (intro filter_cong refl arg_cong [of _ _ Not] same)
  with effect Inr show ?thesis by (simp add: trust_row_def [abs_def])
qed

section \<open>Evidence is backed by live trust, and trust only moves forward\<close>

text \<open>A row of evidence from a TPM quote stands for the active enrollment of its node.\<close>

definition backed :: "db \<Rightarrow> string \<times> string \<Rightarrow> node_evidence_row \<Rightarrow> bool" where
  "backed d k e \<longleftrightarrow> (\<exists>r. trust_row d k = Some r \<and> nr_revoked_at r = None \<and> nv_revision e = Some (nr_revision r) \<and>
     nv_uid e = nullableString (nr_uid r) \<and> nv_provider e = nr_provider r)"

definition evid_inv :: "db \<Rightarrow> bool" where
  "evid_inv d \<longleftrightarrow> schema_ok d \<and> (\<forall>k r. trust_row d k = Some r \<longrightarrow> enrollment_ok r) \<and>
     (\<forall>k e. evidence_row d k = Some e \<longrightarrow> nv_provider e = ProviderTPM2Quote \<longrightarrow> backed d k e)"

text \<open>The trust of a node stays as it is, or its revision grows.\<close>

definition trust_later :: "db \<Rightarrow> db \<Rightarrow> bool" where
  "trust_later d d' \<longleftrightarrow> (\<forall>k r. trust_row d k = Some r \<longrightarrow>
     (\<exists>r'. trust_row d' k = Some r' \<and> (r' = r \<or> nr_revision r < nr_revision r')))"

definition evid_safe :: "db \<Rightarrow> db \<Rightarrow> bool" where
  "evid_safe d d' \<longleftrightarrow> evid_inv d' \<and> trust_later d d'"

lemma evid_inv_empty [simp]: "evid_inv empty_db"
  by (simp add: evid_inv_def trust_row_def evidence_row_def) (simp add: empty_db_def)

lemma trust_later_refl [simp, intro]: "trust_later d d"
  by (auto simp: trust_later_def)

lemma trust_later_trans: "trust_later d d' \<Longrightarrow> trust_later d' d'' \<Longrightarrow> trust_later d d''"
  unfolding trust_later_def by (blast intro: less_trans)

lemma evid_safe_refl: "evid_inv d \<Longrightarrow> evid_safe d d"
  by (simp add: evid_safe_def)

lemma evid_safe_trans: "evid_safe d d' \<Longrightarrow> evid_safe d' d'' \<Longrightarrow> evid_safe d d''"
  by (auto simp: evid_safe_def intro: trust_later_trans)

lemma evid_safe_frame:
  assumes "evid_inv d" and "schema_ok d'" and "node_evidence d' = node_evidence d"
    and "node_evidence_enrollments d' = node_evidence_enrollments d"
  shows "evid_safe d d'"
  using assms by (auto simp: evid_safe_def evid_inv_def trust_row_def evidence_row_def backed_def trust_later_def)

lemma enrollment_row_of_fields [simp]:
  "nr_revision (enrollment_row_of q v) = v" "nr_revoked_at (enrollment_row_of q v) = None"
  by (simp_all add: enrollment_row_of_def)

lemma EnrollNodeEvidence_safe:
  assumes "evid_inv d"
  shows "evid_safe d (snd (EnrollNodeEvidence F request d))"
proof -
  obtain r d' where run: "EnrollNodeEvidence F request d = (r, d')" by fastforce
  from EnrollNodeEvidence_cases [OF run] show ?thesis
  proof (elim disjE conjE exE)
    fix q :: EnrollmentRequest and revision
    let ?k = "(er_ClusterID q, er_NodeName q)"
    assume d': "schema_ok d'" "trust_row d' = (trust_row d)(?k \<mapsto> enrollment_row_of q revision)"
      "evidence_row d' = (evidence_row d)(?k := None)"
      and rev: "revision = (case trust_row d ?k of None \<Rightarrow> 0 | Some r \<Rightarrow> nr_revision r) + 1"
        "revision - 1 \<noteq> maxNodeEvidenceEnrollmentRevision"
    have ok: "enrollment_ok x" if "trust_row d k = Some x" for k x
      using assms that unfolding evid_inv_def by blast
    have "0 < revision \<and> revision \<le> maxNodeEvidenceEnrollmentRevision"
      using rev ok [of ?k] by (cases "trust_row d ?k") (auto simp: enrollment_ok_def maxNodeEvidenceEnrollmentRevision_def)
    moreover have "trust_later d d'" using rev d'(2) by (auto simp: trust_later_def)
    ultimately show ?thesis
      using assms d' by (auto simp: run evid_safe_def evid_inv_def enrollment_ok_def backed_def)
  qed (use assms run in \<open>auto simp: evid_safe_refl\<close>)
qed

lemma RevokeNodeEvidence_safe:
  assumes "evid_inv d"
  shows "evid_safe d (snd (RevokeNodeEvidence F clusterID nodeName now d))"
proof -
  have ok: "\<forall>k x. trust_row d k = Some x \<longrightarrow> enrollment_ok x"
    using assms unfolding evid_inv_def by blast
  obtain r d' where run: "RevokeNodeEvidence F clusterID nodeName now d = (r, d')" by fastforce
  from RevokeNodeEvidence_cases [OF run ok] show ?thesis
  proof (elim disjE conjE exE)
    fix row
    let ?k = "(TrimSpace clusterID, TrimSpace nodeName)"
    assume row: "trust_row d ?k = Some row" "now \<noteq> 0" "nr_revision row < maxNodeEvidenceEnrollmentRevision"
      and d': "schema_ok d'" "trust_row d' = (trust_row d)(?k \<mapsto> revoked_row now row)"
      "evidence_row d' = (evidence_row d)(?k := None)"
    have "enrollment_ok (revoked_row now row)" "nr_revision row < nr_revision (revoked_row now row)"
      using ok [rule_format, OF row(1)] row by (auto simp: enrollment_ok_def revoked_row_def)
    with assms row d' show ?thesis
      by (auto simp: run evid_safe_def evid_inv_def backed_def trust_later_def)
  qed (use assms run in \<open>auto simp: evid_safe_refl\<close>)
qed

lemma evidence_row_of_fields [simp]:
  "nv_revision (evidence_row_of e t v) = v" "nv_provider (evidence_row_of e t v) = ev_Provider e"
  "nv_uid (evidence_row_of e t v) = nullableString (ev_NodeUID e)"
  by (simp_all add: evidence_row_of_def)

lemma PutEnrolledNodeEvidence_safe:
  assumes "evid_inv d"
  shows "evid_safe d (snd (PutEnrolledNodeEvidence F clock evidence revision d))"
proof -
  obtain r d' where run: "PutEnrolledNodeEvidence F clock evidence revision d = (r, d')" by fastforce
  from PutEnrolledNodeEvidence_cases [OF run] assms show ?thesis
    by (elim disjE conjE exE) (auto simp: run evid_safe_def evid_inv_def backed_def trust_later_def)
qed

lemma PutNodeEvidence_safe:
  assumes "evid_inv d"
  shows "evid_safe d (snd (PutNodeEvidence F clock evidence d))"
proof -
  obtain r d' where run: "PutNodeEvidence F clock evidence d = (r, d')" by fastforce
  from PutNodeEvidence_cases [OF run] assms show ?thesis
    by (elim disjE conjE exE) (auto simp: run evid_safe_def evid_inv_def backed_def trust_later_def)
qed

lemma PruneNodeEvidence_safe:
  assumes "evid_inv d"
  shows "evid_safe d (snd (PruneNodeEvidence F clock clusterID expiredBefore d))"
proof -
  have d: "schema_ok d" using assms by (simp add: evid_inv_def)
  obtain r d' where run: "PruneNodeEvidence F clock clusterID expiredBefore d = (r, d')" by fastforce
  from PruneNodeEvidence_cases [OF run d] assms show ?thesis
    by (elim disjE conjE exE)
      (auto simp: run evid_safe_def evid_inv_def backed_def trust_later_def evidence_row_def
        find_filter_key [OF nv_keys_distinct [OF d]] split: option.splits if_splits)
qed

section \<open>The contract of an evidence repository, for SQLite\<close>

lemma scanNodeEvidence_row [simp]: "scanNodeEvidence (Some (evidence_row_of n clock v)) = Inr n"
  by (simp add: scanNodeEvidence_def evidence_row_of_def nullableString_def)

lemma LoadNodeEvidence_row:
  "LoadNodeEvidence no_faults d c m = scanNodeEvidence (evidence_row d (TrimSpace c, TrimSpace m))"
  by (simp add: LoadNodeEvidence_def evidence_row_def row_at_key)

lemma evidence_row_cluster: "evidence_row d (c, m) = Some r \<Longrightarrow> nv_cluster r = c"
  by (auto simp: evidence_row_def nv_key_def dest: find_SomeD)

interpretation sql_ev: evidence_repository schema_ok "PutNodeEvidence F clock" "LoadNodeEvidence no_faults"
  "FreshNodeEvidence no_faults clock'" "PruneNodeEvidence F' clock''" for F clock clock' F' clock''
proof (unfold_locales, goal_cases)
  case (1 s e u s')
  then show ?case using PutNodeEvidence_cases [OF 1(2)] by (auto simp: LoadNodeEvidence_row)
next
  case (2 e s x s')
  then show ?case using PutNodeEvidence_cases [OF 2] by auto
next
  case (3 now s c m)
  then show ?case by (cases "LoadNodeEvidence no_faults s c m") (auto simp: FreshNodeEvidence_def)
next
  case (4 s before c k s' c' m)
  let ?k = "(TrimSpace c', TrimSpace m)"
  from PruneNodeEvidence_cases [OF 4(3,1)] 4(2) have s': "schema_ok s'"
    "node_evidence s' = filter (\<lambda>r. \<not> expired_at (TrimSpace c) before r) (node_evidence s)" by auto
  have "evidence_row s' ?k = (case evidence_row s ?k of None \<Rightarrow> None
      | Some r \<Rightarrow> if \<not> expired_at (TrimSpace c) before r then Some r else None)"
    unfolding evidence_row_def s'(2) by (rule find_filter_key [OF nv_keys_distinct [OF 4(1)]])
  with s'(1) evidence_row_cluster [of s "TrimSpace c'" "TrimSpace m"] show ?case
    by (auto simp: LoadNodeEvidence_row scanNodeEvidence_def expired_at_def split: option.splits)
qed

section \<open>The contract of an enrollment repository\<close>

text \<open>The trust in a node is the revision of its enrollment and whether the enrollment is active.\<close>

type_synonym trust = "u64 \<times> bool"

datatype trust_event =
    EvEnroll EnrollmentRequest
  | EvRevoke string string time
  | EvPut Evidence u64

definition next_revision :: "trust option \<Rightarrow> u64" where
  "next_revision t = (case t of None \<Rightarrow> 1 | Some (v, _) \<Rightarrow> v + 1)"

fun trust_step where
  "trust_step enroll revoke put (x, EvEnroll q) s = snd (enroll x q s)"
| "trust_step enroll revoke put (x, EvRevoke c n t) s = snd (revoke x c n t s)"
| "trust_step enroll revoke put (x, EvPut e v) s = snd (put x e v s)"

text \<open>How often the trust in a node changes along a run.\<close>

fun trust_changes :: "('s \<Rightarrow> 'k \<Rightarrow> 'v) \<Rightarrow> ('e \<Rightarrow> 's \<Rightarrow> 's) \<Rightarrow> 'k \<Rightarrow> 'e list \<Rightarrow> 's \<Rightarrow> nat" where
  "trust_changes trust step k [] s = 0"
| "trust_changes trust step k (e # es) s =
     (if trust (step e s) k \<noteq> trust s k then 1 else 0) + trust_changes trust step k es (step e s)"

locale enrollment_repository =
  fixes inv :: "'s \<Rightarrow> bool"
    and trust :: "'s \<Rightarrow> string \<times> string \<Rightarrow> trust option"
    and has_evidence :: "'s \<Rightarrow> string \<times> string \<Rightarrow> bool"
    and enroll :: "'x \<Rightarrow> EnrollmentRequest \<Rightarrow> 's \<Rightarrow> (error + Enrollment) \<times> 's"
    and revoke :: "'x \<Rightarrow> string \<Rightarrow> string \<Rightarrow> time \<Rightarrow> 's \<Rightarrow> (error + Enrollment) \<times> 's"
    and put :: "'x \<Rightarrow> Evidence \<Rightarrow> u64 \<Rightarrow> 's \<Rightarrow> (error + unit) \<times> 's"
  assumes enroll_effect: "inv s \<Longrightarrow> enroll x q s = (r, s') \<Longrightarrow> inv s' \<and> (trust s' = trust s \<or>
      (\<exists>k. trust s' = (trust s)(k \<mapsto> (next_revision (trust s k), True)) \<and> \<not> has_evidence s' k))"
    and revoke_effect: "inv s \<Longrightarrow> revoke x c n t s = (r, s') \<Longrightarrow> inv s' \<and> (trust s' = trust s \<or>
      (\<exists>k. trust s k \<noteq> None \<and> trust s' = (trust s)(k \<mapsto> (next_revision (trust s k), False)) \<and> \<not> has_evidence s' k))"
    and put_effect: "inv s \<Longrightarrow> put x e v s = (p, s') \<Longrightarrow> inv s' \<and> trust s' = trust s \<and>
      (p = Inr () \<longrightarrow> (\<exists>n. Normalize e = Inr n \<and> trust s (ev_ClusterID n, ev_NodeName n) = Some (v, True)))"
begin

lemma trust_step_effect:
  assumes "inv s"
  shows "inv (trust_step enroll revoke put e s) \<and> (trust (trust_step enroll revoke put e s) k = trust s k \<or>
    (\<exists>a. trust (trust_step enroll revoke put e s) k = Some (next_revision (trust s k), a)) \<and>
      \<not> has_evidence (trust_step enroll revoke put e s) k)"
proof -
  obtain x ev where e: "e = (x, ev)" by fastforce
  show ?thesis
  proof (cases ev)
    case (EvEnroll q)
    obtain r s' where run: "enroll x q s = (r, s')" by fastforce
    from enroll_effect [OF assms run] show ?thesis by (auto simp: e EvEnroll run split: if_splits)
  next
    case (EvRevoke c n t)
    obtain r s' where run: "revoke x c n t s = (r, s')" by fastforce
    from revoke_effect [OF assms run] show ?thesis by (auto simp: e EvRevoke run split: if_splits)
  next
    case (EvPut w v)
    obtain r s' where run: "put x w v s = (r, s')" by fastforce
    from put_effect [OF assms run] show ?thesis by (auto simp: e EvPut run split: if_splits)
  qed
qed

text \<open>Every change of the trust in a node takes the next revision.\<close>

lemma revision_counts_changes:
  assumes "inv s" and "trust s k = Some (v, a)"
  shows "inv (fold (trust_step enroll revoke put) es s) \<and> (\<exists>b. trust (fold (trust_step enroll revoke put) es s) k =
    Some (v + of_nat (trust_changes trust (trust_step enroll revoke put) k es s), b))"
  using assms
proof (induction es arbitrary: s v a)
  case (Cons e es)
  let ?s = "trust_step enroll revoke put e s"
  show ?case
  proof (cases "trust ?s k = trust s k")
    case True
    with Cons.IH [of ?s v a] Cons.prems trust_step_effect [of s e k] show ?thesis by simp
  next
    case False
    with Cons.prems trust_step_effect [of s e k] obtain b where "inv ?s" "trust ?s k = Some (v + 1, b)"
      by (auto simp: next_revision_def)
    with Cons.IH [of ?s "v + 1" b] False show ?thesis by (simp add: algebra_simps)
  qed
qed simp

text \<open>
  Evidence verified against one revision of the trust in a node is not stored once that trust has
  changed.  The revision is a 64-bit counter, so the number of changes in between is below its period.
\<close>

lemma stale_put_rejected:
  assumes "inv s" and "trust s k = Some (v, a)"
    and "0 < trust_changes trust (trust_step enroll revoke put) k es s"
    and "trust_changes trust (trust_step enroll revoke put) k es s < 2 ^ 64"
    and "Normalize e = Inr n" and "k = (ev_ClusterID n, ev_NodeName n)"
  shows "fst (put x e v (fold (trust_step enroll revoke put) es s)) \<noteq> Inr ()"
proof
  let ?m = "trust_changes trust (trust_step enroll revoke put) k es s"
  let ?s = "fold (trust_step enroll revoke put) es s"
  assume "fst (put x e v ?s) = Inr ()"
  moreover from revision_counts_changes [OF assms(1,2)] obtain b
    where "inv ?s" and now: "trust ?s k = Some (v + of_nat ?m, b)" by blast
  ultimately have "trust ?s k = Some (v, True)"
    using put_effect [of ?s x e v] assms(5,6) by (cases "put x e v ?s") auto
  with now have "(of_nat ?m :: u64) = 0" by simp
  then have "2 ^ 64 dvd ?m" by (simp add: word_of_nat_eq_0_iff)
  with assms(3,4) show False by (auto dest: dvd_imp_le)
qed

end

section \<open>Both repositories meet the contract\<close>

definition sql_trust :: "db \<Rightarrow> string \<times> string \<Rightarrow> trust option" where
  "sql_trust d k = map_option (\<lambda>r. (word_of_int (nr_revision r), nr_revoked_at r = None)) (trust_row d k)"

definition sql_has_evidence :: "db \<Rightarrow> string \<times> string \<Rightarrow> bool" where
  "sql_has_evidence d k \<longleftrightarrow> evidence_row d k \<noteq> None"

lemma sql_trust_update:
  "trust_row d' = (trust_row d)(k \<mapsto> r) \<Longrightarrow>
     sql_trust d' = (sql_trust d)(k \<mapsto> (word_of_int (nr_revision r), nr_revoked_at r = None))"
  by (simp add: sql_trust_def fun_eq_iff)

lemma sql_trust_next:
  "word_of_int ((case trust_row d k of None \<Rightarrow> 0 | Some r \<Rightarrow> nr_revision r) + 1) = next_revision (sql_trust d k)"
  by (simp add: sql_trust_def next_revision_def split: option.splits)

lemma sql_enroll_effect:
  assumes "evid_inv d" and run: "EnrollNodeEvidence F q d = (r, d')"
  shows "evid_inv d' \<and> (sql_trust d' = sql_trust d \<or>
    (\<exists>k. sql_trust d' = (sql_trust d)(k \<mapsto> (next_revision (sql_trust d k), True)) \<and> \<not> sql_has_evidence d' k))"
proof
  show "evid_inv d'" using EnrollNodeEvidence_safe [OF assms(1), of F q] run by (simp add: evid_safe_def)
  from EnrollNodeEvidence_cases [OF run] show "sql_trust d' = sql_trust d \<or>
    (\<exists>k. sql_trust d' = (sql_trust d)(k \<mapsto> (next_revision (sql_trust d k), True)) \<and> \<not> sql_has_evidence d' k)"
  proof (elim disjE conjE exE)
    fix n :: EnrollmentRequest and revision
    let ?k = "(er_ClusterID n, er_NodeName n)"
    assume d': "trust_row d' = (trust_row d)(?k \<mapsto> enrollment_row_of n revision)"
      "evidence_row d' = (evidence_row d)(?k := None)"
      and rev: "revision = (case trust_row d ?k of None \<Rightarrow> 0 | Some r \<Rightarrow> nr_revision r) + 1"
    have "sql_trust d' = (sql_trust d)(?k \<mapsto> (next_revision (sql_trust d ?k), True))"
      using sql_trust_update [OF d'(1)] unfolding rev enrollment_row_of_fields sql_trust_next by simp
    then show ?thesis using d'(2) by (auto simp: sql_has_evidence_def)
  qed simp
qed

lemma sql_revoke_effect:
  assumes "evid_inv d" and run: "RevokeNodeEvidence F c n t d = (r, d')"
  shows "evid_inv d' \<and> (sql_trust d' = sql_trust d \<or> (\<exists>k. sql_trust d k \<noteq> None \<and>
    sql_trust d' = (sql_trust d)(k \<mapsto> (next_revision (sql_trust d k), False)) \<and> \<not> sql_has_evidence d' k))"
proof
  have ok: "\<forall>k r. trust_row d k = Some r \<longrightarrow> enrollment_ok r" using assms(1) unfolding evid_inv_def by blast
  show "evid_inv d'" using RevokeNodeEvidence_safe [OF assms(1), of F c n t] run by (simp add: evid_safe_def)
  from RevokeNodeEvidence_cases [OF run ok] show "sql_trust d' = sql_trust d \<or> (\<exists>k. sql_trust d k \<noteq> None \<and>
    sql_trust d' = (sql_trust d)(k \<mapsto> (next_revision (sql_trust d k), False)) \<and> \<not> sql_has_evidence d' k)"
  proof (elim disjE conjE exE)
    fix row
    let ?k = "(TrimSpace c, TrimSpace n)"
    assume row: "trust_row d ?k = Some row"
      and d': "trust_row d' = (trust_row d)(?k \<mapsto> revoked_row t row)" "evidence_row d' = (evidence_row d)(?k := None)"
    have "sql_trust d' = (sql_trust d)(?k \<mapsto> (next_revision (sql_trust d ?k), False))"
      using sql_trust_update [OF d'(1)] row by (simp add: sql_trust_def next_revision_def revoked_row_def)
    then show ?thesis using d'(2) row by (auto simp: sql_has_evidence_def sql_trust_def)
  qed simp
qed

lemma sql_put_effect:
  assumes "evid_inv d" and run: "PutEnrolledNodeEvidence F clock e v d = (p, d')"
  shows "evid_inv d' \<and> sql_trust d' = sql_trust d \<and>
    (p = Inr () \<longrightarrow> (\<exists>n. Normalize e = Inr n \<and> sql_trust d (ev_ClusterID n, ev_NodeName n) = Some (v, True)))"
proof -
  have "evid_inv d'" using PutEnrolledNodeEvidence_safe [OF assms(1), of F clock e v] run by (simp add: evid_safe_def)
  with PutEnrolledNodeEvidence_cases [OF run] show ?thesis by (auto simp: sql_trust_def fun_eq_iff)
qed

text \<open>Every call carries its own driver failures and its own reading of the clock.\<close>

interpretation sql_trust: enrollment_repository evid_inv sql_trust sql_has_evidence
  "\<lambda>(F, clock). EnrollNodeEvidence F" "\<lambda>(F, clock). RevokeNodeEvidence F"
  "\<lambda>(F, clock). PutEnrolledNodeEvidence F clock"
  by (unfold_locales; unfold case_prod_unfold)
    (erule (1) sql_enroll_effect, erule (1) sql_revoke_effect, erule (1) sql_put_effect)

definition mem_trust :: "MemoryEnrollmentRepository \<Rightarrow> string \<times> string \<Rightarrow> trust option" where
  "mem_trust r k = map_option (\<lambda>e. (en_Revision e, Enrollment_Active e)) (map_of (me_enrollments r) k)"

definition mem_has_evidence :: "MemoryEnrollmentRepository \<Rightarrow> string \<times> string \<Rightarrow> bool" where
  "mem_has_evidence r k \<longleftrightarrow> (\<exists>records. me_evidence r = Some records \<and> map_of records k \<noteq> None)"

text \<open>The keys of the process-local enrollments are trimmed, so an untrimmed name finds no enrollment.\<close>

definition mem_trust_inv :: "MemoryEnrollmentRepository \<Rightarrow> bool" where
  "mem_trust_inv r \<longleftrightarrow>
     (\<forall>c n. map_of (me_enrollments r) (c, n) \<noteq> None \<longrightarrow> TrimSpace c = c \<and> TrimSpace n = n)"

lemma mem_trust_update:
  assumes "TrimSpace c = c" and "TrimSpace n = n" and "mem_trust_inv r"
    and "r' = r\<lparr>me_enrollments := AList.update (c, n) e (me_enrollments r),
                me_evidence := map_option (AList.delete (c, n)) (me_evidence r)\<rparr>"
  shows "mem_trust_inv r' \<and> mem_trust r' = (mem_trust r)((c, n) \<mapsto> (en_Revision e, Enrollment_Active e)) \<and>
    \<not> mem_has_evidence r' (c, n)"
  using assms by (auto simp: mem_trust_inv_def mem_trust_def mem_has_evidence_def update_conv' delete_conv' fun_eq_iff)

lemma mem_enroll_effect:
  assumes "mem_trust_inv s" and run: "Mem_EnrollNodeEvidence q s = (r, s')"
  shows "mem_trust_inv s' \<and> (mem_trust s' = mem_trust s \<or>
    (\<exists>k. mem_trust s' = (mem_trust s)(k \<mapsto> (next_revision (mem_trust s k), True)) \<and> \<not> mem_has_evidence s' k))"
proof (cases "NormalizeEnrollmentRequest q")
  case (Inr n)
  let ?k = "(er_ClusterID n, er_NodeName n)"
  from Inr have trimmed: "TrimSpace (er_ClusterID n) = er_ClusterID n" "TrimSpace (er_NodeName n) = er_NodeName n"
    by (auto simp: NormalizeEnrollmentRequest_eq_Inr)
  from run Inr obtain e where "r = Inr e" and e: "en_Revision e = next_revision (mem_trust s ?k)" "Enrollment_Active e"
    and s': "s' = s\<lparr>me_enrollments := AList.update ?k e (me_enrollments s),
                me_evidence := map_option (AList.delete ?k) (me_evidence s)\<rparr>"
    by (auto simp: Mem_EnrollNodeEvidence_def Let_def next_revision_def mem_trust_def Enrollment_Active_def
        split: option.splits)
  show ?thesis using mem_trust_update [OF trimmed assms(1) s'] e by auto
qed (use assms in \<open>auto simp: Mem_EnrollNodeEvidence_def\<close>)

lemma mem_revoke_effect:
  assumes "mem_trust_inv s" and run: "Mem_RevokeNodeEvidence c n t s = (r, s')"
  shows "mem_trust_inv s' \<and> (mem_trust s' = mem_trust s \<or> (\<exists>k. mem_trust s k \<noteq> None \<and>
    mem_trust s' = (mem_trust s)(k \<mapsto> (next_revision (mem_trust s k), False)) \<and> \<not> mem_has_evidence s' k))"
proof (cases "s' = s")
  case False
  let ?k = "(TrimSpace c, TrimSpace n)"
  from run False obtain e where "r = Inr e" and e: "mem_trust s ?k \<noteq> None" "en_Revision e = next_revision (mem_trust s ?k)"
    "\<not> Enrollment_Active e"
    and s': "s' = s\<lparr>me_enrollments := AList.update ?k e (me_enrollments s),
                me_evidence := map_option (AList.delete ?k) (me_evidence s)\<rparr>"
    by (auto simp: Mem_RevokeNodeEvidence_def Let_def next_revision_def mem_trust_def Enrollment_Active_def
        split: option.splits if_splits)
  show ?thesis using mem_trust_update [OF _ _ assms(1) s'] e by auto
qed (use assms in auto)

lemma mem_put_effect:
  assumes "mem_trust_inv s" and run: "Mem_PutEnrolledNodeEvidence e v s = (p, s')"
  shows "mem_trust_inv s' \<and> mem_trust s' = mem_trust s \<and>
    (p = Inr () \<longrightarrow> (\<exists>n. Normalize e = Inr n \<and> mem_trust s (ev_ClusterID n, ev_NodeName n) = Some (v, True)))"
proof -
  have same: "me_enrollments s' = me_enrollments s"
    using run by (auto simp: Mem_PutEnrolledNodeEvidence_def split: option.splits if_splits prod.splits)
  have "\<exists>n. Normalize e = Inr n \<and> mem_trust s (ev_ClusterID n, ev_NodeName n) = Some (v, True)" if "p = Inr ()"
  proof -
    from run that obtain x where x: "map_of (me_enrollments s) (ev_ClusterID e, ev_NodeName e) = Some x"
      "Enrollment_Active x" "en_Revision x = v" and "\<exists>n. Normalize e = Inr n"
      by (auto simp: Mem_PutEnrolledNodeEvidence_def Mem_PutNodeEvidence_def
          split: option.splits if_splits prod.splits sum.splits)
    then obtain n where n: "Normalize e = Inr n" by blast
    have "TrimSpace (ev_ClusterID e) = ev_ClusterID e \<and> TrimSpace (ev_NodeName e) = ev_NodeName e"
      using assms(1) x(1) by (auto simp: mem_trust_inv_def)
    with n have "ev_ClusterID n = ev_ClusterID e" "ev_NodeName n = ev_NodeName e"
      by (auto simp: Normalize_eq_Inr trim_evidence_def)
    with n x show ?thesis by (auto simp: mem_trust_def)
  qed
  with same assms(1) show ?thesis by (auto simp: mem_trust_inv_def mem_trust_def fun_eq_iff)
qed

interpretation mem_trust: enrollment_repository mem_trust_inv mem_trust mem_has_evidence
  "\<lambda>_ :: unit. Mem_EnrollNodeEvidence" "\<lambda>_. Mem_RevokeNodeEvidence" "\<lambda>_. Mem_PutEnrolledNodeEvidence"
  by unfold_locales (erule (1) mem_enroll_effect, erule (1) mem_revoke_effect, erule (1) mem_put_effect)

section \<open>Properties\<close>

definition sql_trust_run :: "((faults \<times> time) \<times> trust_event) list \<Rightarrow> db \<Rightarrow> db" where
  "sql_trust_run = fold (trust_step (\<lambda>(F, clock). EnrollNodeEvidence F) (\<lambda>(F, clock). RevokeNodeEvidence F)
     (\<lambda>(F, clock). PutEnrolledNodeEvidence F clock))"

definition sql_trust_changes :: "string \<times> string \<Rightarrow> ((faults \<times> time) \<times> trust_event) list \<Rightarrow> db \<Rightarrow> nat" where
  "sql_trust_changes = trust_changes sql_trust (trust_step (\<lambda>(F, clock). EnrollNodeEvidence F)
     (\<lambda>(F, clock). RevokeNodeEvidence F) (\<lambda>(F, clock). PutEnrolledNodeEvidence F clock))"

text \<open>
  Evidence that was verified against one revision of the trust in a node is refused by the
  database once the node has been enrolled again or revoked, whatever other calls run in between
  and whatever driver failures they meet.
\<close>

theorem stale_evidence_rejected:
  assumes "evid_inv d" and "Normalize e = Inr n" and "sql_trust d (ev_ClusterID n, ev_NodeName n) = Some (revision, active)"
    and "0 < sql_trust_changes (ev_ClusterID n, ev_NodeName n) es d"
    and "sql_trust_changes (ev_ClusterID n, ev_NodeName n) es d < 2 ^ 64"
  shows "fst (PutEnrolledNodeEvidence F clock e revision (sql_trust_run es d)) \<noteq> Inr ()"
  using sql_trust.stale_put_rejected [OF assms(1,3) _ _ assms(2) refl, where es = es and x = "(F, clock)"] assms(4,5)
  by (simp add: sql_trust_run_def sql_trust_changes_def)

text \<open>
  C38. Evidence that the database stored is read back unchanged until the instant it expires and
  never after, also when expired evidence of any cluster is pruned in between.
\<close>

theorem stored_evidence_fresh_until_expiry:
  assumes "schema_ok d" and "Normalize e = Inr n"
    and "PutNodeEvidence F clock e d = (Inr (), d1)"
    and "PruneNodeEvidence F' clock' c before d1 = (Inr k, d2)" and "before \<noteq> 0" and "before \<le> now" and "now \<noteq> 0"
  shows "FreshNodeEvidence no_faults clock'' d2 (ev_ClusterID n) (ev_NodeName n) now = Inr n \<longleftrightarrow> now < ev_ExpiresAt n"
proof -
  have d1: "schema_ok d1" using sql_ev.put_stores [OF assms(1,3)] by blast
  show ?thesis
    using sql_ev.prune_keeps_fresh [OF d1 assms(4,5,7,6), where c' = "ev_ClusterID n" and m = "ev_NodeName n" and e = n]
      sql_ev.fresh_after_put [OF assms(1,3,2,7)] by simp
qed

definition demo_policy :: TpmPolicy where
  "demo_policy = \<lparr>tp_Mode = PolicyModeTPMOnly, tp_EnrolledAKPublicHash = digestString HashSHA256 (replicate 32 0),
     tp_PCRPolicy = None, tp_ProviderProfile = []\<rparr>"

definition demo_enroll :: EnrollmentRequest where
  "demo_enroll = \<lparr>er_ClusterID = ''prod'', er_NodeName = ''n1'', er_NodeUID = ''u1'', er_Provider = ProviderTPM2Quote,
     er_TPMPolicy = demo_policy, er_PublisherCertificateHashes = [''sha256:'' @ hex_encode (replicate 32 1)],
     er_EnrolledAt = 10\<rparr>"

definition demo_node :: Evidence where
  "demo_node = \<lparr>ev_ClusterID = ''prod'', ev_NodeName = ''n1'', ev_NodeUID = ''u1'', ev_Provider = ProviderTPM2Quote,
     ev_EvidenceHash = ''h'', ev_CollectedAt = 10, ev_ExpiresAt = 20\<rparr>"

definition demo_enrolled :: db where
  "demo_enrolled = snd (EnrollNodeEvidence no_faults demo_enroll demo_db)"

lemma hex_digit_graphic: "d < 16 \<Longrightarrow> graphic (hex_digit d)"
  by (auto simp: hex_digit_def graphic_def)

lemma hex_encode_graphic: "list_all graphic (hex_encode bs)"
proof (induction bs)
  case (Cons b bs)
  have "unat b < 256" using unsigned_less [of b] by simp
  then have "unat b div 16 < 16" by auto
  with Cons show ?case by (simp add: hex_digit_graphic)
qed simp

lemma TrimSpace_digest: "bs \<noteq> [] \<Longrightarrow> TrimSpace (''sha256:'' @ hex_encode bs) = ''sha256:'' @ hex_encode bs"
  using hex_encode_graphic [of bs] by (intro TrimSpace_graphic) (cases bs; auto simp: graphic_def list_all_iff)+

lemma demo_enroll_valid: "NormalizeEnrollmentRequest demo_enroll = Inr demo_enroll"
proof -
  have "hashDigestSize HashSHA256 = Some 32"
    by (simp add: hashDigestSize_def HashSHA1_def HashSHA256_def ToLower_def lower_char_def)
  then have ok: "ak_hash_ok (tp_EnrolledAKPublicHash demo_policy)"
    by (simp add: demo_policy_def ak_hash_ok_def parse_digestString)
  have "TpmPolicy_Validate demo_policy = Inr ()"
    using ok by (simp add: TpmPolicy_Validate_def Let_def demo_policy_def PolicyModeTPMOnly_def PolicyModeSecureBoot_def
        TrimSpace_graphic graphic_def)
  moreover have "TrimSpace (tp_EnrolledAKPublicHash demo_policy) \<noteq> []"
    using TrimSpace_digest [of "replicate 32 0"]
    by (simp add: demo_policy_def digestString_def HashSHA256_def ToLower_def lower_char_def)
  moreover have "CanonicalSHA256Digest (''sha256:'' @ hex_encode (replicate 32 1)) = Inr (''sha256:'' @ hex_encode (replicate 32 1))"
    unfolding CanonicalSHA256Digest_eq_Inr by (intro conjI refl exI [of _ "replicate 32 1"]) simp
  ultimately show ?thesis
    by (simp add: NormalizeEnrollmentRequest_eq_Inr demo_enroll_def TrimSpace_graphic graphic_def ProviderTPM2Quote_def
        del: append.simps)
qed

lemma demo_enroll_run: "enroll_tx no_faults demo_enroll demo_db = Inr (1, demo_db\<lparr>
    node_evidence_enrollments := [enrollment_row_of demo_enroll 1],
    node_evidence_publishers := [\<lparr>pb_cluster = ''prod'', pb_node = ''n1'',
      pb_certificate = ''sha256:'' @ hex_encode (replicate 32 1), pb_created_at = 10\<rparr>]\<rparr>)"
  unfolding demo_db_def demo_db_run snd_conv
  by (simp add: enroll_tx_def Let_def maxNodeEvidenceEnrollmentRevision_def demo_enroll_def upsert_def)
    (simp add: schema_eval demo_record_def demo_key_def empty_db_def enrollment_row_of_def)

lemma demo_enrolled_eq: "demo_enrolled = demo_db\<lparr>
    node_evidence_enrollments := [enrollment_row_of demo_enroll 1],
    node_evidence_publishers := [\<lparr>pb_cluster = ''prod'', pb_node = ''n1'',
      pb_certificate = ''sha256:'' @ hex_encode (replicate 32 1), pb_created_at = 10\<rparr>]\<rparr>"
  by (simp add: demo_enrolled_def EnrollNodeEvidence_def checked_def demo_enroll_valid with_tx_def demo_enroll_run)

lemma demo_db_trust: "node_evidence demo_db = []" "node_evidence_enrollments demo_db = []"
  by (simp_all add: demo_db_def demo_db_run) (simp_all add: empty_db_def)

lemma demo_enrolled_inv: "evid_inv demo_enrolled"
proof -
  have "evid_inv demo_db"
    using demo_db_inv(1) by (simp add: evid_inv_def key_inv_def trust_row_def evidence_row_def demo_db_trust)
  from EnrollNodeEvidence_safe [OF this] show ?thesis by (simp add: demo_enrolled_def evid_safe_def)
qed

lemma demo_trust: "sql_trust demo_enrolled (''prod'', ''n1'') = Some (1, True)"
  by (simp add: sql_trust_def trust_row_def demo_enrolled_eq) (simp add: demo_enroll_def)

lemma demo_revoke_run: "\<exists>e d'. revoke_tx no_faults ''prod'' ''n1'' 12 demo_enrolled = Inr (e, d')"
  unfolding demo_enrolled_eq demo_db_def demo_db_run snd_conv
  by (simp add: revoke_tx_def Let_def scanNodeEvidenceEnrollment_def nr_at_def enrollment_row_of_def demo_enroll_def
      Enrollment_Active_def maxNodeEvidenceEnrollmentRevision_def set_where_def)
    (simp add: schema_eval demo_record_def demo_key_def empty_db_def)

lemma demo_node_valid: "Normalize demo_node = Inr demo_node"
  by (simp add: Normalize_eq_Inr demo_node_def trim_evidence_def TrimSpace_graphic graphic_def ProviderTPM2Quote_def)

lemma demo_revoked:
  "sql_trust (snd (RevokeNodeEvidence no_faults ''prod'' ''n1'' 12 demo_enrolled)) (''prod'', ''n1'') \<noteq> Some (1, True)"
proof -
  from demo_revoke_run obtain e d' where run: "revoke_tx no_faults ''prod'' ''n1'' 12 demo_enrolled = Inr (e, d')" by blast
  have ok: "enrollment_ok r" if "trust_row demo_enrolled (''prod'', ''n1'') = Some r" for r
    using demo_enrolled_inv that unfolding evid_inv_def by blast
  have "snd (RevokeNodeEvidence no_faults ''prod'' ''n1'' 12 demo_enrolled) = d'"
    by (simp add: RevokeNodeEvidence_def Let_def checked_def assertE_def TrimSpace_graphic graphic_def with_tx_def run)
  with revoke_tx_effect [OF run ok] show ?thesis by (auto simp: sql_trust_def revoked_row_def)
qed

theorem stale_evidence_rejected_witness:
  "fst (PutEnrolledNodeEvidence no_faults 13 demo_node 1
     (sql_trust_run [((no_faults, 12), EvRevoke ''prod'' ''n1'' 12)] demo_enrolled)) \<noteq> Inr ()"
proof -
  let ?es = "[((no_faults, 12), EvRevoke ''prod'' ''n1'' 12)]" and ?k = "(ev_ClusterID demo_node, ev_NodeName demo_node)"
  have k: "?k = (''prod'', ''n1'')" by (simp add: demo_node_def)
  have "sql_trust_changes ?k ?es demo_enrolled = 1"
    using demo_revoked demo_trust by (simp add: k sql_trust_changes_def)
  with stale_evidence_rejected [OF demo_enrolled_inv demo_node_valid, of 1 True ?es no_faults 13] demo_trust k
  show ?thesis by simp
qed

lemma demo_put_schema: "schema_ok (demo_db\<lparr>node_evidence := [evidence_row_of (demo_node\<lparr>ev_Provider := ''lab''\<rparr>) 11 None]\<rparr>)"
  unfolding demo_db_def demo_db_run snd_conv
  by (simp add: schema_eval demo_record_def demo_key_def empty_db_def evidence_row_of_def demo_node_def)

theorem stored_evidence_fresh_until_expiry_witness:
  "\<exists>d1 d2 k. PutNodeEvidence no_faults 11 (demo_node\<lparr>ev_Provider := ''lab''\<rparr>) demo_db = (Inr (), d1) \<and>
     PruneNodeEvidence no_faults 12 ''prod'' 15 d1 = (Inr k, d2) \<and>
     FreshNodeEvidence no_faults 16 d2 ''prod'' ''n1'' 19 = Inr (demo_node\<lparr>ev_Provider := ''lab''\<rparr>)"
proof -
  let ?e = "demo_node\<lparr>ev_Provider := ''lab''\<rparr>"
  have n: "Normalize ?e = Inr ?e"
    by (simp add: Normalize_eq_Inr demo_node_def trim_evidence_def TrimSpace_graphic graphic_def)
  obtain d1 where put: "PutNodeEvidence no_faults 11 ?e demo_db = (Inr (), d1)"
    and d1: "d1 = demo_db\<lparr>node_evidence := [evidence_row_of ?e 11 None]\<rparr>"
    by (simp add: PutNodeEvidence_def n upsertNodeEvidence_def ProviderTPM2Quote_def demo_db_trust upsert_def demo_put_schema)
  obtain k d2 where prune: "PruneNodeEvidence no_faults 12 ''prod'' 15 d1 = (Inr k, d2)"
    using demo_db_inv(1) unfolding d1
    by (simp add: key_inv_def demo_put_schema PruneNodeEvidence_def Let_def TrimSpace_graphic graphic_def evidence_row_of_def demo_node_def)
  have "FreshNodeEvidence no_faults 16 d2 (ev_ClusterID ?e) (ev_NodeName ?e) 19 = Inr ?e"
    by (subst stored_evidence_fresh_until_expiry [OF _ n put prune])
      (use demo_db_inv(1) in \<open>simp_all add: key_inv_def demo_node_def\<close>)
  with put prune show ?thesis by (simp add: demo_node_def)
qed

end
