(* ===== verification/Broker_Store.thy ===== *)
theory Broker_Store
  imports Challenge_Store Evidence_Store "HOL-Library.Sublist"
begin

text \<open>
  The store of the broker as one component: a step relation with one rule for every method of
  \<^verbatim>\<open>SQLiteStore\<close> that writes (\<^verbatim>\<open>internal/broker/sqlite.go\<close>, \<^verbatim>\<open>internal/broker/store.go\<close>), with any
  arguments, any driver failures and any clock.  A run is any sequence of such calls; since SQLite
  serialises transactions, the calls of concurrent requests are such a sequence.  The two statements
  of \<^verbatim>\<open>ConsumeEnrollmentGrant\<close> are separate steps, because the code runs them outside a transaction.
\<close>

inductive store_call :: "db \<Rightarrow> db \<Rightarrow> bool" where
  bootstrap: "store_call d (snd (BootstrapKeyring F q d))"
| configure: "store_call d (snd (ConfigureDevelopment F clock config key d))"
| start_rotation: "store_call d (snd (StartRotation F clock r d))"
| activate_rotation: "store_call d (snd (ActivateRotation F clock operationID now d))"
| record_verification: "store_call d (snd (RecordRotationVerification F clock operationID name detail now d))"
| insert_subject: "store_call d (snd (InsertSubject F clusterID subject now d))"
| revoke_subject: "store_call d (snd (RevokeSubject F clock clusterID subject d))"
| insert_recovery_package: "store_call d (snd (InsertRecoveryPackage F package d))"
| insert_enrollment_request: "store_call d (snd (InsertEnrollmentRequest F request d))"
| insert_enrollment_grant: "store_call d (snd (InsertEnrollmentGrant F grant d))"
| mark_enrollment_grant: "store_call d (snd (mark_grant F grantID now d))"
| create_challenge: "store_call d (snd (CreateChallenge F challenge d))"
| consume_challenge: "store_call d (snd (ConsumeChallenge F challengeID clusterID subject operation now d))"
| insert_audit_event: "store_call d (snd (InsertAuditEvent F event d))"
| enroll_node: "store_call d (snd (EnrollNodeEvidence F enrollment d))"
| revoke_node: "store_call d (snd (RevokeNodeEvidence F clusterID nodeName now d))"
| put_enrolled_evidence: "store_call d (snd (PutEnrolledNodeEvidence F clock evidence revision d))"
| put_evidence: "store_call d (snd (PutNodeEvidence F clock evidence d))"
| prune_evidence: "store_call d (snd (PruneNodeEvidence F clock clusterID expiredBefore d))"

section \<open>What a call leaves alone\<close>

definition same_keys :: "db \<Rightarrow> db \<Rightarrow> bool" where
  "same_keys d d' \<longleftrightarrow> schema_ok d' \<and> key_versions d' = key_versions d \<and> rotation_operations d' = rotation_operations d"

definition same_trust :: "db \<Rightarrow> db \<Rightarrow> bool" where
  "same_trust d d' \<longleftrightarrow> schema_ok d' \<and> node_evidence d' = node_evidence d \<and>
     node_evidence_enrollments d' = node_evidence_enrollments d"

text \<open>Revocations, spent challenges and grants, and the audit log only grow.\<close>

definition revoked_subjects :: "db \<Rightarrow> (string \<times> string) set" where
  "revoked_subjects d = (\<lambda>r. (su_cluster r, su_subject r)) ` {r \<in> set (subjects d). su_revoked r}"

definition spent_challenges :: "db \<Rightarrow> string set" where
  "spent_challenges d = ch_id ` {r \<in> set (challenges d). ch_consumed_at r \<noteq> None}"

definition spent_grants :: "db \<Rightarrow> string set" where
  "spent_grants d = gr_id ` {r \<in> set (enrollment_grants d). gr_consumed_at r \<noteq> None}"

definition record_later :: "db \<Rightarrow> db \<Rightarrow> bool" where
  "record_later d d' \<longleftrightarrow> revoked_subjects d \<subseteq> revoked_subjects d' \<and> spent_challenges d \<subseteq> spent_challenges d' \<and>
     spent_grants d \<subseteq> spent_grants d' \<and> prefix (audit_events d) (audit_events d')"

lemma record_later_refl [simp, intro]: "record_later d d"
  by (simp add: record_later_def)

lemma record_later_trans: "record_later d d' \<Longrightarrow> record_later d' d'' \<Longrightarrow> record_later d d''"
  by (auto simp: record_later_def intro: prefix_order.trans)

lemma record_later_frame:
  "record_later d d' \<Longrightarrow> subjects d'' = subjects d' \<Longrightarrow> challenges d'' = challenges d' \<Longrightarrow>
   enrollment_grants d'' = enrollment_grants d' \<Longrightarrow> audit_events d'' = audit_events d' \<Longrightarrow> record_later d d''"
  by (simp add: record_later_def revoked_subjects_def spent_challenges_def spent_grants_def)

lemma record_later_append:
  "record_later d d' \<Longrightarrow> record_later d (d'\<lparr>subjects := subjects d' @ ss\<rparr>)"
  "record_later d d' \<Longrightarrow> record_later d (d'\<lparr>challenges := challenges d' @ cs\<rparr>)"
  "record_later d d' \<Longrightarrow> record_later d (d'\<lparr>enrollment_grants := enrollment_grants d' @ gs\<rparr>)"
  "record_later d d' \<Longrightarrow> record_later d (d'\<lparr>audit_events := audit_events d' @ es\<rparr>)"
  by (erule record_later_trans;
      auto simp: record_later_def revoked_subjects_def spent_challenges_def spent_grants_def)+

lemma image_set_where:
  assumes "\<And>r. P r \<Longrightarrow> h (g r) = h r" and "\<And>r. P r \<Longrightarrow> Q (g r)"
  shows "h ` {r \<in> set rows. Q r} \<subseteq> h ` {r \<in> set (set_where P g rows). Q r}"
proof
  fix x
  assume "x \<in> h ` {r \<in> set rows. Q r}"
  then obtain r where "r \<in> set rows" "Q r" "x = h r" by blast
  with assms have "(if P r then g r else r) \<in> {r \<in> set (set_where P g rows). Q r}" "x = h (if P r then g r else r)"
    by (auto simp: set_where_def)
  then show "x \<in> h ` {r \<in> set (set_where P g rows). Q r}" by blast
qed

lemma record_later_mark:
  "record_later d d' \<Longrightarrow> record_later d (d'\<lparr>subjects := set_where P (\<lambda>r. r\<lparr>su_revoked := True, su_revoked_at := t\<rparr>) (subjects d')\<rparr>)"
  "record_later d d' \<Longrightarrow> record_later d (d'\<lparr>challenges := set_where Q (\<lambda>r. r\<lparr>ch_consumed_at := Some now\<rparr>) (challenges d')\<rparr>)"
  "record_later d d' \<Longrightarrow> record_later d (d'\<lparr>enrollment_grants := set_where R (\<lambda>r. r\<lparr>gr_consumed_at := Some now\<rparr>) (enrollment_grants d')\<rparr>)"
proof goal_cases
  case 1
  have "revoked_subjects d' \<subseteq> revoked_subjects (d'\<lparr>subjects := set_where P (\<lambda>r. r\<lparr>su_revoked := True, su_revoked_at := t\<rparr>) (subjects d')\<rparr>)"
    unfolding revoked_subjects_def by simp (rule image_set_where, simp_all)
  with 1 show ?case by (auto simp: record_later_def spent_challenges_def spent_grants_def)
next
  case 2
  have "spent_challenges d' \<subseteq> spent_challenges (d'\<lparr>challenges := set_where Q (\<lambda>r. r\<lparr>ch_consumed_at := Some now\<rparr>) (challenges d')\<rparr>)"
    unfolding spent_challenges_def by simp (rule image_set_where, simp_all)
  with 2 show ?case by (auto simp: record_later_def revoked_subjects_def spent_grants_def)
next
  case 3
  have "spent_grants d' \<subseteq> spent_grants (d'\<lparr>enrollment_grants := set_where R (\<lambda>r. r\<lparr>gr_consumed_at := Some now\<rparr>) (enrollment_grants d')\<rparr>)"
    unfolding spent_grants_def by simp (rule image_set_where, simp_all)
  with 3 show ?case by (auto simp: record_later_def revoked_subjects_def spent_challenges_def)
qed

lemma tx_keeps_status [tx_keeps_rules]:
  "tx_keeps P a \<Longrightarrow> tx_keeps P b \<Longrightarrow> tx_keeps P c \<Longrightarrow> (\<And>s. tx_keeps P (e s)) \<Longrightarrow>
   tx_keeps P (case st of RotationStatusStarted \<Rightarrow> a | RotationStatusActivated \<Rightarrow> b
     | RotationStatusCancelled \<Rightarrow> c | RotationStatusOther s \<Rightarrow> e s)"
  by (cases st) simp_all

lemmas key_methods = BootstrapKeyring_def ConfigureDevelopment_def StartRotation_def ActivateRotation_def
  RecordRotationVerification_def queryRotationOperation_def updateKeyStatus_def ensureNoStartedRotation_def
  nextRotationVersions_def Let_def

lemmas log_methods = InsertSubject_def InsertRecoveryPackage_def InsertEnrollmentRequest_def
  InsertEnrollmentGrant_def CreateChallenge_def ConsumeChallenge_def InsertAuditEvent_def Let_def

lemmas trust_methods = EnrollNodeEvidence_def enroll_tx_def PutEnrolledNodeEvidence_def
  PutNodeEvidence_def upsertNodeEvidence_def PruneNodeEvidence_def Let_def

lemma key_methods_keep_trust:
  assumes "schema_ok d"
  shows "same_trust d (snd (BootstrapKeyring F q d))" "same_trust d (snd (ConfigureDevelopment F clock config key d))"
    "same_trust d (snd (StartRotation F clock r d))" "same_trust d (snd (ActivateRotation F clock operationID now d))"
    "same_trust d (snd (RecordRotationVerification F clock operationID name detail now d))"
  unfolding key_methods
  by (intro method_keeps [where P = "same_trust d"] tx_keeps_rules; use assms in \<open>simp add: same_trust_def\<close>)+

lemma log_methods_keep_keys:
  assumes "schema_ok d"
  shows "same_keys d (snd (InsertSubject F clusterID subject now d))" "same_keys d (snd (InsertRecoveryPackage F package d))"
    "same_keys d (snd (InsertEnrollmentRequest F request d))" "same_keys d (snd (InsertEnrollmentGrant F grant d))"
    "same_keys d (snd (CreateChallenge F challenge d))"
    "same_keys d (snd (ConsumeChallenge F challengeID clusterID subject operation now d))"
    "same_keys d (snd (InsertAuditEvent F event d))"
    "same_keys d (snd (RecordRotationVerification F clock operationID name detail now d))"
  unfolding log_methods key_methods
  by (intro method_keeps [where P = "same_keys d"] tx_keeps_rules; use assms in \<open>simp add: same_keys_def\<close>)+

lemma log_methods_keep_trust:
  assumes "schema_ok d"
  shows "same_trust d (snd (InsertSubject F clusterID subject now d))" "same_trust d (snd (InsertRecoveryPackage F package d))"
    "same_trust d (snd (InsertEnrollmentRequest F request d))" "same_trust d (snd (InsertEnrollmentGrant F grant d))"
    "same_trust d (snd (CreateChallenge F challenge d))"
    "same_trust d (snd (ConsumeChallenge F challengeID clusterID subject operation now d))"
    "same_trust d (snd (InsertAuditEvent F event d))"
  unfolding log_methods
  by (intro method_keeps [where P = "same_trust d"] tx_keeps_rules; use assms in \<open>simp add: same_trust_def\<close>)+

text \<open>The two methods that write one statement and then read its effect.\<close>

lemma RevokeSubject_cases:
  "snd (RevokeSubject F clock c s d) = d \<or> schema_ok (snd (RevokeSubject F clock c s d)) \<and>
     snd (RevokeSubject F clock c s d) = d\<lparr>subjects := set_where (\<lambda>r. su_cluster r = c \<and> su_subject r = s)
       (\<lambda>r. r\<lparr>su_revoked := True, su_revoked_at := Some clock\<rparr>) (subjects d)\<rparr>"
  by (auto simp: RevokeSubject_def Let_def auto_commit_def stmt_def)

lemma mark_grant_snd:
  "snd (mark_grant F i now d) = d \<or> schema_ok (snd (mark_grant F i now d)) \<and>
     snd (mark_grant F i now d) = d\<lparr>enrollment_grants := set_where (\<lambda>r. gr_id r = i \<and> gr_consumed_at r = None)
       (\<lambda>r. r\<lparr>gr_consumed_at := Some now\<rparr>) (enrollment_grants d)\<rparr>"
  by (auto simp: mark_grant_def Let_def auto_commit_def stmt_def)

lemma mark_methods_keep:
  assumes "schema_ok d"
  shows "same_keys d (snd (RevokeSubject F clock c s d))" "same_trust d (snd (RevokeSubject F clock c s d))"
    "same_keys d (snd (mark_grant F i now d))" "same_trust d (snd (mark_grant F i now d))"
    "record_later d (snd (RevokeSubject F clock c s d))" "record_later d (snd (mark_grant F i now d))"
  using RevokeSubject_cases [of F clock c s d] mark_grant_snd [of F i now d] assms
  by (auto simp: same_keys_def same_trust_def record_later_mark [OF record_later_refl])

lemma delete_each_keeps [tx_keeps_rules]:
  "(\<And>d rows. P d \<Longrightarrow> schema_ok (d\<lparr>node_evidence := rows\<rparr>) \<Longrightarrow> P (d\<lparr>node_evidence := rows\<rparr>)) \<Longrightarrow>
   tx_keeps P (delete_each F c i names removed)"
  by (induction names arbitrary: i removed) (auto intro!: tx_keeps_rules)

lemma trust_methods_keep_keys:
  assumes "schema_ok d"
  shows "same_keys d (snd (PutEnrolledNodeEvidence F clock evidence revision d))"
    "same_keys d (snd (PutNodeEvidence F clock evidence d))"
    "same_keys d (snd (PruneNodeEvidence F clock clusterID expiredBefore d))"
  unfolding trust_methods
  by (intro method_keeps [where P = "same_keys d"] tx_keeps_rules; use assms in \<open>simp add: same_keys_def\<close>)+

text \<open>A method that checks its result after the commit.\<close>

lemma snd_after_commit [simp]:
  "snd (case r of (Inl e, d') \<Rightarrow> (Inl e, d') | (Inr x, d') \<Rightarrow> (f x d', d')) = snd r"
  "snd (case r of (Inl e, d') \<Rightarrow> (Inl e, d') | (Inr x, d') \<Rightarrow> (g x, d')) = snd r"
  by (auto split: prod.splits sum.splits)

lemma trust_changes_keep:
  assumes "\<And>q. tx_keeps P (enroll_tx F q)" and "\<And>c n. tx_keeps P (revoke_tx F c n now)" and "P d"
  shows "P (snd (EnrollNodeEvidence F request d))" "P (snd (RevokeNodeEvidence F clusterID nodeName now d))"
  unfolding EnrollNodeEvidence_def RevokeNodeEvidence_def Let_def
  by (rule checked_keeps [where P = P], rule assms(3), simp only: snd_after_commit,
      rule with_tx_keeps [where P = P], rule assms, rule assms(3))+

lemma trust_tx_keep:
  "tx_keeps (same_keys d) (enroll_tx F q)" "tx_keeps (same_keys d) (revoke_tx F c n now)"
  "tx_keeps (record_later d) (enroll_tx F q)" "tx_keeps (record_later d) (revoke_tx F c n now)"
  unfolding enroll_tx_def revoke_tx_def Let_def
  by (intro tx_keeps_rules; (erule record_later_frame)?; simp add: same_keys_def)+

lemma trust_changes_keep_keys:
  assumes "schema_ok d"
  shows "same_keys d (snd (EnrollNodeEvidence F request d))" "same_keys d (snd (RevokeNodeEvidence F clusterID nodeName now d))"
proof -
  have "same_keys d d" using assms by (simp add: same_keys_def)
  note keep = trust_changes_keep [where P = "same_keys d", OF trust_tx_keep(1,2) this]
  show "same_keys d (snd (EnrollNodeEvidence F request d))" "same_keys d (snd (RevokeNodeEvidence F clusterID nodeName now d))"
    by (rule keep)+
qed

section \<open>The record only grows\<close>

lemma record_grows:
  "record_later d (snd (BootstrapKeyring F q d))" "record_later d (snd (ConfigureDevelopment F clock config key d))"
  "record_later d (snd (StartRotation F clock r d))" "record_later d (snd (ActivateRotation F clock operationID now d))"
  "record_later d (snd (RecordRotationVerification F clock operationID name detail now d))"
  "record_later d (snd (InsertSubject F clusterID subject now d))" "record_later d (snd (InsertRecoveryPackage F package d))"
  "record_later d (snd (InsertEnrollmentRequest F request d))" "record_later d (snd (InsertEnrollmentGrant F grant d))"
  "record_later d (snd (CreateChallenge F challenge d))"
  "record_later d (snd (ConsumeChallenge F challengeID clusterID subject operation now d))"
  "record_later d (snd (InsertAuditEvent F event d))"
  "record_later d (snd (PutEnrolledNodeEvidence F clock evidence revision d))"
  "record_later d (snd (PutNodeEvidence F clock evidence d))"
  "record_later d (snd (PruneNodeEvidence F clock clusterID expiredBefore d))"
  unfolding key_methods log_methods trust_methods
  by (intro method_keeps [where P = "record_later d"] tx_keeps_rules record_later_refl;
      (erule record_later_append | erule record_later_mark | (erule record_later_frame; simp)))+

lemma trust_record_grows:
  "record_later d (snd (EnrollNodeEvidence F request d))" "record_later d (snd (RevokeNodeEvidence F clusterID nodeName now d))"
  by (rule trust_changes_keep [where P = "record_later d", OF trust_tx_keep(3,4) record_later_refl])+

section \<open>Every call keeps the invariants and moves the state forward\<close>

definition store_inv :: "db \<Rightarrow> bool" where
  "store_inv d \<longleftrightarrow> key_inv d \<and> evid_inv d"

definition store_later :: "db \<Rightarrow> db \<Rightarrow> bool" where
  "store_later d d' \<longleftrightarrow> key_safe d d' \<and> evid_safe d d' \<and> record_later d d'"

lemma store_later_inv: "store_later d d' \<Longrightarrow> store_inv d'"
  by (simp add: store_later_def store_inv_def key_safe_def evid_safe_def)

lemma store_inv_empty [simp]: "store_inv empty_db"
  by (simp add: store_inv_def)

lemma store_later_refl: "store_inv d \<Longrightarrow> store_later d d"
  by (simp add: store_inv_def store_later_def key_safe_refl evid_safe_refl)

lemma store_later_trans: "store_later d d' \<Longrightarrow> store_later d' d'' \<Longrightarrow> store_later d d''"
  unfolding store_later_def using key_safe_trans evid_safe_trans record_later_trans by blast

lemma same_keys_safe: "key_inv d \<Longrightarrow> same_keys d d' \<Longrightarrow> key_safe d d'"
  by (simp add: same_keys_def key_safe_frame)

lemma same_trust_safe: "evid_inv d \<Longrightarrow> same_trust d d' \<Longrightarrow> evid_safe d d'"
  by (simp add: same_trust_def evid_safe_frame)

lemma store_call_later:
  assumes "store_call d d'" and "store_inv d"
  shows "store_later d d'"
proof -
  have inv: "key_inv d" "evid_inv d" "schema_ok d" using assms(2) by (simp_all add: store_inv_def key_inv_def)
  show ?thesis
    using assms(1)
    by cases (auto simp: store_later_def record_grows trust_record_grows mark_methods_keep [OF inv(3)]
      intro: BootstrapKeyring_safe ConfigureDevelopment_safe StartRotation_safe ActivateRotation_safe
        EnrollNodeEvidence_safe RevokeNodeEvidence_safe PutEnrolledNodeEvidence_safe PutNodeEvidence_safe
        PruneNodeEvidence_safe inv same_keys_safe [OF inv(1)] same_trust_safe [OF inv(2)]
        key_methods_keep_trust log_methods_keep_keys log_methods_keep_trust mark_methods_keep trust_methods_keep_keys
        trust_changes_keep_keys)
qed

lemma store_run_later: "store_call\<^sup>*\<^sup>* d d' \<Longrightarrow> store_inv d \<Longrightarrow> store_later d d'"
proof (induction rule: rtranclp_induct)
  case (step y z)
  then have later: "store_later d y" by blast
  with step.hyps store_call_later [of y z] store_later_inv have "store_later y z" by blast
  with later show ?case by (rule store_later_trans)
qed (rule store_later_refl)

section \<open>Properties\<close>

lemma same_record_ref: "same_record k k' \<Longrightarrow> pk_Ref k' = pk_Ref k"
  by (cases k; cases k') (simp add: same_record_def)

lemma key_steps_usable:
  "key_step\<^sup>*\<^sup>* K K' \<Longrightarrow> K r = Some k \<Longrightarrow> usable k \<Longrightarrow> pk_Ref k = r \<Longrightarrow>
     \<exists>k'. K' r = Some k' \<and> usable k' \<and> same_record k k'"
proof (induction rule: rtranclp_induct)
  case (step L L')
  then obtain k1 where k1: "L r = Some k1" "usable k1" "same_record k k1" by blast
  with key_step_usable [OF step.hyps(2) k1(1,2)] step.prems(3) same_record_ref [OF k1(3)] same_record_trans
  show ?case by blast
qed auto

lemma find_marked:
  assumes "distinct (map key rows)" and "x \<in> key ` {r \<in> set rows. Q r}"
  shows "\<exists>r. find (\<lambda>r. key r = x) rows = Some r \<and> Q r"
  using assms find_unique [of key rows] by blast

lemma spent_challenge_refused:
  assumes "schema_ok d" and "i \<in> spent_challenges d"
  shows "fst (ConsumeChallenge F i c s op now d) \<noteq> Inr ()"
proof -
  from assms(2) have "i \<in> ch_id ` {r \<in> set (challenges d). ch_consumed_at r \<noteq> None}"
    by (simp add: spent_challenges_def)
  from find_marked [OF schema_challenge_ids [OF assms(1)] this] show ?thesis
    by (cases "ConsumeChallenge F i c s op now d")
      (auto simp: ConsumeChallenge_def Let_def check_challenge_row_def split: if_splits)
qed

text \<open>
  C31. In every database that calls of the store can produce, with any driver failures on the way,
  the schema holds, every key ring has exactly one active version, and a pending version belongs to
  a started rotation whose source is that active version.
\<close>

theorem reachable_keyrings_sound:
  assumes "store_call\<^sup>*\<^sup>* empty_db d" and "key_view d r = Some k"
  shows "schema_ok d \<and> ProtectedKey_Validate k = Inr () \<and>
    (\<exists>!a. a \<in> ran (key_view d) \<and> ring_of a = ring_of k \<and> pk_Status a = StatusActive) \<and>
    (pk_Status k = StatusPending \<longrightarrow> (\<exists>p \<in> set (rotation_operations d). ro_started p \<and> ro_to_ref p = r \<and>
       (\<exists>f. key_view d (ro_from_ref p) = Some f \<and> pk_Status f = StatusActive)))"
proof -
  have inv: "key_inv d" using store_later_inv [OF store_run_later [OF assms(1)]] by (simp add: store_inv_def)
  have k: "k \<in> ran (key_view d)" "pk_Ref k = r" using assms(2) key_view_ref by (auto simp: ran_def)
  have keys: "keys_inv (key_view d) (set (rotation_operations d))" and d: "schema_ok d"
    using inv by (simp_all add: key_inv_def)
  have "ProtectedKey_Validate k = Inr () \<and>
      (\<exists>a \<in> ran (key_view d). ring_of a = ring_of k \<and> pk_Status a = StatusActive) \<and>
      (pk_Status k = StatusPending \<longrightarrow> (\<exists>p \<in> set (rotation_operations d). ro_started p \<and> ro_to_ref p = pk_Ref k))"
    using keys k(1) unfolding keys_inv_def by (elim conjE) (erule bspec)
  then have props: "ProtectedKey_Validate k = Inr ()"
    "\<exists>a \<in> ran (key_view d). ring_of a = ring_of k \<and> pk_Status a = StatusActive"
    "pk_Status k = StatusPending \<Longrightarrow> \<exists>p \<in> set (rotation_operations d). ro_started p \<and> ro_to_ref p = r"
    by (simp_all add: k(2))
  have opened: "\<exists>f. key_view d (ro_from_ref p) = Some f \<and> pk_Status f = StatusActive"
    if "p \<in> set (rotation_operations d)" "ro_started p" for p
    using keys that unfolding keys_inv_def rotation_open_def by meson
  from props(2) obtain a where a: "a \<in> ran (key_view d)" "ring_of a = ring_of k" "pk_Status a = StatusActive" by blast
  have "\<exists>!a. a \<in> ran (key_view d) \<and> ring_of a = ring_of k \<and> pk_Status a = StatusActive"
    by (rule ex1I [of _ a]) (use a in \<open>auto intro!: active_unique [OF d]\<close>)
  moreover have "\<exists>p \<in> set (rotation_operations d). ro_started p \<and> ro_to_ref p = r \<and>
       (\<exists>f. key_view d (ro_from_ref p) = Some f \<and> pk_Status f = StatusActive)" if "pk_Status k = StatusPending"
    using props(3) [OF that] opened by meson
  ultimately show ?thesis using d props(1) by (intro conjI impI)
qed

text \<open>
  C30. The calls of the store implement the life cycle of keys: whatever calls run, the stored keys
  move only by creating the first version of a new ring, adding a pending version that is higher
  than every other, or exchanging the active version for the pending one.
\<close>

theorem store_implements_key_life_cycle:
  assumes "store_call\<^sup>*\<^sup>* empty_db d" and "store_call\<^sup>*\<^sup>* d d'"
  shows "key_step\<^sup>*\<^sup>* (key_view d) (key_view d')"
  using store_run_later [OF assms(2) store_later_inv [OF store_run_later [OF assms(1)]]]
  by (simp add: store_later_def key_safe_def)

text \<open>
  C29. A key version that can decrypt is never lost: after any further calls of the store it is
  still stored, with the same protected key material, and can still decrypt.
\<close>

theorem usable_key_never_lost:
  assumes "store_call\<^sup>*\<^sup>* empty_db d" and "store_call\<^sup>*\<^sup>* d d'" and "key_view d r = Some k" and "usable k"
  shows "\<exists>k'. key_view d' r = Some k' \<and> usable k' \<and> same_record k k'"
proof -
  have "key_step\<^sup>*\<^sup>* (key_view d) (key_view d')"
    using store_run_later [OF assms(2) store_later_inv [OF store_run_later [OF assms(1)]]]
    by (simp add: store_later_def key_safe_def)
  then show ?thesis using assms(3,4) key_view_ref [OF assms(3)] by (rule key_steps_usable)
qed

text \<open>
  C32. What the store has recorded stays: a revoked subject is never authorised again, a consumed
  challenge or grant is never consumed again, and the audit log is only appended to, in any later
  state and with any driver failures.
\<close>

theorem store_record_permanent:
  assumes "store_call\<^sup>*\<^sup>* empty_db d" and "store_call\<^sup>*\<^sup>* d d'"
  shows "(LoadSubject F c s d = Inl ErrSubjectRevoked \<longrightarrow> LoadSubject F' c s d' \<noteq> Inr x) \<and>
    (i \<in> spent_challenges d \<longrightarrow> fst (ConsumeChallenge F' i c' s' op now d') \<noteq> Inr ()) \<and>
    (g \<in> spent_grants d \<longrightarrow> fst (ConsumeEnrollmentGrant F' g now d') \<noteq> Inr ()) \<and>
    prefix (audit_events d) (audit_events d')"
proof -
  have inv: "store_inv d" using store_later_inv [OF store_run_later [OF assms(1)]] by simp
  from store_run_later [OF assms(2) this] have later: "record_later d d'" and "key_inv d'"
    by (simp_all add: store_later_def key_safe_def)
  then have d': "schema_ok d'" by (simp add: key_inv_def)
  have "LoadSubject F' c s d' \<noteq> Inr x" if "LoadSubject F c s d = Inl ErrSubjectRevoked"
  proof -
    from that have "(c, s) \<in> revoked_subjects d"
      by (force simp: LoadSubject_def revoked_subjects_def dest!: find_SomeD split: if_splits option.splits)
    with later have "(c, s) \<in> (\<lambda>r. (su_cluster r, su_subject r)) ` {r \<in> set (subjects d'). su_revoked r}"
      by (auto simp: record_later_def revoked_subjects_def)
    from find_marked [OF _ this] d' show ?thesis
      by (auto simp: schema_ok_def row_constraints_def LoadSubject_def)
  qed
  moreover have "fst (ConsumeChallenge F' i c' s' op now d') \<noteq> Inr ()" if "i \<in> spent_challenges d"
    using that later spent_challenge_refused [OF d'] by (auto simp: record_later_def)
  moreover have "fst (ConsumeEnrollmentGrant F' g now d') \<noteq> Inr ()" if "g \<in> spent_grants d"
  proof -
    from that later have "g \<in> gr_id ` {r \<in> set (enrollment_grants d'). gr_consumed_at r \<noteq> None}"
      by (auto simp: record_later_def spent_grants_def)
    from find_marked [OF _ this] d' show ?thesis
      by (auto simp: ConsumeEnrollmentGrant_def check_grant_def checked_def schema_ok_def row_constraints_def)
  qed
  ultimately show ?thesis using later by (simp add: record_later_def)
qed

text \<open>
  C33. In every database that calls of the store can produce, evidence of a TPM quote is backed by
  the active enrollment of its node: same node identity, same provider, and the revision the
  evidence was verified against.  Later calls keep the enrollment or raise its revision.
\<close>

theorem tpm_evidence_backed:
  assumes "store_call\<^sup>*\<^sup>* empty_db d" and "store_call\<^sup>*\<^sup>* d d'"
  shows "(evidence_row d k = Some e \<longrightarrow> nv_provider e = ProviderTPM2Quote \<longrightarrow>
      (\<exists>r. trust_row d k = Some r \<and> nr_revoked_at r = None \<and> nv_revision e = Some (nr_revision r) \<and>
         nv_uid e = nullableString (nr_uid r) \<and> nv_provider e = nr_provider r)) \<and>
    (trust_row d k = Some r \<longrightarrow> (\<exists>r'. trust_row d' k = Some r' \<and> (r' = r \<or> nr_revision r < nr_revision r')))"
proof -
  have inv: "store_inv d" using store_later_inv [OF store_run_later [OF assms(1)]] by simp
  from store_run_later [OF assms(2) this] have "trust_later d d'" by (simp add: store_later_def evid_safe_def)
  with inv show ?thesis unfolding store_inv_def evid_inv_def trust_later_def backed_def by blast
qed

section \<open>Witnesses\<close>

lemma demo_reach: "store_call\<^sup>*\<^sup>* empty_db demo_db" "store_call\<^sup>*\<^sup>* demo_db demo_rotating"
  "store_call\<^sup>*\<^sup>* empty_db demo_enrolled"
proof -
  show db: "store_call\<^sup>*\<^sup>* empty_db demo_db" by (simp add: demo_db_def store_call.bootstrap r_into_rtranclp)
  show "store_call\<^sup>*\<^sup>* demo_db demo_rotating" by (simp add: demo_rotating_def store_call.start_rotation r_into_rtranclp)
  show "store_call\<^sup>*\<^sup>* empty_db demo_enrolled"
    using db by (rule rtranclp.rtrancl_into_rtrancl) (simp add: demo_enrolled_def store_call.enroll_node)
qed

lemma demo_key_view: "key_view demo_db (pk_Ref demo_record) = Some demo_record"
  by (simp add: key_view_def demo_db_def demo_db_run)

theorem reachable_keyrings_sound_witness:
  "schema_ok demo_db \<and> (\<exists>!a. a \<in> ran (key_view demo_db) \<and> ring_of a = ring_of demo_record \<and> pk_Status a = StatusActive)"
  using reachable_keyrings_sound [OF demo_reach(1) demo_key_view] by blast

theorem store_implements_key_life_cycle_witness: "key_step\<^sup>*\<^sup>* (key_view demo_db) (key_view demo_rotating)"
  by (rule store_implements_key_life_cycle [OF demo_reach(1,2)])

theorem usable_key_never_lost_witness:
  "\<exists>k'. key_view demo_rotating (pk_Ref demo_record) = Some k' \<and> usable k' \<and> same_record demo_record k'"
  by (rule usable_key_never_lost [OF demo_reach(1,2) demo_key_view])
    (simp add: usable_def demo_record_def)

definition demo_revoked_db :: db where
  "demo_revoked_db = snd (RevokeSubject no_faults 9 ''prod'' ''s'' (snd (InsertSubject no_faults ''prod'' ''s'' 8 demo_db)))"

lemma demo_revoked_subject: "LoadSubject no_faults ''prod'' ''s'' demo_revoked_db = Inl ErrSubjectRevoked"
proof -
  have "InsertSubject no_faults ''prod'' ''s'' 8 demo_db = (Inr (), demo_db\<lparr>subjects :=
      [\<lparr>su_cluster = ''prod'', su_subject = ''s'', su_revoked = False, su_created_at = 8, su_revoked_at = None\<rparr>]\<rparr>)"
    unfolding demo_db_def demo_db_run snd_conv
    by (simp add: InsertSubject_def auto_commit_def stmt_ignore_def schema_eval demo_record_def demo_key_def empty_db_def)
  moreover have "schema_ok (demo_db\<lparr>subjects := [\<lparr>su_cluster = ''prod'', su_subject = ''s'', su_revoked = True,
      su_created_at = 8, su_revoked_at = Some 9\<rparr>]\<rparr>)"
    unfolding demo_db_def demo_db_run snd_conv by (simp add: schema_eval demo_record_def demo_key_def empty_db_def)
  ultimately show ?thesis
    by (simp add: demo_revoked_db_def RevokeSubject_def Let_def auto_commit_def stmt_def set_where_def count_where_def
        LoadSubject_def)
qed

theorem store_record_permanent_witness:
  "LoadSubject no_faults ''prod'' ''s'' (snd (InsertSubject no_faults ''prod'' ''s'' 10 demo_revoked_db)) \<noteq>
     Inr \<lparr>sub_ClusterID = ''prod'', sub_Subject = ''s'', sub_Revoked = False\<rparr>"
proof -
  have "store_call\<^sup>*\<^sup>* empty_db demo_revoked_db"
    unfolding demo_revoked_db_def
    by (rule rtranclp.rtrancl_into_rtrancl [OF rtranclp.rtrancl_into_rtrancl [OF demo_reach(1)]],
        rule store_call.insert_subject, rule store_call.revoke_subject)
  moreover have "store_call\<^sup>*\<^sup>* demo_revoked_db (snd (InsertSubject no_faults ''prod'' ''s'' 10 demo_revoked_db))"
    by (rule r_into_rtranclp, rule store_call.insert_subject)
  ultimately show ?thesis
    using store_record_permanent [where F = no_faults and c = "''prod''" and s = "''s''" and d = demo_revoked_db]
      demo_revoked_subject by metis
qed

theorem tpm_evidence_backed_witness:
  "\<exists>d e r. PutEnrolledNodeEvidence no_faults 12 demo_node 1 demo_enrolled = (Inr (), d) \<and>
     evidence_row d (''prod'', ''n1'') = Some e \<and> trust_row d (''prod'', ''n1'') = Some r \<and>
     nr_revoked_at r = None \<and> nv_revision e = Some (nr_revision r)"
proof -
  let ?row = "evidence_row_of demo_node 12 (Some 1)"
  have schema: "schema_ok (demo_enrolled\<lparr>node_evidence := [?row]\<rparr>)"
    unfolding demo_enrolled_eq demo_db_def demo_db_run snd_conv
    by (simp add: schema_eval demo_record_def demo_key_def empty_db_def evidence_row_of_def demo_node_def
        enrollment_row_of_def demo_enroll_def)
  have none: "node_evidence demo_enrolled = []" by (simp add: demo_enrolled_eq demo_db_trust)
  have run: "PutEnrolledNodeEvidence no_faults 12 demo_node 1 demo_enrolled = (Inr (), demo_enrolled\<lparr>node_evidence := [?row]\<rparr>)"
  proof -
    have "upsertNodeEvidence no_faults 12 demo_node (Some 1) demo_enrolled = Inr ((), demo_enrolled\<lparr>node_evidence := [?row]\<rparr>)"
      using schema by (simp add: upsertNodeEvidence_def none upsert_def)
    moreover have "find (nr_at (ev_ClusterID demo_node) (ev_NodeName demo_node)) (node_evidence_enrollments demo_enrolled) =
        Some (enrollment_row_of demo_enroll 1)"
      by (simp add: demo_enrolled_eq nr_at_def enrollment_row_of_def demo_enroll_def demo_node_def)
    moreover have "nr_uid (enrollment_row_of demo_enroll 1) = ev_NodeUID demo_node"
      "nr_provider (enrollment_row_of demo_enroll 1) = ev_Provider demo_node"
      by (simp_all add: enrollment_row_of_def demo_enroll_def demo_node_def)
    ultimately show ?thesis
      by (simp add: PutEnrolledNodeEvidence_def demo_node_valid maxNodeEvidenceEnrollmentRevision_def)
  qed
  let ?d = "demo_enrolled\<lparr>node_evidence := [?row]\<rparr>"
  have "store_call\<^sup>*\<^sup>* empty_db ?d"
    using store_call.put_enrolled_evidence [of demo_enrolled no_faults 12 demo_node 1]
    unfolding run snd_conv by (rule rtranclp.rtrancl_into_rtrancl [OF demo_reach(3)])
  from tpm_evidence_backed [OF this rtranclp.rtrancl_refl, of "(''prod'', ''n1'')" ?row]
  obtain r where "trust_row ?d (''prod'', ''n1'') = Some r" "nr_revoked_at r = None" "nv_revision ?row = Some (nr_revision r)"
    by (auto simp: evidence_row_def demo_node_def)
  moreover have "evidence_row ?d (''prod'', ''n1'') = Some ?row" by (simp add: evidence_row_def demo_node_def)
  ultimately show ?thesis using run by metis
qed

end
