(* ===== verification/Policy_Engine.thy ===== *)
theory Policy_Engine
  imports Broker_Store
begin

text \<open>
  The default-deny policy engine of the broker (\<^verbatim>\<open>internal/broker/policy.go\<close>), its identifiers
  (\<^verbatim>\<open>ids.go\<close>), audit records and audit file (\<^verbatim>\<open>audit.go\<close>) and the development evidence verifier
  (\<^verbatim>\<open>attestation.go\<close>).

  A request sees its environment as \<open>io\<close>: the driver failures of its \<open>i\<close>-th call on the store, the
  \<open>i\<close>-th reading of the clock, the \<open>i\<close>-th read of the random source, the state of its context, the
  address of its peer and the failures of the audit file.  Telemetry changes no state of the broker
  and is left out.
\<close>

section \<open>The environment of a request\<close>

record io =
  io_faults :: "nat \<Rightarrow> faults"
  io_clock :: "nat \<Rightarrow> time"
  io_rng :: "nat \<Rightarrow> entropy"
  io_ctx :: "error option"
  io_remote :: string
  io_file_fails :: "string \<Rightarrow> bool"

section \<open>Messages\<close>

datatype PolicyDecisionState =
    POLICY_DECISION_STATE_UNSPECIFIED
  | POLICY_DECISION_STATE_ALLOW
  | POLICY_DECISION_STATE_DENY

datatype ErrorCode =
    ERROR_CODE_UNSPECIFIED
  | ERROR_CODE_INVALID_REQUEST
  | ERROR_CODE_UNAUTHENTICATED
  | ERROR_CODE_PERMISSION_DENIED
  | ERROR_CODE_KEY_NOT_FOUND
  | ERROR_CODE_KEY_NOT_USABLE
  | ERROR_CODE_ATTESTATION_FAILED
  | ERROR_CODE_BROKER_UNAVAILABLE
  | ERROR_CODE_INTERNAL

fun PolicyDecisionState_String :: "PolicyDecisionState \<Rightarrow> string" where
  "PolicyDecisionState_String POLICY_DECISION_STATE_UNSPECIFIED = ''POLICY_DECISION_STATE_UNSPECIFIED''"
| "PolicyDecisionState_String POLICY_DECISION_STATE_ALLOW = ''POLICY_DECISION_STATE_ALLOW''"
| "PolicyDecisionState_String POLICY_DECISION_STATE_DENY = ''POLICY_DECISION_STATE_DENY''"

fun ErrorCode_String :: "ErrorCode \<Rightarrow> string" where
  "ErrorCode_String ERROR_CODE_UNSPECIFIED = ''ERROR_CODE_UNSPECIFIED''"
| "ErrorCode_String ERROR_CODE_INVALID_REQUEST = ''ERROR_CODE_INVALID_REQUEST''"
| "ErrorCode_String ERROR_CODE_UNAUTHENTICATED = ''ERROR_CODE_UNAUTHENTICATED''"
| "ErrorCode_String ERROR_CODE_PERMISSION_DENIED = ''ERROR_CODE_PERMISSION_DENIED''"
| "ErrorCode_String ERROR_CODE_KEY_NOT_FOUND = ''ERROR_CODE_KEY_NOT_FOUND''"
| "ErrorCode_String ERROR_CODE_KEY_NOT_USABLE = ''ERROR_CODE_KEY_NOT_USABLE''"
| "ErrorCode_String ERROR_CODE_ATTESTATION_FAILED = ''ERROR_CODE_ATTESTATION_FAILED''"
| "ErrorCode_String ERROR_CODE_BROKER_UNAVAILABLE = ''ERROR_CODE_BROKER_UNAVAILABLE''"
| "ErrorCode_String ERROR_CODE_INTERNAL = ''ERROR_CODE_INTERNAL''"

text \<open>Of the envelope the broker reads the payload and the challenge; the rest only enters its hash.\<close>

record EvidenceEnvelope =
  ee_Provider :: int
  ee_Format :: string
  ee_Payload :: bytes
  ee_ChallengeId :: string
  ee_NormalizedClaims :: "(string \<times> string \<times> string) list"

record KeyRef_msg =
  km_ClusterId :: string
  km_KeyId :: string
  km_Version :: u32

record BrokerError =
  be_Code :: ErrorCode
  be_Message :: string

record PolicyDecision_msg =
  dm_State :: PolicyDecisionState
  dm_PolicyId :: string
  dm_Errors :: "BrokerError list"

text \<open>The getters of a nil message return zero values.\<close>

definition GetPayload :: "EvidenceEnvelope option \<Rightarrow> bytes" where
  "GetPayload e = (case e of None \<Rightarrow> [] | Some e \<Rightarrow> ee_Payload e)"

definition GetChallengeId :: "EvidenceEnvelope option \<Rightarrow> string" where
  "GetChallengeId e = (case e of None \<Rightarrow> [] | Some e \<Rightarrow> ee_ChallengeId e)"

section \<open>Decisions\<close>

record PolicyDecision =
  dc_State :: PolicyDecisionState
  dc_ErrorCode :: ErrorCode
  dc_PolicyID :: string
  dc_Reason :: string

definition Allow :: "string \<Rightarrow> PolicyDecision" where
  "Allow policyID = \<lparr>dc_State = POLICY_DECISION_STATE_ALLOW, dc_ErrorCode = ERROR_CODE_UNSPECIFIED,
     dc_PolicyID = policyID, dc_Reason = ''allowed by development subject policy''\<rparr>"

definition Deny :: "string \<Rightarrow> ErrorCode \<Rightarrow> string \<Rightarrow> PolicyDecision" where
  "Deny policyID code reason = \<lparr>dc_State = POLICY_DECISION_STATE_DENY, dc_ErrorCode = code,
     dc_PolicyID = policyID, dc_Reason = reason\<rparr>"

definition Decision_Proto :: "PolicyDecision \<Rightarrow> PolicyDecision_msg" where
  "Decision_Proto d = \<lparr>dm_State = dc_State d, dm_PolicyId = dc_PolicyID d,
     dm_Errors = (if dc_ErrorCode d \<noteq> ERROR_CODE_UNSPECIFIED \<or> dc_Reason d \<noteq> [] then
       [\<lparr>be_Code = dc_ErrorCode d, be_Message = dc_Reason d\<rparr>] else [])\<rparr>"

definition Allowed :: "PolicyDecision \<Rightarrow> bool" where
  "Allowed d \<longleftrightarrow> dc_State d = POLICY_DECISION_STATE_ALLOW"

section \<open>Verified evidence\<close>

record WorkloadIdentity =
  wl_Namespace :: string
  wl_ServiceAccount :: string
  wl_PodName :: string
  wl_PodUID :: string
  wl_NodeName :: string
  wl_NodeUID :: string

definition no_workload :: WorkloadIdentity where
  "no_workload = \<lparr>wl_Namespace = [], wl_ServiceAccount = [], wl_PodName = [], wl_PodUID = [],
     wl_NodeName = [], wl_NodeUID = []\<rparr>"

record VerifiedEvidence =
  vf_Subject :: string
  vf_Workload :: WorkloadIdentity

type_synonym EvidenceVerifier = "EvidenceEnvelope option \<Rightarrow> error + VerifiedEvidence"

definition DevelopmentEvidenceVerifier :: EvidenceVerifier where
  "DevelopmentEvidenceVerifier evidence =
     Inr \<lparr>vf_Subject = TrimSpace (string_of (GetPayload evidence)), vf_Workload = no_workload\<rparr>"

section \<open>The engine\<close>

text \<open>The reader of node evidence is the store, or nil.\<close>

type_synonym NodeEvidenceReader = "faults \<Rightarrow> db \<Rightarrow> string \<Rightarrow> string \<Rightarrow> time \<Rightarrow> error + Evidence"

record PolicyEngine =
  pe_nodeEvidence :: "NodeEvidenceReader option"
  pe_policyID :: string

record policyRequest =
  pr_ClusterID :: string
  pr_Subject :: string
  pr_Workload :: WorkloadIdentity
  pr_Operation :: Operation
  pr_ChallengeID :: string
  pr_KeyRef :: KeyRef

definition NewPolicyEngine :: "string \<Rightarrow> PolicyEngine" where
  "NewPolicyEngine policyID = \<lparr>pe_nodeEvidence = None, pe_policyID = policyID\<rparr>"

definition nodeEvidenceDeny :: "PolicyEngine \<Rightarrow> error \<Rightarrow> PolicyDecision" where
  "nodeEvidenceDeny e err =
     (case err of
        ErrNodeEvidenceNotFound \<Rightarrow> Deny (pe_policyID e) ERROR_CODE_ATTESTATION_FAILED ''node evidence is missing''
      | ErrNodeEvidenceStale \<Rightarrow> Deny (pe_policyID e) ERROR_CODE_ATTESTATION_FAILED ''node evidence is stale''
      | _ \<Rightarrow> Deny (pe_policyID e) ERROR_CODE_INTERNAL ''node evidence lookup failed'')"

definition evaluateNodeEvidence :: "PolicyEngine \<Rightarrow> io \<Rightarrow> policyRequest \<Rightarrow> db \<Rightarrow> PolicyDecision" where
  "evaluateNodeEvidence e io req d =
     (case pe_nodeEvidence e of
        None \<Rightarrow> Allow (pe_policyID e)
      | Some reader \<Rightarrow>
          if wl_NodeName (pr_Workload req) = [] then Allow (pe_policyID e)
          else (case reader (io_faults io 1) d (pr_ClusterID req) (wl_NodeName (pr_Workload req)) (io_clock io 0) of
              Inl err \<Rightarrow> nodeEvidenceDeny e err
            | Inr evidence \<Rightarrow>
                if wl_NodeUID (pr_Workload req) \<noteq> [] \<and> ev_NodeUID evidence \<noteq> [] \<and>
                   wl_NodeUID (pr_Workload req) \<noteq> ev_NodeUID evidence then
                  Deny (pe_policyID e) ERROR_CODE_ATTESTATION_FAILED ''node evidence does not match workload node''
                else Allow (pe_policyID e)))"

definition evaluateSubjectAndNodeEvidence ::
  "PolicyEngine \<Rightarrow> io \<Rightarrow> policyRequest \<Rightarrow> db \<Rightarrow> PolicyDecision" where
  "evaluateSubjectAndNodeEvidence e io req d =
     (if pr_Subject req = [] then
        Deny (pe_policyID e) ERROR_CODE_UNAUTHENTICATED ''subject evidence is required''
      else (case LoadSubject (io_faults io 0) (pr_ClusterID req) (pr_Subject req) d of
          Inl err \<Rightarrow>
            if err = ErrSubjectRevoked then
              Deny (pe_policyID e) ERROR_CODE_PERMISSION_DENIED ''subject is revoked''
            else if err = ErrSubjectNotFound then
              Deny (pe_policyID e) ERROR_CODE_PERMISSION_DENIED ''subject is not allowed''
            else Deny (pe_policyID e) ERROR_CODE_INTERNAL ''subject lookup failed''
        | Inr _ \<Rightarrow>
            (let decision = evaluateNodeEvidence e io req d in
             if \<not> Allowed decision then decision else Allow (pe_policyID e))))"

definition consumeChallenge ::
  "PolicyEngine \<Rightarrow> io \<Rightarrow> policyRequest \<Rightarrow> string \<Rightarrow> db \<Rightarrow> (error + unit) \<times> db" where
  "consumeChallenge e io req challengeID =
     ConsumeChallenge (io_faults io 2) challengeID (pr_ClusterID req) (pr_Subject req) (pr_Operation req)
       (io_clock io 1)"

definition challengeDeny :: "PolicyEngine \<Rightarrow> error \<Rightarrow> PolicyDecision" where
  "challengeDeny e err =
     (case err of
        ErrChallengeExpired \<Rightarrow> Deny (pe_policyID e) ERROR_CODE_PERMISSION_DENIED ''challenge expired''
      | ErrChallengeReplayed \<Rightarrow> Deny (pe_policyID e) ERROR_CODE_PERMISSION_DENIED ''challenge was already consumed''
      | ErrChallengeNotFound \<Rightarrow> Deny (pe_policyID e) ERROR_CODE_PERMISSION_DENIED ''challenge is invalid''
      | ErrChallengeMismatch \<Rightarrow> Deny (pe_policyID e) ERROR_CODE_PERMISSION_DENIED ''challenge is invalid''
      | _ \<Rightarrow> Deny (pe_policyID e) ERROR_CODE_INTERNAL ''challenge validation failed'')"

definition keyDecision :: "PolicyEngine \<Rightarrow> io \<Rightarrow> policyRequest \<Rightarrow> db \<Rightarrow> PolicyDecision" where
  "keyDecision e io req d =
     (case LoadProtectedKey (io_faults io 3) (pr_KeyRef req) d of
        Inl err \<Rightarrow>
          if err = ErrKeyNotFound then Deny (pe_policyID e) ERROR_CODE_KEY_NOT_FOUND ''key version was not found''
          else Deny (pe_policyID e) ERROR_CODE_INTERNAL ''key lookup failed''
      | Inr version \<Rightarrow>
          if pr_Operation req = OPERATION_WRAP \<and> pk_Status version \<noteq> StatusActive then
            Deny (pe_policyID e) ERROR_CODE_KEY_NOT_USABLE ''wrap requires active key''
          else if pr_Operation req = OPERATION_UNWRAP \<and>
              \<not> (pk_Status version = StatusActive \<or> pk_Status version = StatusDecryptOnly) then
            Deny (pe_policyID e) ERROR_CODE_KEY_NOT_USABLE ''unwrap requires active or decrypt-only key''
          else Allow (pe_policyID e))"

definition Policy_evaluate :: "PolicyEngine \<Rightarrow> io \<Rightarrow> policyRequest \<Rightarrow> db \<Rightarrow> PolicyDecision \<times> db" where
  "Policy_evaluate e io req d =
     (let decision = evaluateSubjectAndNodeEvidence e io req d in
      if \<not> Allowed decision then (decision, d)
      else if pr_ChallengeID req = [] then
        (Deny (pe_policyID e) ERROR_CODE_INVALID_REQUEST ''challenge is required'', d)
      else (case consumeChallenge e io req (pr_ChallengeID req) d of
          (Inl err, d') \<Rightarrow> (challengeDeny e err, d')
        | (Inr _, d') \<Rightarrow> (keyDecision e io req d', d')))"

definition keyRefFromProto :: "KeyRef_msg option \<Rightarrow> error + KeyRef" where
  "keyRefFromProto ref =
     (case ref of None \<Rightarrow> Inl (ErrInvalidMetadata ''missing key reference'')
      | Some r \<Rightarrow>
          (let keyRef = \<lparr>kr_ClusterID = km_ClusterId r, kr_KeyID = km_KeyId r, kr_Version = km_Version r\<rparr> in
           bindE (KeyRef_Validate keyRef) (\<lambda>_. Inr keyRef)))"

section \<open>Identifiers and audit records\<close>

definition randomID :: "entropy \<Rightarrow> string \<Rightarrow> error + string" where
  "randomID rng pre =
     (case ReadFull rng 18 of
        None \<Rightarrow> Inl (OtherErr (''generate '' @ pre @ '' ID''))
      | Some random \<Rightarrow> Inr (pre @ ''_'' @ b64_encode RawURLEncoding random))"

definition randomNonce :: "entropy \<Rightarrow> error + bytes" where
  "randomNonce rng =
     (case ReadFull rng 32 of None \<Rightarrow> Inl (OtherErr ''generate challenge nonce'') | Some nonce \<Rightarrow> Inr nonce)"

text \<open>The protobuf encoder, SHA-256 and the block cipher of AES are parameters.\<close>

record broker_lib =
  bl_Marshal :: "EvidenceEnvelope \<Rightarrow> bytes option"
  bl_sha256 :: "bytes \<Rightarrow> bytes"
  bl_cipher :: cipher

definition evidenceHash :: "broker_lib \<Rightarrow> EvidenceEnvelope option \<Rightarrow> string" where
  "evidenceHash L evidence =
     (case evidence of None \<Rightarrow> []
      | Some e \<Rightarrow> (case bl_Marshal L e of None \<Rightarrow> [] | Some encoded \<Rightarrow> hex_encode (bl_sha256 L encoded)))"

record keyRefView =
  kvw_KeyID :: string
  kvw_Version :: u32

definition auditErrorCode :: "PolicyDecision \<Rightarrow> string" where
  "auditErrorCode decision =
     (if dc_ErrorCode decision = ERROR_CODE_UNSPECIFIED then [] else ErrorCode_String (dc_ErrorCode decision))"

definition newAuditEvent ::
  "broker_lib \<Rightarrow> entropy \<Rightarrow> time \<Rightarrow> string \<Rightarrow> Operation \<Rightarrow> string \<Rightarrow> keyRefView \<Rightarrow> PolicyDecision \<Rightarrow>
   EvidenceEnvelope option \<Rightarrow> string \<Rightarrow> error + AuditEvent" where
  "newAuditEvent L rng now subject operation clusterID ref decision evidence remoteAddress =
     bindE (randomID rng ''audit'') (\<lambda>auditID.
     Inr \<lparr>ae_SchemaVersion = 1, ae_AuditID = auditID, ae_Time = FormatRFC3339Nano now, ae_Subject = subject,
       ae_Operation = Operation_String operation, ae_ClusterID = clusterID, ae_KeyID = kvw_KeyID ref,
       ae_KeyVersion = kvw_Version ref, ae_Decision = PolicyDecisionState_String (dc_State decision),
       ae_PolicyID = dc_PolicyID decision, ae_Reason = dc_Reason decision,
       ae_EvidenceHash = evidenceHash L evidence, ae_RemoteAddress = remoteAddress,
       ae_ErrorCode = auditErrorCode decision, ae_Actor = [], ae_Target = [], ae_CorrelationID = [],
       ae_RequestID = []\<rparr>)"

text \<open>The audit file as the list of its events; a failed \<^verbatim>\<open>fsync\<close> leaves the line written.\<close>

definition FileAudit_Write ::
  "io \<Rightarrow> bool \<Rightarrow> AuditEvent \<Rightarrow> AuditEvent list \<Rightarrow> (error + unit) \<times> AuditEvent list" where
  "FileAudit_Write io fsync event file =
     (case io_ctx io of Some e \<Rightarrow> (Inl e, file)
      | None \<Rightarrow>
          if io_file_fails io ''open'' then (Inl (OtherErr ''open audit file''), file)
          else if io_file_fails io ''write'' then (Inl (OtherErr ''write audit file''), file)
          else if fsync \<and> io_file_fails io ''sync'' then (Inl (OtherErr ''sync audit file''), file @ [event])
          else (Inr (), file @ [event]))"

section \<open>What an allowed request has passed\<close>

lemma Allowed_simps [simp]: "Allowed (Allow p)" "\<not> Allowed (Deny p c r)"
  by (simp_all add: Allowed_def Allow_def Deny_def)

lemma Decision_state [simp]:
  "dm_State (Decision_Proto dec) = POLICY_DECISION_STATE_ALLOW \<longleftrightarrow> Allowed dec"
  "dm_State (Decision_Proto dec) = POLICY_DECISION_STATE_DENY \<longleftrightarrow> dc_State dec = POLICY_DECISION_STATE_DENY"
  by (simp_all add: Decision_Proto_def Allowed_def)

lemma deny_not_allowed [simp]: "\<not> Allowed (nodeEvidenceDeny e err)" "\<not> Allowed (challengeDeny e err)"
  by (simp_all add: nodeEvidenceDeny_def challengeDeny_def split: error.splits)

text \<open>The workload's node has fresh evidence, where node evidence is required.\<close>

definition node_trusted :: "PolicyEngine \<Rightarrow> io \<Rightarrow> policyRequest \<Rightarrow> db \<Rightarrow> bool" where
  "node_trusted e io req d \<longleftrightarrow>
     (\<forall>reader. pe_nodeEvidence e = Some reader \<longrightarrow> wl_NodeName (pr_Workload req) \<noteq> [] \<longrightarrow>
       (\<exists>evidence. reader (io_faults io 1) d (pr_ClusterID req) (wl_NodeName (pr_Workload req)) (io_clock io 0) = Inr evidence \<and>
         (wl_NodeUID (pr_Workload req) = [] \<or> ev_NodeUID evidence = [] \<or>
          wl_NodeUID (pr_Workload req) = ev_NodeUID evidence)))"

lemma evaluateNodeEvidence_allowed: "Allowed (evaluateNodeEvidence e io req d) \<longleftrightarrow> node_trusted e io req d"
  by (auto simp: evaluateNodeEvidence_def node_trusted_def split: option.splits sum.splits)

lemma evaluateSubject_allowed:
  "Allowed (evaluateSubjectAndNodeEvidence e io req d) \<longleftrightarrow>
     pr_Subject req \<noteq> [] \<and> (\<exists>x. LoadSubject (io_faults io 0) (pr_ClusterID req) (pr_Subject req) d = Inr x) \<and>
     node_trusted e io req d"
  by (auto simp: evaluateSubjectAndNodeEvidence_def evaluateNodeEvidence_allowed [symmetric] Let_def split: sum.splits)

definition key_allows :: "Operation \<Rightarrow> ProtectedKey \<Rightarrow> bool" where
  "key_allows operation k \<longleftrightarrow> (operation = OPERATION_WRAP \<longrightarrow> pk_Status k = StatusActive) \<and>
     (operation = OPERATION_UNWRAP \<longrightarrow> usable k)"

lemma keyDecision_allowed:
  "Allowed (keyDecision e io req d) \<longleftrightarrow>
     (\<exists>k. LoadProtectedKey (io_faults io 3) (pr_KeyRef req) d = Inr k \<and> key_allows (pr_Operation req) k)"
  by (auto simp: keyDecision_def key_allows_def usable_def split: sum.splits)

lemma Policy_evaluate_allowed:
  "Policy_evaluate e io req d = (dec, d') \<Longrightarrow>
   Allowed dec \<longleftrightarrow> pr_Subject req \<noteq> [] \<and>
     (\<exists>x. LoadSubject (io_faults io 0) (pr_ClusterID req) (pr_Subject req) d = Inr x) \<and>
     node_trusted e io req d \<and> pr_ChallengeID req \<noteq> [] \<and>
     ConsumeChallenge (io_faults io 2) (pr_ChallengeID req) (pr_ClusterID req) (pr_Subject req) (pr_Operation req)
       (io_clock io 1) d = (Inr (), d') \<and>
     (\<exists>k. LoadProtectedKey (io_faults io 3) (pr_KeyRef req) d' = Inr k \<and> key_allows (pr_Operation req) k)"
  by (auto simp: Policy_evaluate_def Let_def consumeChallenge_def evaluateSubject_allowed keyDecision_allowed
      split: if_splits sum.splits prod.splits)

lemma Policy_evaluate_runs: "store_call\<^sup>*\<^sup>* d (snd (Policy_evaluate e io req d))"
proof -
  have "store_call\<^sup>*\<^sup>* d (snd (consumeChallenge e io req (pr_ChallengeID req) d))"
    unfolding consumeChallenge_def by (rule r_into_rtranclp, rule store_call.consume_challenge)
  then show ?thesis
    by (cases "consumeChallenge e io req (pr_ChallengeID req) d")
      (auto simp: Policy_evaluate_def Let_def split: sum.splits prod.splits)
qed

lemma keyRefFromProto_eq_Inr:
  "keyRefFromProto m = Inr ref \<longleftrightarrow> KeyRef_Validate ref = Inr () \<and>
     m = Some \<lparr>km_ClusterId = kr_ClusterID ref, km_KeyId = kr_KeyID ref, km_Version = kr_Version ref\<rparr>"
  by (cases ref) (auto simp: keyRefFromProto_def Let_def split: option.splits simp del: KeyRef_Validate_eq_Inr)

end
