(* ===== verification/Broker_Service.thy ===== *)
theory Broker_Service
  imports Policy_Engine
begin

text \<open>
  The gRPC service that wraps and unwraps seal material (\<^verbatim>\<open>internal/broker/service.go\<close>) and its
  construction at start-up (\<^verbatim>\<open>newRuntimeService\<close> in \<^verbatim>\<open>internal/broker/kubernetes_runtime.go\<close>).  The
  state is the database and the audit file; every handler threads both through its calls in the
  order of the code.  Handlers never return a Go error for a refused request: the refusal is the
  decision in the response.
\<close>

section \<open>The service\<close>

type_synonym KeyringProvider = "faults \<Rightarrow> error option \<Rightarrow> string \<Rightarrow> db \<Rightarrow> error + Ring"

record Service =
  sv_keyrings :: "KeyringProvider option"
  sv_policy :: PolicyEngine
  sv_verifier :: "EvidenceVerifier option"
  sv_config :: Config

definition NewService :: "Config \<Rightarrow> KeyringProvider option \<Rightarrow> Service" where
  "NewService config provider = \<lparr>sv_keyrings = provider, sv_policy = NewPolicyEngine (Policy config),
     sv_verifier = Some DevelopmentEvidenceVerifier, sv_config = config\<rparr>"

definition NewServiceWithEvidenceVerifier ::
  "Config \<Rightarrow> KeyringProvider option \<Rightarrow> EvidenceVerifier option \<Rightarrow> Service" where
  "NewServiceWithEvidenceVerifier config provider verifier =
     (let service = NewService config provider in
      if verifier \<noteq> None then service\<lparr>sv_verifier := verifier\<rparr> else service)"

definition NewServiceWithEvidenceVerifierAndNodeEvidence ::
  "Config \<Rightarrow> KeyringProvider option \<Rightarrow> EvidenceVerifier option \<Rightarrow> NodeEvidenceReader option \<Rightarrow> Service" where
  "NewServiceWithEvidenceVerifierAndNodeEvidence config provider verifier nodeEvidence =
     (let service = NewServiceWithEvidenceVerifier config provider verifier in
      service\<lparr>sv_policy := (sv_policy service)\<lparr>pe_nodeEvidence := nodeEvidence\<rparr>\<rparr>)"

text \<open>The loader over the store with the development protector.\<close>

definition runtime_keyrings :: KeyringProvider where
  "runtime_keyrings F ctx clusterID d =
     LoadKeyring ProfileDevelopment (Unprotect ctx) (ProtectedKeys F clusterID d)"

text \<open>\<open>kubernetes\<close> is the verifier that \<^verbatim>\<open>newKubernetesRuntimeDependencies\<close> builds, or its error.\<close>

definition newRuntimeService :: "Config \<Rightarrow> error + EvidenceVerifier \<Rightarrow> error + Service" where
  "newRuntimeService config kubernetes =
     (if \<not> k8_Enabled (cf_Kubernetes config) then Inr (NewService config (Some runtime_keyrings))
      else bindE kubernetes (\<lambda>verifier.
        Inr (NewServiceWithEvidenceVerifierAndNodeEvidence config (Some runtime_keyrings) (Some verifier)
          (Some (\<lambda>F. FreshNodeEvidence F 0)))))"

section \<open>State and messages\<close>

record broker =
  br_db :: db
  br_audit :: "AuditEvent list"

record ChallengeRequest =
  cq_ClusterId :: string
  cq_NodeId :: string
  cq_Operation :: Operation

record ChallengeResponse =
  cp_ChallengeId :: string
  cp_Nonce :: bytes
  cp_ExpiresUnixSeconds :: int

record WrappedBlob =
  wb_Ciphertext :: bytes
  wb_Iv :: bytes
  wb_Key :: "KeyRef_msg option"
  wb_Mechanism :: u64

record WrapRequest =
  wq_RequestedKey :: "KeyRef_msg option"
  wq_Plaintext :: bytes
  wq_Aad :: bytes
  wq_Evidence :: "EvidenceEnvelope option"

record WrapResponse =
  wp_Blob :: "WrappedBlob option"
  wp_Decision :: PolicyDecision_msg

record UnwrapRequest =
  uq_Blob :: "WrappedBlob option"
  uq_Aad :: bytes
  uq_Evidence :: "EvidenceEnvelope option"

record UnwrapResponse =
  up_Plaintext :: bytes
  up_Decision :: PolicyDecision_msg

record StatusResponse =
  sp_Ready :: bool
  sp_ActiveKeyId :: string
  sp_Keys :: "KeyVersion list"
  sp_Errors :: "BrokerError list"

text \<open>\<^verbatim>\<open>Time.Unix\<close>: the seconds from 1970 of an instant counted from year 1.\<close>

definition unix_seconds :: "time \<Rightarrow> int" where
  "unix_seconds t = t div second - 62135596800"

section \<open>Helpers\<close>

definition loadKeyring :: "Service \<Rightarrow> io \<Rightarrow> nat \<Rightarrow> string \<Rightarrow> db \<Rightarrow> error + Ring" where
  "loadKeyring s io i clusterID d =
     (case sv_keyrings s of
        None \<Rightarrow> Inl (OtherErr ''keyring provider is required'')
      | Some provider \<Rightarrow> provider (io_faults io i) (io_ctx io) clusterID d)"

definition no_ref :: KeyRef where
  "no_ref = \<lparr>kr_ClusterID = [], kr_KeyID = [], kr_Version = 0\<rparr>"

definition active_key_ref :: "Service \<Rightarrow> io \<Rightarrow> db \<Rightarrow> KeyRef \<times> PolicyDecision" where
  "active_key_ref s io d =
     (let policy = Policy (sv_config s) in
      case bindE (loadKeyring s io 4 (cf_ClusterID (sv_config s)) d) (\<lambda>ring. Active (Some ring)) of
        Inl _ \<Rightarrow> (no_ref, Deny policy ERROR_CODE_KEY_NOT_USABLE ''active key is unavailable'')
      | Inr active \<Rightarrow> (kv_Ref active, Allow policy))"

definition wrapKeyRef :: "Service \<Rightarrow> io \<Rightarrow> KeyRef_msg option \<Rightarrow> db \<Rightarrow> KeyRef \<times> PolicyDecision" where
  "wrapKeyRef s io requested d =
     (if requested \<noteq> None \<and> km_Version (the requested) \<noteq> 0 then
        (case keyRefFromProto requested of
           Inl _ \<Rightarrow> (no_ref, Deny (Policy (sv_config s)) ERROR_CODE_INVALID_REQUEST
             ''requested key reference is invalid'')
         | Inr ref \<Rightarrow> (ref, Allow (Policy (sv_config s))))
      else active_key_ref s io d)"

definition Service_evaluate :: "Service \<Rightarrow> io \<Rightarrow> policyRequest \<Rightarrow> db \<Rightarrow> PolicyDecision \<times> db" where
  "Service_evaluate s io req = Policy_evaluate (sv_policy s) io req"

definition evidenceSubject :: "Service \<Rightarrow> EvidenceEnvelope option \<Rightarrow> VerifiedEvidence \<times> PolicyDecision" where
  "evidenceSubject s evidence =
     (let verifier = (case sv_verifier s of None \<Rightarrow> DevelopmentEvidenceVerifier | Some v \<Rightarrow> v) in
      case verifier evidence of
        Inl _ \<Rightarrow> (\<lparr>vf_Subject = [], vf_Workload = no_workload\<rparr>,
          Deny (Policy (sv_config s)) ERROR_CODE_ATTESTATION_FAILED ''attestation verification failed'')
      | Inr verified \<Rightarrow> (verified, Allow (Policy (sv_config s))))"

definition auditDecision ::
  "broker_lib \<Rightarrow> Service \<Rightarrow> io \<Rightarrow> string \<Rightarrow> Operation \<Rightarrow> string \<Rightarrow> keyRefView \<Rightarrow> PolicyDecision \<Rightarrow>
   EvidenceEnvelope option \<Rightarrow> broker \<Rightarrow> broker" where
  "auditDecision L s io subject operation clusterID ref decision evidence b =
     (case newAuditEvent L (io_rng io 2) (io_clock io 2) subject operation clusterID ref decision evidence
        (io_remote io) of
        Inl _ \<Rightarrow> b
      | Inr event \<Rightarrow>
          (let d' = snd (InsertAuditEvent (io_faults io 6) event (br_db b));
               file' = snd (FileAudit_Write io (cf_AuditFsync (sv_config s)) event (br_audit b)) in
           \<lparr>br_db = d', br_audit = file'\<rparr>))"

definition wrappedBlobToProto :: "BlobInfo \<Rightarrow> WrappedBlob option" where
  "wrappedBlobToProto blob =
     (case ParseKeyRef (case bi_KeyInfo blob of None \<Rightarrow> [] | Some k \<Rightarrow> ki_KeyId k) of
        Inl _ \<Rightarrow> None
      | Inr ref \<Rightarrow> Some \<lparr>wb_Ciphertext = bi_Ciphertext blob, wb_Iv = bi_Iv blob,
          wb_Key = Some \<lparr>km_ClusterId = kr_ClusterID ref, km_KeyId = kr_KeyID ref, km_Version = kr_Version ref\<rparr>,
          wb_Mechanism = (case bi_KeyInfo blob of None \<Rightarrow> 0 | Some k \<Rightarrow> ki_Mechanism k)\<rparr>)"

definition protoToBlobInfo :: "WrappedBlob option \<Rightarrow> BlobInfo" where
  "protoToBlobInfo blob =
     (case blob of
        None \<Rightarrow> \<lparr>bi_Ciphertext = [], bi_Iv = [], bi_KeyInfo = None\<rparr>
      | Some b \<Rightarrow>
          (case wb_Key b of
             None \<Rightarrow> \<lparr>bi_Ciphertext = [], bi_Iv = [], bi_KeyInfo = None\<rparr>
           | Some k \<Rightarrow> \<lparr>bi_Ciphertext = wb_Ciphertext b, bi_Iv = wb_Iv b,
               bi_KeyInfo = Some \<lparr>ki_Mechanism = wb_Mechanism b,
                 ki_KeyId = KeyRef_String \<lparr>kr_ClusterID = km_ClusterId k, kr_KeyID = km_KeyId k,
                   kr_Version = km_Version k\<rparr>\<rparr>\<rparr>))"

section \<open>Handlers\<close>

definition Service_Challenge ::
  "Service \<Rightarrow> io \<Rightarrow> ChallengeRequest option \<Rightarrow> broker \<Rightarrow> (error + ChallengeResponse) \<times> broker" where
  "Service_Challenge s io request b =
     (case request of None \<Rightarrow> (Inl (OtherErr ''challenge request is required''), b)
      | Some req \<Rightarrow>
          if cq_ClusterId req = [] \<or> cq_NodeId req = [] then
            (Inl (OtherErr ''cluster_id and node_id are required''), b)
          else (case randomID (io_rng io 0) ''chal'' of Inl e \<Rightarrow> (Inl e, b)
            | Inr challengeID \<Rightarrow>
                (case randomNonce (io_rng io 1) of Inl e \<Rightarrow> (Inl e, b)
                 | Inr nonce \<Rightarrow>
                     (let now = io_clock io 0; expiresAt = now + ChallengeTTL (sv_config s) in
                      case CreateChallenge (io_faults io 0) \<lparr>chal_ID = challengeID, chal_Nonce = nonce,
                          chal_ClusterID = cq_ClusterId req, chal_Subject = cq_NodeId req,
                          chal_Operation = cq_Operation req, chal_ExpiresAt = expiresAt, chal_CreatedAt = now\<rparr>
                          (br_db b) of
                        (Inl e, d') \<Rightarrow> (Inl e, b\<lparr>br_db := d'\<rparr>)
                      | (Inr _, d') \<Rightarrow> (Inr \<lparr>cp_ChallengeId = challengeID, cp_Nonce = nonce,
                          cp_ExpiresUnixSeconds = unix_seconds expiresAt\<rparr>, b\<lparr>br_db := d'\<rparr>)))))"

definition no_view :: keyRefView where
  "no_view = \<lparr>kvw_KeyID = [], kvw_Version = 0\<rparr>"

definition ref_view :: "KeyRef \<Rightarrow> keyRefView" where
  "ref_view ref = \<lparr>kvw_KeyID = kr_KeyID ref, kvw_Version = kr_Version ref\<rparr>"

definition wrap_refused :: "PolicyDecision \<Rightarrow> WrapResponse" where
  "wrap_refused decision = \<lparr>wp_Blob = None, wp_Decision = Decision_Proto decision\<rparr>"

definition Wrap ::
  "broker_lib \<Rightarrow> Service \<Rightarrow> io \<Rightarrow> WrapRequest option \<Rightarrow> broker \<Rightarrow> WrapResponse \<times> broker" where
  "Wrap L s io request b =
     (let policy = Policy (sv_config s); cluster = cf_ClusterID (sv_config s) in
      case request of
        None \<Rightarrow> (wrap_refused (Deny policy ERROR_CODE_INVALID_REQUEST ''wrap request is required''), b)
      | Some req \<Rightarrow>
          (let (verified, evidenceDecision) = evidenceSubject s (wq_Evidence req); subject = vf_Subject verified in
           if \<not> Allowed evidenceDecision then
             (wrap_refused evidenceDecision,
              auditDecision L s io subject OPERATION_WRAP cluster no_view evidenceDecision (wq_Evidence req) b)
           else let (ref, decision) = wrapKeyRef s io (wq_RequestedKey req) (br_db b) in
           if \<not> Allowed decision then
             (wrap_refused decision,
              auditDecision L s io subject OPERATION_WRAP cluster no_view decision (wq_Evidence req) b)
           else let (decision, d) = Service_evaluate s io \<lparr>pr_ClusterID = kr_ClusterID ref, pr_Subject = subject,
                    pr_Workload = vf_Workload verified, pr_Operation = OPERATION_WRAP,
                    pr_ChallengeID = GetChallengeId (wq_Evidence req), pr_KeyRef = ref\<rparr> (br_db b);
                  b = b\<lparr>br_db := d\<rparr> in
           if \<not> Allowed decision then
             (wrap_refused decision, auditDecision L s io subject OPERATION_WRAP (kr_ClusterID ref) (ref_view ref)
                decision (wq_Evidence req) b)
           else (case loadKeyring s io 5 (kr_ClusterID ref) (br_db b) of
               Inl _ \<Rightarrow> (wrap_refused (Deny policy ERROR_CODE_INTERNAL ''keyring load failed''), b)
             | Inr ring \<Rightarrow>
                 (case Encrypt (bl_cipher L) (io_ctx io) (io_rng io 3) (Some ring) (wq_Plaintext req) (wq_Aad req) of
                    Inl _ \<Rightarrow> (wrap_refused (Deny policy ERROR_CODE_INTERNAL ''wrap failed''), b)
                  | Inr blob \<Rightarrow>
                      (\<lparr>wp_Blob = wrappedBlobToProto blob, wp_Decision = Decision_Proto decision\<rparr>,
                       auditDecision L s io subject OPERATION_WRAP (kr_ClusterID ref) (ref_view ref) decision
                         (wq_Evidence req) b)))))"

definition unwrap_refused :: "PolicyDecision \<Rightarrow> UnwrapResponse" where
  "unwrap_refused decision = \<lparr>up_Plaintext = [], up_Decision = Decision_Proto decision\<rparr>"

definition Unwrap ::
  "broker_lib \<Rightarrow> Service \<Rightarrow> io \<Rightarrow> UnwrapRequest option \<Rightarrow> broker \<Rightarrow> UnwrapResponse \<times> broker" where
  "Unwrap L s io request b =
     (let policy = Policy (sv_config s); cluster = cf_ClusterID (sv_config s) in
      case request of
        None \<Rightarrow> (unwrap_refused (Deny policy ERROR_CODE_INVALID_REQUEST ''unwrap request is required''), b)
      | Some req \<Rightarrow>
          (let (verified, evidenceDecision) = evidenceSubject s (uq_Evidence req); subject = vf_Subject verified in
           if \<not> Allowed evidenceDecision then
             (unwrap_refused evidenceDecision,
              auditDecision L s io subject OPERATION_UNWRAP cluster no_view evidenceDecision (uq_Evidence req) b)
           else (case keyRefFromProto (case uq_Blob req of None \<Rightarrow> None | Some blob \<Rightarrow> wb_Key blob) of
               Inl _ \<Rightarrow>
                 (let decision = Deny policy ERROR_CODE_INVALID_REQUEST ''blob key reference is invalid'' in
                  (unwrap_refused decision,
                   auditDecision L s io subject OPERATION_UNWRAP cluster no_view decision (uq_Evidence req) b))
             | Inr ref \<Rightarrow>
                 (let (decision, d) = Service_evaluate s io \<lparr>pr_ClusterID = kr_ClusterID ref, pr_Subject = subject,
                      pr_Workload = vf_Workload verified, pr_Operation = OPERATION_UNWRAP,
                      pr_ChallengeID = GetChallengeId (uq_Evidence req), pr_KeyRef = ref\<rparr> (br_db b);
                    b = b\<lparr>br_db := d\<rparr> in
                  if \<not> Allowed decision then
                    (unwrap_refused decision, auditDecision L s io subject OPERATION_UNWRAP (kr_ClusterID ref)
                       (ref_view ref) decision (uq_Evidence req) b)
                  else (case loadKeyring s io 5 (kr_ClusterID ref) (br_db b) of
                      Inl _ \<Rightarrow> (unwrap_refused (Deny policy ERROR_CODE_INTERNAL ''keyring load failed''), b)
                    | Inr ring \<Rightarrow>
                        (case Decrypt (bl_cipher L) (io_ctx io) (Some ring) (Some (protoToBlobInfo (uq_Blob req)))
                            (uq_Aad req) of
                           Inl _ \<Rightarrow> (unwrap_refused (Deny policy ERROR_CODE_INTERNAL ''unwrap failed''), b)
                         | Inr plaintext \<Rightarrow>
                             (\<lparr>up_Plaintext = plaintext, up_Decision = Decision_Proto decision\<rparr>,
                              auditDecision L s io subject OPERATION_UNWRAP (kr_ClusterID ref) (ref_view ref)
                                decision (uq_Evidence req) b)))))))"

definition Service_Status :: "Service \<Rightarrow> io \<Rightarrow> string option \<Rightarrow> db \<Rightarrow> StatusResponse" where
  "Service_Status s io request d =
     (let clusterID = (case request of None \<Rightarrow> cf_ClusterID (sv_config s)
          | Some c \<Rightarrow> if c \<noteq> [] then c else cf_ClusterID (sv_config s));
          not_ready = (\<lambda>message. \<lparr>sp_Ready = False, sp_ActiveKeyId = [], sp_Keys = [],
            sp_Errors = [\<lparr>be_Code = ERROR_CODE_KEY_NOT_USABLE, be_Message = message\<rparr>]\<rparr>) in
      case loadKeyring s io 0 clusterID d of
        Inl _ \<Rightarrow> not_ready ''keyring is not ready''
      | Inr ring \<Rightarrow>
          (case Active (Some ring) of
             Inl _ \<Rightarrow> not_ready ''active key is unavailable''
           | Inr active \<Rightarrow> \<lparr>sp_Ready = True, sp_ActiveKeyId = KeyRef_String (kv_Ref active),
               sp_Keys = [active\<lparr>kv_Material := []\<rparr>], sp_Errors = []\<rparr>))"

section \<open>The keyring that the runtime loads\<close>

lemma scan_protected_key_eq_Inr:
  assumes "kr_ClusterID (kw_ref r) = c"
  shows "scan_protected_key c r = Inr k \<longleftrightarrow>
    k = kw_key r \<and> kr_Version (kw_ref r) \<noteq> 0 \<and> ProtectedKey_Validate k = Inr ()"
proof -
  have same: "(kw_key r)\<lparr>pk_Ref := \<lparr>kr_ClusterID = c, kr_KeyID = kr_KeyID (kw_ref r), kr_Version = kr_Version (kw_ref r)\<rparr>\<rparr> = kw_key r"
    using assms by (cases "kw_key r") (simp add: kw_ref_def)
  have "0 < uint v \<longleftrightarrow> v \<noteq> 0" for v :: u32
    using uint_ge_0 [of v] by (simp add: less_le unsigned_eq_0_iff)
  then show ?thesis
    by (auto simp: scan_protected_key_def Let_def same simp del: ProtectedKey_Validate_eq_Inr)
qed

lemma ProtectedKeys_set:
  assumes "schema_ok d" and "ProtectedKeys F c d = Inr ks"
  shows "set ks = {k. key_view d (pk_Ref k) = Some k \<and> kr_ClusterID (pk_Ref k) = c}"
proof -
  let ?rows = "cluster_rows c d"
  have scan: "traverseE (scan_protected_key c) ?rows = Inr ks"
    using assms(2) by (auto simp: ProtectedKeys_def split: if_splits)
  have rows: "set ?rows = {r \<in> set (key_versions d). kr_ClusterID (kw_ref r) = c}"
    by (simp add: cluster_rows_def)
  have "set ks = kw_key ` set ?rows"
    using traverseE_Inr_set [OF scan] traverseE_Inr_set2 [OF scan] rows
    by (force simp: scan_protected_key_eq_Inr)
  then show ?thesis
    unfolding rows using key_view_eq_Some [OF assms(1)] by (auto simp: kw_ref_def)
qed

lemma runtime_keyrings_versions:
  assumes "schema_ok d" and "runtime_keyrings F ctx c d = Inr r"
  shows "NewRing (versions r) = Inr r \<and> ctx = None \<and> (\<forall>v. v \<in> set (versions r) \<longleftrightarrow>
    (\<exists>k. key_view d (kv_Ref v) = Some k \<and> kr_ClusterID (kv_Ref v) = c \<and> Unprotect None k = Inr v))"
proof -
  from assms(2) obtain ks vs where ks: "ProtectedKeys F c d = Inr ks"
    and vs: "traverseE (load_record ProfileDevelopment (Unprotect ctx)) ks = Inr vs" and r: "NewRing vs = Inr r"
    by (auto simp: runtime_keyrings_def LoadKeyring_def)
  have vr: "versions r = vs" and "vs \<noteq> []" using r by (auto simp: NewRing_eq_Inr ring_wf_def)
  have loads: "load_record ProfileDevelopment (Unprotect ctx) k = Inr v \<longleftrightarrow> Unprotect ctx k = Inr v" for k v
    by (auto simp: load_record_def Unprotect_eq_Inr simp del: ProtectedKey_Validate_eq_Inr)
  from \<open>vs \<noteq> []\<close> traverseE_Inr_set [OF vs] have ctx: "ctx = None"
    by (cases vs) (auto simp: loads Unprotect_eq_Inr)
  have "v \<in> set vs \<longleftrightarrow> (\<exists>k. key_view d (kv_Ref v) = Some k \<and> kr_ClusterID (kv_Ref v) = c \<and> Unprotect None k = Inr v)" for v
  proof
    assume "v \<in> set vs"
    from traverseE_Inr_set [OF vs this] ProtectedKeys_set [OF assms(1) ks] obtain k where
      "key_view d (pk_Ref k) = Some k" "kr_ClusterID (pk_Ref k) = c" "Unprotect None k = Inr v"
      by (auto simp: loads [unfolded ctx] ctx)
    then show "\<exists>k. key_view d (kv_Ref v) = Some k \<and> kr_ClusterID (kv_Ref v) = c \<and> Unprotect None k = Inr v"
      using development.unprotect_metadata by fastforce
  next
    assume "\<exists>k. key_view d (kv_Ref v) = Some k \<and> kr_ClusterID (kv_Ref v) = c \<and> Unprotect None k = Inr v"
    then obtain k where k: "key_view d (kv_Ref v) = Some k" "kr_ClusterID (kv_Ref v) = c" "Unprotect None k = Inr v" by blast
    then have "k \<in> set ks" using ProtectedKeys_set [OF assms(1) ks] key_view_ref by auto
    from traverseE_Inr_set2 [OF vs this] k(3) show "v \<in> set vs" by (auto simp: loads [unfolded ctx] ctx)
  qed
  with vr r ctx show ?thesis by simp
qed

text \<open>A version that encrypts in one loaded ring decrypts in the ring loaded after any store calls.\<close>

lemma runtime_key_survives:
  assumes "store_inv d" and "store_call\<^sup>*\<^sup>* d d'"
    and "runtime_keyrings F ctx c d = Inr r" and "runtime_keyrings F' ctx' c d' = Inr r'"
    and "v \<in> set (versions r)" and "canDecrypt v"
  shows "\<exists>v' \<in> set (versions r'). same_key v v' \<and> canDecrypt v'"
proof -
  have d: "schema_ok d" using assms(1) by (simp add: store_inv_def key_inv_def)
  have later: "store_later d d'" using store_run_later assms(1,2) by blast
  then have d': "schema_ok d'" by (simp add: store_later_def key_safe_def key_inv_def)
  from runtime_keyrings_versions [OF d assms(3)] assms(5) obtain k where
    k: "key_view d (kv_Ref v) = Some k" "kr_ClusterID (kv_Ref v) = c" "Unprotect None k = Inr v" by blast
  have "usable k" using k(3) assms(6) development.unprotect_metadata [OF k(3)] by (simp add: usable_def canDecrypt_def)
  with later k(1) key_view_ref [OF k(1)] key_steps_usable obtain k' where
    k': "key_view d' (kv_Ref v) = Some k'" "usable k'" "same_record k k'"
    unfolding store_later_def key_safe_def by blast
  let ?v = "v\<lparr>kv_Status := pk_Status k'\<rparr>"
  have "Status_known (pk_Status k')" using k'(2) by (auto simp: usable_def Status_known_def)
  from development.unprotect_status [OF k(3) this] k'(3) have "Unprotect None k' = Inr ?v"
    unfolding same_record_def by simp
  then have "?v \<in> set (versions r')"
    using runtime_keyrings_versions [OF d' assms(4)] k k' by auto
  moreover have "same_key v ?v" "canDecrypt ?v" using k'(2) by (simp_all add: same_key_def canDecrypt_def usable_def)
  ultimately show ?thesis by blast
qed

section \<open>What a granted request has done\<close>

definition unwrap_request :: "VerifiedEvidence \<Rightarrow> KeyRef \<Rightarrow> UnwrapRequest \<Rightarrow> policyRequest" where
  "unwrap_request verified ref req = \<lparr>pr_ClusterID = kr_ClusterID ref, pr_Subject = vf_Subject verified,
     pr_Workload = vf_Workload verified, pr_Operation = OPERATION_UNWRAP,
     pr_ChallengeID = GetChallengeId (uq_Evidence req), pr_KeyRef = ref\<rparr>"

definition wrap_request :: "VerifiedEvidence \<Rightarrow> KeyRef \<Rightarrow> WrapRequest \<Rightarrow> policyRequest" where
  "wrap_request verified ref req = \<lparr>pr_ClusterID = kr_ClusterID ref, pr_Subject = vf_Subject verified,
     pr_Workload = vf_Workload verified, pr_Operation = OPERATION_WRAP,
     pr_ChallengeID = GetChallengeId (wq_Evidence req), pr_KeyRef = ref\<rparr>"

definition blob_key :: "UnwrapRequest \<Rightarrow> KeyRef_msg option" where
  "blob_key req = (case uq_Blob req of None \<Rightarrow> None | Some blob \<Rightarrow> wb_Key blob)"

lemma refused_simps [simp]:
  "up_Plaintext (unwrap_refused dec) = []" "up_Decision (unwrap_refused dec) = Decision_Proto dec"
  "wp_Blob (wrap_refused dec) = None" "wp_Decision (wrap_refused dec) = Decision_Proto dec"
  by (simp_all add: unwrap_refused_def wrap_refused_def)

lemma Unwrap_granted:
  assumes "Unwrap L s io (Some req) b = (resp, b')" and "dm_State (up_Decision resp) = POLICY_DECISION_STATE_ALLOW"
  obtains verified ed ref dec d ring where
    "evidenceSubject s (uq_Evidence req) = (verified, ed)" "Allowed ed" "keyRefFromProto (blob_key req) = Inr ref"
    "Policy_evaluate (sv_policy s) io (unwrap_request verified ref req) (br_db b) = (dec, d)" "Allowed dec"
    "loadKeyring s io 5 (kr_ClusterID ref) d = Inr ring"
    "Decrypt (bl_cipher L) (io_ctx io) (Some ring) (Some (protoToBlobInfo (uq_Blob req))) (uq_Aad req) = Inr (up_Plaintext resp)"
    "b' = auditDecision L s io (vf_Subject verified) OPERATION_UNWRAP (kr_ClusterID ref) (ref_view ref) dec (uq_Evidence req)
       (b\<lparr>br_db := d\<rparr>)"
  using assms
  by (auto simp: Unwrap_def Let_def Service_evaluate_def unwrap_request_def blob_key_def
      split: prod.splits sum.splits if_splits)

lemma Wrap_granted:
  assumes "Wrap L s io (Some req) b = (resp, b')" and "dm_State (wp_Decision resp) = POLICY_DECISION_STATE_ALLOW"
  obtains verified ed ref rd dec d ring blob where
    "evidenceSubject s (wq_Evidence req) = (verified, ed)" "Allowed ed"
    "wrapKeyRef s io (wq_RequestedKey req) (br_db b) = (ref, rd)" "Allowed rd"
    "Policy_evaluate (sv_policy s) io (wrap_request verified ref req) (br_db b) = (dec, d)" "Allowed dec"
    "loadKeyring s io 5 (kr_ClusterID ref) d = Inr ring"
    "Encrypt (bl_cipher L) (io_ctx io) (io_rng io 3) (Some ring) (wq_Plaintext req) (wq_Aad req) = Inr blob"
    "wp_Blob resp = wrappedBlobToProto blob"
    "b' = auditDecision L s io (vf_Subject verified) OPERATION_WRAP (kr_ClusterID ref) (ref_view ref) dec (wq_Evidence req)
       (b\<lparr>br_db := d\<rparr>)"
  using assms
  by (auto simp: Wrap_def Let_def Service_evaluate_def wrap_request_def split: prod.splits sum.splits if_splits)

lemma auditDecision_runs:
  "store_call\<^sup>*\<^sup>* (br_db b) (br_db (auditDecision L s io subject op c v dec evidence b))"
proof (cases "newAuditEvent L (io_rng io 2) (io_clock io 2) subject op c v dec evidence (io_remote io)")
  case (Inr event)
  then show ?thesis
    using store_call.insert_audit_event [of "br_db b" "io_faults io 6" event]
    by (simp add: auditDecision_def Let_def r_into_rtranclp)
qed (simp add: auditDecision_def)

lemma evaluated_runs:
  assumes "Policy_evaluate e io q (br_db b) = (dec, d)"
  shows "store_call\<^sup>*\<^sup>* (br_db b) d"
    "store_call\<^sup>*\<^sup>* (br_db b) (br_db (auditDecision L s io su op c v dec' ev (b\<lparr>br_db := d\<rparr>)))"
proof -
  show *: "store_call\<^sup>*\<^sup>* (br_db b) d" using Policy_evaluate_runs [of "br_db b" e io q] assms by simp
  show "store_call\<^sup>*\<^sup>* (br_db b) (br_db (auditDecision L s io su op c v dec' ev (b\<lparr>br_db := d\<rparr>)))"
    by (rule rtranclp_trans [OF *]) (use auditDecision_runs [of "b\<lparr>br_db := d\<rparr>"] in simp)
qed

lemma Unwrap_runs: "store_call\<^sup>*\<^sup>* (br_db b) (br_db (snd (Unwrap L s io req b)))"
  unfolding Unwrap_def Let_def Service_evaluate_def
  by (auto split: option.splits prod.splits sum.splits intro: auditDecision_runs evaluated_runs)

lemma Wrap_runs: "store_call\<^sup>*\<^sup>* (br_db b) (br_db (snd (Wrap L s io req b)))"
  unfolding Wrap_def Let_def Service_evaluate_def
  by (auto split: option.splits prod.splits sum.splits intro: auditDecision_runs evaluated_runs)

lemma Service_Challenge_runs: "store_call\<^sup>*\<^sup>* (br_db b) (br_db (snd (Service_Challenge s io req b)))"
proof -
  have "CreateChallenge F ch d = (r, d') \<Longrightarrow> store_call\<^sup>*\<^sup>* d d'" for F ch d r d'
    using store_call.create_challenge [of d F ch] by (auto intro: r_into_rtranclp)
  then show ?thesis
    unfolding Service_Challenge_def Let_def by (auto split: option.splits prod.splits sum.splits)
qed

section \<open>Blobs on the wire\<close>

lemma KeyRef_eta [simp]: "\<lparr>kr_ClusterID = kr_ClusterID r, kr_KeyID = kr_KeyID r, kr_Version = kr_Version r\<rparr> = r"
  by (cases r) simp

lemma blob_round_trip:
  assumes "Encrypt E ctx rng (Some ring) pt a = Inr blob" and "NewRing vs = Inr ring"
  shows "\<exists>v w. Active (Some ring) = Inr v \<and> v \<in> set vs \<and> canEncrypt v \<and> wrappedBlobToProto blob = Some w \<and>
    wb_Key w = Some \<lparr>km_ClusterId = kr_ClusterID (kv_Ref v), km_KeyId = kr_KeyID (kv_Ref v), km_Version = kr_Version (kv_Ref v)\<rparr> \<and>
    KeyRef_Validate (kv_Ref v) = Inr () \<and> protoToBlobInfo (Some w) = blob"
proof -
  from assms(1) obtain v where v: "Active (Some ring) = Inr v"
    and ki: "bi_KeyInfo blob = Some \<lparr>ki_Mechanism = BlobMechanismAES256GCM, ki_KeyId = KeyRef_String (kv_Ref v)\<rparr>"
    by (auto simp: Encrypt_eq_Inr)
  have wf: "ring_wf vs" "versions ring = vs" using assms(2) by (simp_all add: NewRing_eq_Inr)
  have mem: "v \<in> set vs" "canEncrypt v"
    using v wf by (auto simp: Active_def first_active_find dest: find_SomeD split: option.splits)
  then have ref: "KeyRef_Validate (kv_Ref v) = Inr ()"
    using wf(1) by (auto simp: ring_wf_def list_all_iff KeyVersion_Validate_def)
  then have "ParseKeyRef (KeyRef_String (kv_Ref v)) = Inr (kv_Ref v)" by simp
  then show ?thesis using v mem ref ki
    by (cases blob) (auto simp: wrappedBlobToProto_def protoToBlobInfo_def simp del: KeyRef_Validate_eq_Inr)
qed

section \<open>Properties\<close>

lemma runtime_load [simp]:
  "sv_keyrings s = Some runtime_keyrings \<Longrightarrow> loadKeyring s io i c d = runtime_keyrings (io_faults io i) (io_ctx io) c d"
  by (simp add: loadKeyring_def)

lemma Unwrap_plaintext:
  "Unwrap L s io req b = (up, b') \<Longrightarrow> dm_State (up_Decision up) \<noteq> POLICY_DECISION_STATE_ALLOW \<Longrightarrow> up_Plaintext up = []"
  by (auto simp: Unwrap_def Let_def Service_evaluate_def split: option.splits prod.splits sum.splits if_splits)

lemma Wrap_blob:
  "Wrap L s io req b = (wp, b') \<Longrightarrow> wp_Blob wp = Some w \<Longrightarrow> dm_State (wp_Decision wp) = POLICY_DECISION_STATE_ALLOW"
  by (auto simp: Wrap_def Let_def Service_evaluate_def split: option.splits prod.splits sum.splits if_splits)

lemma audited_runs: "store_call\<^sup>*\<^sup>* d (br_db (auditDecision L s io su op c v dec ev (b\<lparr>br_db := d\<rparr>)))"
  using auditDecision_runs [of "b\<lparr>br_db := d\<rparr>"] by simp

lemma Wrap_sealed:
  assumes "Wrap L s io (Some wq) b = (wp, b1)" and "wp_Blob wp = Some w"
  shows "\<exists>(ref::KeyRef) q dec d ring blob. Policy_evaluate (sv_policy s) io q (br_db b) = (dec, d) \<and>
    loadKeyring s io 5 (kr_ClusterID ref) d = Inr ring \<and>
    Encrypt (bl_cipher L) (io_ctx io) (io_rng io 3) (Some ring) (wq_Plaintext wq) (wq_Aad wq) = Inr blob \<and>
    wrappedBlobToProto blob = Some w \<and> store_call\<^sup>*\<^sup>* d (br_db b1)"
  by (rule Wrap_granted [OF assms(1) Wrap_blob [OF assms]], intro exI conjI, assumption, assumption, assumption)
    (use assms(2) audited_runs in auto)

lemma Unwrap_opened:
  assumes "Unwrap L s io (Some uq) b = (up, b1)" and "dm_State (up_Decision up) = POLICY_DECISION_STATE_ALLOW"
  shows "\<exists>ref q dec d ring. keyRefFromProto (blob_key uq) = Inr ref \<and>
    Policy_evaluate (sv_policy s) io q (br_db b) = (dec, d) \<and> loadKeyring s io 5 (kr_ClusterID ref) d = Inr ring \<and>
    Decrypt (bl_cipher L) (io_ctx io) (Some ring) (Some (protoToBlobInfo (uq_Blob uq))) (uq_Aad uq) = Inr (up_Plaintext up)"
  using Unwrap_granted [OF assms] by metis

text \<open>Sealing and opening around any store calls, at the level of rings.\<close>

lemma sealed_blob_opens:
  assumes d: "store_inv d" "store_call\<^sup>*\<^sup>* d d'"
    and enc: "runtime_keyrings F ctx c d = Inr ring" "Encrypt E ctx rng (Some ring) pt a = Inr blob"
    and w: "wrappedBlobToProto blob = Some w"
    and load: "keyRefFromProto (wb_Key w) = Inr ref" "runtime_keyrings F' None (kr_ClusterID ref) d' = Inr ring'"
  shows "Decrypt E None (Some ring') (Some (protoToBlobInfo (Some w))) a = Inr pt"
proof -
  have schema: "schema_ok d" using d(1) by (simp add: store_inv_def key_inv_def)
  note vs = runtime_keyrings_versions [OF schema enc(1)]
  from blob_round_trip [OF enc(2)] vs w obtain v where
    v: "Active (Some ring) = Inr v" "v \<in> set (versions ring)" "canEncrypt v" "protoToBlobInfo (Some w) = blob"
      "wb_Key w = Some \<lparr>km_ClusterId = kr_ClusterID (kv_Ref v), km_KeyId = kr_KeyID (kv_Ref v), km_Version = kr_Version (kv_Ref v)\<rparr>"
    by (metis option.inject)
  have "kr_ClusterID ref = c" using load(1) v(2,5) vs by (auto simp: keyRefFromProto_eq_Inr)
  moreover have "canDecrypt v" using v(3) by (simp add: canEncrypt_def canDecrypt_def)
  ultimately obtain v' where v': "v' \<in> set (versions ring')" "same_key v v'" "canDecrypt v'"
    using runtime_key_survives [OF d enc(1) _ v(2)] load(2) by blast
  have "schema_ok d'" using store_run_later [OF d(2,1)] by (simp add: store_later_def key_safe_def key_inv_def)
  from runtime_keyrings_versions [OF this load(2)] have "NewRing (versions ring') = Inr ring'" by blast
  from Decrypt_Encrypt [OF enc(2) _ this v(1) v'] vs v(4) show ?thesis by blast
qed

text \<open>
  A blob that an earlier state of the broker sealed.  It stays sealed over store calls, and a
  granted unwrap opens it.
\<close>

definition sealed_by :: "broker_lib \<Rightarrow> broker \<Rightarrow> WrappedBlob \<Rightarrow> bytes \<Rightarrow> bytes \<Rightarrow> bool" where
  "sealed_by L b w pt aad \<longleftrightarrow> (\<exists>d F ctx c ring rng blob. store_inv d \<and> store_call\<^sup>*\<^sup>* d (br_db b) \<and>
     runtime_keyrings F ctx c d = Inr ring \<and> Encrypt (bl_cipher L) ctx rng (Some ring) pt aad = Inr blob \<and>
     wrappedBlobToProto blob = Some w)"

lemma store_inv_run: "store_inv d \<Longrightarrow> store_call\<^sup>*\<^sup>* d d' \<Longrightarrow> store_inv d'"
  using store_later_inv store_run_later by blast

lemma sealed_by_later: "sealed_by L b w pt aad \<Longrightarrow> store_call\<^sup>*\<^sup>* (br_db b) (br_db b') \<Longrightarrow> sealed_by L b' w pt aad"
  unfolding sealed_by_def by (blast intro: rtranclp_trans)

lemma sealed_by_key:
  assumes "sealed_by L b w pt aad"
  shows "\<exists>ref. KeyRef_Validate ref = Inr () \<and>
    wb_Key w = Some \<lparr>km_ClusterId = kr_ClusterID ref, km_KeyId = kr_KeyID ref, km_Version = kr_Version ref\<rparr>"
proof -
  from assms obtain d F ctx c ring rng blob where d: "store_inv d" "runtime_keyrings F ctx c d = Inr ring"
    "Encrypt (bl_cipher L) ctx rng (Some ring) pt aad = Inr blob" "wrappedBlobToProto blob = Some w"
    by (auto simp: sealed_by_def)
  have "schema_ok d" using d(1) by (simp add: store_inv_def key_inv_def)
  with runtime_keyrings_versions d(2) have "NewRing (versions ring) = Inr ring" by blast
  from blob_round_trip [OF d(3) this] d(4) show ?thesis by (auto simp del: KeyRef_Validate_eq_Inr)
qed

lemma Wrap_seals:
  assumes "store_inv (br_db b)" and "sv_keyrings s = Some runtime_keyrings"
    and "Wrap L s io (Some wq) b = (wp, b')" and "dm_State (wp_Decision wp) = POLICY_DECISION_STATE_ALLOW"
  shows "\<exists>w. wp_Blob wp = Some w \<and> sealed_by L b' w (wq_Plaintext wq) (wq_Aad wq)"
  using assms(3,4)
proof (rule Wrap_granted)
  fix verified ed ref rd dec d ring blob
  assume g: "Policy_evaluate (sv_policy s) io (wrap_request verified ref wq) (br_db b) = (dec, d)"
    "loadKeyring s io 5 (kr_ClusterID ref) d = Inr ring"
    "Encrypt (bl_cipher L) (io_ctx io) (io_rng io 3) (Some ring) (wq_Plaintext wq) (wq_Aad wq) = Inr blob"
    "wp_Blob wp = wrappedBlobToProto blob"
    "b' = auditDecision L s io (vf_Subject verified) OPERATION_WRAP (kr_ClusterID ref) (ref_view ref) dec (wq_Evidence wq) (b\<lparr>br_db := d\<rparr>)"
  have inv: "store_inv d" using store_inv_run [OF assms(1) evaluated_runs(1) [OF g(1)]] .
  then have "schema_ok d" by (simp add: store_inv_def key_inv_def)
  with runtime_keyrings_versions g(2) assms(2) have "NewRing (versions ring) = Inr ring" by auto
  from blob_round_trip [OF g(3) this] obtain w where w: "wrappedBlobToProto blob = Some w" by blast
  moreover have "store_call\<^sup>*\<^sup>* d (br_db b')" unfolding g(5) by (rule audited_runs)
  ultimately have "sealed_by L b' w (wq_Plaintext wq) (wq_Aad wq)"
    unfolding sealed_by_def using inv g(2,3) assms(2) unfolding runtime_load [OF assms(2)] by blast
  with g(4) w show ?thesis by auto
qed

lemma Unwrap_opens:
  assumes "sealed_by L b w pt aad" and "sv_keyrings s = Some runtime_keyrings"
    and "Unwrap L s io (Some \<lparr>uq_Blob = Some w, uq_Aad = aad, uq_Evidence = ev\<rparr>) b = (up, b')"
    and "dm_State (up_Decision up) = POLICY_DECISION_STATE_ALLOW"
  shows "up_Plaintext up = pt"
proof -
  from assms(1) obtain d F ctx c ring rng blob where d: "store_inv d" "store_call\<^sup>*\<^sup>* d (br_db b)"
    "runtime_keyrings F ctx c d = Inr ring" "Encrypt (bl_cipher L) ctx rng (Some ring) pt aad = Inr blob"
    "wrappedBlobToProto blob = Some w" by (auto simp: sealed_by_def)
  from Unwrap_opened [OF assms(3,4)] obtain ref q dec d' ring' where
    unwrap: "keyRefFromProto (wb_Key w) = Inr ref" "Policy_evaluate (sv_policy s) io q (br_db b) = (dec, d')"
      "loadKeyring s io 5 (kr_ClusterID ref) d' = Inr ring'"
      "Decrypt (bl_cipher L) (io_ctx io) (Some ring') (Some (protoToBlobInfo (Some w))) aad = Inr (up_Plaintext up)"
    by (auto simp: blob_key_def)
  have "store_call\<^sup>*\<^sup>* d d'" using rtranclp_trans [OF d(2) evaluated_runs(1) [OF unwrap(2)]] .
  moreover have "io_ctx io = None" using unwrap(4) by (auto simp: Decrypt_eq_Inr)
  ultimately show ?thesis
    using sealed_blob_opens [OF d(1) _ d(3-5) unwrap(1)] unwrap(3,4) assms(2) by simp
qed

text \<open>
  C2. The broker hands out plaintext only to a request that passed every check of the policy: its
  evidence was verified, its subject is enrolled and not revoked, its node has fresh evidence
  where that is required, it consumed its own unexpired challenge, and its key version is stored
  and may still decrypt.
\<close>

theorem unwrap_requires_authorization:
  assumes "Unwrap L s io (Some req) b = (up, b')"
    and "dm_State (up_Decision up) = POLICY_DECISION_STATE_ALLOW \<or> up_Plaintext up \<noteq> []"
  shows "\<exists>verifier verified ref d k.
    verifier = (case sv_verifier s of None \<Rightarrow> DevelopmentEvidenceVerifier | Some v \<Rightarrow> v) \<and>
    verifier (uq_Evidence req) = Inr verified \<and> vf_Subject verified \<noteq> [] \<and> keyRefFromProto (blob_key req) = Inr ref \<and>
    (\<exists>x. LoadSubject (io_faults io 0) (kr_ClusterID ref) (vf_Subject verified) (br_db b) = Inr x) \<and>
    node_trusted (sv_policy s) io (unwrap_request verified ref req) (br_db b) \<and>
    ConsumeChallenge (io_faults io 2) (GetChallengeId (uq_Evidence req)) (kr_ClusterID ref) (vf_Subject verified)
      OPERATION_UNWRAP (io_clock io 1) (br_db b) = (Inr (), d) \<and>
    LoadProtectedKey (io_faults io 3) ref d = Inr k \<and> usable k"
proof -
  have "dm_State (up_Decision up) = POLICY_DECISION_STATE_ALLOW" using assms Unwrap_plaintext by blast
  from Unwrap_granted [OF assms(1) this] obtain verified ed ref dec d where
    e: "evidenceSubject s (uq_Evidence req) = (verified, ed)" "Allowed ed" "keyRefFromProto (blob_key req) = Inr ref"
      "Policy_evaluate (sv_policy s) io (unwrap_request verified ref req) (br_db b) = (dec, d)" "Allowed dec"
    by metis
  have "(case sv_verifier s of None \<Rightarrow> DevelopmentEvidenceVerifier | Some v \<Rightarrow> v) (uq_Evidence req) = Inr verified"
    using e(1,2) by (auto simp: evidenceSubject_def Let_def split: sum.splits)
  with e(3) Policy_evaluate_allowed [OF e(4)] e(5) show ?thesis
    by (auto simp: unwrap_request_def key_allows_def)
qed

section \<open>A challenge authorises one request\<close>

text \<open>A request that was granted with the challenge \<open>i\<close>.\<close>

inductive granted :: "broker_lib \<Rightarrow> string \<Rightarrow> broker \<Rightarrow> broker \<Rightarrow> bool" where
  wrap: "Wrap L s io (Some req) b = (resp, b') \<Longrightarrow> dm_State (wp_Decision resp) = POLICY_DECISION_STATE_ALLOW \<Longrightarrow>
    granted L (GetChallengeId (wq_Evidence req)) b b'"
| unwrap: "Unwrap L s io (Some req) b = (resp, b') \<Longrightarrow> dm_State (up_Decision resp) = POLICY_DECISION_STATE_ALLOW \<Longrightarrow>
    granted L (GetChallengeId (uq_Evidence req)) b b'"

inductive_cases granted_cases: "granted L i b b'"

lemma consumed_is_spent:
  assumes "ConsumeChallenge F i c s op now d = (Inr u, d')"
  shows "i \<in> spent_challenges d'"
proof -
  from assms obtain r where r: "find (\<lambda>r. ch_id r = i) (challenges d) = Some r" "ch_consumed_at r = None"
    and d': "challenges d' = set_where (\<lambda>r. ch_id r = i \<and> ch_consumed_at r = None)
        (\<lambda>r. r\<lparr>ch_consumed_at := Some now\<rparr>) (challenges d)"
    by (auto simp: ConsumeChallenge_def Let_def check_challenge_row_eq_Inr accept_eq_Inr row_issued_def split: if_splits)
  from find_SomeD [OF r(1)] r(2) show ?thesis
    unfolding spent_challenges_def d' by (intro image_eqI [of _ _ "r\<lparr>ch_consumed_at := Some now\<rparr>"]) (auto simp: set_where_def)
qed

lemma granted_spends:
  assumes "granted L i b b'"
  shows "\<exists>F c s op now d. ConsumeChallenge F i c s op now (br_db b) = (Inr (), d) \<and> store_call\<^sup>*\<^sup>* d (br_db b')"
  using assms
proof cases
  case (wrap s io req resp)
  from Wrap_granted [OF wrap(2,3)] show ?thesis
  proof cases
    case (1 verified ed ref rd dec d ring blob)
    with Policy_evaluate_allowed [OF 1(5)] audited_runs [of d] wrap(1) show ?thesis
      by (auto simp: wrap_request_def) blast
  qed
next
  case (unwrap s io req resp)
  from Unwrap_granted [OF unwrap(2,3)] show ?thesis
  proof cases
    case (1 verified ed ref dec d ring)
    with Policy_evaluate_allowed [OF 1(4)] audited_runs [of d] unwrap(1) show ?thesis
      by (auto simp: unwrap_request_def) blast
  qed
qed

text \<open>
  C4. A challenge authorises one request: once a wrap or an unwrap was granted with it, no wrap and
  no unwrap is granted with it again, after any store calls in between and by any service that
  shares the database.
\<close>

theorem challenge_authorises_once:
  assumes "store_call\<^sup>*\<^sup>* empty_db (br_db b)" and "granted L i b b1" and "store_call\<^sup>*\<^sup>* (br_db b1) (br_db b2)"
  shows "\<not> granted L' i b2 b3"
proof
  assume "granted L' i b2 b3"
  from granted_spends [OF this] obtain F c s op now d where again: "ConsumeChallenge F i c s op now (br_db b2) = (Inr (), d)"
    by blast
  from granted_spends [OF assms(2)] obtain F0 c0 s0 op0 now0 d0 where
    first: "ConsumeChallenge F0 i c0 s0 op0 now0 (br_db b) = (Inr (), d0)" "store_call\<^sup>*\<^sup>* d0 (br_db b1)" by blast
  have "store_call (br_db b) d0" using store_call.consume_challenge [of "br_db b" F0 i c0 s0 op0 now0] first(1) by simp
  with assms(1) have "store_inv d0"
    using store_later_inv store_run_later store_inv_empty rtranclp.rtrancl_into_rtrancl by metis
  with rtranclp_trans [OF first(2) assms(3)] have "store_later d0 (br_db b2)" by (rule store_run_later)
  then have "i \<in> spent_challenges (br_db b2)" and "schema_ok (br_db b2)"
    using consumed_is_spent [OF first(1)]
    by (auto simp: store_later_def record_later_def key_safe_def key_inv_def)
  with spent_challenge_refused again show False by (metis fst_conv)
qed

section \<open>The audit record\<close>

text \<open>The audit file takes the event of a request, and the random source can name it.\<close>

definition audit_works :: "io \<Rightarrow> bool" where
  "audit_works io \<longleftrightarrow> io_ctx io = None \<and> ReadFull (io_rng io 2) 18 \<noteq> None \<and> (\<forall>step. \<not> io_file_fails io step)"

lemma auditDecision_file:
  assumes "audit_works io"
  shows "\<exists>event. newAuditEvent L (io_rng io 2) (io_clock io 2) su op c v dec ev (io_remote io) = Inr event \<and>
    ae_Decision event = PolicyDecisionState_String (dc_State dec) \<and> ae_Subject event = su \<and>
    ae_Operation event = Operation_String op \<and> ae_Reason event = dc_Reason dec \<and> ae_EvidenceHash event = evidenceHash L ev \<and>
    br_audit (auditDecision L s io su op c v dec ev b) = br_audit b @ [event]"
  using assms by (auto simp: audit_works_def auditDecision_def newAuditEvent_def randomID_def FileAudit_Write_def)

text \<open>Every decision gives a reason, which is what the caller is told.\<close>

lemma reasons [simp]: "dc_Reason (Allow p) \<noteq> []" "dc_Reason (Deny p c r) = r" "dc_Reason (nodeEvidenceDeny e err) \<noteq> []"
  "dc_Reason (challengeDeny e err) \<noteq> []" "dc_Reason (keyDecision e io req d) \<noteq> []" "dc_Reason (evaluateNodeEvidence e io req d) \<noteq> []"
  by (simp_all add: Allow_def Deny_def nodeEvidenceDeny_def challengeDeny_def keyDecision_def evaluateNodeEvidence_def
      split: error.splits sum.splits option.splits)

lemma decision_reasons:
  "evidenceSubject s ev = (verified, dec) \<Longrightarrow> dc_Reason dec \<noteq> []"
  "wrapKeyRef s io requested d = (ref, dec) \<Longrightarrow> dc_Reason dec \<noteq> []"
  by (auto simp: evidenceSubject_def wrapKeyRef_def active_key_ref_def Let_def split: sum.splits prod.splits if_splits)

lemma evaluated_reason:
  assumes "Policy_evaluate e io req d = (dec, d')"
  shows "dc_Reason dec \<noteq> [] \<and> (Allowed dec \<longrightarrow> pr_ChallengeID req \<in> spent_challenges d')"
proof
  show "dc_Reason dec \<noteq> []"
    using assms by (auto simp: Policy_evaluate_def evaluateSubjectAndNodeEvidence_def Let_def split: sum.splits prod.splits if_splits)
qed (use Policy_evaluate_allowed [OF assms] consumed_is_spent in blast)

lemma decision_told:
  "dc_Reason dec \<noteq> [] \<Longrightarrow> map be_Message (dm_Errors (Decision_Proto dec)) = [dc_Reason dec] \<and> dm_State (Decision_Proto dec) = dc_State dec"
  by (simp add: Decision_Proto_def)

text \<open>The audit file gained one event, which records the decision that the caller is told.\<close>

definition audited ::
  "broker_lib \<Rightarrow> Operation \<Rightarrow> EvidenceEnvelope option \<Rightarrow> PolicyDecision_msg \<Rightarrow> broker \<Rightarrow> broker \<Rightarrow> bool" where
  "audited L op ev told b b' \<longleftrightarrow> (\<exists>event. br_audit b' = br_audit b @ [event] \<and> ae_Operation event = Operation_String op \<and>
     ae_EvidenceHash event = evidenceHash L ev \<and> ae_Decision event = PolicyDecisionState_String (dm_State told) \<and>
     map be_Message (dm_Errors told) = [ae_Reason event])"

lemma auditDecision_told:
  assumes "audit_works io" and "dc_Reason dec \<noteq> []"
  shows "audited L op ev (Decision_Proto dec) b (auditDecision L s io su op c v dec ev b)"
    "audited L op ev (Decision_Proto dec) b (auditDecision L s io su op c v dec ev (b\<lparr>br_db := d\<rparr>))"
  using auditDecision_file [OF assms(1), of L su op c v dec ev s b] auditDecision_file [OF assms(1), of L su op c v dec ev s "b\<lparr>br_db := d\<rparr>"]
    decision_told [OF assms(2)]
  by (auto simp: audited_def)

lemma Unwrap_audited:
  assumes "audit_works io" and "Unwrap L s io (Some uq) b = (up, b')"
  shows "audited L OPERATION_UNWRAP (uq_Evidence uq) (up_Decision up) b b' \<or>
    (br_audit b' = br_audit b \<and> GetChallengeId (uq_Evidence uq) \<in> spent_challenges (br_db b') \<and>
     (\<exists>m \<in> {''keyring load failed'', ''unwrap failed''}.
        up = unwrap_refused (Deny (Policy (sv_config s)) ERROR_CODE_INTERNAL m)))"
  using assms(2)
  by (auto simp: Unwrap_def Let_def Service_evaluate_def auditDecision_told [OF assms(1)]
      split: prod.splits sum.splits if_splits dest!: decision_reasons evaluated_reason)

lemma Wrap_audited:
  assumes "audit_works io" and "Wrap L s io (Some wq) b = (wp, b')"
  shows "audited L OPERATION_WRAP (wq_Evidence wq) (wp_Decision wp) b b' \<or>
    (br_audit b' = br_audit b \<and> GetChallengeId (wq_Evidence wq) \<in> spent_challenges (br_db b') \<and>
     (\<exists>m \<in> {''keyring load failed'', ''wrap failed''}.
        wp = wrap_refused (Deny (Policy (sv_config s)) ERROR_CODE_INTERNAL m)))"
  using assms(2)
  by (auto simp: Wrap_def Let_def Service_evaluate_def auditDecision_told [OF assms(1)]
      split: prod.splits sum.splits if_splits dest!: decision_reasons evaluated_reason)

text \<open>
  C8. Every wrap and every unwrap with a working audit file appends one event with its operation,
  the hash of its evidence and the decision and reason that the caller is told, with one exception:
  a request that passed the policy, and so spent its challenge, and then failed to load the key ring
  or in the cipher is refused without an event.
\<close>

theorem requests_audited:
  assumes "audit_works io"
  shows "(case Unwrap L s io (Some uq) b of (up, b') \<Rightarrow>
      audited L OPERATION_UNWRAP (uq_Evidence uq) (up_Decision up) b b' \<or>
      (br_audit b' = br_audit b \<and> GetChallengeId (uq_Evidence uq) \<in> spent_challenges (br_db b') \<and>
       (\<exists>m \<in> {''keyring load failed'', ''unwrap failed''}.
          up = unwrap_refused (Deny (Policy (sv_config s)) ERROR_CODE_INTERNAL m)))) \<and>
    (case Wrap L s io (Some wq) b of (wp, b') \<Rightarrow>
      audited L OPERATION_WRAP (wq_Evidence wq) (wp_Decision wp) b b' \<or>
      (br_audit b' = br_audit b \<and> GetChallengeId (wq_Evidence wq) \<in> spent_challenges (br_db b') \<and>
       (\<exists>m \<in> {''keyring load failed'', ''wrap failed''}.
          wp = wrap_refused (Deny (Policy (sv_config s)) ERROR_CODE_INTERNAL m))))"
  using Unwrap_audited [OF assms] Wrap_audited [OF assms] by (auto split: prod.splits)

section \<open>A sealed blob can be opened\<close>

lemma LoadProtectedKey_view:
  assumes "schema_ok d" and "key_view d ref = Some k" and "ProtectedKey_Validate k = Inr ()"
  shows "LoadProtectedKey no_faults ref d = Inr k"
proof -
  from assms(2) key_view_eq_Some [OF assms(1)] obtain r where r: "r \<in> set (key_versions d)" "kw_ref r = ref" "kw_key r = k"
    by blast
  have "find (\<lambda>r. kw_ref r = ref) (key_versions d) = Some r"
    using find_unique [OF schema_distinct_refs [OF assms(1)] r(1)] r(2) by simp
  moreover have "k\<lparr>pk_Ref := ref\<rparr> = k" using r(2,3) by (cases k) (simp add: kw_ref_def)
  ultimately show ?thesis using assms(3) r(3) by (simp add: LoadProtectedKey_def Let_def del: ProtectedKey_Validate_eq_Inr)
qed

lemma runtime_keyrings_cong:
  "key_versions d' = key_versions d \<Longrightarrow> runtime_keyrings F ctx c d' = runtime_keyrings F ctx c d"
  by (simp add: runtime_keyrings_def ProtectedKeys_def cluster_rows_def)

lemma issued_challenge_consumed:
  assumes "Service_Challenge s io (Some q) b = (Inr cp, b')" and "now < io_clock io 0 + ChallengeTTL (sv_config s)"
  shows "\<exists>d. ConsumeChallenge no_faults (cp_ChallengeId cp) (cq_ClusterId q) (cq_NodeId q) (cq_Operation q) now (br_db b')
      = (Inr (), d) \<and> cp_ChallengeId cp \<noteq> [] \<and> same_keys (br_db b') d"
proof -
  from assms(1) obtain ch where ch: "CreateChallenge (io_faults io 0) ch (br_db b) = (Inr (), br_db b')"
      "chal_ID ch = cp_ChallengeId cp" "chal_ClusterID ch = cq_ClusterId q" "chal_Subject ch = cq_NodeId q"
      "chal_Operation ch = cq_Operation q" "chal_ExpiresAt ch = io_clock io 0 + ChallengeTTL (sv_config s)"
    and id: "randomID (io_rng io 0) ''chal'' = Inr (cp_ChallengeId cp)"
    by (auto simp: Service_Challenge_def Let_def split: if_splits sum.splits prod.splits)
  from CreateChallenge_success [OF ch(1)] have b': "schema_ok (br_db b')"
    and view: "sql_view (br_db b') (cp_ChallengeId cp) = Some (issue ch)" using ch(2) by auto
  have "accept (cq_ClusterId q) (cq_NodeId q) (cq_Operation q) now (Some (issue ch)) = Inr (issue ch)"
    using ch assms(2) by (simp add: accept_eq_Inr issue_def)
  with ConsumeChallenge_answer [OF b'] view obtain d where
    d: "ConsumeChallenge no_faults (cp_ChallengeId cp) (cq_ClusterId q) (cq_NodeId q) (cq_Operation q) now (br_db b') = (Inr (), d)"
    by (metis bindE.simps(2) prod.collapse)
  moreover from id have "cp_ChallengeId cp \<noteq> []" by (auto simp: randomID_def split: option.splits)
  moreover have "same_keys (br_db b') d" using log_methods_keep_keys [OF b'] d by (metis snd_conv)
  ultimately show ?thesis by blast
qed

lemma sealed_blob_ref:
  assumes "schema_ok d" and "runtime_keyrings F ctx c d = Inr ring" and "Encrypt E ctx rng (Some ring) pt a = Inr blob"
    and "wrappedBlobToProto blob = Some w"
  shows "\<exists>v \<in> set (versions ring). canDecrypt v \<and> kr_ClusterID (kv_Ref v) = c \<and> keyRefFromProto (wb_Key w) = Inr (kv_Ref v)"
proof -
  note vs = runtime_keyrings_versions [OF assms(1,2)]
  from blob_round_trip [OF assms(3)] vs assms(4) obtain v where v: "v \<in> set (versions ring)" "canEncrypt v"
      "wb_Key w = Some \<lparr>km_ClusterId = kr_ClusterID (kv_Ref v), km_KeyId = kr_KeyID (kv_Ref v), km_Version = kr_Version (kv_Ref v)\<rparr>"
      "KeyRef_Validate (kv_Ref v) = Inr ()"
    by (metis option.inject)
  then show ?thesis using vs unfolding keyRefFromProto_eq_Inr by (auto simp: canEncrypt_def canDecrypt_def)
qed

lemma sealed_blob_key:
  assumes d: "store_inv d" "store_call\<^sup>*\<^sup>* d d'"
    and enc: "runtime_keyrings F ctx c d = Inr ring" "Encrypt E ctx rng (Some ring) pt a = Inr blob"
    and w: "wrappedBlobToProto blob = Some w" and load: "runtime_keyrings F' None c d' = Inr ring'"
  shows "\<exists>ref k. keyRefFromProto (wb_Key w) = Inr ref \<and> LoadProtectedKey no_faults ref d' = Inr k \<and> usable k"
proof -
  have schema: "schema_ok d" "schema_ok d'"
    using d(1) store_run_later [OF d(2,1)] by (simp_all add: store_inv_def store_later_def key_safe_def key_inv_def)
  from sealed_blob_ref [OF schema(1) enc w] obtain v where
    v: "v \<in> set (versions ring)" "canDecrypt v" "keyRefFromProto (wb_Key w) = Inr (kv_Ref v)" by blast
  from runtime_key_survives [OF d enc(1) load v(1,2)] obtain v' where
    v': "v' \<in> set (versions ring')" "same_key v v'" "canDecrypt v'" by blast
  with runtime_keyrings_versions [OF schema(2) load] obtain k where
    k: "key_view d' (kv_Ref v') = Some k" "Unprotect None k = Inr v'" by blast
  have "usable k" using v'(3) development.unprotect_metadata [OF k(2)] by (simp add: usable_def canDecrypt_def)
  moreover have "ProtectedKey_Validate k = Inr ()" using k(2) unfolding Unprotect_eq_Inr by blast
  ultimately show ?thesis
    using LoadProtectedKey_view [OF schema(2) k(1)] v(3) v'(2) unfolding same_key_def by metis
qed

text \<open>A request that the policy accepts and whose blob decrypts is answered with the plaintext.\<close>

lemma Unwrap_answers:
  assumes "evidenceSubject s (uq_Evidence req) = (verified, ed)" "Allowed ed" "keyRefFromProto (blob_key req) = Inr ref"
    and "Policy_evaluate (sv_policy s) io (unwrap_request verified ref req) (br_db b) = (Allow p, d)"
    and "loadKeyring s io 5 (kr_ClusterID ref) d = Inr ring"
    and "Decrypt (bl_cipher L) (io_ctx io) (Some ring) (Some (protoToBlobInfo (uq_Blob req))) (uq_Aad req) = Inr pt"
  shows "\<exists>b'. Unwrap L s io (Some req) b = (\<lparr>up_Plaintext = pt, up_Decision = Decision_Proto (Allow p)\<rparr>, b')"
  using assms by (auto simp: Unwrap_def Let_def Service_evaluate_def unwrap_request_def blob_key_def)

lemma keyDecision_Allow: "Allowed (keyDecision e io req d) \<Longrightarrow> keyDecision e io req d = Allow (pe_policyID e)"
  by (auto simp: keyDecision_def split: sum.splits if_splits)

lemma Policy_evaluate_Allow:
  assumes "pr_Subject req \<noteq> []" "LoadSubject (io_faults io 0) (pr_ClusterID req) (pr_Subject req) d = Inr x"
    "node_trusted e io req d" "pr_ChallengeID req \<noteq> []"
    "ConsumeChallenge (io_faults io 2) (pr_ChallengeID req) (pr_ClusterID req) (pr_Subject req) (pr_Operation req)
       (io_clock io 1) d = (Inr (), d')"
    "LoadProtectedKey (io_faults io 3) (pr_KeyRef req) d' = Inr k" "key_allows (pr_Operation req) k"
  shows "Policy_evaluate e io req d = (Allow (pe_policyID e), d')"
proof -
  have "Allowed (keyDecision e io req d')" using assms(6,7) by (simp add: keyDecision_allowed)
  with assms show ?thesis
    by (simp add: Policy_evaluate_def Let_def evaluateSubject_allowed consumeChallenge_def keyDecision_Allow)
qed


section \<open>A second key identifier in a cluster\<close>

lemma runtime_keyrings_total:
  assumes "schema_ok d" and "runtime_keyrings F ctx c d = Inr r" and "key_view d ref = Some k" and "kr_ClusterID ref = c"
  shows "\<exists>v \<in> set (versions r). kv_Ref v = ref \<and> kv_Status v = pk_Status k"
proof -
  from assms(2) obtain ks vs where ks: "ProtectedKeys F c d = Inr ks"
    and vs: "traverseE (load_record ProfileDevelopment (Unprotect ctx)) ks = Inr vs" and r: "NewRing vs = Inr r"
    by (auto simp: runtime_keyrings_def LoadKeyring_def)
  have "k \<in> set ks" using ProtectedKeys_set [OF assms(1) ks] assms(3,4) key_view_ref [OF assms(3)] by simp
  from traverseE_Inr_set2 [OF vs this] obtain v where v: "v \<in> set vs" "load_record ProfileDevelopment (Unprotect ctx) k = Inr v"
    by blast
  have "ctx = None" using runtime_keyrings_versions [OF assms(1,2)] by blast
  with v(2) have "Unprotect None k = Inr v" by (auto simp: load_record_def split: if_splits)
  from development.unprotect_metadata [OF this] key_view_ref [OF assms(3)] v(1) r show ?thesis
    by (auto simp: NewRing_eq_Inr)
qed

lemma two_active_keys_do_not_load:
  assumes "schema_ok d" and "key_view d r1 = Some k1" and "key_view d r2 = Some k2" and "r1 \<noteq> r2"
    and "kr_ClusterID r1 = c" and "kr_ClusterID r2 = c" and "pk_Status k1 = StatusActive" and "pk_Status k2 = StatusActive"
  shows "runtime_keyrings F ctx c d \<noteq> Inr ring"
proof
  assume load: "runtime_keyrings F ctx c d = Inr ring"
  from runtime_keyrings_total [OF assms(1) load assms(2,5)] runtime_keyrings_total [OF assms(1) load assms(3,6)] assms(4,7,8)
  obtain v1 v2 where v: "v1 \<in> set (versions ring)" "v2 \<in> set (versions ring)" "canEncrypt v1" "canEncrypt v2" "v1 \<noteq> v2"
    unfolding canEncrypt_def by metis
  have "length (filter canEncrypt (versions ring)) = 1"
    using runtime_keyrings_versions [OF assms(1) load] by (auto simp: NewRing_eq_Inr ring_wf_def)
  then obtain x where x: "filter canEncrypt (versions ring) = [x]" by (auto simp: length_Suc_conv)
  have "v1 \<in> set (filter canEncrypt (versions ring))" "v2 \<in> set (filter canEncrypt (versions ring))" using v by auto
  with x v(5) show False by simp
qed

text \<open>
  C11. A cluster that holds active keys of two key identifiers serves nobody: its key ring does not
  load, the status is not ready, and no wrap and no unwrap for the cluster is granted.
\<close>

theorem second_keyring_blocks_cluster:
  assumes "store_call\<^sup>*\<^sup>* empty_db (br_db b)" and "sv_keyrings s = Some runtime_keyrings"
    and "key_view (br_db b) r1 = Some k1" and "key_view (br_db b) r2 = Some k2" and "r1 \<noteq> r2"
    and "kr_ClusterID r1 = c" and "kr_ClusterID r2 = c" and "pk_Status k1 = StatusActive" and "pk_Status k2 = StatusActive"
  shows "(c \<noteq> [] \<longrightarrow> \<not> sp_Ready (Service_Status s io (Some c) (br_db b))) \<and>
    (keyRefFromProto (blob_key uq) = Inr ref \<longrightarrow> kr_ClusterID ref = c \<longrightarrow>
      dm_State (up_Decision (fst (Unwrap L s io (Some uq) b))) \<noteq> POLICY_DECISION_STATE_ALLOW) \<and>
    (kr_ClusterID (fst (wrapKeyRef s io (wq_RequestedKey wq) (br_db b))) = c \<longrightarrow>
      dm_State (wp_Decision (fst (Wrap L s io (Some wq) b))) \<noteq> POLICY_DECISION_STATE_ALLOW)"
proof -
  have "store_inv (br_db b)" using assms(1) store_later_inv store_run_later store_inv_empty by blast
  then have schema: "schema_ok (br_db b)" by (simp add: store_inv_def key_inv_def)
  note blocked = two_active_keys_do_not_load [OF schema assms(3-9)]
  have after: "runtime_keyrings F ctx c d \<noteq> Inr ring" if "Policy_evaluate e io q (br_db b) = (dec, d)" "Allowed dec" for F ctx d ring e q dec
  proof -
    have "same_keys (br_db b) d"
      using Policy_evaluate_allowed [OF that(1)] that(2) log_methods_keep_keys(6) [OF schema] by (metis snd_conv)
    then show ?thesis using blocked runtime_keyrings_cong [of d "br_db b"] by (simp add: same_keys_def)
  qed
  have "\<not> sp_Ready (Service_Status s io (Some c) (br_db b))" if "c \<noteq> []"
    using that assms(2) blocked by (auto simp: Service_Status_def split: sum.splits)
  moreover have "dm_State (up_Decision (fst (Unwrap L s io (Some uq) b))) \<noteq> POLICY_DECISION_STATE_ALLOW"
    if "keyRefFromProto (blob_key uq) = Inr ref" "kr_ClusterID ref = c"
    using Unwrap_granted [of L s io uq b] that after assms(2) by (metis prod.collapse runtime_load sum.inject(2))
  moreover have "dm_State (wp_Decision (fst (Wrap L s io (Some wq) b))) \<noteq> POLICY_DECISION_STATE_ALLOW"
    if "kr_ClusterID (fst (wrapKeyRef s io (wq_RequestedKey wq) (br_db b))) = c"
    using Wrap_granted [of L s io wq b] that after assms(2) by (metis prod.collapse runtime_load fst_conv)
  ultimately show ?thesis by blast
qed

section \<open>A run of the service\<close>

definition demo_broker_config :: Config where
  "demo_broker_config = demo_config\<lparr>cf_ClusterID := ''prod'', cf_KeyID := ''root'', cf_PolicyID := ''default''\<rparr>"

definition demo_service :: Service where
  "demo_service = NewService demo_broker_config (Some runtime_keyrings)"

definition demo_broker_lib :: broker_lib where
  "demo_broker_lib = \<lparr>bl_Marshal = (\<lambda>_. None), bl_sha256 = (\<lambda>bs. bs), bl_cipher = (\<lambda>_ bs. bs)\<rparr>"

definition demo_io :: "byte \<Rightarrow> time \<Rightarrow> io" where
  "demo_io n t = \<lparr>io_faults = (\<lambda>_. no_faults), io_clock = (\<lambda>_. t), io_rng = (\<lambda>_. Some (\<lambda>_. n)), io_ctx = None,
     io_remote = [], io_file_fails = (\<lambda>_. False)\<rparr>"

definition demo_id :: "byte \<Rightarrow> string" where
  "demo_id n = ''chal_'' @ b64_encode RawURLEncoding (replicate 18 n)"

definition demo_row :: "byte \<Rightarrow> Operation \<Rightarrow> time \<Rightarrow> time option \<Rightarrow> challenge_row" where
  "demo_row n op t consumed = \<lparr>ch_id = demo_id n, ch_nonce = replicate 32 n, ch_cluster = ''prod'', ch_subject = ''s'',
     ch_operation = Operation_String op, ch_expires_at = t + 60 * second, ch_consumed_at = consumed, ch_created_at = t\<rparr>"

definition demo_store :: "challenge_row list \<Rightarrow> AuditEvent list \<Rightarrow> db" where
  "demo_store cs es = demo_db\<lparr>subjects := [\<lparr>su_cluster = ''prod'', su_subject = ''s'', su_revoked = False,
     su_created_at = 8, su_revoked_at = None\<rparr>], challenges := cs, audit_events := es\<rparr>"

definition demo_envelope :: "byte \<Rightarrow> EvidenceEnvelope" where
  "demo_envelope n = \<lparr>ee_Provider = 0, ee_Format = ''development-subject'', ee_Payload = [0x73], ee_ChallengeId = demo_id n, ee_NormalizedClaims = []\<rparr>"

definition demo_broker :: "challenge_row list \<Rightarrow> AuditEvent list \<Rightarrow> broker" where
  "demo_broker cs es = \<lparr>br_db = demo_store cs es, br_audit = es\<rparr>"

lemma demo_id_inj [simp]: "demo_id m = demo_id n \<longleftrightarrow> m = n"
  by (simp add: demo_id_def b64_encode_inj)

lemma demo_store_fields [simp]:
  "challenges (demo_store cs es) = cs" "audit_events (demo_store cs es) = es"
  "(demo_store cs es)\<lparr>challenges := cs'\<rparr> = demo_store cs' es"
  "(demo_store cs es)\<lparr>audit_events := es'\<rparr> = demo_store cs es'"
  "key_versions (demo_store cs es) = [\<lparr>kw_key = demo_record, kw_created_at = 7\<rparr>]"
  "LoadSubject no_faults ''prod'' ''s'' (demo_store cs es) = Inr \<lparr>sub_ClusterID = ''prod'', sub_Subject = ''s'', sub_Revoked = False\<rparr>"
  by (simp_all add: demo_store_def LoadSubject_def demo_db_def demo_db_run)

lemma demo_store_schema [simp]:
  "schema_ok (demo_store cs es) \<longleftrightarrow> challenges_ok cs \<and> (\<forall>c \<in> set cs. ch_cluster c = ''prod'') \<and> distinct (map ae_AuditID es)"
  unfolding demo_store_def demo_db_def demo_db_run snd_conv
  by (simp add: schema_eval demo_record_def demo_key_def empty_db_def list_all_iff) auto

lemma demo_runtime_ring [simp]: "runtime_keyrings no_faults None ''prod'' (demo_store cs es) = Inr \<lparr>versions = demo_ring\<rparr>"
proof -
  have "ProtectedKeys no_faults ''prod'' (demo_store cs es) = Inr [demo_record]"
    using demo_record_valid
    by (simp add: ProtectedKeys_def cluster_rows_def scan_protected_key_eq_Inr kw_ref_def)
      (simp add: demo_record_def demo_key_def)
  then show ?thesis
    using demo_rings(1)
    by (simp add: runtime_keyrings_def LoadKeyring_def load_record_def demo_record_unprotects demo_ring_def)
      (simp add: demo_record_def)
qed

lemma demo_id_nonempty [simp]: "demo_id n \<noteq> []"
  by (simp add: demo_id_def)

lemma demo_service_simps [simp]:
  "sv_keyrings demo_service = Some runtime_keyrings" "sv_config demo_service = demo_broker_config"
  "sv_policy demo_service = \<lparr>pe_nodeEvidence = None, pe_policyID = ''default''\<rparr>"
  "Policy demo_broker_config = ''default''" "ChallengeTTL demo_broker_config = 60 * second"
  "newRuntimeService demo_broker_config kubernetes = Inr demo_service" "\<not> k8_Enabled (cf_Kubernetes demo_broker_config)"
  "evidenceSubject demo_service (Some (demo_envelope n)) =
     (\<lparr>vf_Subject = ''s'', vf_Workload = no_workload\<rparr>, Allow ''default'')"
proof -
  have trim: "TrimSpace ''default'' = ''default''" "TrimSpace ''s'' = ''s''" "TrimSpace [] = []" by (simp_all add: TrimSpace_graphic graphic_def)
  have s: "string_of [0x73] = ''s''" by (simp add: string_of_def char_of_def bit_0)
  show p: "Policy demo_broker_config = ''default''" by (simp add: Policy_def demo_broker_config_def demo_config_def trim)
  show "ChallengeTTL demo_broker_config = 60 * second"
    by (simp add: ChallengeTTL_def demo_broker_config_def demo_config_def seconds64_exact)
  show k: "\<not> k8_Enabled (cf_Kubernetes demo_broker_config)" by (simp add: demo_broker_config_def demo_config_def)
  then show "newRuntimeService demo_broker_config kubernetes = Inr demo_service"
    by (simp add: newRuntimeService_def demo_service_def)
  show "evidenceSubject demo_service (Some (demo_envelope n)) =
     (\<lparr>vf_Subject = ''s'', vf_Workload = no_workload\<rparr>, Allow ''default'')"
    by (simp add: evidenceSubject_def demo_service_def NewService_def DevelopmentEvidenceVerifier_def GetPayload_def
        demo_envelope_def p s trim)
  show "sv_policy demo_service = \<lparr>pe_nodeEvidence = None, pe_policyID = ''default''\<rparr>"
    by (simp add: demo_service_def NewService_def NewPolicyEngine_def p)
qed (simp_all add: demo_service_def NewService_def)

lemma demo_challenge_step:
  assumes "demo_id n \<notin> ch_id ` set cs" and "replicate 32 n \<notin> ch_nonce ` set cs" and "schema_ok (demo_store cs es)"
  shows "\<exists>cp. Service_Challenge demo_service (demo_io n t) (Some \<lparr>cq_ClusterId = ''prod'', cq_NodeId = ''s'', cq_Operation = op\<rparr>)
    (demo_broker cs es) = (Inr cp, demo_broker (cs @ [demo_row n op t None]) es) \<and> cp_ChallengeId cp = demo_id n"
proof -
  have "ReadFull (Some (\<lambda>_. n)) k = Some (replicate k n)" for k by (simp add: ReadFull_def map_replicate_const)
  then have id: "randomID (Some (\<lambda>_. n)) ''chal'' = Inr (demo_id n)" "randomNonce (Some (\<lambda>_. n)) = Inr (replicate 32 n)"
    by (simp_all add: randomID_def randomNonce_def demo_id_def)
  have "schema_ok (demo_store (cs @ [demo_row n op t None]) es)"
    using assms by (auto simp: challenges_ok_def demo_row_def)
  then have "CreateChallenge no_faults \<lparr>chal_ID = demo_id n, chal_Nonce = replicate 32 n, chal_ClusterID = ''prod'', chal_Subject = ''s'',
      chal_Operation = op, chal_ExpiresAt = t + 60 * second, chal_CreatedAt = t\<rparr> (demo_store cs es) =
    (Inr (), demo_store (cs @ [demo_row n op t None]) es)"
    by (simp add: CreateChallenge_def demo_row_def)
  then show ?thesis by (simp add: Service_Challenge_def Let_def demo_io_def id demo_broker_def)
qed

lemma demo_policy_step:
  assumes "schema_ok (demo_store (cs @ [demo_row n op t None]) es)" and "demo_id n \<notin> ch_id ` set cs" and "now < t + 60 * second"
  shows "Policy_evaluate (sv_policy demo_service) (demo_io m now) \<lparr>pr_ClusterID = ''prod'', pr_Subject = ''s'', pr_Workload = no_workload,
      pr_Operation = op, pr_ChallengeID = demo_id n, pr_KeyRef = pk_Ref demo_record\<rparr> (demo_store (cs @ [demo_row n op t None]) es) =
    (Allow ''default'', demo_store (cs @ [demo_row n op t (Some now)]) es)"
proof -
  have find: "find (\<lambda>r. ch_id r = demo_id n) (cs @ [demo_row n op t None]) = Some (demo_row n op t None)"
    using assms(2) by (induction cs) (auto simp: demo_row_def)
  have "set_where (\<lambda>r. ch_id r = demo_id n \<and> ch_consumed_at r = None) (\<lambda>r. r\<lparr>ch_consumed_at := Some now\<rparr>)
      (cs @ [demo_row n op t None]) = cs @ [demo_row n op t (Some now)]"
    using assms(2) unfolding set_where_def by (simp add: demo_row_def) (rule map_idI, force)
  moreover have "schema_ok (demo_store (cs @ [demo_row n op t (Some now)]) es)"
    using assms(1) by (auto simp: demo_row_def challenges_ok_def)
  ultimately have "ConsumeChallenge no_faults (demo_id n) ''prod'' ''s'' op now (demo_store (cs @ [demo_row n op t None]) es) =
      (Inr (), demo_store (cs @ [demo_row n op t (Some now)]) es)"
    using assms(3) find
    by (simp add: ConsumeChallenge_def Let_def check_challenge_row_def count_where_def) (simp add: demo_row_def)
  moreover have "LoadProtectedKey no_faults (pk_Ref demo_record) (demo_store cs' es) = Inr demo_record" for cs'
    using demo_record_valid by (simp add: LoadProtectedKey_def kw_ref_def)
  moreover have "key_allows op demo_record" by (simp add: key_allows_def usable_def demo_record_def)
  ultimately show ?thesis
    using Policy_evaluate_Allow [of "\<lparr>pr_ClusterID = ''prod'', pr_Subject = ''s'', pr_Workload = no_workload,
      pr_Operation = op, pr_ChallengeID = demo_id n, pr_KeyRef = pk_Ref demo_record\<rparr>" "demo_io m now"]
    by (simp add: demo_io_def demo_id_nonempty node_trusted_def)
qed

definition demo_wrap :: "byte \<Rightarrow> WrapRequest" where
  "demo_wrap n = \<lparr>wq_RequestedKey = None, wq_Plaintext = [1, 2], wq_Aad = [3], wq_Evidence = Some (demo_envelope n)\<rparr>"

lemma demo_audit:
  "\<exists>event. auditDecision demo_broker_lib demo_service (demo_io m now) su op c v dec ev (demo_broker cs []) = demo_broker cs [event]"
  if "schema_ok (demo_store cs [])"
  using that by (simp add: auditDecision_def newAuditEvent_def randomID_def ReadFull_def demo_io_def FileAudit_Write_def
      demo_broker_def InsertAuditEvent_def stmt_def auto_commit_def)

lemma demo_broker_reach: "store_call\<^sup>*\<^sup>* empty_db (demo_store [] [])"
proof -
  have s: "schema_ok (demo_store [] [])" by (simp add: challenges_ok_def)
  have empty: "subjects demo_db = []" "challenges demo_db = []" "audit_events demo_db = []"
    unfolding demo_db_def demo_db_run snd_conv by (simp_all add: empty_db_def)
  have "InsertSubject no_faults ''prod'' ''s'' 8 demo_db = (Inr (), demo_store [] [])"
  proof -
    have "demo_db\<lparr>subjects := subjects demo_db @ [\<lparr>su_cluster = ''prod'', su_subject = ''s'', su_revoked = False, su_created_at = 8,
        su_revoked_at = None\<rparr>]\<rparr> = demo_store [] []"
      using empty by (cases demo_db) (simp add: demo_store_def)
    with s show ?thesis by (simp add: InsertSubject_def auto_commit_def stmt_ignore_def schema_ok_def)
  qed
  then show ?thesis
    using store_call.insert_subject [of demo_db no_faults "''prod''" "''s''" 8] by (simp add: rtranclp.rtrancl_into_rtrancl [OF demo_reach(1)])
qed

lemma demo_key_ref:
  "wb_Key w = Some \<lparr>km_ClusterId = ''prod'', km_KeyId = ''root'', km_Version = 1\<rparr> \<Longrightarrow> keyRefFromProto (wb_Key w) = Inr (pk_Ref demo_record)"
  using demo_record_valid by (simp add: keyRefFromProto_def Let_def demo_record_def demo_key_def)

lemma demo_wrap_step:
  assumes "schema_ok (demo_store [demo_row n OPERATION_WRAP t None] [])" and "now < t + 60 * second"
  shows "\<exists>w event. Wrap demo_broker_lib demo_service (demo_io 0 now) (Some (demo_wrap n)) (demo_broker [demo_row n OPERATION_WRAP t None] []) =
    (\<lparr>wp_Blob = Some w, wp_Decision = Decision_Proto (Allow ''default'')\<rparr>, demo_broker [demo_row n OPERATION_WRAP t (Some now)] [event]) \<and>
    wb_Key w = Some \<lparr>km_ClusterId = ''prod'', km_KeyId = ''root'', km_Version = 1\<rparr> \<and>
    Decrypt (bl_cipher demo_broker_lib) None (Some \<lparr>versions = demo_ring\<rparr>) (Some (protoToBlobInfo (Some w))) [3] = Inr [1, 2]"
proof -
  let ?ring = "\<lparr>versions = demo_ring\<rparr>"
  have ref: "pk_Ref demo_record = kv_Ref (demo_key 1 StatusActive)" by (simp add: demo_record_def)
  obtain blob where enc: "Encrypt (bl_cipher demo_broker_lib) None (Some (\<lambda>_. 0)) (Some ?ring) [1, 2] [3] = Inr blob"
    using demo_encrypt by blast
  from blob_round_trip [OF enc demo_rings(1)] obtain w where w: "wrappedBlobToProto blob = Some w"
    "wb_Key w = Some \<lparr>km_ClusterId = ''prod'', km_KeyId = ''root'', km_Version = 1\<rparr>"
    by (auto simp: demo_key_def)
  have "store_inv (demo_store [] [])" using demo_broker_reach store_later_inv store_run_later store_inv_empty by blast
  from sealed_blob_opens [OF this rtranclp.rtrancl_refl demo_runtime_ring enc w(1) demo_key_ref [OF w(2)], of no_faults ?ring]
  have opens: "Decrypt (bl_cipher demo_broker_lib) None (Some ?ring) (Some (protoToBlobInfo (Some w))) [3] = Inr [1, 2]"
    by (simp add: demo_record_def demo_key_def)
  have "schema_ok (demo_store [demo_row n OPERATION_WRAP t (Some now)] [])" using assms(1) by (simp add: challenges_ok_def demo_row_def)
  from demo_audit [OF this, of 0 now "''s''" OPERATION_WRAP "''prod''" "ref_view (pk_Ref demo_record)" "Allow ''default''" "Some (demo_envelope n)"]
  obtain event where audit: "auditDecision demo_broker_lib demo_service (demo_io 0 now) ''s'' OPERATION_WRAP ''prod'' (ref_view (pk_Ref demo_record))
      (Allow ''default'') (Some (demo_envelope n)) (demo_broker [demo_row n OPERATION_WRAP t (Some now)] []) =
    demo_broker [demo_row n OPERATION_WRAP t (Some now)] [event]" by blast
  have c: "kr_ClusterID (pk_Ref demo_record) = ''prod''" by (simp add: demo_record_def demo_key_def)
  have key: "wrapKeyRef demo_service (demo_io 0 now) None (demo_store cs es) = (pk_Ref demo_record, Allow ''default'')" for cs es
    by (simp add: wrapKeyRef_def active_key_ref_def demo_io_def ref) (simp add: demo_broker_config_def)
  have "GetChallengeId (Some (demo_envelope n)) = demo_id n" by (simp add: GetChallengeId_def demo_envelope_def)
  with demo_policy_step [of "[]" n OPERATION_WRAP t "[]" now 0] assms key audit enc w c opens show ?thesis
    by (simp add: Wrap_def Service_evaluate_def demo_wrap_def demo_broker_def demo_io_def)
qed

definition demo_unwrap :: "WrappedBlob \<Rightarrow> UnwrapRequest" where
  "demo_unwrap w = \<lparr>uq_Blob = Some w, uq_Aad = [3], uq_Evidence = Some (demo_envelope 2)\<rparr>"

lemma demo_unwrap_step:
  assumes "wb_Key w = Some \<lparr>km_ClusterId = ''prod'', km_KeyId = ''root'', km_Version = 1\<rparr>"
    and "Decrypt (bl_cipher demo_broker_lib) None (Some \<lparr>versions = demo_ring\<rparr>) (Some (protoToBlobInfo (Some w))) [3] = Inr [1, 2]"
    and "schema_ok (demo_store (cs @ [demo_row 2 OPERATION_UNWRAP 12 None]) es)" and "demo_id 2 \<notin> ch_id ` set cs"
  shows "\<exists>b. Unwrap demo_broker_lib demo_service (demo_io 0 13) (Some (demo_unwrap w)) (demo_broker (cs @ [demo_row 2 OPERATION_UNWRAP 12 None]) es) =
    (\<lparr>up_Plaintext = [1, 2], up_Decision = Decision_Proto (Allow ''default'')\<rparr>, b)"
proof (rule Unwrap_answers)
  let ?ref = "pk_Ref demo_record"
  show "evidenceSubject demo_service (uq_Evidence (demo_unwrap w)) = (\<lparr>vf_Subject = ''s'', vf_Workload = no_workload\<rparr>, Allow ''default'')"
    by (simp add: demo_unwrap_def)
  show "keyRefFromProto (blob_key (demo_unwrap w)) = Inr ?ref"
    using demo_key_ref [OF assms(1)] by (simp add: blob_key_def demo_unwrap_def)
  have c: "kr_ClusterID ?ref = ''prod''" by (simp add: demo_record_def demo_key_def)
  show "Policy_evaluate (sv_policy demo_service) (demo_io 0 13)
      (unwrap_request \<lparr>vf_Subject = ''s'', vf_Workload = no_workload\<rparr> ?ref (demo_unwrap w))
      (br_db (demo_broker (cs @ [demo_row 2 OPERATION_UNWRAP 12 None]) es)) =
    (Allow ''default'', demo_store (cs @ [demo_row 2 OPERATION_UNWRAP 12 (Some 13)]) es)"
    using demo_policy_step [OF assms(3,4), of 13 0]
    by (simp add: unwrap_request_def demo_unwrap_def demo_broker_def c second_def GetChallengeId_def demo_envelope_def)
  show "loadKeyring demo_service (demo_io 0 13) 5 (kr_ClusterID ?ref) (demo_store (cs @ [demo_row 2 OPERATION_UNWRAP 12 (Some 13)]) es) =
    Inr \<lparr>versions = demo_ring\<rparr>" by (simp add: c demo_io_def)
  show "Decrypt (bl_cipher demo_broker_lib) (io_ctx (demo_io 0 13)) (Some \<lparr>versions = demo_ring\<rparr>)
      (Some (protoToBlobInfo (uq_Blob (demo_unwrap w)))) (uq_Aad (demo_unwrap w)) = Inr [1, 2]"
    using assms(2) by (simp add: demo_io_def demo_unwrap_def)
qed simp

text \<open>A challenge, a wrap with it, a second challenge and an unwrap with that.\<close>

lemma demo_run_full:
  obtains w b0 cp0 b b1 cp b2 b3 cs es where "store_call\<^sup>*\<^sup>* empty_db (br_db b0)" "store_call\<^sup>*\<^sup>* empty_db (br_db b)"
    "Service_Challenge demo_service (demo_io 1 10) (Some \<lparr>cq_ClusterId = ''prod'', cq_NodeId = ''s'', cq_Operation = OPERATION_WRAP\<rparr>) b0 =
      (Inr cp0, b)" "cp_ChallengeId cp0 = demo_id 1"
    "Wrap demo_broker_lib demo_service (demo_io 0 11) (Some (demo_wrap 1)) b =
      (\<lparr>wp_Blob = Some w, wp_Decision = Decision_Proto (Allow ''default'')\<rparr>, b1)"
    "wb_Key w = Some \<lparr>km_ClusterId = ''prod'', km_KeyId = ''root'', km_Version = 1\<rparr>"
    "Service_Challenge demo_service (demo_io 2 12) (Some \<lparr>cq_ClusterId = ''prod'', cq_NodeId = ''s'', cq_Operation = OPERATION_UNWRAP\<rparr>) b1 =
      (Inr cp, b2)" "cp_ChallengeId cp = demo_id 2" "br_db b2 = demo_store cs es"
    "Unwrap demo_broker_lib demo_service (demo_io 0 13) (Some (demo_unwrap w)) b2 =
      (\<lparr>up_Plaintext = [1, 2], up_Decision = Decision_Proto (Allow ''default'')\<rparr>, b3)"
proof -
  let ?r = "demo_row 1 OPERATION_WRAP 10" and ?s = "demo_row 2 OPERATION_UNWRAP 12 None"
  have ok: "schema_ok (demo_store [?r x] es)" if "distinct (map ae_AuditID es)" for x es
    using that by (simp add: challenges_ok_def demo_row_def)
  from demo_challenge_step [of 1 "[]" "[]" 10 OPERATION_WRAP] obtain cp0 where
    cp0: "Service_Challenge demo_service (demo_io 1 10) (Some \<lparr>cq_ClusterId = ''prod'', cq_NodeId = ''s'', cq_Operation = OPERATION_WRAP\<rparr>)
      (demo_broker [] []) = (Inr cp0, demo_broker [?r None] [])" "cp_ChallengeId cp0 = demo_id 1" by (auto simp: challenges_ok_def)
  from cp0(1) Service_Challenge_runs [of "demo_broker [] []" demo_service "demo_io 1 10"] have "store_call\<^sup>*\<^sup>* (demo_store [] []) (demo_store [?r None] [])"
    by (metis demo_broker_def broker.select_convs(1) snd_conv)
  then have reach: "store_call\<^sup>*\<^sup>* empty_db (br_db (demo_broker [?r None] []))"
    using rtranclp_trans [OF demo_broker_reach] by (simp add: demo_broker_def)
  from demo_wrap_step [OF ok, of 11] obtain w event where
    w: "Wrap demo_broker_lib demo_service (demo_io 0 11) (Some (demo_wrap 1)) (demo_broker [?r None] []) =
      (\<lparr>wp_Blob = Some w, wp_Decision = Decision_Proto (Allow ''default'')\<rparr>, demo_broker [?r (Some 11)] [event])"
    "wb_Key w = Some \<lparr>km_ClusterId = ''prod'', km_KeyId = ''root'', km_Version = 1\<rparr>"
    "Decrypt (bl_cipher demo_broker_lib) None (Some \<lparr>versions = demo_ring\<rparr>) (Some (protoToBlobInfo (Some w))) [3] = Inr [1, 2]"
    by (auto simp: second_def)
  have fresh: "demo_id 2 \<notin> ch_id ` set [?r (Some 11)]" "replicate 32 2 \<notin> ch_nonce ` set [?r (Some 11)]"
    by (simp_all add: demo_row_def)
  from demo_challenge_step [OF this ok, of "[event]" 12 OPERATION_UNWRAP] obtain cp where
    cp: "Service_Challenge demo_service (demo_io 2 12) (Some \<lparr>cq_ClusterId = ''prod'', cq_NodeId = ''s'', cq_Operation = OPERATION_UNWRAP\<rparr>)
      (demo_broker [?r (Some 11)] [event]) = (Inr cp, demo_broker ([?r (Some 11)] @ [?s]) [event])" "cp_ChallengeId cp = demo_id 2"
    by auto
  have "schema_ok (demo_store ([?r (Some 11)] @ [?s]) [event])" by (simp add: challenges_ok_def demo_row_def)
  from demo_unwrap_step [OF w(2,3) this fresh(1)] obtain b3 where
    "Unwrap demo_broker_lib demo_service (demo_io 0 13) (Some (demo_unwrap w)) (demo_broker ([?r (Some 11)] @ [?s]) [event]) =
      (\<lparr>up_Plaintext = [1, 2], up_Decision = Decision_Proto (Allow ''default'')\<rparr>, b3)" by blast
  with that [OF _ reach cp0 w(1,2) cp] demo_broker_reach show ?thesis by (simp add: demo_broker_def)
qed

lemma demo_run:
  obtains w b b1 cp b2 b3 cs es where "store_call\<^sup>*\<^sup>* empty_db (br_db b)"
    "Wrap demo_broker_lib demo_service (demo_io 0 11) (Some (demo_wrap 1)) b =
      (\<lparr>wp_Blob = Some w, wp_Decision = Decision_Proto (Allow ''default'')\<rparr>, b1)"
    "wb_Key w = Some \<lparr>km_ClusterId = ''prod'', km_KeyId = ''root'', km_Version = 1\<rparr>"
    "Service_Challenge demo_service (demo_io 2 12) (Some \<lparr>cq_ClusterId = ''prod'', cq_NodeId = ''s'', cq_Operation = OPERATION_UNWRAP\<rparr>) b1 =
      (Inr cp, b2)" "cp_ChallengeId cp = demo_id 2" "br_db b2 = demo_store cs es"
    "Unwrap demo_broker_lib demo_service (demo_io 0 13) (Some (demo_unwrap w)) b2 =
      (\<lparr>up_Plaintext = [1, 2], up_Decision = Decision_Proto (Allow ''default'')\<rparr>, b3)"
  by (rule demo_run_full) (rule that)

theorem unwrap_requires_authorization_witness:
  "\<exists>w b up b' d. Unwrap demo_broker_lib demo_service (demo_io 0 13) (Some (demo_unwrap w)) b = (up, b') \<and> up_Plaintext up = [1, 2] \<and>
    ConsumeChallenge no_faults (demo_id 2) ''prod'' ''s'' OPERATION_UNWRAP 13 (br_db b) = (Inr (), d)"
proof (rule demo_run)
  fix w b1 cp b2 b3
  assume r: "wb_Key w = Some \<lparr>km_ClusterId = ''prod'', km_KeyId = ''root'', km_Version = 1\<rparr>"
    "Unwrap demo_broker_lib demo_service (demo_io 0 13) (Some (demo_unwrap w)) b2 =
      (\<lparr>up_Plaintext = [1, 2], up_Decision = Decision_Proto (Allow ''default'')\<rparr>, b3)"
  have v: "sv_verifier demo_service = Some DevelopmentEvidenceVerifier" by (simp add: demo_service_def NewService_def)
  have e: "DevelopmentEvidenceVerifier (Some (demo_envelope 2)) = Inr verified \<Longrightarrow> vf_Subject verified = ''s''" for verified
    using demo_service_simps(8) [of 2] v by (auto simp: evidenceSubject_def)
  have c: "kr_ClusterID (pk_Ref demo_record) = ''prod''" by (simp add: demo_record_def demo_key_def)
  have "GetChallengeId (Some (demo_envelope 2)) = demo_id 2" by (simp add: GetChallengeId_def demo_envelope_def)
  with unwrap_requires_authorization [OF r(2)] r(2) demo_key_ref [OF r(1)] e c show ?thesis
    by (fastforce simp: v demo_unwrap_def demo_io_def blob_key_def)
qed

theorem challenge_authorises_once_witness:
  "\<exists>b b1. granted demo_broker_lib (demo_id 1) b b1 \<and> \<not> granted demo_broker_lib (demo_id 1) b1 b1"
proof (rule demo_run)
  fix w b b1
  assume r: "store_call\<^sup>*\<^sup>* empty_db (br_db b)"
    "Wrap demo_broker_lib demo_service (demo_io 0 11) (Some (demo_wrap 1)) b =
      (\<lparr>wp_Blob = Some w, wp_Decision = Decision_Proto (Allow ''default'')\<rparr>, b1)"
  have "granted demo_broker_lib (demo_id 1) b b1"
    using granted.wrap [OF r(2)] by (simp add: demo_wrap_def GetChallengeId_def demo_envelope_def)
  with challenge_authorises_once [OF r(1) this rtranclp.rtrancl_refl] show ?thesis by blast
qed

theorem requests_audited_witness:
  "\<exists>event. br_audit (snd (Unwrap demo_broker_lib demo_service (demo_io 0 13)
     (Some \<lparr>uq_Blob = None, uq_Aad = [], uq_Evidence = None\<rparr>) (demo_broker [] []))) = [event] \<and>
   ae_Reason event = ''blob key reference is invalid''"
proof -
  let ?uq = "\<lparr>uq_Blob = None, uq_Aad = [], uq_Evidence = None\<rparr>"
  have "audit_works (demo_io 0 13)" by (simp add: audit_works_def demo_io_def ReadFull_def)
  note requests_audited [OF this, where L = demo_broker_lib and s = demo_service and uq = ?uq and b = "demo_broker [] []" and wq = "demo_wrap 1"]
  moreover have "fst (Unwrap demo_broker_lib demo_service (demo_io 0 13) (Some ?uq) (demo_broker [] [])) =
      unwrap_refused (Deny ''default'' ERROR_CODE_INVALID_REQUEST ''blob key reference is invalid'')"
    by (simp add: Unwrap_def evidenceSubject_def demo_service_def NewService_def DevelopmentEvidenceVerifier_def
        keyRefFromProto_def Let_def)
  ultimately show ?thesis
    by (auto simp: audited_def unwrap_refused_def Decision_Proto_def Deny_def demo_broker_def split: prod.splits)
qed


definition demo_second_config :: Config where
  "demo_second_config = demo_broker_config\<lparr>cf_KeyID := ''other''\<rparr>"

definition demo_second_key :: ProtectedKey where
  "demo_second_key = demo_record\<lparr>pk_Ref := \<lparr>kr_ClusterID = ''prod'', kr_KeyID = ''other'', kr_Version = 1\<rparr>\<rparr>"

lemma demo_second_run:
  "ConfigureDevelopment no_faults 9 demo_second_config demo_second_key demo_db = (Inr (), demo_db\<lparr>
    keyrings := keyrings demo_db @ [\<lparr>kg_cluster = ''prod'', kg_key = ''other'', kg_profile = ProfileDevelopment, kg_created_at = 9\<rparr>],
    key_versions := key_versions demo_db @ [\<lparr>kw_key = demo_second_key, kw_created_at = 9\<rparr>]\<rparr>)"
proof -
  let ?d1 = "demo_db\<lparr>keyrings := keyrings demo_db @
    [\<lparr>kg_cluster = ''prod'', kg_key = ''other'', kg_profile = ProfileDevelopment, kg_created_at = 9\<rparr>]\<rparr>"
  let ?d2 = "?d1\<lparr>key_versions := key_versions demo_db @ [\<lparr>kw_key = demo_second_key, kw_created_at = 9\<rparr>]\<rparr>"
  have cfg: "Profile demo_second_config = ProfileDevelopment" "cf_ClusterID demo_second_config = ''prod''"
    "cf_KeyID demo_second_config = ''other''" "DevelopmentSubjects demo_second_config = []" "Policy demo_second_config = ''default''"
    by (simp_all add: demo_second_config_def demo_broker_config_def demo_config_def Profile_def DevelopmentSubjects_def
        TrimSpace_graphic graphic_def Policy_def)
  have "ProtectedKey_Validate demo_second_key = Inr ()"
    using demo_record_valid by (simp add: demo_second_key_def demo_record_def identifier_char_def)
  then have "validateDevelopmentProtectedKey demo_second_config demo_second_key = Inr ()"
    by (simp add: validateDevelopmentProtectedKey_def cfg del: ProtectedKey_Validate_eq_Inr)
      (simp add: demo_second_key_def demo_record_def)
  moreover have "demo_second_key\<lparr>pk_Ref := (pk_Ref demo_second_key)\<lparr>kr_ClusterID := ''prod'', kr_KeyID := ''other''\<rparr>\<rparr> = demo_second_key"
    by (simp add: demo_second_key_def)
  moreover have "\<not> row_constraints (demo_db\<lparr>clusters := clusters demo_db @ [\<lparr>cl_id = ''prod'', cl_recovery_package_id = None, cl_created_at = 9\<rparr>]\<rparr>)"
    unfolding demo_db_def demo_db_run snd_conv by (simp add: row_constraints_def)
  moreover have "schema_ok ?d1" "schema_ok ?d2"
    unfolding demo_db_def demo_db_run snd_conv
    by (simp_all add: schema_eval demo_record_def demo_key_def empty_db_def demo_second_key_def)
  moreover have "\<not> row_constraints (?d2\<lparr>policies := policies demo_db @ [\<lparr>po_cluster = ''prod'', po_policy = ''default'',
      po_body = ''default-deny-with-development-subject'', po_created_at = 9\<rparr>]\<rparr>)"
    unfolding demo_db_def demo_db_run snd_conv by (simp add: row_constraints_def)
  ultimately show ?thesis
    by (simp add: ConfigureDevelopment_def cfg stmt_ignore_def tx_bind_def schema_ok_def)
qed

theorem second_keyring_blocks_cluster_witness:
  "\<exists>d. ConfigureDevelopment no_faults 9 demo_second_config demo_second_key demo_db = (Inr (), d) \<and>
     \<not> sp_Ready (Service_Status demo_service (demo_io 0 10) (Some ''prod'') d)"
proof -
  let ?d = "snd (ConfigureDevelopment no_faults 9 demo_second_config demo_second_key demo_db)"
  let ?b = "\<lparr>br_db = ?d, br_audit = []\<rparr>"
  have "store_call\<^sup>*\<^sup>* empty_db (br_db ?b)"
    by (simp, rule rtranclp.rtrancl_into_rtrancl [OF demo_reach(1)], rule store_call.configure)
  moreover have "key_view (br_db ?b) (pk_Ref demo_record) = Some demo_record" "key_view (br_db ?b) (pk_Ref demo_second_key) = Some demo_second_key"
    unfolding demo_second_run
    by (simp_all add: key_view_def demo_db_def demo_db_run kw_ref_def) (simp add: demo_second_key_def demo_record_def demo_key_def)
  ultimately have "\<not> sp_Ready (Service_Status demo_service (demo_io 0 10) (Some ''prod'') (br_db ?b))"
    using second_keyring_blocks_cluster [of ?b demo_service "pk_Ref demo_record" demo_record "pk_Ref demo_second_key" demo_second_key "''prod''"]
    by (simp add: demo_second_key_def demo_record_def demo_key_def)
  then show ?thesis using demo_second_run by simp
qed

end
