(* ===== verification/Kubernetes_Evidence.thy ===== *)
theory Kubernetes_Evidence
  imports Policy_Engine
begin

text \<open>
  The verification of Kubernetes workload evidence
  (\<^verbatim>\<open>internal/attestation/providers/kubernetes/evidence.go\<close>, \<^verbatim>\<open>verifier.go\<close>) and its adapter to the
  policy of the broker (\<^verbatim>\<open>internal/broker/kubernetes_verifier.go\<close>).

  The API server is a parameter: \<open>TokenReviewer\<close> and \<open>PodLookup\<close> are the interfaces that the HTTP
  clients of \<^verbatim>\<open>tokenreview.go\<close> and \<^verbatim>\<open>pod.go\<close> implement, \<open>None\<close> a nil interface.  The decoder of
  \<^verbatim>\<open>encoding/json\<close> for the payload is a parameter too: it gives the token or the text of its error.
\<close>

section \<open>Evidence\<close>

definition ATTESTATION_PROVIDER_TPM2_QUOTE :: int where "ATTESTATION_PROVIDER_TPM2_QUOTE = 1"

definition ATTESTATION_PROVIDER_KUBERNETES_WORKLOAD :: int where "ATTESTATION_PROVIDER_KUBERNETES_WORKLOAD = 2"

definition KubernetesEvidenceFormat :: string where
  "KubernetesEvidenceFormat = ''openbao-attested-unseal.kubernetes-workload.v1''"

definition MaxProtoPayloadSize :: nat where "MaxProtoPayloadSize = 2 ^ 20"

definition EvidencePayload_json :: "string \<Rightarrow> string" where
  "EvidencePayload_json token = json_object [json_field ''token'' (json_string token)]"

definition NewEvidenceEnvelope :: "string \<Rightarrow> string \<Rightarrow> EvidenceEnvelope" where
  "NewEvidenceEnvelope challengeID token = \<lparr>ee_Provider = ATTESTATION_PROVIDER_KUBERNETES_WORKLOAD,
     ee_Format = KubernetesEvidenceFormat, ee_Payload = bytes_of (EvidencePayload_json token),
     ee_ChallengeId = challengeID, ee_NormalizedClaims = []\<rparr>"

type_synonym token_decoder = "bytes \<Rightarrow> string + string"

definition decodeEvidencePayload :: "token_decoder \<Rightarrow> EvidenceEnvelope option \<Rightarrow> error + string" where
  "decodeEvidencePayload J envelope =
     (case envelope of
        None \<Rightarrow> Inl (ErrInvalidK8sEvidence ''evidence envelope is required'')
      | Some e \<Rightarrow>
          if ee_Provider e \<noteq> ATTESTATION_PROVIDER_KUBERNETES_WORKLOAD then
            Inl (ErrInvalidK8sEvidence ''provider is not Kubernetes workload'')
          else if ee_Format e \<noteq> KubernetesEvidenceFormat then
            Inl (ErrInvalidK8sEvidence ''unsupported evidence format'')
          else if ee_Payload e = [] then Inl (ErrInvalidK8sEvidence ''payload is required'')
          else if length (ee_Payload e) > MaxProtoPayloadSize then
            Inl (ErrInvalidK8sEvidence ''payload exceeds maximum size'')
          else (case J (ee_Payload e) of
              Inl text \<Rightarrow> Inl (ErrInvalidK8sEvidence (''decode payload: '' @ text))
            | Inr token \<Rightarrow>
                if token = [] then Inl (ErrInvalidK8sEvidence ''token is required'') else Inr token))"

section \<open>The API server\<close>

record UserInfo =
  ui_Username :: string
  ui_UID :: string
  ui_Groups :: "string list"
  ui_Extra :: "(string \<times> string list) list"

record TokenReviewStatus =
  ts_Authenticated :: bool
  ts_User :: UserInfo
  ts_Audiences :: "string list"
  ts_Error :: string

record TokenReviewRequest =
  tq_Token :: string
  tq_Audiences :: "string list"

record PodInfo =
  pi_Namespace :: string
  pi_Name :: string
  pi_UID :: string
  pi_NodeName :: string

type_synonym TokenReviewer = "TokenReviewRequest \<Rightarrow> error + TokenReviewStatus"
type_synonym PodLookup = "string \<Rightarrow> string \<Rightarrow> error + PodInfo"

text \<open>The text of the errors that a pod lookup reports, which the verifier wraps.\<close>

definition pod_error_text :: "error \<Rightarrow> string" where
  "pod_error_text e =
     (case e of ErrPodLookup detail \<Rightarrow> ''kubernetes pod lookup failed: '' @ detail | OtherErr text \<Rightarrow> text | _ \<Rightarrow> [])"

section \<open>The verifier\<close>

record VerifierConfig =
  vc_Audience :: string
  vc_Namespace :: string
  vc_ServiceAccount :: string
  vc_RequirePodBinding :: bool

record Claims =
  kc_Subject :: string
  kc_Namespace :: string
  kc_ServiceAccount :: string
  kc_Username :: string
  kc_UID :: string
  kc_Groups :: "string list"
  kc_Audiences :: "string list"
  kc_PodName :: string
  kc_PodUID :: string
  kc_NodeName :: string
  kc_NodeUID :: string

record Verifier =
  ve_Reviewer :: "TokenReviewer option"
  ve_PodLookup :: "PodLookup option"
  ve_Config :: VerifierConfig

definition parseServiceAccountUsername :: "string \<Rightarrow> error + string \<times> string" where
  "parseServiceAccountUsername username =
     (let parts = split_on CHR '':'' username in
      if length parts \<noteq> 4 \<or> parts ! 0 \<noteq> ''system'' \<or> parts ! 1 \<noteq> ''serviceaccount'' then
        Inl (ErrInvalidK8sEvidence ''username is not a service account'')
      else if parts ! 2 = [] \<or> parts ! 3 = [] then
        Inl (ErrInvalidK8sEvidence ''service account username is incomplete'')
      else Inr (parts ! 2, parts ! 3))"

definition extraPodName :: string where "extraPodName = ''authentication.kubernetes.io/pod-name''"

definition extraPodUID :: string where "extraPodUID = ''authentication.kubernetes.io/pod-uid''"

definition extraNodeName :: string where "extraNodeName = ''authentication.kubernetes.io/node-name''"

definition extraNodeUID :: string where "extraNodeUID = ''authentication.kubernetes.io/node-uid''"

definition firstExtra :: "(string \<times> string list) list \<Rightarrow> string \<Rightarrow> string" where
  "firstExtra extra key = (case map_of extra key of Some (v # _) \<Rightarrow> v | _ \<Rightarrow> [])"

definition validateServiceAccount :: "VerifierConfig \<Rightarrow> string \<Rightarrow> string \<Rightarrow> error + unit" where
  "validateServiceAccount c namespace serviceAccount =
     (if TrimSpace (vc_Namespace c) \<noteq> [] \<and> namespace \<noteq> TrimSpace (vc_Namespace c) then
        Inl (ErrInvalidK8sEvidence ''namespace is not allowed'')
      else if TrimSpace (vc_ServiceAccount c) \<noteq> [] \<and> serviceAccount \<noteq> TrimSpace (vc_ServiceAccount c) then
        Inl (ErrInvalidK8sEvidence ''service account is not allowed'')
      else Inr ())"

definition reviewToken :: "Verifier \<Rightarrow> TokenReviewer \<Rightarrow> string \<Rightarrow> error + TokenReviewStatus" where
  "reviewToken v reviewer token =
     (let audience = TrimSpace (vc_Audience (ve_Config v)) in
      reviewer \<lparr>tq_Token = token, tq_Audiences = (if audience \<noteq> [] then [audience] else [])\<rparr>)"

definition status_claims :: "TokenReviewStatus \<Rightarrow> string \<Rightarrow> string \<Rightarrow> Claims" where
  "status_claims status namespace serviceAccount =
     (let user = ts_User status in
      \<lparr>kc_Subject = namespace @ ''.'' @ serviceAccount, kc_Namespace = namespace,
       kc_ServiceAccount = serviceAccount, kc_Username = ui_Username user, kc_UID = ui_UID user,
       kc_Groups = ui_Groups user, kc_Audiences = ts_Audiences status,
       kc_PodName = firstExtra (ui_Extra user) extraPodName, kc_PodUID = firstExtra (ui_Extra user) extraPodUID,
       kc_NodeName = firstExtra (ui_Extra user) extraNodeName,
       kc_NodeUID = firstExtra (ui_Extra user) extraNodeUID\<rparr>)"

definition claimsFromStatus :: "Verifier \<Rightarrow> TokenReviewStatus \<Rightarrow> error + Claims" where
  "claimsFromStatus v status =
     (let expected = TrimSpace (vc_Audience (ve_Config v)) in
      if \<not> ts_Authenticated status \<or> ts_Error status \<noteq> [] then Inl ErrUnauthenticated
      else if expected \<noteq> [] \<and> expected \<notin> set (ts_Audiences status) then
        Inl (ErrInvalidK8sEvidence ''audience was not accepted'')
      else bindE (parseServiceAccountUsername (ui_Username (ts_User status))) (\<lambda>(namespace, serviceAccount).
        bindE (validateServiceAccount (ve_Config v) namespace serviceAccount) (\<lambda>_.
        let claims = status_claims status namespace serviceAccount in
        if vc_RequirePodBinding (ve_Config v) \<and> (kc_PodName claims = [] \<or> kc_PodUID claims = []) then
          Inl (ErrInvalidK8sEvidence ''pod-bound token claims are required'')
        else if vc_RequirePodBinding (ve_Config v) \<and> ve_PodLookup v = None \<and> kc_NodeName claims = [] then
          Inl (ErrInvalidK8sEvidence ''pod-bound token node claim is required'')
        else Inr claims)))"

definition verifyPodBinding :: "Verifier \<Rightarrow> Claims \<Rightarrow> error + Claims" where
  "verifyPodBinding v claims =
     (case ve_PodLookup v of
        None \<Rightarrow> Inr claims
      | Some lookup \<Rightarrow>
          if kc_PodName claims = [] \<or> kc_PodUID claims = [] then
            Inl (ErrInvalidK8sEvidence ''pod name and UID claims are required'')
          else (case lookup (kc_Namespace claims) (kc_PodName claims) of
              Inl err \<Rightarrow> Inl (ErrInvalidK8sEvidence (''pod lookup failed: '' @ pod_error_text err))
            | Inr pod \<Rightarrow>
                if pi_UID pod = [] then Inl (ErrInvalidK8sEvidence ''pod lookup returned no UID'')
                else if pi_UID pod \<noteq> kc_PodUID claims then
                  Inl (ErrInvalidK8sEvidence ''pod UID does not match token'')
                else if pi_NodeName pod = [] then
                  Inl (ErrInvalidK8sEvidence ''pod is not scheduled to a node'')
                else if kc_NodeName claims \<noteq> [] \<and> kc_NodeName claims \<noteq> pi_NodeName pod then
                  Inl (ErrInvalidK8sEvidence ''pod node does not match token'')
                else Inr (claims\<lparr>kc_NodeName := pi_NodeName pod\<rparr>)))"

definition optional_claim :: "string \<Rightarrow> string \<Rightarrow> (string \<times> string \<times> string) list" where
  "optional_claim name v = (if v = [] then [] else [(''kubernetes'', name, v)])"

definition KubernetesClaimsToProto :: "Claims \<Rightarrow> (string \<times> string \<times> string) list" where
  "KubernetesClaimsToProto claims =
     [(''dev'', ''subject'', kc_Subject claims), (''kubernetes'', ''namespace'', kc_Namespace claims),
      (''kubernetes'', ''service_account'', kc_ServiceAccount claims),
      (''kubernetes'', ''username'', kc_Username claims)] @
     optional_claim ''uid'' (kc_UID claims) @ optional_claim ''audiences'' (join_on CHR '','' (kc_Audiences claims)) @
     optional_claim ''pod_name'' (kc_PodName claims) @ optional_claim ''pod_uid'' (kc_PodUID claims) @
     optional_claim ''node_name'' (kc_NodeName claims) @ optional_claim ''node_uid'' (kc_NodeUID claims)"

definition KubernetesVerify :: "token_decoder \<Rightarrow> Verifier \<Rightarrow> EvidenceEnvelope option \<Rightarrow> error + EvidenceEnvelope \<times> Claims" where
  "KubernetesVerify J v envelope =
     bindE (decodeEvidencePayload J envelope) (\<lambda>token.
     case ve_Reviewer v of
       None \<Rightarrow> Inl (ErrTokenReview ''token reviewer is required'')
     | Some reviewer \<Rightarrow>
         bindE (reviewToken v reviewer token) (\<lambda>status.
         bindE (claimsFromStatus v status) (\<lambda>claims.
         bindE (verifyPodBinding v claims) (\<lambda>claims.
         Inr ((the envelope)\<lparr>ee_NormalizedClaims := KubernetesClaimsToProto claims\<rparr>, claims)))))"

section \<open>The adapter of the broker\<close>

definition NewKubernetesEvidenceVerifierWithPodLookup ::
  "TokenReviewer option \<Rightarrow> PodLookup option \<Rightarrow> KubernetesConfig \<Rightarrow> Verifier" where
  "NewKubernetesEvidenceVerifierWithPodLookup reviewer podLookup config =
     \<lparr>ve_Reviewer = reviewer, ve_PodLookup = podLookup,
      ve_Config = \<lparr>vc_Audience = k8_TokenReviewAudience config, vc_Namespace = k8_Namespace config,
        vc_ServiceAccount = k8_ServiceAccount config, vc_RequirePodBinding = RequirePodBoundToken config\<rparr>\<rparr>"

definition NewKubernetesEvidenceVerifier :: "TokenReviewer option \<Rightarrow> KubernetesConfig \<Rightarrow> Verifier" where
  "NewKubernetesEvidenceVerifier reviewer config = NewKubernetesEvidenceVerifierWithPodLookup reviewer None config"

definition KubernetesVerifyEvidence :: "token_decoder \<Rightarrow> Verifier \<Rightarrow> EvidenceVerifier" where
  "KubernetesVerifyEvidence J v evidence =
     bindE (KubernetesVerify J v evidence) (\<lambda>(_, claims).
     Inr \<lparr>vf_Subject = kc_Subject claims,
       vf_Workload = \<lparr>wl_Namespace = kc_Namespace claims, wl_ServiceAccount = kc_ServiceAccount claims,
         wl_PodName = kc_PodName claims, wl_PodUID = kc_PodUID claims,
         wl_NodeName = kc_NodeName claims, wl_NodeUID = kc_NodeUID claims\<rparr>\<rparr>)"

text \<open>
  The verifier at start-up: \<open>server\<close> is the result of finding the API server, reading the bearer
  token and building the HTTP client, which gives the two clients.
\<close>

definition newKubernetesRuntimeDependencies ::
  "error + TokenReviewer \<times> PodLookup \<Rightarrow> KubernetesConfig \<Rightarrow> error + Verifier" where
  "newKubernetesRuntimeDependencies server config =
     bindE server (\<lambda>(reviewer, pods).
     Inr (NewKubernetesEvidenceVerifierWithPodLookup (Some reviewer)
       (if RequirePodBoundToken config then Some pods else None) config))"

section \<open>What verified evidence means\<close>

lemma decodeEvidencePayload_eq_Inr:
  "decodeEvidencePayload J envelope = Inr token \<longleftrightarrow>
     (\<exists>e. envelope = Some e \<and> ee_Provider e = ATTESTATION_PROVIDER_KUBERNETES_WORKLOAD \<and>
       ee_Format e = KubernetesEvidenceFormat \<and> ee_Payload e \<noteq> [] \<and> length (ee_Payload e) \<le> MaxProtoPayloadSize \<and>
       J (ee_Payload e) = Inr token \<and> token \<noteq> [])"
  by (auto simp: decodeEvidencePayload_def split: option.splits sum.splits if_splits)

lemma parseServiceAccountUsername_eq_Inr:
  "parseServiceAccountUsername username = Inr (ns, sa) \<longleftrightarrow>
     username = ''system:serviceaccount:'' @ ns @ '':'' @ sa \<and> ns \<noteq> [] \<and> sa \<noteq> [] \<and>
     CHR '':'' \<notin> set ns \<and> CHR '':'' \<notin> set sa"
  (is "?l \<longleftrightarrow> ?r")
proof
  assume ?l
  then obtain parts where parts: "split_on CHR '':'' username = parts" "length parts = 4" "parts ! 0 = ''system''"
      "parts ! 1 = ''serviceaccount''" "parts ! 2 = ns" "parts ! 3 = sa" "ns \<noteq> []" "sa \<noteq> []"
    by (auto simp: parseServiceAccountUsername_def Let_def split: if_splits)
  then have "parts = [''system'', ''serviceaccount'', ns, sa]"
    by (auto simp: length_Suc_conv numeral_eq_Suc)
  with parts show ?r using join_split [of "CHR '':''" username] split_on_parts [of _ "CHR '':''" username] by auto
next
  assume r: ?r
  then have "split_on CHR '':'' username = [''system'', ''serviceaccount'', ns, sa]"
    using split_join [of "[''system'', ''serviceaccount'', ns, sa]" "CHR '':''"] by simp
  then show ?l using r by (simp add: parseServiceAccountUsername_def Let_def)
qed

lemma claimsFromStatus_eq_Inr:
  assumes "claimsFromStatus v status = Inr claims"
  shows "ts_Authenticated status \<and> ts_Error status = [] \<and>
    (TrimSpace (vc_Audience (ve_Config v)) = [] \<or> TrimSpace (vc_Audience (ve_Config v)) \<in> set (ts_Audiences status)) \<and>
    ui_Username (ts_User status) = ''system:serviceaccount:'' @ kc_Namespace claims @ '':'' @ kc_ServiceAccount claims \<and>
    kc_Subject claims = kc_Namespace claims @ ''.'' @ kc_ServiceAccount claims \<and>
    TrimSpace (vc_Namespace (ve_Config v)) \<in> {[], kc_Namespace claims} \<and>
    TrimSpace (vc_ServiceAccount (ve_Config v)) \<in> {[], kc_ServiceAccount claims} \<and>
    kc_PodUID claims = firstExtra (ui_Extra (ts_User status)) extraPodUID"
proof -
  from assms obtain ns sa where ok: "ts_Authenticated status" "ts_Error status = []"
      "TrimSpace (vc_Audience (ve_Config v)) = [] \<or> TrimSpace (vc_Audience (ve_Config v)) \<in> set (ts_Audiences status)"
      "parseServiceAccountUsername (ui_Username (ts_User status)) = Inr (ns, sa)"
      "validateServiceAccount (ve_Config v) ns sa = Inr ()" "claims = status_claims status ns sa"
    unfolding claimsFromStatus_def Let_def by (simp split: if_splits) blast+
  have "ui_Username (ts_User status) = ''system:serviceaccount:'' @ ns @ '':'' @ sa"
    using ok(4) unfolding parseServiceAccountUsername_eq_Inr by blast
  moreover have "TrimSpace (vc_Namespace (ve_Config v)) \<in> {[], ns}" "TrimSpace (vc_ServiceAccount (ve_Config v)) \<in> {[], sa}"
    using ok(5) by (auto simp: validateServiceAccount_def split: if_splits)
  ultimately show ?thesis using ok(1-3) by (simp add: ok(6) status_claims_def Let_def)
qed

lemma verifyPodBinding_eq_Inr:
  "verifyPodBinding v claims = Inr out \<longleftrightarrow>
     (case ve_PodLookup v of None \<Rightarrow> out = claims
      | Some lookup \<Rightarrow> kc_PodName claims \<noteq> [] \<and> kc_PodUID claims \<noteq> [] \<and>
          (\<exists>pod. lookup (kc_Namespace claims) (kc_PodName claims) = Inr pod \<and> pi_UID pod = kc_PodUID claims \<and>
             pi_NodeName pod \<noteq> [] \<and> kc_NodeName claims \<in> {[], pi_NodeName pod} \<and>
             out = claims\<lparr>kc_NodeName := pi_NodeName pod\<rparr>))"
  by (auto simp: verifyPodBinding_def split: option.splits sum.splits if_splits)

text \<open>
  The identity the policy sees was confirmed by the API server: it authenticated the token as that
  service account, and it runs the pod of the token on the node of the workload.
\<close>

definition api_confirms :: "token_decoder \<Rightarrow> Verifier \<Rightarrow> EvidenceEnvelope option \<Rightarrow> VerifiedEvidence \<Rightarrow> bool" where
  "api_confirms J v evidence verified \<longleftrightarrow>
     (\<exists>e token reviewer status. evidence = Some e \<and> J (ee_Payload e) = Inr token \<and> ve_Reviewer v = Some reviewer \<and>
       reviewToken v reviewer token = Inr status \<and> ts_Authenticated status \<and> ts_Error status = [] \<and>
       (TrimSpace (vc_Audience (ve_Config v)) = [] \<or> TrimSpace (vc_Audience (ve_Config v)) \<in> set (ts_Audiences status)) \<and>
       ui_Username (ts_User status) =
         ''system:serviceaccount:'' @ wl_Namespace (vf_Workload verified) @ '':'' @ wl_ServiceAccount (vf_Workload verified) \<and>
       vf_Subject verified = wl_Namespace (vf_Workload verified) @ ''.'' @ wl_ServiceAccount (vf_Workload verified) \<and>
       TrimSpace (vc_Namespace (ve_Config v)) \<in> {[], wl_Namespace (vf_Workload verified)} \<and>
       TrimSpace (vc_ServiceAccount (ve_Config v)) \<in> {[], wl_ServiceAccount (vf_Workload verified)} \<and>
       (\<forall>lookup. ve_PodLookup v = Some lookup \<longrightarrow>
         (\<exists>pod. lookup (wl_Namespace (vf_Workload verified)) (wl_PodName (vf_Workload verified)) = Inr pod \<and>
           pi_UID pod = firstExtra (ui_Extra (ts_User status)) extraPodUID \<and>
           wl_NodeName (vf_Workload verified) = pi_NodeName pod \<and> pi_NodeName pod \<noteq> [])))"

lemma KubernetesVerifyEvidence_confirmed:
  assumes "KubernetesVerifyEvidence J v evidence = Inr verified"
  shows "api_confirms J v evidence verified"
proof -
  from assms obtain token e reviewer status claims claims' where
    v: "evidence = Some e" "J (ee_Payload e) = Inr token" "ve_Reviewer v = Some reviewer" "reviewToken v reviewer token = Inr status"
      "claimsFromStatus v status = Inr claims" "verifyPodBinding v claims = Inr claims'"
      "verified = \<lparr>vf_Subject = kc_Subject claims', vf_Workload = \<lparr>wl_Namespace = kc_Namespace claims',
         wl_ServiceAccount = kc_ServiceAccount claims', wl_PodName = kc_PodName claims', wl_PodUID = kc_PodUID claims',
         wl_NodeName = kc_NodeName claims', wl_NodeUID = kc_NodeUID claims'\<rparr>\<rparr>"
    by (auto simp: KubernetesVerifyEvidence_def KubernetesVerify_def decodeEvidencePayload_eq_Inr split: option.splits)
  note c = claimsFromStatus_eq_Inr [OF v(5)]
  have "kc_Subject claims' = kc_Subject claims" "kc_Namespace claims' = kc_Namespace claims"
    "kc_ServiceAccount claims' = kc_ServiceAccount claims" "kc_PodName claims' = kc_PodName claims"
    using v(6) by (auto simp: verifyPodBinding_eq_Inr split: option.splits)
  with c v show ?thesis
    unfolding api_confirms_def by (intro exI [of _ e] exI [of _ token] exI [of _ reviewer] exI [of _ status])
      (auto simp: verifyPodBinding_eq_Inr)
qed

end
