(* ===== verification/Node_Admin.thy ===== *)
theory Node_Admin
  imports Broker_Service Kubernetes_Evidence
begin

text \<open>
  The administrative service of the broker (\<^verbatim>\<open>internal/broker/admin.go\<close>): challenges for node
  evidence, the verification of submitted evidence
  (\<^verbatim>\<open>internal/broker/node_evidence_verifier.go\<close>), the authorisation of publishers
  (\<^verbatim>\<open>internal/broker/node_evidence_authorization.go\<close>) and the diagnostics.

  The stores of the service are the SQLite store of the broker or nil, which the flags of
  \<open>AdminService\<close> say; \<open>peer\<close> is the raw leaf certificate of the authenticated TLS peer, if any.
  \<open>admin_lib\<close> holds the parameters: the libraries of the broker and of TPM quotes, and the decoder of
  \<^verbatim>\<open>encoding/json\<close> for TPM evidence.  A request reads \<open>io\<close> as in \<open>Policy_Engine\<close>; each definition says
  which readings it uses.
\<close>

section \<open>Submitted evidence\<close>

record admin_lib =
  al_broker :: broker_lib
  al_tpm :: tpm_lib
  al_json :: "bytes \<Rightarrow> TpmEvidence option"

definition UnmarshalEvidence :: "admin_lib \<Rightarrow> bytes \<Rightarrow> error + TpmEvidence" where
  "UnmarshalEvidence A payload =
     (case al_json A payload of
        None \<Rightarrow> Inl (ErrInvalidEvidence ''decode JSON'')
      | Some evidence \<Rightarrow> bindE (TpmEvidence_Validate evidence) (\<lambda>_. Inr evidence))"

definition maxNodeEvidencePayloadSize :: nat where "maxNodeEvidencePayloadSize = 1024 * 1024"

definition nodeEvidencePayloadHash :: "admin_lib \<Rightarrow> bytes \<Rightarrow> string" where
  "nodeEvidencePayloadHash A payload = ''sha256:'' @ hex_encode (bl_sha256 (al_broker A) payload)"

definition verifyFakeLocalSubmission :: "admin_lib \<Rightarrow> Submission \<Rightarrow> bytes \<Rightarrow> error + unit" where
  "verifyFakeLocalSubmission A submission nonce =
     (if sb_Format submission \<noteq> FormatFakeLocal then
        Inl (ErrNodeEvidenceVerification ''unsupported fake-local format'')
      else (case FakeLocalPayload (bl_sha256 (al_broker A))
          \<lparr>cr_ClusterID = sb_ClusterID submission, cr_NodeName = sb_NodeName submission,
           cr_NodeUID = sb_NodeUID submission, cr_Provider = sb_Provider submission\<rparr>
          \<lparr>nc_ID = sb_ChallengeID submission, nc_Nonce = nonce, nc_ExpiresAt = 0\<rparr> of
          Inl _ \<Rightarrow> Inl (ErrNodeEvidenceVerification ''invalid fake-local evidence'')
        | Inr expected \<Rightarrow>
            if expected \<noteq> sb_Payload submission then
              Inl (ErrNodeEvidenceVerification ''fake-local challenge mismatch'')
            else Inr ()))"

definition verifyTPMNodeEvidenceSubmission :: "admin_lib \<Rightarrow> Submission \<Rightarrow> bytes \<Rightarrow> Enrollment \<Rightarrow> error + unit" where
  "verifyTPMNodeEvidenceSubmission A submission nonce enrollment =
     (if sb_Format submission \<noteq> EvidenceFormat then
        Inl (ErrNodeEvidenceVerification ''unsupported TPM evidence format'')
      else if \<not> Enrollment_Active enrollment \<or> en_NodeName enrollment \<noteq> sb_NodeName submission \<or>
              en_ClusterID enrollment \<noteq> sb_ClusterID submission then
        Inl (ErrNodeEvidenceVerification ''node TPM policy is not enrolled'')
      else if TrimSpace (en_NodeUID enrollment) \<noteq> sb_NodeUID submission then
        Inl (ErrNodeEvidenceVerification ''node UID does not match enrollment'')
      else (case UnmarshalEvidence A (sb_Payload submission) of
          Inl _ \<Rightarrow> Inl (ErrNodeEvidenceVerification ''invalid TPM evidence'')
        | Inr evidence \<Rightarrow>
            if te_ChallengeID evidence \<noteq> sb_ChallengeID submission then
              Inl (ErrNodeEvidenceVerification ''TPM challenge ID mismatch'')
            else (case EvaluatePolicy (al_tpm A) evidence nonce (en_TPMPolicy enrollment) of
                Inl _ \<Rightarrow> Inl (ErrNodeEvidenceVerification ''TPM policy rejected evidence'')
              | Inr _ \<Rightarrow> Inr ())))"

definition verifyNodeEvidenceSubmission ::
  "admin_lib \<Rightarrow> Submission \<Rightarrow> bytes \<Rightarrow> Enrollment \<Rightarrow> error + Evidence" where
  "verifyNodeEvidenceSubmission A submission nonce enrollment =
     (if length (sb_Payload submission) > maxNodeEvidencePayloadSize then
        Inl (ErrNodeEvidenceVerification ''payload exceeds maximum size'')
      else bindE
        (if sb_Provider submission = ProviderFakeLocal then verifyFakeLocalSubmission A submission nonce
         else if sb_Provider submission = ProviderTPM2Quote then
           verifyTPMNodeEvidenceSubmission A submission nonce enrollment
         else Inl (ErrNodeEvidenceVerification ''unsupported provider''))
        (\<lambda>_. Inr \<lparr>ev_ClusterID = sb_ClusterID submission, ev_NodeName = sb_NodeName submission,
           ev_NodeUID = sb_NodeUID submission, ev_Provider = sb_Provider submission,
           ev_EvidenceHash = nodeEvidencePayloadHash A (sb_Payload submission),
           ev_CollectedAt = 0, ev_ExpiresAt = 0\<rparr>))"

section \<open>The service\<close>

record AdminService =
  ad_nodeEvidence :: bool
  ad_auditStore :: bool
  ad_audit :: bool
  ad_fsync :: bool
  ad_store :: bool
  ad_enrollments :: bool
  ad_verifier :: "EvidenceVerifier option"
  ad_challengeTTL :: duration
  ad_nodeEvidenceTTL :: duration
  ad_nodeEvidenceRetention :: duration
  ad_clusterID :: string
  ad_policyID :: string
  ad_allowFakeNodeEvidencePublish :: bool
  ad_nodeEvidencePublishProviders :: "string list"

text \<open>
  The service that \<^verbatim>\<open>NewGRPCServer\<close> registers for a service with a store, from
  \<^verbatim>\<open>adminServiceConfig\<close> through \<^verbatim>\<open>newAdminService\<close>.
\<close>

definition newAdminService :: "Config \<Rightarrow> Service \<Rightarrow> bool \<Rightarrow> AdminService" where
  "newAdminService config service nodeEvidence = \<lparr>ad_nodeEvidence = nodeEvidence, ad_auditStore = True,
     ad_audit = (cf_AuditFilePath config \<noteq> []), ad_fsync = cf_AuditFsync config, ad_store = True,
     ad_enrollments = True, ad_verifier = sv_verifier service, ad_challengeTTL = ChallengeTTL config,
     ad_nodeEvidenceTTL = NodeEvidenceTTL (cf_Kubernetes config),
     ad_nodeEvidenceRetention = NodeEvidenceRetention (cf_Kubernetes config),
     ad_clusterID = TrimSpace (cf_ClusterID config), ad_policyID = Policy config,
     ad_allowFakeNodeEvidencePublish = k8_AllowFakeNodeEvidencePublish (cf_Kubernetes config),
     ad_nodeEvidencePublishProviders = k8_NodeEvidencePublishProviders (cf_Kubernetes config)\<rparr>"

section \<open>Messages\<close>

datatype NodeEvidenceStatus = NODE_EVIDENCE_STATUS_FRESH | NODE_EVIDENCE_STATUS_STALE

record NodeEvidenceRecord =
  nd_ClusterId :: string
  nd_NodeName :: string
  nd_NodeUid :: string
  nd_ProviderId :: string
  nd_EvidenceHash :: string
  nd_CollectedUnixSeconds :: int
  nd_ExpiresUnixSeconds :: int
  nd_Status :: NodeEvidenceStatus

record NodeEvidenceChallengeRequest =
  nq_ClusterId :: string
  nq_NodeName :: string
  nq_NodeUid :: string
  nq_ProviderId :: string

record NodeEvidenceChallengeResponse =
  np_ChallengeId :: string
  np_Nonce :: bytes
  np_ExpiresUnixSeconds :: int
  np_Decision :: PolicyDecision_msg

record NodeEvidenceSubmission =
  sm_ClusterId :: string
  sm_NodeName :: string
  sm_NodeUid :: string
  sm_ProviderId :: string
  sm_Format :: string
  sm_Payload :: bytes
  sm_ChallengeId :: string
  sm_RequestedTtlSeconds :: int

record NodeEvidencePublishResponse =
  bp_Evidence :: "NodeEvidenceRecord option"
  bp_Decision :: PolicyDecision_msg

record NodeEvidenceListResponse =
  lp_Evidence :: "NodeEvidenceRecord list"
  lp_Decision :: PolicyDecision_msg

record EvidenceCheckRequest =
  eq_ClusterId :: string
  eq_Operation :: Operation
  eq_Evidence :: "EvidenceEnvelope option"

record EvidenceCheckResponse =
  ep_Decision :: PolicyDecision_msg
  ep_Subject :: string
  ep_Workload :: "WorkloadIdentity option"
  ep_NodeEvidence :: "NodeEvidenceRecord option"

section \<open>Helpers\<close>

text \<open>The constant part of the text of an error that a decision repeats.\<close>

definition err_text :: "error \<Rightarrow> string" where
  "err_text e =
     (case e of
        ErrNodeEvidenceInvalid detail \<Rightarrow> ''node evidence invalid: '' @ detail
      | ErrInvalidEnrollment detail \<Rightarrow> ''invalid node evidence enrollment: '' @ detail
      | ErrEnrollmentNotFound \<Rightarrow> ''node evidence enrollment not found''
      | ErrEnrollmentRevoked \<Rightarrow> ''node evidence enrollment revoked''
      | DbErr label \<Rightarrow> label
      | OtherErr text \<Rightarrow> text
      | _ \<Rightarrow> [])"

definition nodeEvidenceToProto :: "Evidence \<Rightarrow> time \<Rightarrow> NodeEvidenceRecord" where
  "nodeEvidenceToProto evidence now =
     \<lparr>nd_ClusterId = ev_ClusterID evidence, nd_NodeName = ev_NodeName evidence, nd_NodeUid = ev_NodeUID evidence,
      nd_ProviderId = ev_Provider evidence, nd_EvidenceHash = ev_EvidenceHash evidence,
      nd_CollectedUnixSeconds = unix_seconds (ev_CollectedAt evidence),
      nd_ExpiresUnixSeconds = unix_seconds (ev_ExpiresAt evidence),
      nd_Status = (if \<not> ev_ExpiresAt evidence > now then NODE_EVIDENCE_STATUS_STALE else NODE_EVIDENCE_STATUS_FRESH)\<rparr>"

definition acceptsNodeEvidenceCluster :: "AdminService \<Rightarrow> string \<Rightarrow> bool" where
  "acceptsNodeEvidenceCluster s clusterID \<longleftrightarrow> ad_clusterID s = [] \<or> ad_clusterID s = TrimSpace clusterID"

definition canPublishNodeEvidenceProvider :: "AdminService \<Rightarrow> string \<Rightarrow> bool" where
  "canPublishNodeEvidenceProvider s provider =
     (let providerID = TrimSpace provider in
      if providerID = [] then False
      else if providerID = ProviderFakeLocal \<and> ad_allowFakeNodeEvidencePublish s then True
      else list_ex (\<lambda>allowed. TrimSpace allowed = providerID) (ad_nodeEvidencePublishProviders s))"

definition acceptedNodeEvidenceTTL :: "AdminService \<Rightarrow> duration \<Rightarrow> duration" where
  "acceptedNodeEvidenceTTL s requested =
     (let maximum = (if ad_nodeEvidenceTTL s \<le> 0 then DefaultKubernetesNodeEvidenceTTL else ad_nodeEvidenceTTL s) in
      if requested > maximum then maximum else requested)"

definition nodeEvidenceChallengeDeny :: "string \<Rightarrow> error \<Rightarrow> PolicyDecision" where
  "nodeEvidenceChallengeDeny policyID err =
     (case err of
        ErrChallengeExpired \<Rightarrow> Deny policyID ERROR_CODE_PERMISSION_DENIED ''node evidence challenge expired''
      | ErrChallengeReplayed \<Rightarrow> Deny policyID ERROR_CODE_PERMISSION_DENIED ''node evidence challenge was replayed''
      | ErrChallengeNotFound \<Rightarrow> Deny policyID ERROR_CODE_PERMISSION_DENIED ''node evidence challenge is invalid''
      | ErrChallengeMismatch \<Rightarrow> Deny policyID ERROR_CODE_PERMISSION_DENIED ''node evidence challenge is invalid''
      | _ \<Rightarrow> Deny policyID ERROR_CODE_INTERNAL ''node evidence challenge validation failed'')"

definition nodeEvidenceChallengeSubject :: "admin_lib \<Rightarrow> NodeChallengeRequest \<Rightarrow> string \<Rightarrow> string" where
  "nodeEvidenceChallengeSubject A request publisherID =
     ''node-evidence:'' @ nodeEvidencePayloadHash A (bytes_of (join_nul
       [cr_ClusterID request, cr_NodeName request, cr_NodeUID request, cr_Provider request, publisherID]))"

definition nodeEvidenceChallengeRequestFromProto ::
  "NodeEvidenceChallengeRequest option \<Rightarrow> error + NodeChallengeRequest" where
  "nodeEvidenceChallengeRequestFromProto req =
     (case req of
        None \<Rightarrow> Inl (OtherErr ''node evidence challenge request is required'')
      | Some r \<Rightarrow> NormalizeChallengeRequest \<lparr>cr_ClusterID = nq_ClusterId r, cr_NodeName = nq_NodeName r,
          cr_NodeUID = nq_NodeUid r, cr_Provider = nq_ProviderId r\<rparr>)"

text \<open>A nil request and a request with a nil submission are both \<open>None\<close>.\<close>

definition nodeEvidenceSubmissionFromProto :: "NodeEvidenceSubmission option \<Rightarrow> error + Submission" where
  "nodeEvidenceSubmissionFromProto req =
     (case req of
        None \<Rightarrow> Inl (OtherErr ''node evidence submission is required'')
      | Some m \<Rightarrow>
          if sm_RequestedTtlSeconds m \<le> 0 \<or> sm_RequestedTtlSeconds m > 365 * 24 * 3600 then
            Inl (OtherErr ''requested_ttl_seconds is invalid'')
          else NormalizeSubmission \<lparr>sb_ClusterID = sm_ClusterId m, sb_NodeName = sm_NodeName m,
            sb_NodeUID = sm_NodeUid m, sb_Provider = sm_ProviderId m, sb_Format = sm_Format m,
            sb_Payload = sm_Payload m, sb_ChallengeID = sm_ChallengeId m,
            sb_RequestedTTL = sm_RequestedTtlSeconds m * second\<rparr>)"

section \<open>Audit\<close>

text \<open>Reads random number 2 and clock 2, writes with faults 6.\<close>

definition newNodeEvidenceAuditEvent ::
  "io \<Rightarrow> string \<Rightarrow> string \<Rightarrow> string \<Rightarrow> string \<Rightarrow> PolicyDecision \<Rightarrow> error + AuditEvent" where
  "newNodeEvidenceAuditEvent io operation clusterID nodeName hash decision =
     bindE (randomID (io_rng io 2) ''audit'') (\<lambda>auditID.
     Inr \<lparr>ae_SchemaVersion = 1, ae_AuditID = auditID, ae_Time = FormatRFC3339Nano (io_clock io 2),
       ae_Subject = nodeName, ae_Operation = operation, ae_ClusterID = clusterID, ae_KeyID = [],
       ae_KeyVersion = 0, ae_Decision = PolicyDecisionState_String (dc_State decision),
       ae_PolicyID = dc_PolicyID decision, ae_Reason = dc_Reason decision, ae_EvidenceHash = hash,
       ae_RemoteAddress = io_remote io, ae_ErrorCode = auditErrorCode decision, ae_Actor = [],
       ae_Target = [], ae_CorrelationID = [], ae_RequestID = []\<rparr>)"

definition auditNodeEvidence ::
  "AdminService \<Rightarrow> io \<Rightarrow> string \<Rightarrow> string \<Rightarrow> string \<Rightarrow> string \<Rightarrow> PolicyDecision \<Rightarrow> broker \<Rightarrow> broker" where
  "auditNodeEvidence s io operation clusterID nodeName hash decision b =
     (if \<not> ad_auditStore s \<and> \<not> ad_audit s then b
      else (case newNodeEvidenceAuditEvent io operation clusterID nodeName hash decision of
          Inl _ \<Rightarrow> b
        | Inr event \<Rightarrow>
            \<lparr>br_db = (if ad_auditStore s then snd (InsertAuditEvent (io_faults io 6) event (br_db b)) else br_db b),
             br_audit = (if ad_audit s then snd (FileAudit_Write io (ad_fsync s) event (br_audit b)) else br_audit b)\<rparr>))"

definition auditEvidenceCheck ::
  "AdminService \<Rightarrow> io \<Rightarrow> string \<Rightarrow> string \<Rightarrow> string \<Rightarrow> PolicyDecision \<Rightarrow> broker \<Rightarrow> broker" where
  "auditEvidenceCheck s io = auditNodeEvidence s io ''EVIDENCE_CHECK''"

section \<open>Authorisation of publishers\<close>

definition nodeEvidenceClientCertificateHash :: "admin_lib \<Rightarrow> bytes option \<Rightarrow> error + string" where
  "nodeEvidenceClientCertificateHash A peer =
     (case peer of
        None \<Rightarrow> Inl (OtherErr ''peer certificate is unavailable'')
      | Some raw \<Rightarrow> Inr (''sha256:'' @ hex_encode (bl_sha256 (al_broker A) raw)))"

definition no_enrollment :: Enrollment where
  "no_enrollment = \<lparr>en_ClusterID = [], en_NodeName = [], en_NodeUID = [], en_Provider = [],
     en_TPMPolicy = \<lparr>tp_Mode = [], tp_EnrolledAKPublicHash = [], tp_PCRPolicy = None, tp_ProviderProfile = []\<rparr>,
     en_PublisherCertificateHashes = [], en_Revision = 0, en_EnrolledAt = 0, en_UpdatedAt = 0, en_RevokedAt = 0\<rparr>"

text \<open>Reads the enrollment with faults 0.\<close>

definition authorizeNodeEvidencePublisher ::
  "admin_lib \<Rightarrow> AdminService \<Rightarrow> io \<Rightarrow> bytes option \<Rightarrow> string \<Rightarrow> string \<Rightarrow> string \<Rightarrow> string \<Rightarrow> db \<Rightarrow>
   (ErrorCode \<times> string) + Enrollment \<times> string" where
  "authorizeNodeEvidencePublisher A s io peer clusterID nodeName nodeUID provider d =
     (if provider \<noteq> ProviderTPM2Quote then Inr (no_enrollment, [])
      else (case nodeEvidenceClientCertificateHash A peer of
          Inl _ \<Rightarrow> Inl (ERROR_CODE_UNAUTHENTICATED,
            ''node evidence publisher requires an authenticated client certificate'')
        | Inr certificateHash \<Rightarrow>
            if \<not> ad_enrollments s then
              Inl (ERROR_CODE_INTERNAL, ''node evidence enrollment storage is not configured'')
            else (case ActiveNodeEvidenceEnrollment (io_faults io 0) clusterID nodeName d of
                Inl err \<Rightarrow>
                  if err = ErrEnrollmentNotFound \<or> err = ErrEnrollmentRevoked then
                    Inl (ERROR_CODE_PERMISSION_DENIED, ''node TPM identity is not enrolled'')
                  else Inl (ERROR_CODE_INTERNAL, ''node evidence enrollment lookup failed'')
              | Inr enrollment \<Rightarrow>
                  if en_Provider enrollment \<noteq> provider \<or> en_NodeUID enrollment \<noteq> nodeUID then
                    Inl (ERROR_CODE_PERMISSION_DENIED, ''node TPM identity is not enrolled'')
                  else if \<not> AuthorizesPublisher enrollment certificateHash then
                    Inl (ERROR_CODE_PERMISSION_DENIED, ''node evidence publisher is not authorized for this node'')
                  else Inr (enrollment, certificateHash))))"

section \<open>Challenges for node evidence\<close>

definition not_configured :: "string \<Rightarrow> PolicyDecision" where
  "not_configured policyID = Deny policyID ERROR_CODE_PERMISSION_DENIED ''node evidence cluster is not configured''"

text \<open>\<open>quote\<close> renders \<^verbatim>\<open>%q\<close>; it only enters the text of a refusal.\<close>

definition not_enabled :: "(string \<Rightarrow> string) \<Rightarrow> string \<Rightarrow> string \<Rightarrow> PolicyDecision" where
  "not_enabled quote policyID provider = Deny policyID ERROR_CODE_PERMISSION_DENIED
     (''node evidence publish provider '' @ quote provider @ '' is not enabled'')"

text \<open>Reads random numbers 0 and 1 and clock 0; the challenge is created with faults 1.\<close>

definition ChallengeNodeEvidence ::
  "admin_lib \<Rightarrow> (string \<Rightarrow> string) \<Rightarrow> AdminService \<Rightarrow> io \<Rightarrow> bytes option \<Rightarrow> NodeEvidenceChallengeRequest option \<Rightarrow>
   broker \<Rightarrow> (error + NodeEvidenceChallengeResponse) \<times> broker" where
  "ChallengeNodeEvidence A quote s io peer req b =
     (let policyID = ad_policyID s;
          refuse = (\<lambda>c n decision b.
            (Inr \<lparr>np_ChallengeId = [], np_Nonce = [], np_ExpiresUnixSeconds = 0, np_Decision = Decision_Proto decision\<rparr>,
             auditNodeEvidence s io ''NODE_EVIDENCE_CHALLENGE'' c n [] decision b)) in
      case nodeEvidenceChallengeRequestFromProto req of
        Inl err \<Rightarrow> refuse [] [] (Deny policyID ERROR_CODE_INVALID_REQUEST (err_text err)) b
      | Inr request \<Rightarrow>
          (let c = cr_ClusterID request; n = cr_NodeName request in
           if \<not> acceptsNodeEvidenceCluster s c then refuse c n (not_configured policyID) b
           else if \<not> canPublishNodeEvidenceProvider s (cr_Provider request) then
             refuse c n (not_enabled quote policyID (cr_Provider request)) b
           else (case authorizeNodeEvidencePublisher A s io peer c n (cr_NodeUID request) (cr_Provider request) (br_db b) of
               Inl (code, message) \<Rightarrow> refuse c n (Deny policyID code message) b
             | Inr (_, publisherID) \<Rightarrow>
                 (case randomID (io_rng io 0) ''node_chal'' of Inl err \<Rightarrow> (Inl err, b)
                  | Inr challengeID \<Rightarrow>
                      (case randomNonce (io_rng io 1) of Inl err \<Rightarrow> (Inl err, b)
                       | Inr nonce \<Rightarrow>
                           (let now = io_clock io 0;
                                ttl = (if ad_challengeTTL s \<le> 0 then DefaultChallengeTTL else ad_challengeTTL s);
                                expiresAt = now + ttl in
                            case CreateChallenge (io_faults io 1) \<lparr>chal_ID = challengeID, chal_Nonce = nonce,
                                chal_ClusterID = c, chal_Subject = nodeEvidenceChallengeSubject A request publisherID,
                                chal_Operation = OPERATION_ENROLL, chal_ExpiresAt = expiresAt, chal_CreatedAt = now\<rparr>
                                (br_db b) of
                              (Inl _, d) \<Rightarrow>
                                refuse c n (Deny policyID ERROR_CODE_INTERNAL ''node evidence challenge failed'') (b\<lparr>br_db := d\<rparr>)
                            | (Inr _, d) \<Rightarrow>
                                (Inr \<lparr>np_ChallengeId = challengeID, np_Nonce = nonce,
                                   np_ExpiresUnixSeconds = unix_seconds expiresAt,
                                   np_Decision = Decision_Proto (Allow policyID)\<rparr>,
                                 auditNodeEvidence s io ''NODE_EVIDENCE_CHALLENGE'' c n [] (Allow policyID)
                                   (b\<lparr>br_db := d\<rparr>))))))))"

section \<open>Publication of node evidence\<close>

text \<open>Reads clocks 3 and 8 with faults 3.\<close>

definition pruneNodeEvidence :: "AdminService \<Rightarrow> io \<Rightarrow> string \<Rightarrow> db \<Rightarrow> (error + unit) \<times> db" where
  "pruneNodeEvidence s io clusterID d =
     (if \<not> ad_nodeEvidence s then (Inr (), d)
      else let retention = (if ad_nodeEvidenceRetention s \<le> 0 then DefaultKubernetesNodeEvidenceRetention
             else ad_nodeEvidenceRetention s) in
        (case PruneNodeEvidence (io_faults io 3) (io_clock io 8) clusterID (io_clock io 3 - retention) d of
           (Inl err, d') \<Rightarrow> (Inl err, d')
         | (Inr _, d') \<Rightarrow> (Inr (), d')))"

definition storeNodeEvidence ::
  "io \<Rightarrow> Evidence \<Rightarrow> u64 \<Rightarrow> db \<Rightarrow> (error + unit) \<times> db" where
  "storeNodeEvidence io evidence revision =
     (if ev_Provider evidence = ProviderTPM2Quote then
        PutEnrolledNodeEvidence (io_faults io 4) (io_clock io 4) evidence revision
      else PutNodeEvidence (io_faults io 4) (io_clock io 4) evidence)"

definition publish_error :: "string \<Rightarrow> error \<Rightarrow> PolicyDecision" where
  "publish_error policyID err =
     (if err = ErrEnrollmentChanged then
        Deny policyID ERROR_CODE_PERMISSION_DENIED ''node evidence enrollment changed during verification''
      else Deny policyID ERROR_CODE_INVALID_REQUEST (err_text err))"

text \<open>
  Reads clock 0 for the challenge and the times of the evidence and clock 5 for the response; the
  nonce is read with faults 1 and the challenge consumed with faults 2.
\<close>

definition PublishNodeEvidence ::
  "admin_lib \<Rightarrow> (string \<Rightarrow> string) \<Rightarrow> AdminService \<Rightarrow> io \<Rightarrow> bytes option \<Rightarrow> NodeEvidenceSubmission option \<Rightarrow> broker \<Rightarrow>
   NodeEvidencePublishResponse \<times> broker" where
  "PublishNodeEvidence A quote s io peer req b =
     (let policyID = ad_policyID s;
          refuse = (\<lambda>c n hash decision b. (\<lparr>bp_Evidence = None, bp_Decision = Decision_Proto decision\<rparr>,
            auditNodeEvidence s io ''NODE_EVIDENCE_PUBLISH'' c n hash decision b)) in
      if \<not> ad_nodeEvidence s then
        refuse [] [] [] (Deny policyID ERROR_CODE_INTERNAL ''node evidence storage is not configured'') b
      else (case nodeEvidenceSubmissionFromProto req of
          Inl err \<Rightarrow> refuse [] [] [] (Deny policyID ERROR_CODE_INVALID_REQUEST (err_text err)) b
        | Inr sub \<Rightarrow>
            (let c = sb_ClusterID sub; n = sb_NodeName sub; hash = nodeEvidencePayloadHash A (sb_Payload sub) in
             if \<not> acceptsNodeEvidenceCluster s c then refuse c n hash (not_configured policyID) b
             else if \<not> canPublishNodeEvidenceProvider s (sb_Provider sub) then
               refuse c n hash (not_enabled quote policyID (sb_Provider sub)) b
             else (case authorizeNodeEvidencePublisher A s io peer c n (sb_NodeUID sub) (sb_Provider sub) (br_db b) of
                 Inl (code, message) \<Rightarrow> refuse c n hash (Deny policyID code message) b
               | Inr (enrollment, publisherID) \<Rightarrow>
                   (let subject = nodeEvidenceChallengeSubject A \<lparr>cr_ClusterID = c, cr_NodeName = n,
                          cr_NodeUID = sb_NodeUID sub, cr_Provider = sb_Provider sub\<rparr> publisherID;
                        now = io_clock io 0 in
                    case ChallengeNonce (io_faults io 1) (sb_ChallengeID sub) c subject OPERATION_ENROLL now (br_db b) of
                      Inl err \<Rightarrow> refuse c n hash (nodeEvidenceChallengeDeny policyID err) b
                    | Inr nonce \<Rightarrow>
                        (case verifyNodeEvidenceSubmission A sub nonce enrollment of
                           Inl _ \<Rightarrow> refuse c n hash
                             (Deny policyID ERROR_CODE_ATTESTATION_FAILED ''node evidence verification failed'') b
                         | Inr verified \<Rightarrow>
                             (case ConsumeChallenge (io_faults io 2) (sb_ChallengeID sub) c subject OPERATION_ENROLL now (br_db b) of
                                (Inl err, d) \<Rightarrow> refuse c n hash (nodeEvidenceChallengeDeny policyID err) (b\<lparr>br_db := d\<rparr>)
                              | (Inr _, d) \<Rightarrow>
                                  (let evidence = verified\<lparr>ev_CollectedAt := now,
                                         ev_ExpiresAt := now + acceptedNodeEvidenceTTL s (sb_RequestedTTL sub)\<rparr> in
                                   case pruneNodeEvidence s io c d of
                                     (Inl _, d) \<Rightarrow> refuse c n hash
                                       (Deny policyID ERROR_CODE_INTERNAL ''node evidence cleanup failed'') (b\<lparr>br_db := d\<rparr>)
                                   | (Inr _, d) \<Rightarrow>
                                       (case storeNodeEvidence io evidence (en_Revision enrollment) d of
                                          (Inl err, d) \<Rightarrow> refuse c n hash (publish_error policyID err) (b\<lparr>br_db := d\<rparr>)
                                        | (Inr _, d) \<Rightarrow>
                                            (\<lparr>bp_Evidence = Some (nodeEvidenceToProto evidence (io_clock io 5)),
                                              bp_Decision = Decision_Proto (Allow policyID)\<rparr>,
                                             auditNodeEvidence s io ''NODE_EVIDENCE_PUBLISH'' c n hash (Allow policyID)
                                               (b\<lparr>br_db := d\<rparr>)))))))))))"

section \<open>Diagnostics\<close>

definition Admin_Status :: "AdminService \<Rightarrow> bool \<times> string" where
  "Admin_Status s =
     (if \<not> ad_nodeEvidence s then (False, ''admin node evidence APIs require Kubernetes node evidence storage'')
      else (True, ''admin node evidence APIs are available''))"

text \<open>A request is the cluster and the node name; the records are read with faults 4 at clock 5.\<close>

definition Admin_ListNodeEvidence ::
  "AdminService \<Rightarrow> io \<Rightarrow> (string \<times> string) option \<Rightarrow> broker \<Rightarrow> NodeEvidenceListResponse \<times> broker" where
  "Admin_ListNodeEvidence s io req b =
     (let policyID = ad_policyID s;
          answer = (\<lambda>c n out decision b. (\<lparr>lp_Evidence = out, lp_Decision = Decision_Proto decision\<rparr>,
            auditNodeEvidence s io ''NODE_EVIDENCE_LIST'' c n [] decision b)) in
      if \<not> ad_nodeEvidence s then
        answer [] [] [] (Deny policyID ERROR_CODE_INTERNAL ''node evidence storage is not configured'') b
      else (case req of
          None \<Rightarrow> answer [] [] [] (Deny policyID ERROR_CODE_INVALID_REQUEST ''cluster_id is required'') b
        | Some (c, n) \<Rightarrow>
            if c = [] then answer [] [] [] (Deny policyID ERROR_CODE_INVALID_REQUEST ''cluster_id is required'') b
            else (case pruneNodeEvidence s io c (br_db b) of
                (Inl _, d) \<Rightarrow>
                  answer c n [] (Deny policyID ERROR_CODE_INTERNAL ''node evidence cleanup failed'') (b\<lparr>br_db := d\<rparr>)
              | (Inr _, d) \<Rightarrow>
                  (case ListNodeEvidence (io_faults io 4) c n d of
                     Inl err \<Rightarrow>
                       answer c n [] (if err = ErrNodeEvidenceNotFound then
                           Deny policyID ERROR_CODE_ATTESTATION_FAILED ''node evidence is missing''
                         else Deny policyID ERROR_CODE_INTERNAL ''node evidence lookup failed'') (b\<lparr>br_db := d\<rparr>)
                   | Inr records \<Rightarrow>
                       answer c n (map (\<lambda>e. nodeEvidenceToProto e (io_clock io 5)) records) (Allow policyID)
                         (b\<lparr>br_db := d\<rparr>)))))"

fun Contains :: "string \<Rightarrow> string \<Rightarrow> bool" where
  "Contains [] f \<longleftrightarrow> f = []"
| "Contains (x # xs) f \<longleftrightarrow> HasPrefix (x # xs) f \<or> Contains xs f"

definition safeEvidenceCheckReasons :: "(string \<times> string) list" where
  "safeEvidenceCheckReasons =
    [(''audience was not accepted'', ''kubernetes token audience was not accepted''),
     (''namespace is not allowed'', ''kubernetes namespace is not allowed''),
     (''service account is not allowed'', ''kubernetes service account is not allowed''),
     (''token is required'', ''kubernetes token is required''),
     (''pod-bound token claims are required'', ''pod-bound token claims are required''),
     (''pod-bound token node claim is required'', ''pod-bound token node claim is required''),
     (''pod name and UID claims are required'', ''pod name and UID claims are required''),
     (''pod lookup failed'', ''kubernetes pod lookup failed''),
     (''pod UID does not match token'', ''pod UID does not match token''),
     (''pod node does not match token'', ''pod node does not match token''),
     (''pod is not scheduled to a node'', ''pod is not scheduled to a node''),
     (''username is not a service account'', ''kubernetes username is not a service account''),
     (''service account username is incomplete'', ''kubernetes service account username is incomplete''),
     (''provider is not Kubernetes workload'', ''evidence provider is not Kubernetes workload''),
     (''unsupported evidence format'', ''unsupported Kubernetes evidence format''),
     (''payload is required'', ''evidence payload is required''),
     (''payload exceeds maximum size'', ''evidence payload exceeds maximum size''),
     (''decode payload'', ''evidence payload could not be decoded'')]"

definition safeEvidenceCheckReason :: "string \<Rightarrow> string" where
  "safeEvidenceCheckReason message =
     (case find (\<lambda>(fragment, _). Contains message fragment) safeEvidenceCheckReasons of
        Some (_, reason) \<Rightarrow> reason
      | None \<Rightarrow> ''attestation verification failed'')"

definition evidenceCheckVerificationDeny :: "string \<Rightarrow> error \<Rightarrow> PolicyDecision" where
  "evidenceCheckVerificationDeny policyID err =
     (case err of
        ErrTokenReview _ \<Rightarrow> Deny policyID ERROR_CODE_BROKER_UNAVAILABLE ''kubernetes tokenreview failed''
      | ErrUnauthenticated \<Rightarrow> Deny policyID ERROR_CODE_UNAUTHENTICATED ''kubernetes token is not authenticated''
      | ErrInvalidK8sEvidence detail \<Rightarrow> Deny policyID ERROR_CODE_ATTESTATION_FAILED
          (safeEvidenceCheckReason (''invalid Kubernetes workload evidence: '' @ detail))
      | _ \<Rightarrow> Deny policyID ERROR_CODE_ATTESTATION_FAILED ''attestation verification failed'')"

definition workloadIdentityToProto :: "WorkloadIdentity \<Rightarrow> WorkloadIdentity option" where
  "workloadIdentityToProto workload = (if workload = no_workload then None else Some workload)"

text \<open>Reads with faults 2 at clock 5.\<close>

definition diagnosticNodeEvidence :: "AdminService \<Rightarrow> io \<Rightarrow> string \<Rightarrow> string \<Rightarrow> db \<Rightarrow> NodeEvidenceRecord option" where
  "diagnosticNodeEvidence s io clusterID nodeName d =
     (if \<not> ad_nodeEvidence s \<or> TrimSpace nodeName = [] then None
      else (case LoadNodeEvidence (io_faults io 2) d clusterID nodeName of
          Inl _ \<Rightarrow> None
        | Inr evidence \<Rightarrow> Some (nodeEvidenceToProto evidence (io_clock io 5))))"

definition CheckEvidence ::
  "admin_lib \<Rightarrow> AdminService \<Rightarrow> io \<Rightarrow> EvidenceCheckRequest option \<Rightarrow> broker \<Rightarrow> EvidenceCheckResponse \<times> broker" where
  "CheckEvidence A s io req b =
     (let policyID = ad_policyID s;
          refuse = (\<lambda>c ev decision. (\<lparr>ep_Decision = Decision_Proto decision, ep_Subject = [], ep_Workload = None,
            ep_NodeEvidence = None\<rparr>, auditEvidenceCheck s io c [] (evidenceHash (al_broker A) ev) decision b)) in
      case req of
        None \<Rightarrow> refuse [] None (Deny policyID ERROR_CODE_INVALID_REQUEST ''cluster_id and evidence are required'')
      | Some r \<Rightarrow>
          if TrimSpace (eq_ClusterId r) = [] \<or> eq_Evidence r = None then
            refuse [] (eq_Evidence r) (Deny policyID ERROR_CODE_INVALID_REQUEST ''cluster_id and evidence are required'')
          else let clusterID = TrimSpace (eq_ClusterId r) in
          if \<not> ad_store s then
            refuse clusterID (eq_Evidence r) (Deny policyID ERROR_CODE_INTERNAL ''policy store is not configured'')
          else (case (case ad_verifier s of None \<Rightarrow> DevelopmentEvidenceVerifier | Some v \<Rightarrow> v) (eq_Evidence r) of
              Inl err \<Rightarrow> refuse clusterID (eq_Evidence r) (evidenceCheckVerificationDeny policyID err)
            | Inr verified \<Rightarrow>
                (let operation = (if eq_Operation r = OPERATION_UNSPECIFIED then OPERATION_WRAP else eq_Operation r);
                     engine = (NewPolicyEngine policyID)\<lparr>pe_nodeEvidence :=
                       (if ad_nodeEvidence s then Some (\<lambda>F. FreshNodeEvidence F 0) else None)\<rparr>;
                     decision = evaluateSubjectAndNodeEvidence engine io \<lparr>pr_ClusterID = clusterID,
                       pr_Subject = vf_Subject verified, pr_Workload = vf_Workload verified,
                       pr_Operation = operation, pr_ChallengeID = [], pr_KeyRef = no_ref\<rparr> (br_db b);
                     nodeName = wl_NodeName (vf_Workload verified) in
                 (\<lparr>ep_Decision = Decision_Proto decision, ep_Subject = vf_Subject verified,
                   ep_Workload = workloadIdentityToProto (vf_Workload verified),
                   ep_NodeEvidence = diagnosticNodeEvidence s io clusterID nodeName (br_db b)\<rparr>,
                  auditEvidenceCheck s io clusterID nodeName (evidenceHash (al_broker A) (eq_Evidence r)) decision b))))"

section \<open>What published evidence has passed\<close>

lemma nodeEvidenceChallengeDeny_state [simp]: "\<not> Allowed (nodeEvidenceChallengeDeny p err)"
  by (simp add: nodeEvidenceChallengeDeny_def split: error.splits)

lemma refusals [simp]: "\<not> Allowed (not_configured p)" "\<not> Allowed (not_enabled q p v)" "\<not> Allowed (publish_error p err)"
  by (simp_all add: not_configured_def not_enabled_def publish_error_def)

text \<open>The challenge subject that binds a submission to its node and to the certificate of its publisher.\<close>

definition submission_subject :: "admin_lib \<Rightarrow> Submission \<Rightarrow> string \<Rightarrow> string" where
  "submission_subject A sub publisherID = nodeEvidenceChallengeSubject A \<lparr>cr_ClusterID = sb_ClusterID sub,
     cr_NodeName = sb_NodeName sub, cr_NodeUID = sb_NodeUID sub, cr_Provider = sb_Provider sub\<rparr> publisherID"

lemma Publish_allowed:
  assumes "PublishNodeEvidence A quote s io peer req b = (resp, b')"
    and "dm_State (bp_Decision resp) = POLICY_DECISION_STATE_ALLOW"
  obtains sub enrollment publisherID nonce verified d1 d2 d3 where
    "ad_nodeEvidence s" "nodeEvidenceSubmissionFromProto req = Inr sub"
    "acceptsNodeEvidenceCluster s (sb_ClusterID sub)" "canPublishNodeEvidenceProvider s (sb_Provider sub)"
    "authorizeNodeEvidencePublisher A s io peer (sb_ClusterID sub) (sb_NodeName sub) (sb_NodeUID sub) (sb_Provider sub) (br_db b) =
       Inr (enrollment, publisherID)"
    "ChallengeNonce (io_faults io 1) (sb_ChallengeID sub) (sb_ClusterID sub) (submission_subject A sub publisherID)
       OPERATION_ENROLL (io_clock io 0) (br_db b) = Inr nonce"
    "verifyNodeEvidenceSubmission A sub nonce enrollment = Inr verified"
    "ConsumeChallenge (io_faults io 2) (sb_ChallengeID sub) (sb_ClusterID sub) (submission_subject A sub publisherID)
       OPERATION_ENROLL (io_clock io 0) (br_db b) = (Inr (), d1)"
    "pruneNodeEvidence s io (sb_ClusterID sub) d1 = (Inr (), d2)"
    "storeNodeEvidence io (verified\<lparr>ev_CollectedAt := io_clock io 0,
       ev_ExpiresAt := io_clock io 0 + acceptedNodeEvidenceTTL s (sb_RequestedTTL sub)\<rparr>) (en_Revision enrollment) d2 = (Inr (), d3)"
    "b' = auditNodeEvidence s io ''NODE_EVIDENCE_PUBLISH'' (sb_ClusterID sub) (sb_NodeName sub)
       (nodeEvidencePayloadHash A (sb_Payload sub)) (Allow (ad_policyID s)) (b\<lparr>br_db := d3\<rparr>)"
  using assms
  by (auto simp: PublishNodeEvidence_def Let_def submission_subject_def split: if_splits sum.splits prod.splits)

lemma nodeEvidenceSubmissionFromProto_eq_Inr:
  "nodeEvidenceSubmissionFromProto req = Inr sub \<Longrightarrow> \<exists>m. req = Some m \<and> sb_Provider sub = TrimSpace (sm_ProviderId m) \<and>
     TrimSpace (sb_ClusterID sub) = sb_ClusterID sub \<and> TrimSpace (sb_NodeName sub) = sb_NodeName sub \<and>
     sb_ClusterID sub \<noteq> [] \<and> sb_NodeName sub \<noteq> [] \<and> 0 < sb_RequestedTTL sub"
  by (auto simp: nodeEvidenceSubmissionFromProto_def NormalizeSubmission_def Let_def split: option.splits if_splits)

lemma authorize_tpm:
  assumes "authorizeNodeEvidencePublisher A s io peer c n uid ProviderTPM2Quote d = Inr (enrollment, publisherID)"
  shows "\<exists>raw. peer = Some raw \<and> publisherID = ''sha256:'' @ hex_encode (bl_sha256 (al_broker A) raw) \<and>
    ActiveNodeEvidenceEnrollment (io_faults io 0) c n d = Inr enrollment \<and> en_Provider enrollment = ProviderTPM2Quote \<and>
    en_NodeUID enrollment = uid \<and> AuthorizesPublisher enrollment publisherID"
  using assms
  by (auto simp: authorizeNodeEvidencePublisher_def nodeEvidenceClientCertificateHash_def split: option.splits sum.splits if_splits)

lemma verify_tpm:
  assumes "verifyNodeEvidenceSubmission A sub nonce enrollment = Inr verified" and "sb_Provider sub = ProviderTPM2Quote"
  shows "\<exists>e claims. al_json A (sb_Payload sub) = Some e \<and> te_ChallengeID e = sb_ChallengeID sub \<and>
    EvaluatePolicy (al_tpm A) e nonce (en_TPMPolicy enrollment) = Inr claims \<and> Enrollment_Active enrollment \<and>
    verified = \<lparr>ev_ClusterID = sb_ClusterID sub, ev_NodeName = sb_NodeName sub, ev_NodeUID = sb_NodeUID sub,
      ev_Provider = ProviderTPM2Quote, ev_EvidenceHash = nodeEvidencePayloadHash A (sb_Payload sub),
      ev_CollectedAt = 0, ev_ExpiresAt = 0\<rparr>"
proof -
  have "ProviderTPM2Quote \<noteq> ProviderFakeLocal" by (simp add: ProviderTPM2Quote_def ProviderFakeLocal_def)
  with assms show ?thesis
    by (auto simp: verifyNodeEvidenceSubmission_def verifyTPMNodeEvidenceSubmission_def UnmarshalEvidence_def
        split: if_splits sum.splits option.splits)
qed

lemma active_enrollment_pins_key:
  assumes "ActiveNodeEvidenceEnrollment F c n d = Inr enrollment"
  shows "tp_EnrolledAKPublicHash (en_TPMPolicy enrollment) \<noteq> []"
  using assms unfolding ActiveNodeEvidenceEnrollment_def NormalizeEnrollment_def Let_def
  by (auto simp: NormalizeEnrollmentRequest_eq_Inr split: if_splits)

text \<open>The quote is signed, over the nonce, by the attestation key of the enrollment.\<close>

lemma pinned_quote:
  assumes "EvaluatePolicy T e nonce p = Inr claims" and "tp_EnrolledAKPublicHash p \<noteq> []"
  shows "ak_signed T e \<and> tp_EnrolledAKPublicHash p = PublicDigest T (te_AKPublic e) \<and>
    (\<exists>att. lib_DecodeAttestationData T (te_Quote e) = Some att \<and> att_is_quote att \<and> att_ExtraData att = nonce)"
  using assms unfolding EvaluatePolicy_eq_Inr VerifyQuote_eq_Inr by auto

lemma auditNodeEvidence_keeps:
  assumes "schema_ok (br_db b)"
  shows "same_trust (br_db b) (br_db (auditNodeEvidence s io op c n h dec b))"
    "same_keys (br_db b) (br_db (auditNodeEvidence s io op c n h dec b))"
proof -
  have "same_trust (br_db b) (br_db b)" "same_keys (br_db b) (br_db b)" using assms by (simp_all add: same_trust_def same_keys_def)
  then show "same_trust (br_db b) (br_db (auditNodeEvidence s io op c n h dec b))"
    "same_keys (br_db b) (br_db (auditNodeEvidence s io op c n h dec b))"
    using log_methods_keep_trust [OF assms] log_methods_keep_keys [OF assms]
    by (auto simp: auditNodeEvidence_def split: sum.splits)
qed

lemma auditNodeEvidence_runs:
  "store_call\<^sup>*\<^sup>* d (br_db b) \<Longrightarrow> store_call\<^sup>*\<^sup>* d (br_db (auditNodeEvidence s io op c n h dec b))"
  using store_call.insert_audit_event [of "br_db b" "io_faults io 6"]
  by (auto simp: auditNodeEvidence_def split: sum.splits intro: rtranclp.rtrancl_into_rtrancl)

lemma prune_runs: "pruneNodeEvidence s io c d = (r, d') \<Longrightarrow> store_call\<^sup>*\<^sup>* d d'"
  using store_call.prune_evidence [of d "io_faults io 3" "io_clock io 8" c]
  by (auto simp: pruneNodeEvidence_def Let_def split: if_splits prod.splits sum.splits) (metis r_into_rtranclp snd_conv)+

lemma store_runs: "storeNodeEvidence io evidence v d = (r, d') \<Longrightarrow> store_call\<^sup>*\<^sup>* d d'"
  using store_call.put_enrolled_evidence [of d "io_faults io 4" "io_clock io 4" evidence v]
    store_call.put_evidence [of d "io_faults io 4" "io_clock io 4" evidence]
  by (auto simp: storeNodeEvidence_def split: if_splits)

text \<open>What storing the verified evidence of an enrolled node leaves.\<close>

lemma stored_tpm_evidence:
  assumes "storeNodeEvidence io e v d = (Inr (), d')" and "ev_Provider e = ProviderTPM2Quote"
    and "TrimSpace (ev_ClusterID e) = ev_ClusterID e" and "TrimSpace (ev_NodeName e) = ev_NodeName e"
  shows "\<exists>row. evidence_row d' (ev_ClusterID e, ev_NodeName e) = Some row \<and> nv_revision row = Some (uint v) \<and>
    nv_expires_at row = ev_ExpiresAt e \<and> schema_ok d'"
proof -
  have "PutEnrolledNodeEvidence (io_faults io 4) (io_clock io 4) e v d = (Inr (), d')"
    using assms(1,2) by (simp add: storeNodeEvidence_def)
  from PutEnrolledNodeEvidence_cases [OF this] obtain n where
    n: "Normalize e = Inr n" "schema_ok d'"
      "evidence_row d' = (evidence_row d)((ev_ClusterID n, ev_NodeName n) \<mapsto> evidence_row_of n (io_clock io 4) (Some (uint v)))"
    by auto
  have "ev_ClusterID n = ev_ClusterID e" "ev_NodeName n = ev_NodeName e" "ev_ExpiresAt n = ev_ExpiresAt e"
    using n(1) assms(3,4) by (auto simp: Normalize_eq_Inr trim_evidence_def)
  then show ?thesis using n by (auto simp: evidence_row_of_def)
qed

text \<open>
  C5. TPM evidence becomes trusted only by attestation: a published submission came over a
  connection with a certificate that the active enrollment of the node authorises, answered a
  challenge issued to that node and that certificate which was neither expired nor used before, and
  carried a quote over the nonce of the challenge signed by the enrolled attestation key.  The
  stored evidence names the revision of that enrollment and expires within the accepted lifetime,
  and the challenge is spent.
\<close>

theorem published_tpm_evidence_attested:
  assumes "store_call\<^sup>*\<^sup>* empty_db (br_db b)" and "PublishNodeEvidence A quote s io peer (Some m) b = (resp, b')"
    and "dm_State (bp_Decision resp) = POLICY_DECISION_STATE_ALLOW" and "TrimSpace (sm_ProviderId m) = ProviderTPM2Quote"
  shows "\<exists>sub raw enrollment issued e row. nodeEvidenceSubmissionFromProto (Some m) = Inr sub \<and> peer = Some raw \<and>
    ActiveNodeEvidenceEnrollment (io_faults io 0) (sb_ClusterID sub) (sb_NodeName sub) (br_db b) = Inr enrollment \<and>
    AuthorizesPublisher enrollment (''sha256:'' @ hex_encode (bl_sha256 (al_broker A) raw)) \<and>
    sql_view (br_db b) (sb_ChallengeID sub) = Some issued \<and> \<not> is_consumed issued \<and> io_clock io 0 < is_expires issued \<and>
    is_subject issued = submission_subject A sub (''sha256:'' @ hex_encode (bl_sha256 (al_broker A) raw)) \<and>
    sb_ChallengeID sub \<in> spent_challenges (br_db b') \<and>
    al_json A (sb_Payload sub) = Some e \<and> te_ChallengeID e = sb_ChallengeID sub \<and> ak_signed (al_tpm A) e \<and>
    tp_EnrolledAKPublicHash (en_TPMPolicy enrollment) = PublicDigest (al_tpm A) (te_AKPublic e) \<and>
    (\<exists>att. lib_DecodeAttestationData (al_tpm A) (te_Quote e) = Some att \<and> att_is_quote att \<and> att_ExtraData att = is_nonce issued) \<and>
    evidence_row (br_db b') (sb_ClusterID sub, sb_NodeName sub) = Some row \<and>
    nv_revision row = Some (uint (en_Revision enrollment)) \<and>
    nv_expires_at row = io_clock io 0 + acceptedNodeEvidenceTTL s (sb_RequestedTTL sub)"
proof (rule Publish_allowed [OF assms(2,3)])
  fix sub enrollment publisherID nonce verified d1 d2 d3
  assume sub: "nodeEvidenceSubmissionFromProto (Some m) = Inr sub"
    and auth: "authorizeNodeEvidencePublisher A s io peer (sb_ClusterID sub) (sb_NodeName sub) (sb_NodeUID sub) (sb_Provider sub) (br_db b) =
       Inr (enrollment, publisherID)"
    and nonce: "ChallengeNonce (io_faults io 1) (sb_ChallengeID sub) (sb_ClusterID sub) (submission_subject A sub publisherID)
       OPERATION_ENROLL (io_clock io 0) (br_db b) = Inr nonce"
    and ver: "verifyNodeEvidenceSubmission A sub nonce enrollment = Inr verified"
    and cons: "ConsumeChallenge (io_faults io 2) (sb_ChallengeID sub) (sb_ClusterID sub) (submission_subject A sub publisherID)
       OPERATION_ENROLL (io_clock io 0) (br_db b) = (Inr (), d1)"
    and prune: "pruneNodeEvidence s io (sb_ClusterID sub) d1 = (Inr (), d2)"
    and stored: "storeNodeEvidence io (verified\<lparr>ev_CollectedAt := io_clock io 0,
       ev_ExpiresAt := io_clock io 0 + acceptedNodeEvidenceTTL s (sb_RequestedTTL sub)\<rparr>) (en_Revision enrollment) d2 = (Inr (), d3)"
    and b': "b' = auditNodeEvidence s io ''NODE_EVIDENCE_PUBLISH'' (sb_ClusterID sub) (sb_NodeName sub)
       (nodeEvidencePayloadHash A (sb_Payload sub)) (Allow (ad_policyID s)) (b\<lparr>br_db := d3\<rparr>)"
  have tpm: "sb_Provider sub = ProviderTPM2Quote" "TrimSpace (sb_ClusterID sub) = sb_ClusterID sub" "TrimSpace (sb_NodeName sub) = sb_NodeName sub"
    using nodeEvidenceSubmissionFromProto_eq_Inr [OF sub] assms(4) by auto
  from authorize_tpm [OF auth [unfolded tpm(1)]] obtain raw where raw: "peer = Some raw"
    "publisherID = ''sha256:'' @ hex_encode (bl_sha256 (al_broker A) raw)"
    "ActiveNodeEvidenceEnrollment (io_faults io 0) (sb_ClusterID sub) (sb_NodeName sub) (br_db b) = Inr enrollment"
    "AuthorizesPublisher enrollment publisherID" by blast
  from ChallengeNonce_success [OF nonce] obtain issued where "accept (sb_ClusterID sub) (submission_subject A sub publisherID)
      OPERATION_ENROLL (io_clock io 0) (sql_view (br_db b) (sb_ChallengeID sub)) = Inr issued" "nonce = is_nonce issued" by blast
  then have issued: "sql_view (br_db b) (sb_ChallengeID sub) = Some issued" "\<not> is_consumed issued" "io_clock io 0 < is_expires issued"
    "is_subject issued = submission_subject A sub publisherID" "nonce = is_nonce issued" by (auto simp: accept_eq_Inr)
  from verify_tpm [OF ver tpm(1)] obtain e claims where e: "al_json A (sb_Payload sub) = Some e" "te_ChallengeID e = sb_ChallengeID sub"
      "EvaluatePolicy (al_tpm A) e nonce (en_TPMPolicy enrollment) = Inr claims"
    and v: "ev_Provider verified = ProviderTPM2Quote" "ev_ClusterID verified = sb_ClusterID sub" "ev_NodeName verified = sb_NodeName sub" by auto
  note quote = pinned_quote [OF e(3) active_enrollment_pins_key [OF raw(3)]]
  from stored_tpm_evidence [OF stored] v tpm obtain row where
    row: "evidence_row d3 (sb_ClusterID sub, sb_NodeName sub) = Some row" "nv_revision row = Some (uint (en_Revision enrollment))"
      "nv_expires_at row = io_clock io 0 + acceptedNodeEvidenceTTL s (sb_RequestedTTL sub)" "schema_ok d3" by auto
  have "store_call (br_db b) d1" using store_call.consume_challenge [of "br_db b"] cons by (metis snd_conv)
  with assms(1) have inv: "store_inv d1"
    using store_later_inv store_run_later store_inv_empty rtranclp.rtrancl_into_rtrancl by metis
  have "store_call\<^sup>*\<^sup>* d1 (br_db b')"
    unfolding b' by (rule auditNodeEvidence_runs) (use prune_runs [OF prune] store_runs [OF stored] in auto)
  from store_run_later [OF this inv] consumed_is_spent [OF cons] have "sb_ChallengeID sub \<in> spent_challenges (br_db b')"
    by (auto simp: store_later_def record_later_def)
  moreover have "evidence_row (br_db b') = evidence_row d3"
    using auditNodeEvidence_keeps(1) [of "b\<lparr>br_db := d3\<rparr>"] row(4) unfolding b' by (simp add: same_trust_def evidence_row_def fun_eq_iff)
  ultimately show ?thesis using sub raw issued e quote row
    by (intro exI [of _ sub] exI [of _ raw] exI [of _ enrollment] exI [of _ issued] exI [of _ e] exI [of _ row] conjI) simp_all
qed

section \<open>A run of the service\<close>

definition demo_admin_lib :: admin_lib where
  "demo_admin_lib = \<lparr>al_broker = demo_broker_lib\<lparr>bl_sha256 := (\<lambda>_. replicate 32 1)\<rparr>, al_tpm = demo_lib, al_json = (\<lambda>_. Some demo_evidence)\<rparr>"

definition demo_admin :: AdminService where
  "demo_admin = newAdminService demo_broker_config demo_service True"

definition demo_submission :: NodeEvidenceSubmission where
  "demo_submission = \<lparr>sm_ClusterId = ''prod'', sm_NodeName = ''n1'', sm_NodeUid = ''u1'', sm_ProviderId = ProviderTPM2Quote,
     sm_Format = EvidenceFormat, sm_Payload = [9], sm_ChallengeId = ''c'', sm_RequestedTtlSeconds = 60\<rparr>"

definition demo_sub :: Submission where
  "demo_sub = \<lparr>sb_ClusterID = ''prod'', sb_NodeName = ''n1'', sb_NodeUID = ''u1'', sb_Provider = ProviderTPM2Quote,
     sb_Format = EvidenceFormat, sb_Payload = [9], sb_ChallengeID = ''c'', sb_RequestedTTL = 60 * second\<rparr>"

definition demo_publisher :: string where
  "demo_publisher = ''sha256:'' @ hex_encode (replicate 32 1)"

definition demo_node_challenge :: Challenge where
  "demo_node_challenge = \<lparr>chal_ID = ''c'', chal_Nonce = [1], chal_ClusterID = ''prod'',
     chal_Subject = submission_subject demo_admin_lib demo_sub demo_publisher, chal_Operation = OPERATION_ENROLL,
     chal_ExpiresAt = 100, chal_CreatedAt = 5\<rparr>"

definition demo_node_row :: "time option \<Rightarrow> challenge_row" where
  "demo_node_row consumed = \<lparr>ch_id = ''c'', ch_nonce = [1], ch_cluster = ''prod'',
     ch_subject = submission_subject demo_admin_lib demo_sub demo_publisher, ch_operation = Operation_String OPERATION_ENROLL,
     ch_expires_at = 100, ch_consumed_at = consumed, ch_created_at = 5\<rparr>"

definition demo_challenged :: "time option \<Rightarrow> db" where
  "demo_challenged consumed = demo_enrolled\<lparr>challenges := [demo_node_row consumed]\<rparr>"

definition demo_active :: Enrollment where
  "demo_active = \<lparr>en_ClusterID = ''prod'', en_NodeName = ''n1'', en_NodeUID = ''u1'', en_Provider = ProviderTPM2Quote,
     en_TPMPolicy = demo_policy, en_PublisherCertificateHashes = [demo_publisher], en_Revision = 1, en_EnrolledAt = 10,
     en_UpdatedAt = 10, en_RevokedAt = 0\<rparr>"

lemma demo_sub_from: "nodeEvidenceSubmissionFromProto (Some demo_submission) = Inr demo_sub"
  by (simp add: nodeEvidenceSubmissionFromProto_def NormalizeSubmission_def Let_def demo_submission_def demo_sub_def second_def
      ProviderTPM2Quote_def EvidenceFormat_def TrimSpace_graphic graphic_def)

lemma demo_admin_accepts:
  "acceptsNodeEvidenceCluster demo_admin ''prod''" "canPublishNodeEvidenceProvider demo_admin ProviderTPM2Quote"
  "ad_nodeEvidence demo_admin" "ad_policyID demo_admin = ''default''" "ad_enrollments demo_admin"
  by (simp_all add: acceptsNodeEvidenceCluster_def canPublishNodeEvidenceProvider_def demo_admin_def newAdminService_def Let_def
      demo_broker_config_def demo_config_def ProviderTPM2Quote_def ProviderFakeLocal_def TrimSpace_graphic graphic_def Policy_def)

lemma demo_challenged_schema: "schema_ok (demo_challenged x)"
  unfolding demo_challenged_def demo_enrolled_eq demo_db_def demo_db_run snd_conv
  by (simp add: schema_eval demo_record_def demo_key_def empty_db_def enrollment_row_of_def demo_enroll_def demo_node_row_def)

lemma demo_challenged_trust:
  "node_evidence (demo_challenged x) = []" "node_evidence_enrollments (demo_challenged x) = [enrollment_row_of demo_enroll 1]"
  by (simp_all add: demo_challenged_def demo_enrolled_eq demo_db_trust)

lemma demo_active_enrollment: "ActiveNodeEvidenceEnrollment no_faults ''prod'' ''n1'' (demo_challenged x) = Inr demo_active"
proof -
  have "nodeEvidencePublisherHashes no_faults ''prod'' ''n1'' (demo_challenged x) = Inr [demo_publisher]"
    by (simp add: nodeEvidencePublisherHashes_def demo_challenged_def demo_enrolled_eq pb_at_def demo_publisher_def)
  moreover have "NormalizeEnrollment demo_active = Inr demo_active"
    using demo_enroll_valid by (simp add: NormalizeEnrollment_def demo_active_def demo_enroll_def demo_publisher_def del: append.simps)
  ultimately show ?thesis
    by (simp add: ActiveNodeEvidenceEnrollment_def Let_def TrimSpace_graphic graphic_def demo_challenged_trust nr_at_def
        enrollment_row_of_def demo_enroll_def scanNodeEvidenceEnrollment_def Enrollment_Active_def)
      (simp add: demo_active_def)
qed

lemma demo_authorized:
  "authorizeNodeEvidencePublisher demo_admin_lib demo_admin (demo_io 0 11) (Some [7]) ''prod'' ''n1'' ''u1'' ProviderTPM2Quote
     (demo_challenged None) = Inr (demo_active, demo_publisher)"
proof -
  have "CanonicalSHA256Digest demo_publisher = Inr demo_publisher"
    unfolding CanonicalSHA256Digest_eq_Inr demo_publisher_def by (intro conjI refl exI [of _ "replicate 32 1"]) simp
  then have "AuthorizesPublisher demo_active demo_publisher" by (simp add: AuthorizesPublisher_def demo_active_def)
  moreover have "nodeEvidenceClientCertificateHash demo_admin_lib (Some [7]) = Inr demo_publisher"
    by (simp add: nodeEvidenceClientCertificateHash_def demo_admin_lib_def demo_publisher_def)
  moreover have "en_Provider demo_active = ProviderTPM2Quote" "en_NodeUID demo_active = ''u1''" by (simp_all add: demo_active_def)
  ultimately show ?thesis
    by (simp add: authorizeNodeEvidencePublisher_def demo_admin_accepts demo_io_def demo_active_enrollment)
qed

lemma demo_verified:
  "verifyNodeEvidenceSubmission demo_admin_lib demo_sub [1] demo_active = Inr \<lparr>ev_ClusterID = ''prod'', ev_NodeName = ''n1'',
     ev_NodeUID = ''u1'', ev_Provider = ProviderTPM2Quote, ev_EvidenceHash = demo_publisher, ev_CollectedAt = 0, ev_ExpiresAt = 0\<rparr>"
proof -
  have v: "TpmEvidence_Validate demo_evidence = Inr ()" using demo_quote unfolding VerifyQuote_eq_Inr by blast
  have "TpmPolicy_Validate demo_policy = Inr ()"
    using demo_enroll_valid by (simp add: NormalizeEnrollmentRequest_eq_Inr demo_enroll_def)
  then have "\<exists>claims. EvaluatePolicy demo_lib demo_evidence [1] demo_policy = Inr claims"
    unfolding EvaluatePolicy_eq_Inr using demo_quote
    by (auto simp: demo_policy_def demo_claims_def digestString_def HashSHA256_def ToLower_def lower_char_def)
  then have "verifyTPMNodeEvidenceSubmission demo_admin_lib demo_sub [1] demo_active = Inr ()"
    using v by (auto simp: verifyTPMNodeEvidenceSubmission_def UnmarshalEvidence_def demo_admin_lib_def demo_sub_def demo_active_def
        Enrollment_Active_def demo_evidence_def TrimSpace_graphic graphic_def)
  then show ?thesis
    by (simp add: verifyNodeEvidenceSubmission_def demo_sub_def maxNodeEvidencePayloadSize_def ProviderTPM2Quote_def ProviderFakeLocal_def
        nodeEvidencePayloadHash_def demo_admin_lib_def demo_publisher_def)
qed

lemma demo_node_consume:
  "ChallengeNonce no_faults ''c'' ''prod'' (submission_subject demo_admin_lib demo_sub demo_publisher) OPERATION_ENROLL 11
     (demo_challenged None) = Inr [1]"
  "ConsumeChallenge no_faults ''c'' ''prod'' (submission_subject demo_admin_lib demo_sub demo_publisher) OPERATION_ENROLL 11
     (demo_challenged None) = (Inr (), demo_challenged (Some 11))"
proof -
  have ch: "challenges (demo_challenged x) = [demo_node_row x]" "(demo_challenged x)\<lparr>challenges := [demo_node_row y]\<rparr> = demo_challenged y" for x y
    by (simp_all add: demo_challenged_def)
  have set: "set_where (\<lambda>r. ch_id r = ''c'' \<and> ch_consumed_at r = None) (\<lambda>r. r\<lparr>ch_consumed_at := Some 11\<rparr>) [demo_node_row None] = [demo_node_row (Some 11)]"
    "count_where (\<lambda>r. ch_id r = ''c'' \<and> ch_consumed_at r = None) [demo_node_row None] = 1"
    by (simp_all add: set_where_def count_where_def demo_node_row_def)
  have row: "check_challenge_row ''prod'' (submission_subject demo_admin_lib demo_sub demo_publisher) OPERATION_ENROLL 11
      (Some (demo_node_row None)) = Inr (demo_node_row None)" "ch_id (demo_node_row x) = ''c''" "ch_nonce (demo_node_row x) = [1]" for x
    by (simp_all add: check_challenge_row_def demo_node_row_def)
  show "ChallengeNonce no_faults ''c'' ''prod'' (submission_subject demo_admin_lib demo_sub demo_publisher) OPERATION_ENROLL 11
     (demo_challenged None) = Inr [1]"
    by (simp add: ChallengeNonce_def ch row)
  show "ConsumeChallenge no_faults ''c'' ''prod'' (submission_subject demo_admin_lib demo_sub demo_publisher) OPERATION_ENROLL 11
     (demo_challenged None) = (Inr (), demo_challenged (Some 11))"
    by (simp add: ConsumeChallenge_def Let_def ch row set demo_challenged_schema)
qed

lemma demo_node_stored:
  "\<exists>d. pruneNodeEvidence demo_admin (demo_io 0 11) ''prod'' (demo_challenged (Some 11)) = (Inr (), demo_challenged (Some 11)) \<and>
     storeNodeEvidence (demo_io 0 11) \<lparr>ev_ClusterID = ''prod'', ev_NodeName = ''n1'', ev_NodeUID = ''u1'',
       ev_Provider = ProviderTPM2Quote, ev_EvidenceHash = demo_publisher, ev_CollectedAt = 11,
       ev_ExpiresAt = 11 + acceptedNodeEvidenceTTL demo_admin (60 * second)\<rparr> 1 (demo_challenged (Some 11)) = (Inr (), d)"
proof -
  let ?e = "\<lparr>ev_ClusterID = ''prod'', ev_NodeName = ''n1'', ev_NodeUID = ''u1'',
       ev_Provider = ProviderTPM2Quote, ev_EvidenceHash = demo_publisher, ev_CollectedAt = 11,
       ev_ExpiresAt = 11 + acceptedNodeEvidenceTTL demo_admin (60 * second)\<rparr>"
  have "acceptedNodeEvidenceTTL demo_admin (60 * second) > 0"
    by (simp add: acceptedNodeEvidenceTTL_def Let_def second_def DefaultKubernetesNodeEvidenceTTL_def)
  then have norm: "Normalize ?e = Inr ?e"
    using TrimSpace_digest [of "replicate 32 1"]
    by (simp add: Normalize_eq_Inr trim_evidence_def demo_publisher_def TrimSpace_graphic graphic_def ProviderTPM2Quote_def del: append.simps)
  have "pruneNodeEvidence demo_admin (demo_io 0 11) ''prod'' (demo_challenged (Some 11)) = (Inr (), demo_challenged (Some 11))"
    by (simp add: pruneNodeEvidence_def demo_admin_accepts PruneNodeEvidence_def Let_def demo_io_def TrimSpace_graphic graphic_def
        demo_challenged_trust with_tx_def tx_bind_def query_def)
  moreover have "schema_ok ((demo_challenged (Some 11))\<lparr>node_evidence := [evidence_row_of ?e 11 (Some 1)]\<rparr>)"
    unfolding demo_challenged_def demo_enrolled_eq demo_db_def demo_db_run snd_conv
    by (simp add: schema_eval demo_record_def demo_key_def empty_db_def enrollment_row_of_def demo_enroll_def demo_node_row_def
        evidence_row_of_def)
  then have "upsertNodeEvidence no_faults 11 ?e (Some 1) (demo_challenged (Some 11)) =
      Inr ((), (demo_challenged (Some 11))\<lparr>node_evidence := [evidence_row_of ?e 11 (Some 1)]\<rparr>)"
    by (simp add: upsertNodeEvidence_def demo_challenged_trust upsert_def)
  then have "\<exists>d. PutEnrolledNodeEvidence no_faults 11 ?e 1 (demo_challenged (Some 11)) = (Inr (), d)"
    using norm by (simp add: PutEnrolledNodeEvidence_def maxNodeEvidenceEnrollmentRevision_def demo_challenged_trust nr_at_def
        enrollment_row_of_def demo_enroll_def)
  ultimately show ?thesis by (simp add: storeNodeEvidence_def demo_io_def)
qed

theorem published_tpm_evidence_attested_witness:
  "\<exists>resp b' row. PublishNodeEvidence demo_admin_lib (\<lambda>s. s) demo_admin (demo_io 0 11) (Some [7]) (Some demo_submission)
      \<lparr>br_db = demo_challenged None, br_audit = []\<rparr> = (resp, b') \<and>
    dm_State (bp_Decision resp) = POLICY_DECISION_STATE_ALLOW \<and>
    evidence_row (br_db b') (''prod'', ''n1'') = Some row \<and> nv_revision row = Some 1 \<and> ''c'' \<in> spent_challenges (br_db b')"
proof -
  let ?b = "\<lparr>br_db = demo_challenged None, br_audit = []\<rparr>"
  have sub: "sb_ClusterID demo_sub = ''prod''" "sb_NodeName demo_sub = ''n1''" "sb_NodeUID demo_sub = ''u1''"
    "sb_Provider demo_sub = ProviderTPM2Quote" "sb_ChallengeID demo_sub = ''c''" "sb_RequestedTTL demo_sub = 60 * second"
    "en_Revision demo_active = 1" by (simp_all add: demo_sub_def demo_active_def)
  have clock: "io_clock (demo_io 0 11) i = 11" "io_faults (demo_io 0 11) i = no_faults" for i by (simp_all add: demo_io_def)
  obtain resp b' where run: "PublishNodeEvidence demo_admin_lib (\<lambda>s. s) demo_admin (demo_io 0 11) (Some [7]) (Some demo_submission) ?b = (resp, b')"
    by fastforce
  then have allow: "dm_State (bp_Decision resp) = POLICY_DECISION_STATE_ALLOW"
    using demo_node_stored
    by (auto simp: PublishNodeEvidence_def Let_def demo_admin_accepts demo_sub_from sub demo_authorized clock
        demo_node_consume [unfolded submission_subject_def sub] demo_verified)
  have "challenges demo_enrolled = []" unfolding demo_enrolled_eq demo_db_def demo_db_run snd_conv by (simp add: empty_db_def)
  then have "CreateChallenge no_faults demo_node_challenge demo_enrolled = (Inr (), demo_challenged None)"
    using demo_challenged_schema [of None]
    by (simp add: CreateChallenge_def demo_node_challenge_def demo_challenged_def demo_node_row_def)
  then have "store_call\<^sup>*\<^sup>* empty_db (br_db ?b)"
    using rtranclp.rtrancl_into_rtrancl [OF demo_reach(3) store_call.create_challenge [of demo_enrolled no_faults demo_node_challenge]] by simp
  from published_tpm_evidence_attested [OF this run allow] demo_sub_from demo_active_enrollment run allow clock sub
  show ?thesis by (force simp: demo_submission_def ProviderTPM2Quote_def TrimSpace_graphic graphic_def)
qed

end
