(* ===== verification/Enrollment_Service.thy ===== *)
theory Enrollment_Service
  imports Node_Admin
begin

text \<open>
  The enrollment service of the broker (\<^verbatim>\<open>internal/broker/enrollment_service.go\<close>): control-plane
  administrators enroll and revoke the TPM trust of nodes.  A change is authorised by the client
  certificate of the connection and recorded in the audit log before it is made.

  \<open>peer\<close> is the raw leaf certificate of the authenticated TLS peer, if any.  A request reads \<open>io\<close>; the
  record of a change that failed after it was allowed reads \<open>later\<close>.
\<close>

section \<open>Messages\<close>

record AuditContext =
  ac_CorrelationId :: string
  ac_RequestId :: string

record NodeEvidencePCRPolicy =
  pm_Hash :: string
  pm_Pcrs :: "u32 list"
  pm_ExpectedDigest :: string
  pm_Profile :: string

record NodeEvidenceTPMPolicy =
  tm_Mode :: string
  tm_EnrolledAkPublicHash :: string
  tm_PcrPolicy :: "NodeEvidencePCRPolicy option"
  tm_ProviderProfile :: string

record NodeEvidenceEnrollmentRecord =
  rm_ClusterId :: string
  rm_NodeName :: string
  rm_NodeUid :: string
  rm_ProviderId :: string
  rm_TpmPolicy :: NodeEvidenceTPMPolicy
  rm_PublisherCertificateSha256 :: "string list"
  rm_Revision :: u64
  rm_EnrolledUnixSeconds :: int
  rm_UpdatedUnixSeconds :: int
  rm_RevokedUnixSeconds :: int

record NodeEvidenceEnrollmentRequest =
  em_ClusterId :: string
  em_NodeName :: string
  em_NodeUid :: string
  em_ProviderId :: string
  em_TpmPolicy :: "NodeEvidenceTPMPolicy option"
  em_PublisherCertificateSha256 :: "string list"
  em_Reason :: string
  em_Audit :: "AuditContext option"

record NodeEvidenceRevocationRequest =
  vm_ClusterId :: string
  vm_NodeName :: string
  vm_Reason :: string
  vm_Audit :: "AuditContext option"

record NodeEvidenceEnrollmentListRequest =
  im_ClusterId :: string
  im_NodeName :: string
  im_IncludeRevoked :: bool
  im_Audit :: "AuditContext option"

text \<open>The response to an enrollment and the response to a revocation have the same fields.\<close>

record NodeEvidenceEnrollmentResponse =
  xp_Enrollment :: "NodeEvidenceEnrollmentRecord option"
  xp_Decision :: PolicyDecision_msg

record NodeEvidenceEnrollmentListResponse =
  yp_Enrollments :: "NodeEvidenceEnrollmentRecord list"
  yp_Decision :: PolicyDecision_msg

section \<open>The service\<close>

record EnrollmentService =
  es_store :: bool
  es_auditStore :: bool
  es_audit :: bool
  es_fsync :: bool
  es_identities :: "(string \<times> ControlPlaneIdentity) list"
  es_clusterID :: string
  es_policyID :: string

definition cloneControlPlaneIdentities ::
  "(string \<times> ControlPlaneIdentity) list \<Rightarrow> (string \<times> ControlPlaneIdentity) list" where
  "cloneControlPlaneIdentities identities =
     map (\<lambda>(certificateHash, identity).
       (certificateHash, \<lparr>ci_Roles = ci_Roles identity, ci_ClusterIDs = ci_ClusterIDs identity\<rparr>)) identities"

text \<open>The service that \<^verbatim>\<open>NewGRPCServer\<close> registers for a service with a store.\<close>

definition newEnrollmentService :: "Config \<Rightarrow> EnrollmentService" where
  "newEnrollmentService config = \<lparr>es_store = True, es_auditStore = True, es_audit = (cf_AuditFilePath config \<noteq> []),
     es_fsync = cf_AuditFsync config, es_identities = cloneControlPlaneIdentities (cf_Identities config),
     es_clusterID = TrimSpace (cf_ClusterID config), es_policyID = TrimSpace (Policy config)\<rparr>"

definition Enrollment_Status :: "EnrollmentService \<Rightarrow> bool \<times> string" where
  "Enrollment_Status s =
     (if \<not> es_store s then (False, ''node evidence enrollment storage is unavailable'')
      else (True, ''authenticated node evidence enrollment is available''))"

definition acceptsCluster :: "EnrollmentService \<Rightarrow> string \<Rightarrow> bool" where
  "acceptsCluster s clusterID \<longleftrightarrow> es_clusterID s = [] \<or> es_clusterID s = TrimSpace clusterID"

text \<open>A refusal carries the actor as far as it is known, the error code and the reason.\<close>

definition authorize ::
  "admin_lib \<Rightarrow> EnrollmentService \<Rightarrow> bytes option \<Rightarrow> string \<Rightarrow> (string \<times> ErrorCode \<times> string) + string" where
  "authorize A s peer clusterID =
     (case nodeEvidenceClientCertificateHash A peer of
        Inl _ \<Rightarrow> Inl ([], ERROR_CODE_UNAUTHENTICATED,
          ''control-plane operation requires an authenticated client certificate'')
      | Inr certificateHash \<Rightarrow>
          (case map_of (es_identities s) certificateHash of
             None \<Rightarrow> Inl (certificateHash, ERROR_CODE_PERMISSION_DENIED,
               ''control-plane identity lacks the node-evidence-admin role'')
           | Some identity \<Rightarrow>
               if ControlPlaneRoleNodeEvidenceAdmin \<notin> set (ci_Roles identity) then
                 Inl (certificateHash, ERROR_CODE_PERMISSION_DENIED,
                   ''control-plane identity lacks the node-evidence-admin role'')
               else if TrimSpace clusterID \<notin> set (ci_ClusterIDs identity) then
                 Inl (certificateHash, ERROR_CODE_PERMISSION_DENIED,
                   ''control-plane identity is not authorized for this cluster'')
               else Inr certificateHash))"

section \<open>Audit\<close>

definition decisionWithReason :: "PolicyDecision \<Rightarrow> string \<Rightarrow> PolicyDecision" where
  "decisionWithReason decision reason = decision\<lparr>dc_Reason := reason\<rparr>"

definition enrollment_event ::
  "io \<Rightarrow> string \<Rightarrow> string \<Rightarrow> string \<Rightarrow> string \<Rightarrow> string \<Rightarrow> AuditContext option \<Rightarrow> PolicyDecision \<Rightarrow> AuditEvent" where
  "enrollment_event io auditID operation actor clusterID nodeName auditContext decision =
     \<lparr>ae_SchemaVersion = 1, ae_AuditID = auditID, ae_Time = FormatRFC3339Nano (io_clock io 2),
      ae_Subject = actor, ae_Operation = operation, ae_ClusterID = clusterID, ae_KeyID = [], ae_KeyVersion = 0,
      ae_Decision = PolicyDecisionState_String (dc_State decision), ae_PolicyID = dc_PolicyID decision,
      ae_Reason = dc_Reason decision, ae_EvidenceHash = [], ae_RemoteAddress = io_remote io,
      ae_ErrorCode = auditErrorCode decision, ae_Actor = actor, ae_Target = nodeName,
      ae_CorrelationID = (case auditContext of None \<Rightarrow> [] | Some a \<Rightarrow> TrimSpace (ac_CorrelationId a)),
      ae_RequestID = (case auditContext of None \<Rightarrow> [] | Some a \<Rightarrow> TrimSpace (ac_RequestId a))\<rparr>"

text \<open>Reads random number 2 and clock 2, writes with faults 6.\<close>

definition auditEnrollmentDecision ::
  "EnrollmentService \<Rightarrow> io \<Rightarrow> string \<Rightarrow> string \<Rightarrow> string \<Rightarrow> string \<Rightarrow> AuditContext option \<Rightarrow> PolicyDecision \<Rightarrow> broker \<Rightarrow>
   (error + unit) \<times> broker" where
  "auditEnrollmentDecision s io operation actor clusterID nodeName auditContext decision b =
     (if \<not> es_auditStore s \<and> \<not> es_audit s then (Inl (OtherErr ''security audit sink is not configured''), b)
      else (case randomID (io_rng io 2) ''audit'' of
          Inl err \<Rightarrow> (Inl err, b)
        | Inr auditID \<Rightarrow>
            (let actor = (if actor = [] then ''unauthenticated'' else actor);
                 event = enrollment_event io auditID operation actor clusterID nodeName auditContext decision in
             case (if es_auditStore s then InsertAuditEvent (io_faults io 6) event (br_db b) else (Inr (), br_db b)) of
               (Inl err, d) \<Rightarrow> (Inl err, b\<lparr>br_db := d\<rparr>)
             | (Inr _, d) \<Rightarrow>
                 if es_audit s then
                   (let (res, file) = FileAudit_Write io (es_fsync s) event (br_audit b) in
                    (res, \<lparr>br_db = d, br_audit = file\<rparr>))
                 else (Inr (), b\<lparr>br_db := d\<rparr>))))"

section \<open>Requests and records\<close>

definition normalizeEnrollmentReason :: "string \<Rightarrow> error + string" where
  "normalizeEnrollmentReason value =
     (let value = TrimSpace value in
      if value = [] then Inl (OtherErr ''reason is required'')
      else if length value > 1024 then Inl (OtherErr ''reason exceeds maximum size'')
      else Inr value)"

definition tpmPolicyFromProto :: "NodeEvidenceTPMPolicy \<Rightarrow> error + TpmPolicy" where
  "tpmPolicyFromProto policy =
     (let out = \<lparr>tp_Mode = TrimSpace (tm_Mode policy),
            tp_EnrolledAKPublicHash = TrimSpace (tm_EnrolledAkPublicHash policy), tp_PCRPolicy = None,
            tp_ProviderProfile = TrimSpace (tm_ProviderProfile policy)\<rparr> in
      case tm_PcrPolicy policy of
        None \<Rightarrow> Inr out
      | Some pcr \<Rightarrow>
          bindE (traverseE (\<lambda>index. if index > 23 then Inl (OtherErr ''PCR index is out of range'')
              else Inr (uint index)) (pm_Pcrs pcr)) (\<lambda>indexes.
          Inr (out\<lparr>tp_PCRPolicy := Some \<lparr>pp_Selection = \<lparr>sel_Hash = TrimSpace (pm_Hash pcr), sel_PCRs = indexes\<rparr>,
            pp_ExpectedDigest = TrimSpace (pm_ExpectedDigest pcr), pp_CapturedValues = [],
            pp_Profile = TrimSpace (pm_Profile pcr)\<rparr>\<rparr>)))"

definition nodeEvidenceEnrollmentRequestFromProto ::
  "NodeEvidenceEnrollmentRequest option \<Rightarrow> time \<Rightarrow> error + EnrollmentRequest \<times> string" where
  "nodeEvidenceEnrollmentRequestFromProto req now =
     (case req of
        None \<Rightarrow> Inl (OtherErr ''node evidence enrollment and TPM policy are required'')
      | Some m \<Rightarrow>
          (case em_TpmPolicy m of
             None \<Rightarrow> Inl (OtherErr ''node evidence enrollment and TPM policy are required'')
           | Some tpm \<Rightarrow>
               bindE (normalizeEnrollmentReason (em_Reason m)) (\<lambda>reason.
               bindE (tpmPolicyFromProto tpm) (\<lambda>policy.
               bindE (NormalizeEnrollmentRequest \<lparr>er_ClusterID = em_ClusterId m, er_NodeName = em_NodeName m,
                 er_NodeUID = em_NodeUid m, er_Provider = em_ProviderId m, er_TPMPolicy = policy,
                 er_PublisherCertificateHashes = em_PublisherCertificateSha256 m, er_EnrolledAt = now\<rparr>) (\<lambda>request.
               Inr (request, reason))))))"

text \<open>The cluster and the node are returned with an error as well.\<close>

definition nodeEvidenceRevocationRequestFromProto ::
  "NodeEvidenceRevocationRequest option \<Rightarrow> string \<times> string \<times> (error + string)" where
  "nodeEvidenceRevocationRequestFromProto req =
     (case req of
        None \<Rightarrow> ([], [], Inl (OtherErr ''node evidence revocation request is required''))
      | Some m \<Rightarrow>
          (let clusterID = TrimSpace (vm_ClusterId m); nodeName = TrimSpace (vm_NodeName m) in
           if clusterID = [] \<or> nodeName = [] then
             (clusterID, nodeName, Inl (OtherErr ''cluster_id and node_name are required''))
           else (clusterID, nodeName, normalizeEnrollmentReason (vm_Reason m))))"

definition unixSecondsOrZero :: "time \<Rightarrow> int" where
  "unixSecondsOrZero value = (if value = 0 then 0 else unix_seconds value)"

definition nodeEvidenceEnrollmentToProto :: "Enrollment \<Rightarrow> NodeEvidenceEnrollmentRecord" where
  "nodeEvidenceEnrollmentToProto enrollment =
     \<lparr>rm_ClusterId = en_ClusterID enrollment, rm_NodeName = en_NodeName enrollment,
      rm_NodeUid = en_NodeUID enrollment, rm_ProviderId = en_Provider enrollment,
      rm_TpmPolicy = \<lparr>tm_Mode = tp_Mode (en_TPMPolicy enrollment),
        tm_EnrolledAkPublicHash = tp_EnrolledAKPublicHash (en_TPMPolicy enrollment),
        tm_PcrPolicy = map_option (\<lambda>pcr. \<lparr>pm_Hash = sel_Hash (pp_Selection pcr),
          pm_Pcrs = map word_of_int (sel_PCRs (pp_Selection pcr)), pm_ExpectedDigest = pp_ExpectedDigest pcr,
          pm_Profile = pp_Profile pcr\<rparr>) (tp_PCRPolicy (en_TPMPolicy enrollment)),
        tm_ProviderProfile = tp_ProviderProfile (en_TPMPolicy enrollment)\<rparr>,
      rm_PublisherCertificateSha256 = en_PublisherCertificateHashes enrollment,
      rm_Revision = en_Revision enrollment, rm_EnrolledUnixSeconds = unix_seconds (en_EnrolledAt enrollment),
      rm_UpdatedUnixSeconds = unix_seconds (en_UpdatedAt enrollment),
      rm_RevokedUnixSeconds = unixSecondsOrZero (en_RevokedAt enrollment)\<rparr>"

section \<open>Handlers\<close>

text \<open>The checks that the three handlers make, in the same order, before they touch the store.\<close>

definition control_plane_guard ::
  "admin_lib \<Rightarrow> EnrollmentService \<Rightarrow> bytes option \<Rightarrow> string \<Rightarrow> (string \<times> PolicyDecision) + string" where
  "control_plane_guard A s peer clusterID =
     (case authorize A s peer clusterID of
        Inl (actor, code, message) \<Rightarrow> Inl (actor, Deny (es_policyID s) code message)
      | Inr actor \<Rightarrow>
          if \<not> acceptsCluster s clusterID then
            Inl (actor, Deny (es_policyID s) ERROR_CODE_PERMISSION_DENIED ''node evidence cluster is not configured'')
          else if \<not> es_store s then
            Inl (actor, Deny (es_policyID s) ERROR_CODE_INTERNAL ''node evidence enrollment storage is unavailable'')
          else Inr actor)"

definition enrollmentOperationNodeEvidenceEnroll :: string where
  "enrollmentOperationNodeEvidenceEnroll = ''NODE_EVIDENCE_ENROLL''"

definition enrollmentOperationNodeEvidenceRevoke :: string where
  "enrollmentOperationNodeEvidenceRevoke = ''NODE_EVIDENCE_REVOKE''"

definition enrollmentOperationNodeEvidenceList :: string where
  "enrollmentOperationNodeEvidenceList = ''NODE_EVIDENCE_ENROLLMENT_LIST''"

text \<open>A refused change: the failure to record it is ignored.\<close>

definition refuse_change ::
  "EnrollmentService \<Rightarrow> io \<Rightarrow> string \<Rightarrow> string \<Rightarrow> string \<Rightarrow> string \<Rightarrow> AuditContext option \<Rightarrow> PolicyDecision \<Rightarrow> broker \<Rightarrow>
   NodeEvidenceEnrollmentResponse \<times> broker" where
  "refuse_change s io operation actor clusterID nodeName auditContext decision b =
     (\<lparr>xp_Enrollment = None, xp_Decision = Decision_Proto decision\<rparr>,
      snd (auditEnrollmentDecision s io operation actor clusterID nodeName auditContext decision b))"

text \<open>Reads clock 0; the store is written with faults 0.\<close>

definition Service_EnrollNodeEvidence ::
  "admin_lib \<Rightarrow> EnrollmentService \<Rightarrow> io \<Rightarrow> io \<Rightarrow> bytes option \<Rightarrow> NodeEvidenceEnrollmentRequest option \<Rightarrow> broker \<Rightarrow>
   NodeEvidenceEnrollmentResponse \<times> broker" where
  "Service_EnrollNodeEvidence A s io later peer req b =
     (let operation = enrollmentOperationNodeEvidenceEnroll;
          audit = (case req of None \<Rightarrow> None | Some m \<Rightarrow> em_Audit m) in
      case nodeEvidenceEnrollmentRequestFromProto req (io_clock io 0) of
        Inl err \<Rightarrow>
          refuse_change s io operation [] [] [] audit (Deny (es_policyID s) ERROR_CODE_INVALID_REQUEST (err_text err)) b
      | Inr (request, reason) \<Rightarrow>
          (let c = er_ClusterID request; n = er_NodeName request; decision = Allow (es_policyID s) in
           case control_plane_guard A s peer c of
             Inl (actor, denial) \<Rightarrow> refuse_change s io operation actor c n audit denial b
           | Inr actor \<Rightarrow>
               (case auditEnrollmentDecision s io operation actor c n audit (decisionWithReason decision reason) b of
                  (Inl _, b) \<Rightarrow> (\<lparr>xp_Enrollment = None, xp_Decision = Decision_Proto
                    (Deny (es_policyID s) ERROR_CODE_INTERNAL ''node evidence enrollment audit failed'')\<rparr>, b)
                | (Inr _, b) \<Rightarrow>
                    (case EnrollNodeEvidence (io_faults io 0) request (br_db b) of
                       (Inl _, d) \<Rightarrow> refuse_change s later operation actor c n audit
                         (Deny (es_policyID s) ERROR_CODE_INTERNAL ''node evidence enrollment failed'') (b\<lparr>br_db := d\<rparr>)
                     | (Inr enrollment, d) \<Rightarrow>
                         (\<lparr>xp_Enrollment = Some (nodeEvidenceEnrollmentToProto enrollment),
                           xp_Decision = Decision_Proto decision\<rparr>, b\<lparr>br_db := d\<rparr>)))))"

text \<open>The time of the revocation is clock 0; the store is written with faults 0.\<close>

definition revocation_failure :: "string \<Rightarrow> error \<Rightarrow> PolicyDecision" where
  "revocation_failure policyID err =
     (if err = ErrEnrollmentNotFound \<or> err = ErrEnrollmentRevoked then
        Deny policyID ERROR_CODE_INVALID_REQUEST (err_text err)
      else Deny policyID ERROR_CODE_INTERNAL ''node evidence revocation failed'')"

definition Service_RevokeNodeEvidence ::
  "admin_lib \<Rightarrow> EnrollmentService \<Rightarrow> io \<Rightarrow> io \<Rightarrow> bytes option \<Rightarrow> NodeEvidenceRevocationRequest option \<Rightarrow> broker \<Rightarrow>
   NodeEvidenceEnrollmentResponse \<times> broker" where
  "Service_RevokeNodeEvidence A s io later peer req b =
     (let operation = enrollmentOperationNodeEvidenceRevoke;
          audit = (case req of None \<Rightarrow> None | Some m \<Rightarrow> vm_Audit m);
          (c, n, parsed) = nodeEvidenceRevocationRequestFromProto req;
          decision = Allow (es_policyID s) in
      case parsed of
        Inl err \<Rightarrow>
          refuse_change s io operation [] c n audit (Deny (es_policyID s) ERROR_CODE_INVALID_REQUEST (err_text err)) b
      | Inr reason \<Rightarrow>
          (case control_plane_guard A s peer c of
             Inl (actor, denial) \<Rightarrow> refuse_change s io operation actor c n audit denial b
           | Inr actor \<Rightarrow>
               (case auditEnrollmentDecision s io operation actor c n audit (decisionWithReason decision reason) b of
                  (Inl _, b) \<Rightarrow> (\<lparr>xp_Enrollment = None, xp_Decision = Decision_Proto
                    (Deny (es_policyID s) ERROR_CODE_INTERNAL ''node evidence revocation audit failed'')\<rparr>, b)
                | (Inr _, b) \<Rightarrow>
                    (case RevokeNodeEvidence (io_faults io 0) c n (io_clock io 0) (br_db b) of
                       (Inl err, d) \<Rightarrow> refuse_change s later operation actor c n audit
                         (revocation_failure (es_policyID s) err) (b\<lparr>br_db := d\<rparr>)
                     | (Inr enrollment, d) \<Rightarrow>
                         (\<lparr>xp_Enrollment = Some (nodeEvidenceEnrollmentToProto enrollment),
                           xp_Decision = Decision_Proto decision\<rparr>, b\<lparr>br_db := d\<rparr>)))))"

text \<open>The store is read with faults 0.\<close>

definition Service_ListNodeEvidenceEnrollments ::
  "admin_lib \<Rightarrow> EnrollmentService \<Rightarrow> io \<Rightarrow> bytes option \<Rightarrow> NodeEvidenceEnrollmentListRequest option \<Rightarrow> broker \<Rightarrow>
   NodeEvidenceEnrollmentListResponse \<times> broker" where
  "Service_ListNodeEvidenceEnrollments A s io peer req b =
     (let audit = (case req of None \<Rightarrow> None | Some m \<Rightarrow> im_Audit m);
          answer = (\<lambda>actor c n out decision. (\<lparr>yp_Enrollments = out, yp_Decision = Decision_Proto decision\<rparr>,
            snd (auditEnrollmentDecision s io enrollmentOperationNodeEvidenceList actor c n audit decision b)));
          missing = answer [] [] [] [] (Deny (es_policyID s) ERROR_CODE_INVALID_REQUEST ''cluster_id is required'') in
      case req of
        None \<Rightarrow> missing
      | Some m \<Rightarrow>
          if TrimSpace (im_ClusterId m) = [] then missing
          else (let c = TrimSpace (im_ClusterId m); n = TrimSpace (im_NodeName m) in
            case control_plane_guard A s peer c of
              Inl (actor, denial) \<Rightarrow> answer actor c n [] denial
            | Inr actor \<Rightarrow>
                (case ListNodeEvidenceEnrollments (io_faults io 0) c n (im_IncludeRevoked m) (br_db b) of
                   Inl err \<Rightarrow>
                     if err = ErrEnrollmentNotFound then answer actor c n [] (Allow (es_policyID s))
                     else answer actor c n []
                       (Deny (es_policyID s) ERROR_CODE_INTERNAL ''node evidence enrollment lookup failed'')
                 | Inr enrollments \<Rightarrow>
                     answer actor c n (map nodeEvidenceEnrollmentToProto enrollments) (Allow (es_policyID s)))))"

section \<open>A trust change is authorised and recorded first\<close>

text \<open>The control plane identity of a certificate administers a cluster.\<close>

definition admin_of :: "EnrollmentService \<Rightarrow> string \<Rightarrow> string \<Rightarrow> bool" where
  "admin_of s clusterID certificateHash \<longleftrightarrow>
     (case map_of (es_identities s) certificateHash of
        None \<Rightarrow> False
      | Some identity \<Rightarrow> ControlPlaneRoleNodeEvidenceAdmin \<in> set (ci_Roles identity) \<and> clusterID \<in> set (ci_ClusterIDs identity))"

text \<open>An entry of the audit log that allows an administrator a change of the trust of a node.\<close>

definition change_entry :: "EnrollmentService \<Rightarrow> string \<times> string \<Rightarrow> AuditEvent \<Rightarrow> bool" where
  "change_entry s k e \<longleftrightarrow> (ae_ClusterID e, ae_Target e) = k \<and> admin_of s (fst k) (ae_Actor e) \<and>
     ae_Operation e \<in> {enrollmentOperationNodeEvidenceEnroll, enrollmentOperationNodeEvidenceRevoke} \<and>
     ae_Decision e = PolicyDecisionState_String POLICY_DECISION_STATE_ALLOW"

definition revision_of :: "db \<Rightarrow> string \<times> string \<Rightarrow> int" where
  "revision_of d k = (case trust_row d k of None \<Rightarrow> 0 | Some r \<Rightarrow> nr_revision r)"

text \<open>One change of the trust of the node \<open>k\<close>, after its entry in the audit log.\<close>

definition recorded_change :: "EnrollmentService \<Rightarrow> string \<times> string \<Rightarrow> db \<Rightarrow> db \<Rightarrow> bool" where
  "recorded_change s k d d' \<longleftrightarrow>
     (\<exists>e rest row. audit_events d' = audit_events d @ e # rest \<and> change_entry s k e \<and>
        trust_row d' = (trust_row d)(k \<mapsto> row) \<and> nr_revision row = revision_of d k + 1 \<and> evidence_row d' k = None)"

lemma control_plane_guard_admin:
  assumes "control_plane_guard A s peer c = Inr actor"
  shows "\<exists>raw. peer = Some raw \<and> actor = ''sha256:'' @ hex_encode (bl_sha256 (al_broker A) raw)" "admin_of s (TrimSpace c) actor"
  using assms
  by (auto simp: control_plane_guard_def authorize_def nodeEvidenceClientCertificateHash_def admin_of_def
      split: sum.splits if_splits option.splits)

lemma audit_step:
  assumes "auditEnrollmentDecision s io op actor c n x dec b = (res, b')"
  shows "store_call\<^sup>*\<^sup>* (br_db b) (br_db b')" "schema_ok (br_db b) \<Longrightarrow> same_trust (br_db b) (br_db b')"
    "res = Inr u \<Longrightarrow> es_auditStore s \<Longrightarrow> \<exists>auditID. audit_events (br_db b') = audit_events (br_db b) @
       [enrollment_event io auditID op (if actor = [] then ''unauthenticated'' else actor) c n x dec]"
proof -
  have "store_call\<^sup>*\<^sup>* (br_db b) (snd (InsertAuditEvent F event (br_db b)))" for F event
    by (rule r_into_rtranclp, rule store_call.insert_audit_event)
  moreover have "br_db b' = br_db b \<or> (\<exists>event. br_db b' = snd (InsertAuditEvent (io_faults io 6) event (br_db b)))"
    using assms by (auto simp: auditEnrollmentDecision_def Let_def split: if_splits sum.splits prod.splits)
      (metis snd_conv)+
  ultimately show "store_call\<^sup>*\<^sup>* (br_db b) (br_db b')" by auto
  assume "schema_ok (br_db b)"
  then show "same_trust (br_db b) (br_db b')"
    using \<open>br_db b' = br_db b \<or> _\<close> log_methods_keep_trust(7) by (auto simp: same_trust_def)
next
  assume "res = Inr u" "es_auditStore s"
  with assms show "\<exists>auditID. audit_events (br_db b') = audit_events (br_db b) @
       [enrollment_event io auditID op (if actor = [] then ''unauthenticated'' else actor) c n x dec]"
    by (auto simp: auditEnrollmentDecision_def Let_def InsertAuditEvent_def split: if_splits sum.splits prod.splits)
qed

lemma same_trust_rows: "same_trust d d' \<Longrightarrow> trust_row d' = trust_row d \<and> evidence_row d' = evidence_row d \<and> schema_ok d'"
  by (simp add: same_trust_def trust_row_def evidence_row_def fun_eq_iff)

lemma refuse_change_step:
  assumes "refuse_change s io op actor c n x dec b = (resp, b')"
  shows "store_call\<^sup>*\<^sup>* (br_db b) (br_db b')" "schema_ok (br_db b) \<Longrightarrow> same_trust (br_db b) (br_db b')"
  using assms audit_step(1,2) [of s io op actor c n x dec b "fst (auditEnrollmentDecision s io op actor c n x dec b)" b']
  by (auto simp: refuse_change_def)

text \<open>A handler that records an entry, changes the trust of one node and may then record the failure.\<close>

lemma recorded_changeI:
  assumes "auditEnrollmentDecision s io op actor c n x dec b = (Inr (), b1)" and "es_auditStore s" and "store_inv (br_db b)"
    and "control_plane_guard A s peer c = Inr actor" and "TrimSpace c = c" and "Allowed dec"
    and "op = enrollmentOperationNodeEvidenceEnroll \<or> op = enrollmentOperationNodeEvidenceRevoke"
    and "store_call (br_db b1) d" and "trust_row d = (trust_row (br_db b1))((c, n) \<mapsto> row)" and "evidence_row d (c, n) = None"
    and "nr_revision row = revision_of (br_db b1) (c, n) + 1" and "store_call\<^sup>*\<^sup>* d d'" and "same_trust d d'"
  shows "recorded_change s (c, n) (br_db b) d'"
proof -
  obtain raw where actor: "actor = ''sha256:'' @ hex_encode (bl_sha256 (al_broker A) raw)" "admin_of s c actor"
    using control_plane_guard_admin [OF assms(4)] assms(5) by auto
  from audit_step(3) [OF assms(1)] assms(2) actor(1) obtain auditID where
    log: "audit_events (br_db b1) = audit_events (br_db b) @ [enrollment_event io auditID op actor c n x dec]" by auto
  have entry: "change_entry s (c, n) (enrollment_event io auditID op actor c n x dec)"
    using actor(2) assms(6,7) by (auto simp: change_entry_def enrollment_event_def Allowed_def)
  from audit_step(1) [OF assms(1)] assms(3) have "store_inv (br_db b1)"
    using store_later_inv store_run_later by blast
  moreover have "store_call\<^sup>*\<^sup>* (br_db b1) d'" using assms(8,12) by simp
  ultimately obtain rest where rest: "audit_events d' = audit_events (br_db b1) @ rest"
    using store_run_later unfolding store_later_def record_later_def prefix_def by blast
  have "trust_row (br_db b1) = trust_row (br_db b)"
    using same_trust_rows audit_step(2) [OF assms(1)] assms(3) by (simp add: store_inv_def evid_inv_def)
  with same_trust_rows [OF assms(13)] assms(9-11) rest log entry show ?thesis
    unfolding recorded_change_def
    by (intro exI [of _ "enrollment_event io auditID op actor c n x dec"] exI [of _ rest] exI [of _ row])
      (simp add: revision_of_def)
qed

lemma request_trimmed:
  "nodeEvidenceEnrollmentRequestFromProto req now = Inr (request, reason) \<Longrightarrow>
     NormalizeEnrollmentRequest request = Inr request \<and> TrimSpace (er_ClusterID request) = er_ClusterID request"
  by (auto simp: nodeEvidenceEnrollmentRequestFromProto_def bindE_eq_Inr NormalizeEnrollmentRequest_idem split: option.splits)
    (auto simp: NormalizeEnrollmentRequest_eq_Inr)

lemma revocation_trimmed:
  "nodeEvidenceRevocationRequestFromProto req = (c, n, Inr reason) \<Longrightarrow> TrimSpace c = c \<and> TrimSpace n = n"
  by (auto simp: nodeEvidenceRevocationRequestFromProto_def Let_def split: option.splits if_splits)

lemma Allowed_decisionWithReason [simp]: "Allowed (decisionWithReason d r) \<longleftrightarrow> Allowed d"
  by (simp add: decisionWithReason_def Allowed_def)

lemma store_run_schema:
  assumes "store_inv d" and "store_call\<^sup>*\<^sup>* d d'"
  shows "store_inv d'" "schema_ok d'"
proof -
  show "store_inv d'" using assms store_run_later store_later_inv by blast
  then show "schema_ok d'" by (simp add: store_inv_def evid_inv_def)
qed

definition recorded :: "EnrollmentService \<Rightarrow> db \<Rightarrow> db \<Rightarrow> bool" where
  "recorded s d d' \<longleftrightarrow> store_call\<^sup>*\<^sup>* d d' \<and> (same_trust d d' \<or> (\<exists>k. recorded_change s k d d'))"

lemma change_recorded:
  assumes audit: "auditEnrollmentDecision s io op actor c n x dec b = (Inr (), b1)" and "es_auditStore s" and inv: "store_inv (br_db b)"
    and "control_plane_guard A s peer c = Inr actor" and "TrimSpace c = c" and "Allowed dec"
    and "op = enrollmentOperationNodeEvidenceEnroll \<or> op = enrollmentOperationNodeEvidenceRevoke"
    and call: "store_call (br_db b1) d"
    and change: "d = br_db b1 \<or> (\<exists>row. trust_row d = (trust_row (br_db b1))((c, n) \<mapsto> row) \<and> evidence_row d (c, n) = None \<and>
      nr_revision row = revision_of (br_db b1) (c, n) + 1)"
    and rest: "br_db b' \<noteq> d \<longrightarrow> (\<exists>op actor c n x dec. refuse_change s later op actor c n x dec (b1\<lparr>br_db := d\<rparr>) = (resp, b'))"
  shows "recorded s (br_db b) (br_db b')"
proof -
  note before = audit_step(1,2) [OF audit]
  have "store_inv (br_db b1)" "schema_ok (br_db b)"
    using store_run_schema(1) [OF inv before(1)] inv by (simp_all add: store_inv_def evid_inv_def)
  then have schema: "schema_ok d" "same_trust (br_db b) (br_db b1)"
    using store_run_schema(2) call before(2) by auto
  have after: "store_call\<^sup>*\<^sup>* d (br_db b')" "same_trust d (br_db b')"
    using rest refuse_change_step [of s later _ _ _ _ _ _ "b1\<lparr>br_db := d\<rparr>" resp b'] schema(1) by (auto simp: same_trust_def)
  have "store_call\<^sup>*\<^sup>* (br_db b) d" using before(1) call by (rule rtranclp.rtrancl_into_rtrancl)
  then have run: "store_call\<^sup>*\<^sup>* (br_db b) (br_db b')" using after(1) by (rule rtranclp_trans)
  from change show ?thesis
  proof
    assume "d = br_db b1"
    with schema(2) after(2) run show ?thesis by (simp add: recorded_def same_trust_def)
  next
    assume "\<exists>row. trust_row d = (trust_row (br_db b1))((c, n) \<mapsto> row) \<and> evidence_row d (c, n) = None \<and>
      nr_revision row = revision_of (br_db b1) (c, n) + 1"
    then obtain row where "trust_row d = (trust_row (br_db b1))((c, n) \<mapsto> row)" "evidence_row d (c, n) = None"
      "nr_revision row = revision_of (br_db b1) (c, n) + 1" by blast
    from recorded_changeI [OF assms(1-8) this after] run show ?thesis by (auto simp: recorded_def)
  qed
qed

text \<open>Handlers that only record.\<close>

lemma audit_recorded:
  assumes "auditEnrollmentDecision s io op actor c n x dec b = (res, b')" and "store_inv (br_db b)"
  shows "recorded s (br_db b) (br_db b')"
  using audit_step(1,2) [OF assms(1)] assms(2) by (simp add: recorded_def store_inv_def evid_inv_def)

lemma refuse_recorded:
  assumes "refuse_change s io op actor c n x dec b = (resp, b')" and "store_inv (br_db b)"
  shows "recorded s (br_db b) (br_db b')"
  using refuse_change_step [OF assms(1)] assms(2) by (simp add: recorded_def store_inv_def evid_inv_def)

lemma Service_EnrollNodeEvidence_recorded:
  assumes run: "Service_EnrollNodeEvidence A s io later peer req b = (resp, b')" and inv: "store_inv (br_db b)" and store: "es_auditStore s"
  shows "recorded s (br_db b) (br_db b')"
proof -
  let ?op = enrollmentOperationNodeEvidenceEnroll
  have "(\<exists>op actor c n x dec. refuse_change s io op actor c n x dec b = (resp, b')) \<or>
    (\<exists>op actor c n x dec res. auditEnrollmentDecision s io op actor c n x dec b = (res, b')) \<or>
    (\<exists>request reason actor x b1 r d. nodeEvidenceEnrollmentRequestFromProto req (io_clock io 0) = Inr (request, reason) \<and>
       control_plane_guard A s peer (er_ClusterID request) = Inr actor \<and>
       auditEnrollmentDecision s io ?op actor (er_ClusterID request) (er_NodeName request) x
         (decisionWithReason (Allow (es_policyID s)) reason) b = (Inr (), b1) \<and>
       EnrollNodeEvidence (io_faults io 0) request (br_db b1) = (r, d) \<and>
       (br_db b' \<noteq> d \<longrightarrow> (\<exists>op actor c n x dec. refuse_change s later op actor c n x dec (b1\<lparr>br_db := d\<rparr>) = (resp, b'))))"
    using run unfolding Service_EnrollNodeEvidence_def Let_def
    by (auto split: sum.splits prod.splits) blast+
  then show ?thesis
  proof (elim disjE exE conjE)
    fix request reason actor x b1 r d
    assume req: "nodeEvidenceEnrollmentRequestFromProto req (io_clock io 0) = Inr (request, reason)"
      and guard: "control_plane_guard A s peer (er_ClusterID request) = Inr actor"
      and audit: "auditEnrollmentDecision s io ?op actor (er_ClusterID request) (er_NodeName request) x
         (decisionWithReason (Allow (es_policyID s)) reason) b = (Inr (), b1)"
      and enroll: "EnrollNodeEvidence (io_faults io 0) request (br_db b1) = (r, d)"
      and rest: "br_db b' \<noteq> d \<longrightarrow> (\<exists>op actor c n x dec. refuse_change s later op actor c n x dec (b1\<lparr>br_db := d\<rparr>) = (resp, b'))"
    let ?k = "(er_ClusterID request, er_NodeName request)"
    have trim: "NormalizeEnrollmentRequest request = Inr request" "TrimSpace (er_ClusterID request) = er_ClusterID request"
      using request_trimmed [OF req] by auto
    have "store_call (br_db b1) d" using store_call.enroll_node [of "br_db b1"] enroll by (metis snd_conv)
    moreover have "d = br_db b1 \<or> (\<exists>row. trust_row d = (trust_row (br_db b1))(?k \<mapsto> row) \<and> evidence_row d ?k = None \<and>
        nr_revision row = revision_of (br_db b1) ?k + 1)"
      using EnrollNodeEvidence_cases [OF enroll] trim(1) by (auto simp: revision_of_def)
    ultimately show ?thesis
      using change_recorded [OF audit store inv guard trim(2) _ _ _ _ rest] by simp
  qed (erule refuse_recorded [OF _ inv] audit_recorded [OF _ inv])+
qed

lemma Service_RevokeNodeEvidence_recorded:
  assumes run: "Service_RevokeNodeEvidence A s io later peer req b = (resp, b')" and inv: "store_inv (br_db b)" and store: "es_auditStore s"
  shows "recorded s (br_db b) (br_db b')"
proof -
  let ?op = enrollmentOperationNodeEvidenceRevoke
  have "(\<exists>op actor c n x dec. refuse_change s io op actor c n x dec b = (resp, b')) \<or>
    (\<exists>op actor c n x dec res. auditEnrollmentDecision s io op actor c n x dec b = (res, b')) \<or>
    (\<exists>c n reason actor x b1 r d. nodeEvidenceRevocationRequestFromProto req = (c, n, Inr reason) \<and>
       control_plane_guard A s peer c = Inr actor \<and>
       auditEnrollmentDecision s io ?op actor c n x (decisionWithReason (Allow (es_policyID s)) reason) b = (Inr (), b1) \<and>
       RevokeNodeEvidence (io_faults io 0) c n (io_clock io 0) (br_db b1) = (r, d) \<and>
       (br_db b' \<noteq> d \<longrightarrow> (\<exists>op actor c n x dec. refuse_change s later op actor c n x dec (b1\<lparr>br_db := d\<rparr>) = (resp, b'))))"
    using run unfolding Service_RevokeNodeEvidence_def Let_def
    by (auto split: sum.splits prod.splits) blast+
  then show ?thesis
  proof (elim disjE exE conjE)
    fix c n reason actor x b1 r d
    assume req: "nodeEvidenceRevocationRequestFromProto req = (c, n, Inr reason)"
      and guard: "control_plane_guard A s peer c = Inr actor"
      and audit: "auditEnrollmentDecision s io ?op actor c n x (decisionWithReason (Allow (es_policyID s)) reason) b = (Inr (), b1)"
      and revoke: "RevokeNodeEvidence (io_faults io 0) c n (io_clock io 0) (br_db b1) = (r, d)"
      and rest: "br_db b' \<noteq> d \<longrightarrow> (\<exists>op actor c n x dec. refuse_change s later op actor c n x dec (b1\<lparr>br_db := d\<rparr>) = (resp, b'))"
    have trim: "TrimSpace c = c" "TrimSpace n = n" using revocation_trimmed [OF req] by auto
    have "store_inv (br_db b1)" using store_run_schema(1) [OF inv audit_step(1) [OF audit]] .
    then have ok: "\<forall>k r. trust_row (br_db b1) k = Some r \<longrightarrow> enrollment_ok r" unfolding store_inv_def evid_inv_def by blast
    have "store_call (br_db b1) d" using store_call.revoke_node [of "br_db b1"] revoke by (metis snd_conv)
    moreover have "d = br_db b1 \<or> (\<exists>row. trust_row d = (trust_row (br_db b1))((c, n) \<mapsto> row) \<and> evidence_row d (c, n) = None \<and>
        nr_revision row = revision_of (br_db b1) (c, n) + 1)"
      using RevokeNodeEvidence_cases [OF revoke ok] trim by (auto simp: revision_of_def revoked_row_def)
    ultimately show ?thesis
      using change_recorded [OF audit store inv guard trim(1) _ _ _ _ rest] by simp
  qed (erule refuse_recorded [OF _ inv] audit_recorded [OF _ inv])+
qed

lemma Service_ListNodeEvidenceEnrollments_recorded:
  assumes "Service_ListNodeEvidenceEnrollments A s io peer req b = (resp, b')" and "store_inv (br_db b)"
  shows "recorded s (br_db b) (br_db b')"
proof -
  have "\<exists>op actor c n x dec. b' = snd (auditEnrollmentDecision s io op actor c n x dec b)"
    using assms(1) unfolding Service_ListNodeEvidenceEnrollments_def Let_def
    by (auto split: option.splits if_splits sum.splits) blast+
  then show ?thesis using audit_recorded [OF _ assms(2)] by (metis prod.collapse)
qed

section \<open>What an allowed change leaves in the store\<close>

lemma publishers_written:
  "tx_each (\<lambda>i h. stmt F l i (\<lambda>d. d\<lparr>node_evidence_publishers := node_evidence_publishers d @ [mk h]\<rparr>)) i hs d = Inr (u, d') \<Longrightarrow>
     node_evidence_publishers d' = node_evidence_publishers d @ map mk hs"
  by (induction hs arbitrary: i d) auto

lemma enroll_tx_publishers:
  assumes "enroll_tx F q d = Inr (revision, d')"
  shows "map pb_certificate (filter (pb_at (er_ClusterID q) (er_NodeName q)) (node_evidence_publishers d')) = er_PublisherCertificateHashes q"
proof -
  let ?c = "er_ClusterID q" and ?n = "er_NodeName q"
  let ?mk = "\<lambda>h. \<lparr>pb_cluster = ?c, pb_node = ?n, pb_certificate = h, pb_created_at = er_EnrolledAt q\<rparr>"
  let ?pub = "\<lambda>i h. stmt F ''insert node evidence publisher'' i
    (\<lambda>d. d\<lparr>node_evidence_publishers := node_evidence_publishers d @ [?mk h]\<rparr>)"
  from assms obtain d1 d2 u where pub: "tx_each ?pub 0 (er_PublisherCertificateHashes q) d1 = Inr (u, d2)"
    and d1: "node_evidence_publishers d1 = filter (\<lambda>r. \<not> pb_at ?c ?n r) (node_evidence_publishers d)"
    and d': "node_evidence_publishers d' = node_evidence_publishers d2"
    by (clarsimp simp: enroll_tx_def Let_def split: if_splits)
  have "filter (pb_at ?c ?n) (map ?mk hs) = map ?mk hs" for hs by (simp add: filter_id_conv pb_at_def)
  then show ?thesis unfolding d' publishers_written [OF pub] d1 by (simp add: comp_def)
qed

lemma active_from_row:
  assumes "trust_row d (c, n) = Some row" and "enrollment_ok row" and "TrimSpace c = c" and "TrimSpace n = n"
  shows "ActiveNodeEvidenceEnrollment no_faults c n d =
    (if nr_revoked_at row \<noteq> None then Inl ErrEnrollmentRevoked
     else NormalizeEnrollment \<lparr>en_ClusterID = nr_cluster row, en_NodeName = nr_node row, en_NodeUID = nr_uid row,
       en_Provider = nr_provider row, en_TPMPolicy = nr_policy row,
       en_PublisherCertificateHashes = sort (map pb_certificate (filter (pb_at c n) (node_evidence_publishers d))),
       en_Revision = word_of_int (nr_revision row), en_EnrolledAt = nr_enrolled_at row, en_UpdatedAt = nr_updated_at row,
       en_RevokedAt = 0\<rparr>)"
  using assms unfolding trust_row_def row_at_key [symmetric]
  by (auto simp: ActiveNodeEvidenceEnrollment_def scanNodeEvidenceEnrollment_def nodeEvidencePublisherHashes_def Enrollment_Active_def
      enrollment_ok_def split: option.splits)

lemma enrolled_reads_back:
  assumes "EnrollNodeEvidence F q d = (Inr enrollment, d')" and "NormalizeEnrollmentRequest q = Inr q" and inv: "evid_inv d"
  shows "ActiveNodeEvidenceEnrollment no_faults (er_ClusterID q) (er_NodeName q) d' = Inr enrollment \<and>
    uint (en_Revision enrollment) = revision_of d (er_ClusterID q, er_NodeName q) + 1 \<and>
    en_TPMPolicy enrollment = er_TPMPolicy q \<and> en_NodeUID enrollment = er_NodeUID q \<and>
    en_PublisherCertificateHashes enrollment = er_PublisherCertificateHashes q \<and>
    evidence_row d' (er_ClusterID q, er_NodeName q) = None"
proof -
  let ?c = "er_ClusterID q" and ?n = "er_NodeName q"
  have "q = q\<lparr>er_ClusterID := TrimSpace ?c, er_NodeName := TrimSpace ?n, er_NodeUID := TrimSpace (er_NodeUID q),
      er_Provider := TrimSpace (er_Provider q), er_PublisherCertificateHashes := sort (er_PublisherCertificateHashes q)\<rparr>"
    using assms(2) unfolding NormalizeEnrollmentRequest_eq_Inr by blast
  from this [THEN arg_cong [where f = er_ClusterID]] this [THEN arg_cong [where f = er_NodeName]]
    this [THEN arg_cong [where f = er_PublisherCertificateHashes]]
  have q: "TrimSpace ?c = ?c" "TrimSpace ?n = ?n" "sort (er_PublisherCertificateHashes q) = er_PublisherCertificateHashes q"
    by simp_all
  from assms(1,2) obtain revision where tx: "enroll_tx F q d = Inr (revision, d')"
    by (auto simp: EnrollNodeEvidence_def checked_def split: prod.splits sum.splits)
  note effect = enroll_tx_effect [OF tx]
  let ?e = "\<lparr>en_ClusterID = ?c, en_NodeName = ?n, en_NodeUID = er_NodeUID q, en_Provider = er_Provider q,
    en_TPMPolicy = er_TPMPolicy q, en_PublisherCertificateHashes = er_PublisherCertificateHashes q,
    en_Revision = word_of_int revision, en_EnrolledAt = er_EnrolledAt q, en_UpdatedAt = er_EnrolledAt q, en_RevokedAt = 0\<rparr>"
  have stored: "NormalizeEnrollment ?e = Inr enrollment"
    using EnrollNodeEvidence_cases [OF assms(1)] assms(2) effect by auto
  have safe: "evid_inv d'" using EnrollNodeEvidence_safe [OF inv, of F q] assms(1) by (simp add: evid_safe_def)
  with effect have ok: "enrollment_ok (enrollment_row_of q revision)"
    unfolding evid_inv_def by (metis fun_upd_same)
  then have "uint (word_of_int revision :: u64) = revision" using uint_revision by (simp add: enrollment_ok_def)
  moreover have "ActiveNodeEvidenceEnrollment no_faults ?c ?n d' = NormalizeEnrollment ?e"
    using active_from_row [OF _ ok q(1,2), of d'] effect enroll_tx_publishers [OF tx] q(3)
    by (simp add: enrollment_row_of_def)
  moreover have eta: "\<lparr>er_ClusterID = ?c, er_NodeName = ?n, er_NodeUID = er_NodeUID q, er_Provider = er_Provider q,
    er_TPMPolicy = er_TPMPolicy q, er_PublisherCertificateHashes = er_PublisherCertificateHashes q,
    er_EnrolledAt = er_EnrolledAt q\<rparr> = q" by simp
  have "enrollment = ?e"
    using stored unfolding NormalizeEnrollment_def Enrollment.select_convs eta assms(2) by (simp split: if_splits)
  ultimately show ?thesis using stored effect by (simp add: revision_of_def)
qed

lemma revoked_reads_back:
  assumes "RevokeNodeEvidence F c n now d = (Inr enrollment, d')" and "evid_inv d" and "TrimSpace c = c" and "TrimSpace n = n"
  shows "ActiveNodeEvidenceEnrollment no_faults c n d' = Inl ErrEnrollmentRevoked \<and> revision_of d' (c, n) = revision_of d (c, n) + 1 \<and>
    evidence_row d' (c, n) = None"
proof -
  have ok: "\<forall>k r. trust_row d k = Some r \<longrightarrow> enrollment_ok r" using assms(2) unfolding evid_inv_def by blast
  from RevokeNodeEvidence_cases [OF assms(1) ok] assms(3,4) obtain row where row: "trust_row d (c, n) = Some row"
    "trust_row d' = (trust_row d)((c, n) \<mapsto> revoked_row now row)" "evidence_row d' = (evidence_row d)((c, n) := None)" by auto
  have "evid_inv d'" using RevokeNodeEvidence_safe [OF assms(2), of F c n now] assms(1) by (simp add: evid_safe_def)
  then have "enrollment_ok (revoked_row now row)" using row(2) unfolding evid_inv_def by (metis fun_upd_same)
  from active_from_row [OF _ this assms(3,4), of d'] row show ?thesis by (simp add: revision_of_def revoked_row_def)
qed

text \<open>
  C9. An allowed enrollment takes effect as answered: the caller is an administrator of the cluster,
  the store now returns the enrollment of the response as the active one, with the policy and
  exactly the publisher certificates of the request and the next revision, and it holds no evidence
  of the node until it is attested again.
\<close>

theorem enrollment_takes_effect:
  assumes "store_call\<^sup>*\<^sup>* empty_db (br_db b)" and "Service_EnrollNodeEvidence A s io later peer (Some m) b = (resp, b')"
    and "dm_State (xp_Decision resp) = POLICY_DECISION_STATE_ALLOW"
  shows "\<exists>raw request reason enrollment. peer = Some raw \<and>
    admin_of s (TrimSpace (em_ClusterId m)) (''sha256:'' @ hex_encode (bl_sha256 (al_broker A) raw)) \<and>
    nodeEvidenceEnrollmentRequestFromProto (Some m) (io_clock io 0) = Inr (request, reason) \<and>
    xp_Enrollment resp = Some (nodeEvidenceEnrollmentToProto enrollment) \<and>
    ActiveNodeEvidenceEnrollment no_faults (TrimSpace (em_ClusterId m)) (TrimSpace (em_NodeName m)) (br_db b') = Inr enrollment \<and>
    en_TPMPolicy enrollment = er_TPMPolicy request \<and>
    (\<forall>h. AuthorizesPublisher enrollment h \<longleftrightarrow>
       (\<exists>h'. CanonicalSHA256Digest h = Inr h' \<and> h' \<in> set (em_PublisherCertificateSha256 m))) \<and>
    uint (en_Revision enrollment) = revision_of (br_db b) (TrimSpace (em_ClusterId m), TrimSpace (em_NodeName m)) + 1 \<and>
    (\<forall>clock now. FreshNodeEvidence no_faults clock (br_db b') (em_ClusterId m) (em_NodeName m) now = Inl ErrNodeEvidenceNotFound)"
proof -
  have inv: "store_inv (br_db b)" using store_run_schema(1) [OF store_inv_empty assms(1)] .
  from assms(2,3) obtain request reason actor b1 enrollment d where
    req: "nodeEvidenceEnrollmentRequestFromProto (Some m) (io_clock io 0) = Inr (request, reason)"
    and guard: "control_plane_guard A s peer (er_ClusterID request) = Inr actor"
    and audit: "auditEnrollmentDecision s io enrollmentOperationNodeEvidenceEnroll actor (er_ClusterID request) (er_NodeName request)
      (em_Audit m) (decisionWithReason (Allow (es_policyID s)) reason) b = (Inr (), b1)"
    and enroll: "EnrollNodeEvidence (io_faults io 0) request (br_db b1) = (Inr enrollment, d)"
    and resp: "xp_Enrollment resp = Some (nodeEvidenceEnrollmentToProto enrollment)" "b' = b1\<lparr>br_db := d\<rparr>"
    unfolding Service_EnrollNodeEvidence_def Let_def
    by (auto simp: refuse_change_def control_plane_guard_def split: sum.splits prod.splits if_splits)
  have k: "er_ClusterID request = TrimSpace (em_ClusterId m)" "er_NodeName request = TrimSpace (em_NodeName m)"
      "set (er_PublisherCertificateHashes request) = set (em_PublisherCertificateSha256 m)"
    using req by (auto simp: nodeEvidenceEnrollmentRequestFromProto_def NormalizeEnrollmentRequest_eq_Inr split: option.splits)
  have "store_inv (br_db b1)" "schema_ok (br_db b)"
    using store_run_schema(1) [OF inv audit_step(1) [OF audit]] inv by (simp_all add: store_inv_def evid_inv_def)
  then have "evid_inv (br_db b1)" "revision_of (br_db b1) = revision_of (br_db b)"
    using same_trust_rows [OF audit_step(2) [OF audit]] by (simp_all add: store_inv_def revision_of_def fun_eq_iff)
  with enrolled_reads_back [OF enroll] request_trimmed [OF req] control_plane_guard_admin [OF guard] k resp req
  show ?thesis
    by (auto simp: AuthorizesPublisher_def list_ex_iff FreshNodeEvidence_def LoadNodeEvidence_row scanNodeEvidence_def Let_def
        split: sum.splits)
qed

text \<open>
  C10. An allowed revocation takes effect at once: the caller is an administrator of the cluster, the
  revision of the node grows by one, and neither its enrollment nor any evidence of it is accepted
  any more.
\<close>

theorem revocation_takes_effect:
  assumes "store_call\<^sup>*\<^sup>* empty_db (br_db b)" and "Service_RevokeNodeEvidence A s io later peer (Some m) b = (resp, b')"
    and "dm_State (xp_Decision resp) = POLICY_DECISION_STATE_ALLOW"
  shows "\<exists>raw. peer = Some raw \<and>
    admin_of s (TrimSpace (vm_ClusterId m)) (''sha256:'' @ hex_encode (bl_sha256 (al_broker A) raw)) \<and>
    revision_of (br_db b') (TrimSpace (vm_ClusterId m), TrimSpace (vm_NodeName m)) =
      revision_of (br_db b) (TrimSpace (vm_ClusterId m), TrimSpace (vm_NodeName m)) + 1 \<and>
    ActiveNodeEvidenceEnrollment no_faults (TrimSpace (vm_ClusterId m)) (TrimSpace (vm_NodeName m)) (br_db b') = Inl ErrEnrollmentRevoked \<and>
    (\<forall>clock now. FreshNodeEvidence no_faults clock (br_db b') (vm_ClusterId m) (vm_NodeName m) now = Inl ErrNodeEvidenceNotFound)"
proof -
  let ?c = "TrimSpace (vm_ClusterId m)" and ?n = "TrimSpace (vm_NodeName m)"
  have inv: "store_inv (br_db b)" using store_run_schema(1) [OF store_inv_empty assms(1)] .
  have denied: "\<not> Allowed (revocation_failure p e)" for p e
    by (simp add: revocation_failure_def)
  from assms(2,3) obtain reason actor b1 enrollment d where
    guard: "control_plane_guard A s peer ?c = Inr actor"
    and audit: "auditEnrollmentDecision s io enrollmentOperationNodeEvidenceRevoke actor ?c ?n (vm_Audit m)
      (decisionWithReason (Allow (es_policyID s)) reason) b = (Inr (), b1)"
    and revoke: "RevokeNodeEvidence (io_faults io 0) ?c ?n (io_clock io 0) (br_db b1) = (Inr enrollment, d)"
    and b': "b' = b1\<lparr>br_db := d\<rparr>"
    unfolding Service_RevokeNodeEvidence_def Let_def nodeEvidenceRevocationRequestFromProto_def
    by (auto simp: refuse_change_def control_plane_guard_def denied split: sum.splits prod.splits if_splits)
  have "store_inv (br_db b1)" "schema_ok (br_db b)"
    using store_run_schema(1) [OF inv audit_step(1) [OF audit]] inv by (simp_all add: store_inv_def evid_inv_def)
  then have "evid_inv (br_db b1)" "revision_of (br_db b1) = revision_of (br_db b)"
    using same_trust_rows [OF audit_step(2) [OF audit]] by (simp_all add: store_inv_def revision_of_def fun_eq_iff)
  with revoked_reads_back [OF revoke] control_plane_guard_admin [OF guard] b' show ?thesis
    by (auto simp: FreshNodeEvidence_def LoadNodeEvidence_row scanNodeEvidence_def Let_def)
qed

section \<open>A run of the service\<close>

definition demo_control :: EnrollmentService where
  "demo_control = newEnrollmentService (demo_broker_config\<lparr>cf_Identities :=
     [(demo_publisher, \<lparr>ci_Roles = [ControlPlaneRoleNodeEvidenceAdmin], ci_ClusterIDs = [''prod'']\<rparr>)]\<rparr>)"

definition demo_enroll_msg :: NodeEvidenceEnrollmentRequest where
  "demo_enroll_msg = \<lparr>em_ClusterId = ''prod'', em_NodeName = ''n1'', em_NodeUid = ''u1'', em_ProviderId = ProviderTPM2Quote,
     em_TpmPolicy = Some \<lparr>tm_Mode = tp_Mode demo_policy, tm_EnrolledAkPublicHash = tp_EnrolledAKPublicHash demo_policy,
       tm_PcrPolicy = None, tm_ProviderProfile = []\<rparr>,
     em_PublisherCertificateSha256 = [demo_publisher], em_Reason = ''r'', em_Audit = None\<rparr>"

definition demo_revoke_msg :: NodeEvidenceRevocationRequest where
  "demo_revoke_msg = \<lparr>vm_ClusterId = ''prod'', vm_NodeName = ''n1'', vm_Reason = ''r'', vm_Audit = None\<rparr>"

lemma demo_control_fields:
  "es_store demo_control" "es_auditStore demo_control" "es_audit demo_control" "es_clusterID demo_control = ''prod''"
  "map_of (es_identities demo_control) demo_publisher =
     Some \<lparr>ci_Roles = [ControlPlaneRoleNodeEvidenceAdmin], ci_ClusterIDs = [''prod'']\<rparr>"
  by (simp_all add: demo_control_def newEnrollmentService_def cloneControlPlaneIdentities_def demo_broker_config_def demo_config_def
      TrimSpace_graphic graphic_def)

lemma demo_guard: "control_plane_guard demo_admin_lib demo_control (Some [7]) ''prod'' = Inr demo_publisher"
proof -
  have "nodeEvidenceClientCertificateHash demo_admin_lib (Some [7]) = Inr demo_publisher"
    by (simp add: nodeEvidenceClientCertificateHash_def demo_admin_lib_def demo_publisher_def)
  then show ?thesis
    by (simp add: control_plane_guard_def authorize_def acceptsCluster_def demo_control_fields TrimSpace_graphic graphic_def)
qed

lemma demo_enrollment_audit:
  assumes "schema_ok d" and "audit_events d = []"
  shows "\<exists>e. auditEnrollmentDecision demo_control (demo_io 0 t) op actor c n x dec \<lparr>br_db = d, br_audit = []\<rparr> =
    (Inr (), \<lparr>br_db = d\<lparr>audit_events := [e]\<rparr>, br_audit = [e]\<rparr>)"
proof -
  have "schema_ok (d\<lparr>audit_events := [e]\<rparr>)" for e using assms(1) by (simp add: schema_eval)
  then show ?thesis
    by (simp add: auditEnrollmentDecision_def demo_control_fields randomID_def ReadFull_def demo_io_def FileAudit_Write_def
        InsertAuditEvent_def stmt_def auto_commit_def assms(2) Let_def)
qed

lemma demo_enroll_from: "nodeEvidenceEnrollmentRequestFromProto (Some demo_enroll_msg) 10 = Inr (demo_enroll, ''r'')"
proof -
  have "TrimSpace (tp_EnrolledAKPublicHash demo_policy) = tp_EnrolledAKPublicHash demo_policy"
    using TrimSpace_digest [of "replicate 32 0"]
    by (simp add: demo_policy_def digestString_def HashSHA256_def ToLower_def lower_char_def)
  then have "tpmPolicyFromProto \<lparr>tm_Mode = tp_Mode demo_policy, tm_EnrolledAkPublicHash = tp_EnrolledAKPublicHash demo_policy,
      tm_PcrPolicy = None, tm_ProviderProfile = []\<rparr> = Inr demo_policy"
    by (simp add: tpmPolicyFromProto_def Let_def) (simp add: demo_policy_def PolicyModeTPMOnly_def TrimSpace_graphic graphic_def)
  moreover have "normalizeEnrollmentReason ''r'' = Inr ''r''"
    by (simp add: normalizeEnrollmentReason_def TrimSpace_graphic graphic_def)
  ultimately show ?thesis
    using demo_enroll_valid
    by (simp add: nodeEvidenceEnrollmentRequestFromProto_def demo_enroll_msg_def) (simp add: demo_enroll_def demo_publisher_def)
qed

lemma demo_enroll_logged: "\<exists>d enrollment. EnrollNodeEvidence no_faults demo_enroll (demo_db\<lparr>audit_events := [e]\<rparr>) = (Inr enrollment, d)"
proof -
  have "\<exists>d. enroll_tx no_faults demo_enroll (demo_db\<lparr>audit_events := [e]\<rparr>) = Inr (1, d)"
    unfolding demo_db_def demo_db_run snd_conv
    by (simp add: enroll_tx_def Let_def maxNodeEvidenceEnrollmentRevision_def demo_enroll_def upsert_def)
      (simp add: schema_eval demo_record_def demo_key_def empty_db_def enrollment_row_of_def)
  moreover have "NormalizeEnrollment demo_active = Inr demo_active"
    using demo_enroll_valid by (simp add: NormalizeEnrollment_def demo_active_def demo_enroll_def demo_publisher_def del: append.simps)
  ultimately show ?thesis
    by (auto simp: EnrollNodeEvidence_def checked_def demo_enroll_valid with_tx_def)
      (simp add: demo_active_def demo_enroll_def demo_publisher_def)
qed

theorem enrollment_takes_effect_witness:
  "\<exists>resp b' enrollment. Service_EnrollNodeEvidence demo_admin_lib demo_control (demo_io 0 10) (demo_io 1 10) (Some [7])
      (Some demo_enroll_msg) \<lparr>br_db = demo_db, br_audit = []\<rparr> = (resp, b') \<and>
    dm_State (xp_Decision resp) = POLICY_DECISION_STATE_ALLOW \<and>
    ActiveNodeEvidenceEnrollment no_faults ''prod'' ''n1'' (br_db b') = Inr enrollment \<and> AuthorizesPublisher enrollment demo_publisher"
proof -
  let ?b = "\<lparr>br_db = demo_db, br_audit = []\<rparr>"
  have "audit_events demo_db = []" unfolding demo_db_def demo_db_run snd_conv by (simp add: empty_db_def)
  note audit = demo_enrollment_audit [OF demo_db_schema this]
  obtain resp b' where run: "Service_EnrollNodeEvidence demo_admin_lib demo_control (demo_io 0 10) (demo_io 1 10) (Some [7])
      (Some demo_enroll_msg) ?b = (resp, b')" by fastforce
  have clock: "io_clock (demo_io 0 10) 0 = 10" "io_faults (demo_io 0 10) 0 = no_faults" by (simp_all add: demo_io_def)
  have req: "er_ClusterID demo_enroll = ''prod''" "er_NodeName demo_enroll = ''n1''" by (simp_all add: demo_enroll_def)
  from audit [of 10 enrollmentOperationNodeEvidenceEnroll demo_publisher "''prod''" "''n1''" "em_Audit demo_enroll_msg"
      "decisionWithReason (Allow (es_policyID demo_control)) ''r''"]
  obtain e where e: "auditEnrollmentDecision demo_control (demo_io 0 10) enrollmentOperationNodeEvidenceEnroll demo_publisher ''prod'' ''n1''
      (em_Audit demo_enroll_msg) (decisionWithReason (Allow (es_policyID demo_control)) ''r'') ?b =
      (Inr (), \<lparr>br_db = demo_db\<lparr>audit_events := [e]\<rparr>, br_audit = [e]\<rparr>)" by blast
  from demo_enroll_logged [of e] run have allow: "dm_State (xp_Decision resp) = POLICY_DECISION_STATE_ALLOW"
    by (auto simp: Service_EnrollNodeEvidence_def Let_def clock demo_enroll_from req demo_guard e)
  have "CanonicalSHA256Digest demo_publisher = Inr demo_publisher"
    unfolding CanonicalSHA256Digest_eq_Inr demo_publisher_def by (intro conjI refl exI [of _ "replicate 32 1"]) simp
  with enrollment_takes_effect [of ?b, OF _ run allow] demo_reach(1) run allow show ?thesis
    by (auto simp: demo_enroll_msg_def TrimSpace_graphic graphic_def)
qed

lemma demo_revoke_logged:
  "\<exists>d enrollment. RevokeNodeEvidence no_faults ''prod'' ''n1'' 12 (demo_enrolled\<lparr>audit_events := [e]\<rparr>) = (Inr enrollment, d)"
proof -
  let ?e = "demo_active\<lparr>en_PublisherCertificateHashes := [], en_Revision := 2, en_UpdatedAt := 12, en_RevokedAt := 12\<rparr>"
  have "\<exists>d. revoke_tx no_faults ''prod'' ''n1'' 12 (demo_enrolled\<lparr>audit_events := [e]\<rparr>) = Inr (?e, d) \<and>
      node_evidence_publishers d = node_evidence_publishers demo_enrolled"
    unfolding demo_enrolled_eq demo_db_def demo_db_run snd_conv
    by (simp add: revoke_tx_def Let_def scanNodeEvidenceEnrollment_def nr_at_def enrollment_row_of_def demo_enroll_def
        Enrollment_Active_def maxNodeEvidenceEnrollmentRevision_def set_where_def)
      (simp add: schema_eval demo_record_def demo_key_def empty_db_def demo_active_def)
  moreover have "nodeEvidencePublisherHashes no_faults ''prod'' ''n1'' d = Inr [demo_publisher]"
    if "node_evidence_publishers d = node_evidence_publishers demo_enrolled" for d
    by (simp add: nodeEvidencePublisherHashes_def that demo_enrolled_eq pb_at_def demo_publisher_def)
  moreover have "\<exists>x. NormalizeEnrollment (?e\<lparr>en_PublisherCertificateHashes := [demo_publisher]\<rparr>) = Inr x"
    using demo_enroll_valid by (simp add: NormalizeEnrollment_def demo_active_def demo_enroll_def demo_publisher_def del: append.simps)
  ultimately show ?thesis
    by (auto simp: RevokeNodeEvidence_def Let_def checked_def assertE_def TrimSpace_graphic graphic_def with_tx_def)
qed

theorem revocation_takes_effect_witness:
  "\<exists>resp b'. Service_RevokeNodeEvidence demo_admin_lib demo_control (demo_io 0 12) (demo_io 1 12) (Some [7])
      (Some demo_revoke_msg) \<lparr>br_db = demo_enrolled, br_audit = []\<rparr> = (resp, b') \<and>
    dm_State (xp_Decision resp) = POLICY_DECISION_STATE_ALLOW \<and>
    ActiveNodeEvidenceEnrollment no_faults ''prod'' ''n1'' (br_db b') = Inl ErrEnrollmentRevoked"
proof -
  let ?b = "\<lparr>br_db = demo_enrolled, br_audit = []\<rparr>"
  have "audit_events demo_enrolled = []" unfolding demo_enrolled_eq demo_db_def demo_db_run snd_conv by (simp add: empty_db_def)
  moreover have "schema_ok demo_enrolled" using demo_enrolled_inv by (simp add: evid_inv_def)
  ultimately have "\<exists>e. auditEnrollmentDecision demo_control (demo_io 0 12) enrollmentOperationNodeEvidenceRevoke demo_publisher ''prod'' ''n1''
      None (decisionWithReason (Allow (es_policyID demo_control)) ''r'') ?b =
      (Inr (), \<lparr>br_db = demo_enrolled\<lparr>audit_events := [e]\<rparr>, br_audit = [e]\<rparr>)" by (intro demo_enrollment_audit)
  then obtain e where e: "auditEnrollmentDecision demo_control (demo_io 0 12) enrollmentOperationNodeEvidenceRevoke demo_publisher ''prod'' ''n1''
      None (decisionWithReason (Allow (es_policyID demo_control)) ''r'') ?b =
      (Inr (), \<lparr>br_db = demo_enrolled\<lparr>audit_events := [e]\<rparr>, br_audit = [e]\<rparr>)" by blast
  obtain resp b' where run: "Service_RevokeNodeEvidence demo_admin_lib demo_control (demo_io 0 12) (demo_io 1 12) (Some [7])
      (Some demo_revoke_msg) ?b = (resp, b')" by fastforce
  have clock: "io_clock (demo_io 0 12) 0 = 12" "io_faults (demo_io 0 12) 0 = no_faults" by (simp_all add: demo_io_def)
  have req: "nodeEvidenceRevocationRequestFromProto (Some demo_revoke_msg) = (''prod'', ''n1'', Inr ''r'')"
    by (simp add: nodeEvidenceRevocationRequestFromProto_def demo_revoke_msg_def normalizeEnrollmentReason_def TrimSpace_graphic graphic_def)
  have audit: "vm_Audit demo_revoke_msg = None" by (simp add: demo_revoke_msg_def)
  from demo_revoke_logged [of e] run have allow: "dm_State (xp_Decision resp) = POLICY_DECISION_STATE_ALLOW"
    by (auto simp: Service_RevokeNodeEvidence_def Let_def clock req demo_guard e audit)
  from revocation_takes_effect [of ?b, OF _ run allow] demo_reach(3) run allow show ?thesis
    by (auto simp: demo_revoke_msg_def TrimSpace_graphic graphic_def)
qed

end
