(* ===== verification/Broker_System.thy ===== *)
theory Broker_System
  imports Enrollment_Service
begin

text \<open>
  The calls that the gRPC server of the broker answers (\<^verbatim>\<open>internal/broker/server.go\<close>), as one
  step relation on the state of the broker: the unseal service, the administrative service and the
  enrollment service, in any order, together with the operations on the store that do not touch the
  trust of nodes, such as key rotation.  The trust of nodes changes by the enrollment service only,
  and the audit log accounts for every revision of it.
\<close>

section \<open>Calls that leave the trust of nodes alone\<close>

definition quiet :: "db \<Rightarrow> db \<Rightarrow> bool" where
  "quiet d d' \<longleftrightarrow> store_call d d' \<and> node_evidence_enrollments d' = node_evidence_enrollments d"

lemma methods_keep_enrollments:
  "node_evidence_enrollments (snd (CreateChallenge F challenge d)) = node_evidence_enrollments d"
  "node_evidence_enrollments (snd (ConsumeChallenge F i c s operation now d)) = node_evidence_enrollments d"
  "node_evidence_enrollments (snd (InsertAuditEvent F event d)) = node_evidence_enrollments d"
  "node_evidence_enrollments (snd (PutEnrolledNodeEvidence F clock evidence revision d)) = node_evidence_enrollments d"
  "node_evidence_enrollments (snd (PutNodeEvidence F clock evidence d)) = node_evidence_enrollments d"
  "node_evidence_enrollments (snd (PruneNodeEvidence F clock c expiredBefore d)) = node_evidence_enrollments d"
  unfolding log_methods trust_methods
  by (intro method_keeps [where P = "\<lambda>x. node_evidence_enrollments x = node_evidence_enrollments d"] tx_keeps_rules; simp)+

lemma quiet_methods [intro, simp]:
  "quiet d (snd (CreateChallenge F challenge d))" "quiet d (snd (ConsumeChallenge F i c s operation now d))"
  "quiet d (snd (InsertAuditEvent F event d))" "quiet d (snd (PutEnrolledNodeEvidence F clock evidence revision d))"
  "quiet d (snd (PutNodeEvidence F clock evidence d))" "quiet d (snd (PruneNodeEvidence F clock c expiredBefore d))"
  by (simp_all add: quiet_def methods_keep_enrollments store_call.intros)

lemma quiet_run: "quiet\<^sup>*\<^sup>* d d' \<Longrightarrow> store_call\<^sup>*\<^sup>* d d' \<and> node_evidence_enrollments d' = node_evidence_enrollments d"
  by (induction rule: rtranclp_induct) (auto simp: quiet_def)

lemma quiet_results:
  "CreateChallenge F challenge d = (r, d') \<Longrightarrow> quiet\<^sup>*\<^sup>* d d'"
  "ConsumeChallenge F i c s operation now d = (r, d') \<Longrightarrow> quiet\<^sup>*\<^sup>* d d'"
  "pruneNodeEvidence ad io c d = (r', d') \<Longrightarrow> quiet\<^sup>*\<^sup>* d d'"
  "storeNodeEvidence io evidence revision d = (r, d') \<Longrightarrow> quiet\<^sup>*\<^sup>* d d'"
proof -
  have step: "quiet d (snd x) \<Longrightarrow> x = (r, d') \<Longrightarrow> quiet\<^sup>*\<^sup>* d d'" for x :: "'r \<times> db" and r d d' by auto
  show "CreateChallenge F challenge d = (r, d') \<Longrightarrow> quiet\<^sup>*\<^sup>* d d'"
    "ConsumeChallenge F i c s operation now d = (r, d') \<Longrightarrow> quiet\<^sup>*\<^sup>* d d'"
    by (erule step [rotated], simp)+
  show "storeNodeEvidence io evidence revision d = (r, d') \<Longrightarrow> quiet\<^sup>*\<^sup>* d d'"
    by (erule step [rotated]) (simp add: storeNodeEvidence_def)
  have "PruneNodeEvidence F clock c t d = (x, d') \<Longrightarrow> quiet\<^sup>*\<^sup>* d d'" for F clock t x
    by (metis quiet_methods(6) r_into_rtranclp snd_conv)
  then show "pruneNodeEvidence ad io c d = (r', d') \<Longrightarrow> quiet\<^sup>*\<^sup>* d d'"
    by (auto simp: pruneNodeEvidence_def Let_def split: if_splits prod.splits sum.splits)
qed

lemma audit_quiet:
  "quiet\<^sup>*\<^sup>* d (br_db b) \<Longrightarrow> quiet\<^sup>*\<^sup>* d (br_db (auditDecision L s io su op c v dec ev b))"
  "quiet\<^sup>*\<^sup>* d (br_db b) \<Longrightarrow> quiet\<^sup>*\<^sup>* d (br_db (auditNodeEvidence ad io name c n h dec b))"
  by (auto simp: auditDecision_def auditNodeEvidence_def Let_def split: sum.splits intro: rtranclp.rtrancl_into_rtrancl)

lemma evaluate_quiet: "Policy_evaluate e io req d = (dec, d') \<Longrightarrow> quiet\<^sup>*\<^sup>* d d'"
  by (auto simp: Policy_evaluate_def Let_def consumeChallenge_def split: if_splits sum.splits prod.splits intro: quiet_results(2))

lemma audited_quiet:
  "quiet\<^sup>*\<^sup>* (br_db b) (br_db (auditDecision L s io su op c v dec ev b))"
  "quiet\<^sup>*\<^sup>* (br_db b) (br_db (auditNodeEvidence ad io name c n h dec b))"
  "quiet\<^sup>*\<^sup>* (br_db b) d \<Longrightarrow> quiet\<^sup>*\<^sup>* (br_db b) (br_db (auditNodeEvidence ad io name c n h dec (b\<lparr>br_db := d\<rparr>)))"
  "Policy_evaluate e io req (br_db b) = (dec', d) \<Longrightarrow>
     quiet\<^sup>*\<^sup>* (br_db b) (br_db (auditDecision L s io su op c v dec ev (b\<lparr>br_db := d\<rparr>)))"
  by (intro audit_quiet; simp add: evaluate_quiet)+

lemma Service_Challenge_quiet: "quiet\<^sup>*\<^sup>* (br_db b) (br_db (snd (Service_Challenge s io req b)))"
  unfolding Service_Challenge_def Let_def by (auto split: option.splits prod.splits sum.splits intro: quiet_results(1))

lemma Wrap_quiet: "quiet\<^sup>*\<^sup>* (br_db b) (br_db (snd (Wrap L s io req b)))"
  unfolding Wrap_def Let_def Service_evaluate_def
  by (auto split: option.splits prod.splits sum.splits intro: audited_quiet evaluate_quiet)

lemma Unwrap_quiet: "quiet\<^sup>*\<^sup>* (br_db b) (br_db (snd (Unwrap L s io req b)))"
  unfolding Unwrap_def Let_def Service_evaluate_def
  by (auto split: option.splits prod.splits sum.splits intro: audited_quiet evaluate_quiet)

lemma ChallengeNodeEvidence_quiet: "quiet\<^sup>*\<^sup>* (br_db b) (br_db (snd (ChallengeNodeEvidence A quote ad io peer req b)))"
  unfolding ChallengeNodeEvidence_def Let_def
  by (auto split: prod.splits sum.splits intro!: audited_quiet intro: quiet_results(1))

lemma ListNodeEvidence_quiet: "quiet\<^sup>*\<^sup>* (br_db b) (br_db (snd (Admin_ListNodeEvidence ad io req b)))"
  unfolding Admin_ListNodeEvidence_def Let_def
  by (auto split: option.splits prod.splits sum.splits intro!: audited_quiet intro: quiet_results(3))

lemma CheckEvidence_quiet: "quiet\<^sup>*\<^sup>* (br_db b) (br_db (snd (CheckEvidence A ad io req b)))"
  unfolding CheckEvidence_def Let_def auditEvidenceCheck_def by (auto split: option.splits sum.splits intro!: audited_quiet)

lemma publish_chain_quiet:
  assumes "ConsumeChallenge F i c s operation now d = (r, d1)" and "pruneNodeEvidence ad io c' d1 = (r1, d2)"
  shows "quiet\<^sup>*\<^sup>* d d2" "storeNodeEvidence io' evidence revision d2 = (r2, d3) \<Longrightarrow> quiet\<^sup>*\<^sup>* d d3"
proof -
  show "quiet\<^sup>*\<^sup>* d d2" using quiet_results(2,3) assms by (meson rtranclp_trans)
  then show "storeNodeEvidence io' evidence revision d2 = (r2, d3) \<Longrightarrow> quiet\<^sup>*\<^sup>* d d3"
    using quiet_results(4) by (meson rtranclp_trans)
qed

lemma PublishNodeEvidence_quiet: "quiet\<^sup>*\<^sup>* (br_db b) (br_db (snd (PublishNodeEvidence A quote ad io peer req b)))"
  unfolding PublishNodeEvidence_def Let_def
  by (auto split: prod.splits sum.splits intro!: audited_quiet intro: quiet_results(2) publish_chain_quiet)

lemmas rpc_quiet = Service_Challenge_quiet Wrap_quiet Unwrap_quiet ChallengeNodeEvidence_quiet ListNodeEvidence_quiet
  CheckEvidence_quiet PublishNodeEvidence_quiet

section \<open>The broker as a system\<close>

inductive rpc :: "admin_lib \<Rightarrow> (string \<Rightarrow> string) \<Rightarrow> Service \<Rightarrow> AdminService \<Rightarrow> EnrollmentService \<Rightarrow> broker \<Rightarrow> broker \<Rightarrow> bool"
  for A quote sv ad es where
  challenge: "rpc A quote sv ad es b (snd (Service_Challenge sv io creq b))"
| wrap: "rpc A quote sv ad es b (snd (Wrap (al_broker A) sv io wreq b))"
| unwrap: "rpc A quote sv ad es b (snd (Unwrap (al_broker A) sv io ureq b))"
| challenge_node_evidence: "rpc A quote sv ad es b (snd (ChallengeNodeEvidence A quote ad io peer nreq b))"
| publish_node_evidence: "rpc A quote sv ad es b (snd (PublishNodeEvidence A quote ad io peer preq b))"
| list_node_evidence: "rpc A quote sv ad es b (snd (Admin_ListNodeEvidence ad io lreq b))"
| check_evidence: "rpc A quote sv ad es b (snd (CheckEvidence A ad io ereq b))"
| enroll: "rpc A quote sv ad es b (snd (Service_EnrollNodeEvidence A es io later peer xreq b))"
| revoke: "rpc A quote sv ad es b (snd (Service_RevokeNodeEvidence A es io later peer vreq b))"
| list_enrollments: "rpc A quote sv ad es b (snd (Service_ListNodeEvidenceEnrollments A es io peer yreq b))"
| maintenance: "quiet (br_db b) d \<Longrightarrow> rpc A quote sv ad es b (b\<lparr>br_db := d\<rparr>)"

lemma rpc_recorded:
  assumes "rpc A quote sv ad es b b'" and inv: "store_inv (br_db b)" and "es_auditStore es"
  shows "recorded es (br_db b) (br_db b') \<or> quiet\<^sup>*\<^sup>* (br_db b) (br_db b')"
  using assms(1)
proof cases
  case enroll
  then show ?thesis using Service_EnrollNodeEvidence_recorded [OF _ inv assms(3)] by (metis prod.collapse)
next
  case revoke
  then show ?thesis using Service_RevokeNodeEvidence_recorded [OF _ inv assms(3)] by (metis prod.collapse)
next
  case list_enrollments
  then show ?thesis using Service_ListNodeEvidenceEnrollments_recorded [OF _ inv] by (metis prod.collapse)
qed (auto intro: rpc_quiet)

section \<open>The audit log accounts for every trust change\<close>

definition changes_recorded :: "EnrollmentService \<Rightarrow> db \<Rightarrow> bool" where
  "changes_recorded es d \<longleftrightarrow> store_inv d \<and>
     (\<forall>k. revision_of d k \<le> int (length (filter (change_entry es k) (audit_events d))))"

lemma changes_recordedD:
  "changes_recorded es d \<Longrightarrow> revision_of d k \<le> int (length (filter (change_entry es k) (audit_events d)))"
  unfolding changes_recorded_def by blast

lemma entries_grow: "prefix xs ys \<Longrightarrow> int (length (filter P xs)) \<le> int (length (filter P ys))"
  by (auto simp: prefix_def)

lemma same_revisions_recorded:
  assumes "changes_recorded es d" and "store_call\<^sup>*\<^sup>* d d'" and "trust_row d' = trust_row d"
  shows "changes_recorded es d'"
proof -
  have inv: "store_inv d" using assms(1) by (simp add: changes_recorded_def)
  have "store_inv d'" using store_run_schema(1) [OF inv assms(2)] .
  moreover have "prefix (audit_events d) (audit_events d')"
    using store_run_later [OF assms(2) inv] by (simp add: store_later_def record_later_def)
  then have "revision_of d' k \<le> int (length (filter (change_entry es k) (audit_events d')))" for k
    using changes_recordedD [OF assms(1), of k] entries_grow [of "audit_events d" "audit_events d'" "change_entry es k"] assms(3)
    by (simp add: revision_of_def)
  ultimately show ?thesis unfolding changes_recorded_def by blast
qed

lemma recorded_keeps:
  assumes "changes_recorded es d" and "recorded es d d'"
  shows "changes_recorded es d'"
proof -
  have inv: "store_inv d" and run: "store_call\<^sup>*\<^sup>* d d'" using assms by (auto simp: changes_recorded_def recorded_def)
  from assms(2) consider "same_trust d d'" | k where "recorded_change es k d d'" by (auto simp: recorded_def)
  then show ?thesis
  proof cases
    case 1
    then show ?thesis using same_revisions_recorded [OF assms(1) run] same_trust_rows by blast
  next
    case 2
    then obtain e rest row where e: "audit_events d' = audit_events d @ e # rest" "change_entry es k e"
      "trust_row d' = (trust_row d)(k \<mapsto> row)" "nr_revision row = revision_of d k + 1" by (auto simp: recorded_change_def)
    have "revision_of d' j \<le> int (length (filter (change_entry es j) (audit_events d')))" for j
    proof -
      show ?thesis using changes_recordedD [OF assms(1), of j] e by (cases "j = k") (auto simp: revision_of_def)
    qed
    then show ?thesis using store_run_schema(1) [OF inv run] unfolding changes_recorded_def by blast
  qed
qed

lemma rpc_keeps:
  assumes "rpc A quote sv ad es b b'" and "changes_recorded es (br_db b)" and "es_auditStore es"
  shows "changes_recorded es (br_db b')"
proof -
  have "store_inv (br_db b)" using assms(2) by (simp add: changes_recorded_def)
  from rpc_recorded [OF assms(1) this assms(3)] show ?thesis
  proof
    assume "quiet\<^sup>*\<^sup>* (br_db b) (br_db b')"
    then show ?thesis using same_revisions_recorded [OF assms(2)] quiet_run by (simp add: trust_row_def fun_eq_iff)
  qed (rule recorded_keeps [OF assms(2)])
qed

lemma rpc_run_keeps:
  "(rpc A quote sv ad es)\<^sup>*\<^sup>* b b' \<Longrightarrow> changes_recorded es (br_db b) \<Longrightarrow> es_auditStore es \<Longrightarrow> changes_recorded es (br_db b')"
  by (induction rule: rtranclp_induct) (auto intro: rpc_keeps)

lemma start_recorded: "store_call\<^sup>*\<^sup>* empty_db d \<Longrightarrow> trust_row d = Map.empty \<Longrightarrow> changes_recorded es d"
  using store_run_schema(1) [OF store_inv_empty] by (simp add: changes_recorded_def revision_of_def)

lemma recorded_evidence:
  assumes "changes_recorded es d" and "evidence_row d k = Some e" and "nv_provider e = ProviderTPM2Quote"
  shows "\<exists>r entry. trust_row d k = Some r \<and> nr_revoked_at r = None \<and> nv_revision e = Some (nr_revision r) \<and>
    entry \<in> set (audit_events d) \<and> change_entry es k entry"
proof -
  have "evid_inv d" using assms(1) by (simp add: changes_recorded_def store_inv_def)
  with assms(2,3) obtain r where r: "trust_row d k = Some r" "nr_revoked_at r = None" "nv_revision e = Some (nr_revision r)" "enrollment_ok r"
    unfolding evid_inv_def backed_def by blast
  from changes_recordedD [OF assms(1), of k] r have "filter (change_entry es k) (audit_events d) \<noteq> []" by (auto simp: revision_of_def enrollment_ok_def)
  then show ?thesis using r by (auto simp: filter_empty_conv)
qed

lemma fresh_evidence_row:
  assumes "FreshNodeEvidence F 0 d c n now = Inr e"
  shows "\<exists>row. evidence_row d (TrimSpace c, TrimSpace n) = Some row \<and> now < nv_expires_at row"
  using assms
  by (auto simp: FreshNodeEvidence_def LoadNodeEvidence_def scanNodeEvidence_def evidence_row_def row_at_key Let_def
      split: if_splits option.splits)

section \<open>A run of the system\<close>

text \<open>A pod of the service account \<^verbatim>\<open>ns:sa\<close> on the node \<^verbatim>\<open>n1\<close>, and a cluster with that service account as its subject.\<close>

definition demo_k8s_config :: Config where
  "demo_k8s_config = demo_broker_config\<lparr>cf_Kubernetes := (cf_Kubernetes demo_broker_config)\<lparr>k8_Enabled := True\<rparr>,
     cf_Identities := [(demo_publisher, \<lparr>ci_Roles = [ControlPlaneRoleNodeEvidenceAdmin], ci_ClusterIDs = [''prod'']\<rparr>)]\<rparr>"

definition demo_status :: TokenReviewStatus where
  "demo_status = \<lparr>ts_Authenticated = True, ts_User = \<lparr>ui_Username = ''system:serviceaccount:ns:sa'', ui_UID = ''u'', ui_Groups = [],
     ui_Extra = [(extraPodName, [''p'']), (extraPodUID, [''q''])]\<rparr>, ts_Audiences = [], ts_Error = []\<rparr>"

definition demo_api :: "TokenReviewer \<times> PodLookup" where
  "demo_api = (\<lambda>_. Inr demo_status, \<lambda>_ _. Inr \<lparr>pi_Namespace = ''ns'', pi_Name = ''p'', pi_UID = ''q'', pi_NodeName = ''n1''\<rparr>)"

definition demo_verifier :: Verifier where
  "demo_verifier = NewKubernetesEvidenceVerifierWithPodLookup (Some (fst demo_api)) (Some (snd demo_api)) (cf_Kubernetes demo_k8s_config)"

definition demo_pod :: VerifiedEvidence where
  "demo_pod = \<lparr>vf_Subject = ''ns.sa'', vf_Workload = \<lparr>wl_Namespace = ''ns'', wl_ServiceAccount = ''sa'', wl_PodName = ''p'', wl_PodUID = ''q'',
     wl_NodeName = ''n1'', wl_NodeUID = []\<rparr>\<rparr>"

definition demo_k8s_service :: Service where
  "demo_k8s_service = NewServiceWithEvidenceVerifierAndNodeEvidence demo_k8s_config (Some runtime_keyrings)
     (Some (KubernetesVerifyEvidence (\<lambda>_. Inr ''t'') demo_verifier)) (Some (\<lambda>F. FreshNodeEvidence F 0))"

definition demo_ticket :: "time option \<Rightarrow> challenge_row" where
  "demo_ticket consumed = \<lparr>ch_id = ''c'', ch_nonce = [1], ch_cluster = ''prod'', ch_subject = ''ns.sa'',
     ch_operation = Operation_String OPERATION_UNWRAP, ch_expires_at = 100, ch_consumed_at = consumed, ch_created_at = 5\<rparr>"

definition demo_cluster ::
  "time option \<Rightarrow> AuditEvent list \<Rightarrow> enrollment_row list \<Rightarrow> publisher_row list \<Rightarrow> node_evidence_row list \<Rightarrow> db" where
  "demo_cluster consumed es nrs pbs nvs = demo_db\<lparr>subjects := [\<lparr>su_cluster = ''prod'', su_subject = ''ns.sa'', su_revoked = False,
     su_created_at = 8, su_revoked_at = None\<rparr>], challenges := [demo_ticket consumed], audit_events := es,
     node_evidence_enrollments := nrs, node_evidence_publishers := pbs, node_evidence := nvs\<rparr>"

definition demo_pub_row :: publisher_row where
  "demo_pub_row = \<lparr>pb_cluster = ''prod'', pb_node = ''n1'', pb_certificate = demo_publisher, pb_created_at = 10\<rparr>"

definition demo_node_evidence :: node_evidence_row where
  "demo_node_evidence = evidence_row_of demo_node 11 (Some 1)"

lemma demo_k8s_start:
  "newKubernetesRuntimeDependencies (Inr demo_api) (cf_Kubernetes demo_k8s_config) = Inr demo_verifier"
  "newRuntimeService demo_k8s_config (Inr (KubernetesVerifyEvidence (\<lambda>_. Inr ''t'') demo_verifier)) = Inr demo_k8s_service"
  "k8_Enabled (cf_Kubernetes demo_k8s_config)" "RequirePodBoundToken (cf_Kubernetes demo_k8s_config)"
  by (simp_all add: newKubernetesRuntimeDependencies_def newRuntimeService_def demo_verifier_def demo_k8s_service_def demo_k8s_config_def
      RequirePodBoundToken_def demo_broker_config_def demo_config_def case_prod_beta)

lemma demo_pod_verified:
  "KubernetesVerifyEvidence (\<lambda>_. Inr ''t'') demo_verifier (Some (NewEvidenceEnvelope ''c'' ''t'')) = Inr demo_pod"
proof -
  let ?e = "NewEvidenceEnvelope ''c'' ''t''"
  have cfg: "ve_Config demo_verifier = \<lparr>vc_Audience = [], vc_Namespace = [], vc_ServiceAccount = [], vc_RequirePodBinding = True\<rparr>"
    "ve_Reviewer demo_verifier = Some (\<lambda>_. Inr demo_status)"
    "ve_PodLookup demo_verifier = Some (\<lambda>_ _. Inr \<lparr>pi_Namespace = ''ns'', pi_Name = ''p'', pi_UID = ''q'', pi_NodeName = ''n1''\<rparr>)"
    by (simp_all add: demo_verifier_def NewKubernetesEvidenceVerifierWithPodLookup_def demo_api_def demo_k8s_config_def demo_broker_config_def
        demo_config_def RequirePodBoundToken_def)
  have "parseServiceAccountUsername ''system:serviceaccount:ns:sa'' = Inr (''ns'', ''sa'')"
    by (simp add: parseServiceAccountUsername_eq_Inr)
  moreover have "extraPodName \<noteq> extraPodUID" "extraNodeName \<notin> {extraPodName, extraPodUID}" "extraNodeUID \<notin> {extraPodName, extraPodUID}"
    by (simp_all add: extraPodName_def extraPodUID_def extraNodeName_def extraNodeUID_def)
  ultimately have "claimsFromStatus demo_verifier demo_status = Inr (status_claims demo_status ''ns'' ''sa'')"
    by (auto simp: claimsFromStatus_def demo_status_def cfg validateServiceAccount_def status_claims_def Let_def firstExtra_def)
  moreover have "verifyPodBinding demo_verifier (status_claims demo_status ''ns'' ''sa'') =
      Inr ((status_claims demo_status ''ns'' ''sa'')\<lparr>kc_NodeName := ''n1''\<rparr>)"
    using \<open>extraPodName \<noteq> extraPodUID\<close> \<open>extraNodeName \<notin> _\<close>
    by (auto simp: verifyPodBinding_def cfg status_claims_def demo_status_def Let_def firstExtra_def)
  moreover have "decodeEvidencePayload (\<lambda>_. Inr ''t'') (Some ?e) = Inr ''t''"
    by (simp add: decodeEvidencePayload_def NewEvidenceEnvelope_def EvidencePayload_json_def json_object_def MaxProtoPayloadSize_def
        json_field_def json_string_def json_char_def bytes_of_def)
  ultimately show ?thesis
    using \<open>extraNodeUID \<notin> _\<close> \<open>extraPodName \<noteq> extraPodUID\<close>
    by (auto simp: KubernetesVerifyEvidence_def KubernetesVerify_def cfg reviewToken_def Let_def demo_pod_def status_claims_def demo_status_def
        firstExtra_def)
qed

lemma demo_cluster_schema:
  "schema_ok (demo_cluster x [] [] [] [])" "schema_ok (demo_cluster x [e] [] [] [])"
  "schema_ok (demo_cluster x [e] [enrollment_row_of demo_enroll 1] [demo_pub_row] [])"
  "schema_ok (demo_cluster x [e] [enrollment_row_of demo_enroll 1] [demo_pub_row] [demo_node_evidence])"
  unfolding demo_cluster_def demo_db_def demo_db_run snd_conv
  by (simp_all add: schema_eval demo_record_def demo_key_def empty_db_def enrollment_row_of_def demo_enroll_def demo_ticket_def
      demo_pub_row_def demo_node_evidence_def evidence_row_of_def demo_node_def)

lemma demo_cluster_fields [simp]:
  "subjects (demo_cluster x es nrs pbs nvs) = [\<lparr>su_cluster = ''prod'', su_subject = ''ns.sa'', su_revoked = False, su_created_at = 8,
     su_revoked_at = None\<rparr>]" "challenges (demo_cluster x es nrs pbs nvs) = [demo_ticket x]"
  "audit_events (demo_cluster x es nrs pbs nvs) = es" "node_evidence_enrollments (demo_cluster x es nrs pbs nvs) = nrs"
  "node_evidence_publishers (demo_cluster x es nrs pbs nvs) = pbs" "node_evidence (demo_cluster x es nrs pbs nvs) = nvs"
  "key_versions (demo_cluster x es nrs pbs nvs) = key_versions (demo_store [] [])"
  "(demo_cluster x es nrs pbs nvs)\<lparr>challenges := [demo_ticket y]\<rparr> = demo_cluster y es nrs pbs nvs"
  "(demo_cluster x es nrs pbs nvs)\<lparr>audit_events := es'\<rparr> = demo_cluster x es' nrs pbs nvs"
  "(demo_cluster x es nrs pbs nvs)\<lparr>node_evidence_enrollments := nrs'\<rparr> = demo_cluster x es nrs' pbs nvs"
  "(demo_cluster x es nrs pbs nvs)\<lparr>node_evidence_publishers := pbs'\<rparr> = demo_cluster x es nrs pbs' nvs"
  "(demo_cluster x es nrs pbs nvs)\<lparr>node_evidence := nvs'\<rparr> = demo_cluster x es nrs pbs nvs'"
  by (simp_all add: demo_cluster_def demo_db_def demo_db_run)

lemma demo_cluster_reach: "store_call\<^sup>*\<^sup>* empty_db (demo_cluster None [] [] [] [])"
proof -
  let ?s = "demo_db\<lparr>subjects := [\<lparr>su_cluster = ''prod'', su_subject = ''ns.sa'', su_revoked = False, su_created_at = 8, su_revoked_at = None\<rparr>]\<rparr>"
  have empty: "subjects demo_db = []" "challenges demo_db = []" "audit_events demo_db = []" "node_evidence demo_db = []"
    "node_evidence_enrollments demo_db = []" "node_evidence_publishers demo_db = []"
    unfolding demo_db_def demo_db_run snd_conv by (simp_all add: empty_db_def)
  have "schema_ok ?s"
    unfolding demo_db_def demo_db_run snd_conv by (simp add: schema_eval demo_record_def demo_key_def empty_db_def)
  then have "InsertSubject no_faults ''prod'' ''ns.sa'' 8 demo_db = (Inr (), ?s)"
    by (simp add: InsertSubject_def auto_commit_def stmt_ignore_def empty schema_ok_def)
  with store_call.insert_subject [of demo_db no_faults "''prod''" "''ns.sa''" 8] have "store_call\<^sup>*\<^sup>* empty_db ?s"
    using rtranclp.rtrancl_into_rtrancl [OF demo_reach(1)] by simp
  moreover have "?s\<lparr>challenges := [demo_ticket None]\<rparr> = demo_cluster None [] [] [] []"
    using empty by (cases demo_db) (simp add: demo_cluster_def)
  then have "CreateChallenge no_faults \<lparr>chal_ID = ''c'', chal_Nonce = [1], chal_ClusterID = ''prod'', chal_Subject = ''ns.sa'',
      chal_Operation = OPERATION_UNWRAP, chal_ExpiresAt = 100, chal_CreatedAt = 5\<rparr> ?s = (Inr (), demo_cluster None [] [] [] [])"
    using demo_cluster_schema(1) [of None] by (simp add: CreateChallenge_def empty demo_ticket_def)
  then have "store_call ?s (demo_cluster None [] [] [] [])" by (metis store_call.create_challenge snd_conv)
  ultimately show ?thesis by (rule rtranclp.rtrancl_into_rtrancl)
qed

lemma demo_cluster_enrolled:
  "\<exists>e. (snd (Service_EnrollNodeEvidence demo_admin_lib (newEnrollmentService demo_k8s_config) (demo_io 0 10) (demo_io 1 10) (Some [7])
      (Some demo_enroll_msg) \<lparr>br_db = demo_cluster None [] [] [] [], br_audit = []\<rparr>)) =
    \<lparr>br_db = demo_cluster None [e] [enrollment_row_of demo_enroll 1] [demo_pub_row] [], br_audit = [e]\<rparr>"
proof -
  have control: "newEnrollmentService demo_k8s_config = demo_control"
    by (simp add: newEnrollmentService_def demo_control_def demo_k8s_config_def Policy_def)
  have io: "io_clock (demo_io 0 10) 0 = 10" "io_faults (demo_io 0 10) 0 = no_faults" by (simp_all add: demo_io_def)
  have req: "er_ClusterID demo_enroll = ''prod''" "er_NodeName demo_enroll = ''n1''" "er_EnrolledAt demo_enroll = 10"
    "er_PublisherCertificateHashes demo_enroll = [demo_publisher]" by (simp_all add: demo_enroll_def demo_publisher_def)
  obtain e where e: "auditEnrollmentDecision demo_control (demo_io 0 10) enrollmentOperationNodeEvidenceEnroll demo_publisher ''prod'' ''n1''
      (em_Audit demo_enroll_msg) (decisionWithReason (Allow (es_policyID demo_control)) ''r'')
      \<lparr>br_db = demo_cluster None [] [] [] [], br_audit = []\<rparr> =
      (Inr (), \<lparr>br_db = demo_cluster None [e] [] [] [], br_audit = [e]\<rparr>)"
    using demo_enrollment_audit [OF demo_cluster_schema(1)] by fastforce
  have mid: "schema_ok (demo_cluster None [e] [enrollment_row_of demo_enroll 1] [] [])"
    unfolding demo_cluster_def demo_db_def demo_db_run snd_conv
    by (simp add: schema_eval demo_record_def demo_key_def empty_db_def enrollment_row_of_def demo_enroll_def demo_ticket_def)
  have "enroll_tx no_faults demo_enroll (demo_cluster None [e] [] [] []) =
      Inr (1, demo_cluster None [e] [enrollment_row_of demo_enroll 1] [demo_pub_row] [])"
    using mid demo_cluster_schema(3) [of None e]
    by (simp add: enroll_tx_def Let_def maxNodeEvidenceEnrollmentRevision_def upsert_def req flip: demo_pub_row_def)
  moreover have "NormalizeEnrollment demo_active = Inr demo_active"
    using demo_enroll_valid by (simp add: NormalizeEnrollment_def demo_active_def demo_enroll_def demo_publisher_def del: append.simps)
  then have "NormalizeEnrollment \<lparr>en_ClusterID = er_ClusterID demo_enroll, en_NodeName = er_NodeName demo_enroll,
      en_NodeUID = er_NodeUID demo_enroll, en_Provider = er_Provider demo_enroll, en_TPMPolicy = er_TPMPolicy demo_enroll,
      en_PublisherCertificateHashes = er_PublisherCertificateHashes demo_enroll, en_Revision = 1, en_EnrolledAt = er_EnrolledAt demo_enroll,
      en_UpdatedAt = er_EnrolledAt demo_enroll, en_RevokedAt = 0\<rparr> = Inr demo_active"
    unfolding req by (simp add: demo_active_def demo_enroll_def)
  ultimately have "EnrollNodeEvidence no_faults demo_enroll (demo_cluster None [e] [] [] []) =
      (Inr demo_active, demo_cluster None [e] [enrollment_row_of demo_enroll 1] [demo_pub_row] [])"
    by (simp add: EnrollNodeEvidence_def checked_def demo_enroll_valid with_tx_def)
  then show ?thesis
    by (intro exI [of _ e]) (simp add: Service_EnrollNodeEvidence_def Let_def control io demo_enroll_from req demo_guard e)
qed

lemma demo_cluster_attested:
  "PutEnrolledNodeEvidence no_faults 11 demo_node 1 (demo_cluster None [e] [enrollment_row_of demo_enroll 1] [demo_pub_row] []) =
     (Inr (), demo_cluster None [e] [enrollment_row_of demo_enroll 1] [demo_pub_row] [demo_node_evidence])"
proof -
  have row: "nr_at ''prod'' ''n1'' (enrollment_row_of demo_enroll 1)" "nr_revision (enrollment_row_of demo_enroll 1) = 1"
    "nr_revoked_at (enrollment_row_of demo_enroll 1) = None" "nr_uid (enrollment_row_of demo_enroll 1) = ''u1''"
    "nr_provider (enrollment_row_of demo_enroll 1) = ProviderTPM2Quote"
    "ev_ClusterID demo_node = ''prod''" "ev_NodeName demo_node = ''n1''" "ev_NodeUID demo_node = ''u1''" "ev_Provider demo_node = ProviderTPM2Quote"
    by (simp_all add: nr_at_def enrollment_row_of_def demo_enroll_def demo_node_def)
  show ?thesis
    using demo_cluster_schema(4) [of None e]
    by (simp add: PutEnrolledNodeEvidence_def demo_node_valid maxNodeEvidenceEnrollmentRevision_def row upsertNodeEvidence_def upsert_def
        flip: demo_node_evidence_def)
qed

definition demo_k8s_unwrap :: "WrappedBlob \<Rightarrow> UnwrapRequest" where
  "demo_k8s_unwrap w = \<lparr>uq_Blob = Some w, uq_Aad = [3], uq_Evidence = Some (NewEvidenceEnvelope ''c'' ''t'')\<rparr>"

lemma demo_k8s_fields:
  "sv_keyrings demo_k8s_service = Some runtime_keyrings" "sv_config demo_k8s_service = demo_k8s_config"
  "sv_policy demo_k8s_service = \<lparr>pe_nodeEvidence = Some (\<lambda>F. FreshNodeEvidence F 0), pe_policyID = ''default''\<rparr>"
  "evidenceSubject demo_k8s_service (Some (NewEvidenceEnvelope ''c'' ''t'')) = (demo_pod, Allow ''default'')"
proof -
  have p: "Policy demo_k8s_config = ''default''"
    by (simp add: Policy_def demo_k8s_config_def demo_broker_config_def demo_config_def TrimSpace_graphic graphic_def)
  show "evidenceSubject demo_k8s_service (Some (NewEvidenceEnvelope ''c'' ''t'')) = (demo_pod, Allow ''default'')"
    by (simp add: evidenceSubject_def demo_k8s_service_def NewServiceWithEvidenceVerifierAndNodeEvidence_def
        NewServiceWithEvidenceVerifier_def NewService_def Let_def demo_pod_verified p)
qed (simp_all add: demo_k8s_service_def NewServiceWithEvidenceVerifierAndNodeEvidence_def NewServiceWithEvidenceVerifier_def
    NewService_def NewPolicyEngine_def Let_def Policy_def demo_k8s_config_def demo_broker_config_def demo_config_def TrimSpace_graphic graphic_def)

lemma demo_cluster_unwrap:
  assumes "\<And>x. schema_ok (demo_cluster x es nrs pbs [demo_node_evidence])"
  shows "\<exists>w b. Unwrap demo_broker_lib demo_k8s_service (demo_io 0 13) (Some (demo_k8s_unwrap w))
      \<lparr>br_db = demo_cluster None es nrs pbs [demo_node_evidence], br_audit = es\<rparr> =
    (\<lparr>up_Plaintext = [1, 2], up_Decision = Decision_Proto (Allow ''default'')\<rparr>, b)"
proof -
  let ?d = "\<lambda>x. demo_cluster x es nrs pbs [demo_node_evidence]" and ?ref = "pk_Ref demo_record"
  have c: "kr_ClusterID ?ref = ''prod''" by (simp add: demo_record_def demo_key_def)
  from demo_wrap_step [of 1 10 11] obtain w where w: "wb_Key w = Some \<lparr>km_ClusterId = ''prod'', km_KeyId = ''root'', km_Version = 1\<rparr>"
    "Decrypt (bl_cipher demo_broker_lib) None (Some \<lparr>versions = demo_ring\<rparr>) (Some (protoToBlobInfo (Some w))) [3] = Inr [1, 2]"
    by (auto simp: challenges_ok_def demo_row_def second_def)
  have ticket: "ch_id (demo_ticket x) = ''c''" "ch_cluster (demo_ticket x) = ''prod''" "ch_subject (demo_ticket x) = ''ns.sa''"
    "ch_operation (demo_ticket x) = Operation_String OPERATION_UNWRAP" "ch_expires_at (demo_ticket x) = 100"
    "ch_consumed_at (demo_ticket x) = x" "(demo_ticket x)\<lparr>ch_consumed_at := y\<rparr> = demo_ticket y" for x y
    by (simp_all add: demo_ticket_def)
  have consume: "ConsumeChallenge no_faults ''c'' ''prod'' ''ns.sa'' OPERATION_UNWRAP 13 (?d None) = (Inr (), ?d (Some 13))"
    using assms [of "Some 13"]
    by (simp add: ConsumeChallenge_def Let_def check_challenge_row_def count_where_def set_where_def ticket)
  have node: "FreshNodeEvidence no_faults 0 (?d x) ''prod'' ''n1'' 13 = Inr demo_node" for x
    by (simp add: FreshNodeEvidence_def LoadNodeEvidence_def TrimSpace_graphic graphic_def demo_node_evidence_def nv_at_def)
      (simp add: demo_node_def evidence_row_of_def)
  have key: "LoadProtectedKey no_faults ?ref (?d x) = Inr demo_record" for x
    using demo_record_valid by (simp add: LoadProtectedKey_def kw_ref_def)
  have ring: "runtime_keyrings no_faults None ''prod'' (?d x) = Inr \<lparr>versions = demo_ring\<rparr>" for x
    using runtime_keyrings_cong [of "?d x" "demo_store [] []"] by simp
  have subject: "LoadSubject no_faults ''prod'' ''ns.sa'' (?d x) = Inr \<lparr>sub_ClusterID = ''prod'', sub_Subject = ''ns.sa'', sub_Revoked = False\<rparr>" for x
    by (simp add: LoadSubject_def)
  have allows: "key_allows OPERATION_UNWRAP demo_record" by (simp add: key_allows_def usable_def demo_record_def)
  have policy: "Policy_evaluate (sv_policy demo_k8s_service) (demo_io 0 13) (unwrap_request demo_pod ?ref (demo_k8s_unwrap w)) (?d None) =
      (Allow ''default'', ?d (Some 13))"
    using Policy_evaluate_Allow [of "unwrap_request demo_pod ?ref (demo_k8s_unwrap w)" "demo_io 0 13" "?d None" _ "sv_policy demo_k8s_service"
        "?d (Some 13)" demo_record] consume node key subject allows
    by (simp add: demo_k8s_fields unwrap_request_def demo_pod_def demo_k8s_unwrap_def GetChallengeId_def NewEvidenceEnvelope_def demo_io_def
        node_trusted_def c)
  have "\<exists>b. Unwrap demo_broker_lib demo_k8s_service (demo_io 0 13) (Some (demo_k8s_unwrap w)) \<lparr>br_db = ?d None, br_audit = es\<rparr> =
    (\<lparr>up_Plaintext = [1, 2], up_Decision = Decision_Proto (Allow ''default'')\<rparr>, b)"
    by (rule Unwrap_answers [where ref = ?ref and verified = demo_pod and ed = "Allow ''default''" and d = "?d (Some 13)"])
      (use policy ring w demo_key_ref [OF w(1)] in \<open>simp_all add: demo_k8s_fields demo_k8s_unwrap_def blob_key_def c demo_io_def loadKeyring_def\<close>)
  then show ?thesis by blast
qed

lemma demo_system_run:
  obtains b where "(rpc demo_admin_lib quote sv ad (newEnrollmentService demo_k8s_config))\<^sup>*\<^sup>*
      \<lparr>br_db = demo_cluster None [] [] [] [], br_audit = []\<rparr> b"
    "br_db b = demo_cluster None (br_audit b) [enrollment_row_of demo_enroll 1] [demo_pub_row] [demo_node_evidence]"
    "length (br_audit b) = 1"
proof -
  let ?b = "\<lparr>br_db = demo_cluster None [] [] [] [], br_audit = []\<rparr>"
  obtain e where e: "snd (Service_EnrollNodeEvidence demo_admin_lib (newEnrollmentService demo_k8s_config) (demo_io 0 10) (demo_io 1 10)
      (Some [7]) (Some demo_enroll_msg) ?b) =
    \<lparr>br_db = demo_cluster None [e] [enrollment_row_of demo_enroll 1] [demo_pub_row] [], br_audit = [e]\<rparr>" (is "_ = ?b1")
    using demo_cluster_enrolled by blast
  have "rpc demo_admin_lib quote sv ad (newEnrollmentService demo_k8s_config) ?b ?b1" unfolding e [symmetric] by (rule rpc.enroll)
  moreover have "quiet (br_db ?b1) (demo_cluster None [e] [enrollment_row_of demo_enroll 1] [demo_pub_row] [demo_node_evidence])"
    using quiet_methods(4) [of "br_db ?b1" no_faults 11 demo_node 1] by (simp add: demo_cluster_attested)
  from rpc.maintenance [OF this] have "rpc demo_admin_lib quote sv ad (newEnrollmentService demo_k8s_config) ?b1
      \<lparr>br_db = demo_cluster None [e] [enrollment_row_of demo_enroll 1] [demo_pub_row] [demo_node_evidence], br_audit = [e]\<rparr>" by simp
  ultimately have "(rpc demo_admin_lib quote sv ad (newEnrollmentService demo_k8s_config))\<^sup>*\<^sup>* ?b
      \<lparr>br_db = demo_cluster None [e] [enrollment_row_of demo_enroll 1] [demo_pub_row] [demo_node_evidence], br_audit = [e]\<rparr>"
    by (meson converse_rtranclp_into_rtranclp r_into_rtranclp)
  from that [OF this] show ?thesis by simp
qed

lemma demo_cluster_untrusted: "trust_row (demo_cluster None [] [] [] []) = Map.empty"
  by (simp add: trust_row_def fun_eq_iff)

end
