(* ===== verification/Local_Tpm.thy ===== *)
theory Local_Tpm
  imports Key_Protection Tpm Go_Time "HOL-Library.AList"
begin

text \<open>
  Keys that a node keeps sealed by its own TPM: \<^verbatim>\<open>internal/tpm/seal.go\<close> and
  \<^verbatim>\<open>internal/tpm/state.go\<close>.

  The commands of \<^verbatim>\<open>github.com/google/go-tpm\<close> are the fields of the parameter \<open>tpm_device\<close>, the JSON
  codecs of the two state files those of \<open>state_codec\<close>.  The file system is a map from paths to
  nodes.  A path is the list of the components that \<^verbatim>\<open>filepath.Clean\<close> leaves, the first one \<open>''/''\<close>
  when the path is absolute; \<^verbatim>\<open>filepath.Join\<close> with ordinary names appends them.  Links in the middle
  of a path are not followed, and the state path has no pattern characters, which \<^verbatim>\<open>filepath.Glob\<close>
  would expand.  Any call of the operating system may fail (\<open>oe_fails\<close>).
\<close>

unbundle bit_operations_syntax

section \<open>Sealed objects\<close>

definition SealedBlobSchemaVersion :: u32 where "SealedBlobSchemaVersion = 1"

record SealedBlob =
  sl_SchemaVersion :: u32
  sl_PolicyMode :: string
  sl_Public :: bytes
  sl_Private :: bytes
  sl_PCRPolicy :: "PCRPolicy option"
  sl_CreatedAtUTC :: string

record tpm_device =
  td_Open :: "error option"
  td_CreatePrimary :: "error option"
  td_StartAuthSession :: "error option"
  td_PolicyPCR :: "PCRSelection \<Rightarrow> error option"
  td_PolicyPassword :: "error option"
  td_PolicyGetDigest :: "PCRSelection option \<Rightarrow> error + bytes"
  td_ReadPCRs :: "PCRSelection \<Rightarrow> error + (int \<times> bytes) list"
  td_Seal :: "bytes \<Rightarrow> bytes \<Rightarrow> error + bytes \<times> bytes"
  td_Load :: "bytes \<Rightarrow> bytes \<Rightarrow> error option"
  td_UnsealWithSession :: "bytes \<Rightarrow> bytes \<Rightarrow> bytes \<Rightarrow> error + bytes"
  td_hash :: "string \<Rightarrow> bytes \<Rightarrow> bytes"

definition SealedBlob_Validate :: "SealedBlob \<Rightarrow> error + unit" where
  "SealedBlob_Validate b =
     (if sl_SchemaVersion b \<noteq> SealedBlobSchemaVersion then Inl (OtherErr ''unsupported sealed blob schema version'')
      else if sl_Public b = [] \<or> sl_Private b = [] then
        Inl (OtherErr ''sealed object public and private blobs are required'')
      else if sl_PolicyMode b = PolicyModeTPMOnly then
        if sl_PCRPolicy b \<noteq> None then
          Inl (ErrAttestationPolicy ''tpm-only sealed object must not contain PCR policy'')
        else Inr ()
      else if sl_PolicyMode b = PolicyModeSecureBoot then
        (case sl_PCRPolicy b of
           None \<Rightarrow> Inl (ErrAttestationPolicy ''secureboot sealed object requires PCR policy'')
         | Some pp \<Rightarrow> PCRPolicy_Validate pp)
      else if sl_PolicyMode b = PolicyModeMeasured then
        Inl (ErrAttestationPolicy ''measured mode is not implemented'')
      else Inl (ErrAttestationPolicy ''unsupported policy mode''))"

text \<open>The digest of a session stands for the session; \<^verbatim>\<open>legacy\<close> normalises the selection.\<close>

definition policySession :: "tpm_device \<Rightarrow> PCRSelection option \<Rightarrow> error + bytes" where
  "policySession D selection =
     bindE (ctxE (td_StartAuthSession D)) (\<lambda>_.
     bindE (case selection of
         None \<Rightarrow> Inr ()
       | Some s \<Rightarrow> bindE (PCRSelection_Normalize s) (\<lambda>legacySelection. ctxE (td_PolicyPCR D legacySelection))) (\<lambda>_.
     bindE (ctxE (td_PolicyPassword D)) (\<lambda>_.
     td_PolicyGetDigest D selection)))"

definition readPCRValues :: "tpm_device \<Rightarrow> PCRSelection \<Rightarrow> error + (int \<times> bytes) list" where
  "readPCRValues D selection = bindE (PCRSelection_Normalize selection) (\<lambda>legacySelection. td_ReadPCRs D legacySelection)"

definition seal_policy :: "tpm_device \<Rightarrow> string \<Rightarrow> PCRSelection \<Rightarrow> error + bytes \<times> PCRPolicy option" where
  "seal_policy D mode selection =
     (if mode = PolicyModeTPMOnly then bindE (policySession D None) (\<lambda>digest. Inr (digest, None))
      else if mode = PolicyModeSecureBoot then
        bindE (PCRSelection_Normalize selection) (\<lambda>normalized.
        if \<not> PCRSelection_contains normalized 7 then Inl (ErrAttestationPolicy ''secureboot seal requires PCR 7'')
        else bindE (policySession D (Some normalized)) (\<lambda>digest.
          bindE (readPCRValues D normalized) (\<lambda>values.
          bindE (NewPCRPolicy (td_hash D) normalized values ProfileGenericPCSecureBoot) (\<lambda>policy.
          Inr (digest, Some policy)))))
      else if mode = PolicyModeMeasured then Inl (ErrAttestationPolicy ''measured mode is not implemented'')
      else Inl (ErrAttestationPolicy ''unsupported policy mode''))"

definition SealKey :: "tpm_device \<Rightarrow> time \<Rightarrow> bytes \<Rightarrow> string \<Rightarrow> PCRSelection \<Rightarrow> error + SealedBlob" where
  "SealKey D now plaintext mode selection =
     (if plaintext = [] then Inl (OtherErr ''plaintext is required'')
      else bindE (ctxE (td_CreatePrimary D)) (\<lambda>_.
        bindE (seal_policy D mode selection) (\<lambda>(policyDigest, pcrPolicy).
        bindE (td_Seal D policyDigest plaintext) (\<lambda>(privateBlob, publicBlob).
        let blob = \<lparr>sl_SchemaVersion = SealedBlobSchemaVersion, sl_PolicyMode = mode, sl_Public = publicBlob,
              sl_Private = privateBlob, sl_PCRPolicy = pcrPolicy, sl_CreatedAtUTC = FormatRFC3339Nano now\<rparr> in
        bindE (SealedBlob_Validate blob) (\<lambda>_. Inr blob)))))"

definition UnsealKey :: "tpm_device \<Rightarrow> SealedBlob \<Rightarrow> error + bytes" where
  "UnsealKey D blob =
     bindE (SealedBlob_Validate blob) (\<lambda>_.
     bindE (ctxE (td_CreatePrimary D)) (\<lambda>_.
     bindE (ctxE (td_Load D (sl_Public blob) (sl_Private blob))) (\<lambda>_.
     bindE (policySession D (if sl_PolicyMode blob = PolicyModeSecureBoot
         then map_option pp_Selection (sl_PCRPolicy blob) else None)) (\<lambda>session.
     td_UnsealWithSession D session (sl_Public blob) (sl_Private blob)))))"

section \<open>Files\<close>

type_synonym path = "string list"

datatype node = Dir u32 | File u32 bytes | Symlink path

type_synonym files = "(path \<times> node) list"

text \<open>The permission bits of the code, which are octal numbers.\<close>

definition perm_0022 :: u32 where "perm_0022 = 0x12"

definition perm_0077 :: u32 where "perm_0077 = 0x3F"

definition perm_0600 :: u32 where "perm_0600 = 0x180"

definition perm_0700 :: u32 where "perm_0700 = 0x1C0"

record os_env =
  oe_fails :: "string \<Rightarrow> path \<Rightarrow> bool"
  oe_umask :: u32

fun clean_step :: "bool \<Rightarrow> path \<Rightarrow> string \<Rightarrow> path" where
  "clean_step rooted out c =
     (if c = [] \<or> c = ''.'' then out
      else if c = ''..'' then
        if out \<noteq> [] \<and> last out \<noteq> ''..'' then butlast out else if rooted then out else out @ [c]
      else out @ [c])"

definition clean_path :: "string \<Rightarrow> path" where
  "clean_path s =
     (let rooted = HasPrefix s ''/'' in
      (if rooted then [''/''] else []) @ foldl (clean_step rooted) [] (split_on (CHR ''/'') s))"

definition os_call :: "os_env \<Rightarrow> string \<Rightarrow> path \<Rightarrow> error + unit" where
  "os_call E call p = assertE (\<not> oe_fails E call p) (OtherErr call)"

definition Lstat :: "os_env \<Rightarrow> files \<Rightarrow> path \<Rightarrow> error + node" where
  "Lstat E fs p =
     bindE (os_call E ''lstat'' p) (\<lambda>_.
     case map_of fs p of None \<Rightarrow> Inl (OtherErr ''file does not exist'') | Some n \<Rightarrow> Inr n)"

text \<open>Following links at the end of a path; the system gives up after 40 of them.\<close>

fun resolve :: "nat \<Rightarrow> files \<Rightarrow> path \<Rightarrow> error + path" where
  "resolve 0 fs p = Inl (OtherErr ''too many levels of symbolic links'')"
| "resolve (Suc n) fs p = (case map_of fs p of Some (Symlink target) \<Rightarrow> resolve n fs target | _ \<Rightarrow> Inr p)"

definition ReadFile :: "os_env \<Rightarrow> files \<Rightarrow> path \<Rightarrow> error + bytes" where
  "ReadFile E fs p =
     bindE (os_call E ''read'' p) (\<lambda>_.
     bindE (resolve 40 fs p) (\<lambda>q.
     case map_of fs q of
       None \<Rightarrow> Inl (OtherErr ''file does not exist'')
     | Some (File _ content) \<Rightarrow> Inr content
     | Some _ \<Rightarrow> Inl (OtherErr ''is a directory'')))"

fun MkdirAll_steps :: "os_env \<Rightarrow> u32 \<Rightarrow> path list \<Rightarrow> files \<Rightarrow> (error + unit) \<times> files" where
  "MkdirAll_steps E perm [] fs = (Inr (), fs)"
| "MkdirAll_steps E perm (p # ps) fs =
     (case bindE (os_call E ''mkdir'' p) (\<lambda>_. resolve 40 fs p) of
        Inl err \<Rightarrow> (Inl err, fs)
      | Inr q \<Rightarrow>
          (case map_of fs q of
             None \<Rightarrow> if q \<noteq> p then (Inl (OtherErr ''file exists''), fs)
               else MkdirAll_steps E perm ps (AList.update p (Dir (perm AND NOT (oe_umask E))) fs)
           | Some (Dir _) \<Rightarrow> MkdirAll_steps E perm ps fs
           | Some _ \<Rightarrow> (Inl (OtherErr ''not a directory''), fs)))"

definition MkdirAll :: "os_env \<Rightarrow> path \<Rightarrow> u32 \<Rightarrow> files \<Rightarrow> (error + unit) \<times> files" where
  "MkdirAll E p perm = MkdirAll_steps E perm (map (\<lambda>i. take (Suc i) p) [0..<length p])"

definition WriteFile :: "os_env \<Rightarrow> path \<Rightarrow> bytes \<Rightarrow> u32 \<Rightarrow> files \<Rightarrow> (error + unit) \<times> files" where
  "WriteFile E p content perm fs =
     (case bindE (os_call E ''write'' p) (\<lambda>_. resolve 40 fs p) of
        Inl err \<Rightarrow> (Inl err, fs)
      | Inr q \<Rightarrow>
          (case map_of fs q of
             None \<Rightarrow>
               (case map_of fs (butlast q) of
                  Some (Dir _) \<Rightarrow> (Inr (), AList.update q (File (perm AND NOT (oe_umask E)) content) fs)
                | _ \<Rightarrow> (Inl (OtherErr ''file does not exist''), fs))
           | Some (File old _) \<Rightarrow> (Inr (), AList.update q (File old content) fs)
           | Some _ \<Rightarrow> (Inl (OtherErr ''is a directory''), fs)))"

definition Chmod :: "os_env \<Rightarrow> path \<Rightarrow> u32 \<Rightarrow> files \<Rightarrow> (error + unit) \<times> files" where
  "Chmod E p perm fs =
     (case bindE (os_call E ''chmod'' p) (\<lambda>_. resolve 40 fs p) of
        Inl err \<Rightarrow> (Inl err, fs)
      | Inr q \<Rightarrow>
          (case map_of fs q of
             Some (File _ content) \<Rightarrow> (Inr (), AList.update q (File perm content) fs)
           | Some (Dir _) \<Rightarrow> (Inr (), AList.update q (Dir perm) fs)
           | _ \<Rightarrow> (Inl (OtherErr ''file does not exist''), fs)))"

text \<open>Threading the files through calls that may fail.\<close>

definition fs_bind :: "(files \<Rightarrow> (error + 'a) \<times> files) \<Rightarrow> ('a \<Rightarrow> files \<Rightarrow> (error + 'b) \<times> files) \<Rightarrow>
    files \<Rightarrow> (error + 'b) \<times> files" where
  "fs_bind m f fs = (case m fs of (Inl err, fs') \<Rightarrow> (Inl err, fs') | (Inr x, fs') \<Rightarrow> f x fs')"

definition fs_lift :: "(files \<Rightarrow> error + 'a) \<Rightarrow> files \<Rightarrow> (error + 'a) \<times> files" where
  "fs_lift f fs = (f fs, fs)"

section \<open>The local state\<close>

definition LocalStateSchemaVersion :: u32 where "LocalStateSchemaVersion = 1"

definition LocalStateDir :: string where "LocalStateDir = ''local-tpm''"

definition RevocationWarning :: string where
  "RevocationWarning = ''local TPM revocation requires key rotation''"

record LocalKeyMetadata =
  lk_SchemaVersion :: u32
  lk_ClusterID :: string
  lk_KeyID :: string
  lk_Version :: u32
  lk_Status :: Status
  lk_Algorithm :: string
  lk_PolicyID :: string
  lk_TPMPolicy :: TpmPolicy
  lk_RevocationNotice :: string
  lk_CreatedAtUTC :: string
  lk_PCRPolicy :: "PCRPolicy option"

record state_codec =
  sc_sealed :: "SealedBlob \<Rightarrow> bytes"
  sc_sealed_of :: "bytes \<Rightarrow> SealedBlob option"
  sc_metadata :: "LocalKeyMetadata \<Rightarrow> bytes"
  sc_metadata_of :: "bytes \<Rightarrow> LocalKeyMetadata option"
  sc_pcr :: "PCRPolicy \<Rightarrow> bytes"

definition LocalKeyMetadata_Validate :: "LocalKeyMetadata \<Rightarrow> KeyRef \<Rightarrow> error + unit" where
  "LocalKeyMetadata_Validate m ref =
     (if lk_SchemaVersion m \<noteq> LocalStateSchemaVersion then
        Inl (ErrInvalidMetadata ''unsupported local state schema version'')
      else if lk_ClusterID m \<noteq> kr_ClusterID ref \<or> lk_KeyID m \<noteq> kr_KeyID ref \<or> lk_Version m \<noteq> kr_Version ref then
        Inl (ErrInvalidMetadata ''local TPM metadata key reference mismatch'')
      else bindE (KeyRef_Validate ref) (\<lambda>_.
        if lk_Algorithm m \<noteq> AlgorithmAES256GCM then Inl (ErrInvalidMetadata ''unsupported local key algorithm'')
        else if \<not> Status_known (lk_Status m) then Inl (ErrInvalidMetadata ''unsupported local key status'')
        else bindE (ValidateIdentifier (lk_PolicyID m)) (\<lambda>_.
          if lk_RevocationNotice m \<noteq> RevocationWarning then
            Inl (ErrInvalidMetadata ''missing local TPM revocation notice'')
          else TpmPolicy_Validate (lk_TPMPolicy m))))"

definition keys_dir :: "string \<Rightarrow> path" where
  "keys_dir statePath = clean_path statePath @ [LocalStateDir, ''keys'']"

definition state_roots :: "string \<Rightarrow> path list" where
  "state_roots statePath =
     [clean_path statePath, clean_path statePath @ [LocalStateDir], keys_dir statePath]"

definition inspect_dir :: "os_env \<Rightarrow> files \<Rightarrow> path \<Rightarrow> error + unit" where
  "inspect_dir E fs p =
     bindE (Lstat E fs p) (\<lambda>info.
     case info of
       Symlink _ \<Rightarrow> Inl (ErrInvalidMetadata ''local TPM path must not be a symlink'')
     | File _ _ \<Rightarrow> Inl (ErrInvalidMetadata ''local TPM path is not a directory'')
     | Dir perm \<Rightarrow>
         if perm AND perm_0022 \<noteq> 0 then Inl (ErrInvalidMetadata ''local TPM path must not be group/world writable'')
         else Inr ())"

definition validateStateRoot :: "os_env \<Rightarrow> string \<Rightarrow> files \<Rightarrow> error + unit" where
  "validateStateRoot E statePath fs =
     (if TrimSpace statePath = [] then Inl (ErrInvalidMetadata ''state path is required'')
      else bindE (traverseE (inspect_dir E fs) (state_roots statePath)) (\<lambda>_. Inr ()))"

definition ensureStateRoot :: "os_env \<Rightarrow> string \<Rightarrow> files \<Rightarrow> (error + unit) \<times> files" where
  "ensureStateRoot E statePath =
     (if TrimSpace statePath = [] then fs_lift (\<lambda>_. Inl (ErrInvalidMetadata ''state path is required''))
      else fs_bind (MkdirAll E (keys_dir statePath) perm_0700) (\<lambda>_. fs_lift (validateStateRoot E statePath)))"

record keyPaths =
  kp_dir :: path
  kp_sealed :: path
  kp_metadata :: path
  kp_pcr :: path

definition localKeyPaths :: "string \<Rightarrow> KeyRef \<Rightarrow> error + keyPaths" where
  "localKeyPaths statePath ref =
     bindE (KeyRef_Validate ref) (\<lambda>_.
     let version = ''v'' @ format_uint (unat (kr_Version ref)); keyDir = keys_dir statePath @ [kr_KeyID ref] in
     Inr \<lparr>kp_dir = keyDir, kp_sealed = keyDir @ [version @ ''.sealed''],
       kp_metadata = keyDir @ [version @ ''.metadata.json''], kp_pcr = keyDir @ [''pcr-policy.json'']\<rparr>)"

definition readLocalJSON :: "os_env \<Rightarrow> (bytes \<Rightarrow> 'a option) \<Rightarrow> files \<Rightarrow> path \<Rightarrow> error + 'a" where
  "readLocalJSON E dec fs p =
     bindE (Lstat E fs p) (\<lambda>info.
     let read = bindE (ReadFile E fs p) (\<lambda>payload.
           case dec payload of None \<Rightarrow> Inl (OtherErr ''decode'') | Some x \<Rightarrow> Inr x);
         open_to_others = Inl (ErrInvalidMetadata ''file must not be group/world accessible'') in
     case info of
       Symlink _ \<Rightarrow> Inl (ErrInvalidMetadata ''file must not be a symlink'')
     | File perm _ \<Rightarrow> if perm AND perm_0077 \<noteq> 0 then open_to_others else read
     | Dir perm \<Rightarrow> if perm AND perm_0077 \<noteq> 0 then open_to_others else read)"

definition writeLocalJSON :: "os_env \<Rightarrow> path \<Rightarrow> bytes \<Rightarrow> u32 \<Rightarrow> files \<Rightarrow> (error + unit) \<times> files" where
  "writeLocalJSON E p payload perm = fs_bind (WriteFile E p (payload @ [10]) perm) (\<lambda>_. Chmod E p perm)"

definition ReadLocalState ::
  "os_env \<Rightarrow> state_codec \<Rightarrow> string \<Rightarrow> KeyRef \<Rightarrow> files \<Rightarrow> error + SealedBlob \<times> LocalKeyMetadata" where
  "ReadLocalState E C statePath ref fs =
     bindE (validateStateRoot E statePath fs) (\<lambda>_.
     bindE (localKeyPaths statePath ref) (\<lambda>paths.
     bindE (readLocalJSON E (sc_metadata_of C) fs (kp_metadata paths)) (\<lambda>metadata.
     bindE (LocalKeyMetadata_Validate metadata ref) (\<lambda>_.
     bindE (readLocalJSON E (sc_sealed_of C) fs (kp_sealed paths)) (\<lambda>sealed.
     bindE (SealedBlob_Validate sealed) (\<lambda>_. Inr (sealed, metadata)))))))"

definition writeLocalState ::
  "os_env \<Rightarrow> state_codec \<Rightarrow> string \<Rightarrow> KeyRef \<Rightarrow> SealedBlob \<Rightarrow> LocalKeyMetadata \<Rightarrow> files \<Rightarrow> (error + unit) \<times> files" where
  "writeLocalState E C statePath ref sealed metadata =
     fs_bind (ensureStateRoot E statePath) (\<lambda>_.
     fs_bind (fs_lift (\<lambda>_. localKeyPaths statePath ref)) (\<lambda>paths.
     fs_bind (MkdirAll E (kp_dir paths) perm_0700) (\<lambda>_.
     fs_bind (writeLocalJSON E (kp_sealed paths) (sc_sealed C sealed) perm_0600) (\<lambda>_.
     fs_bind (writeLocalJSON E (kp_metadata paths) (sc_metadata C metadata) perm_0600) (\<lambda>_.
     case sl_PCRPolicy sealed of
       None \<Rightarrow> fs_lift (\<lambda>_. Inr ())
     | Some policy \<Rightarrow> writeLocalJSON E (kp_pcr paths) (sc_pcr C policy) perm_0600)))))"

definition profileForMode :: "string \<Rightarrow> string" where
  "profileForMode mode = (if mode = PolicyModeSecureBoot then ProfileGenericPCSecureBoot else [])"

definition local_metadata :: "KeyVersion \<Rightarrow> string \<Rightarrow> SealedBlob \<Rightarrow> time \<Rightarrow> LocalKeyMetadata" where
  "local_metadata version mode sealed now =
     \<lparr>lk_SchemaVersion = LocalStateSchemaVersion, lk_ClusterID = kr_ClusterID (kv_Ref version),
      lk_KeyID = kr_KeyID (kv_Ref version), lk_Version = kr_Version (kv_Ref version), lk_Status = kv_Status version,
      lk_Algorithm = kv_Algorithm version, lk_PolicyID = kv_PolicyID version,
      lk_TPMPolicy = \<lparr>tp_Mode = mode, tp_EnrolledAKPublicHash = [], tp_PCRPolicy = sl_PCRPolicy sealed,
        tp_ProviderProfile = profileForMode mode\<rparr>,
      lk_RevocationNotice = RevocationWarning, lk_CreatedAtUTC = FormatRFC3339Nano now,
      lk_PCRPolicy = sl_PCRPolicy sealed\<rparr>"

text \<open>\<open>sealed_at\<close> and \<open>now\<close> are the readings of the clock in \<^verbatim>\<open>SealKey\<close> and in \<^verbatim>\<open>StoreLocalKey\<close>.\<close>

definition prepareLocalKey ::
  "error option \<Rightarrow> tpm_device \<Rightarrow> time \<Rightarrow> time \<Rightarrow> KeyVersion \<Rightarrow> string \<Rightarrow> PCRSelection \<Rightarrow>
   error + SealedBlob \<times> LocalKeyMetadata" where
  "prepareLocalKey ctx D sealed_at now version mode selection =
     bindE (ctxE ctx) (\<lambda>_.
     bindE (KeyRef_Validate (kv_Ref version)) (\<lambda>_.
     if length (kv_Material version) \<noteq> KeySize then Inl (ErrInvalidMetadata ''key material must be 32 bytes'')
     else bindE (ctxE (td_Open D)) (\<lambda>_.
       bindE (SealKey D sealed_at (kv_Material version) mode selection) (\<lambda>sealed.
       bindE (UnsealKey D sealed) (\<lambda>unsealed.
       if unsealed \<noteq> kv_Material version then
         Inl (ErrInvalidMetadata ''local TPM sealed key verification failed'')
       else let metadata = local_metadata version mode sealed now in
         bindE (LocalKeyMetadata_Validate metadata (kv_Ref version)) (\<lambda>_. Inr (sealed, metadata)))))))"

definition StoreLocalKey ::
  "os_env \<Rightarrow> state_codec \<Rightarrow> error option \<Rightarrow> tpm_device \<Rightarrow> time \<Rightarrow> time \<Rightarrow> string \<Rightarrow> KeyVersion \<Rightarrow> string \<Rightarrow> PCRSelection \<Rightarrow>
   files \<Rightarrow> (error + LocalKeyMetadata) \<times> files" where
  "StoreLocalKey E C ctx D sealed_at now statePath version mode selection =
     fs_bind (fs_lift (\<lambda>_. prepareLocalKey ctx D sealed_at now version mode selection)) (\<lambda>(sealed, metadata).
     fs_bind (writeLocalState E C statePath (kv_Ref version) sealed metadata) (\<lambda>_.
     fs_lift (\<lambda>_. Inr metadata)))"

definition local_version :: "KeyRef \<Rightarrow> LocalKeyMetadata \<Rightarrow> bytes \<Rightarrow> KeyVersion" where
  "local_version ref m material = \<lparr>kv_Ref = ref, kv_Status = lk_Status m, kv_Algorithm = lk_Algorithm m,
     kv_PolicyID = lk_PolicyID m, kv_Material = material\<rparr>"

definition LoadLocalRing ::
  "os_env \<Rightarrow> state_codec \<Rightarrow> error option \<Rightarrow> tpm_device \<Rightarrow> string \<Rightarrow> KeyRef \<Rightarrow> files \<Rightarrow> error + Ring \<times> LocalKeyMetadata" where
  "LoadLocalRing E C ctx D statePath ref fs =
     bindE (ctxE ctx) (\<lambda>_.
     bindE (ReadLocalState E C statePath ref fs) (\<lambda>(sealed, metadata).
     bindE (ctxE (td_Open D)) (\<lambda>_.
     bindE (UnsealKey D sealed) (\<lambda>material.
     bindE (NewRing [local_version ref metadata material]) (\<lambda>ring. Inr (ring, metadata))))))"

definition HasSuffix :: "string \<Rightarrow> string \<Rightarrow> bool" where
  "HasSuffix s suffix \<longleftrightarrow> HasPrefix (rev s) (rev suffix)"

text \<open>\<^verbatim>\<open>filepath.Glob\<close> of \<^verbatim>\<open>v*.metadata.json\<close> in a directory, sorted.\<close>

definition metadata_files :: "files \<Rightarrow> path \<Rightarrow> path list" where
  "metadata_files fs dir =
     sort (filter (\<lambda>p. p \<noteq> [] \<and> butlast p = dir \<and> length (last p) \<ge> 15 \<and>
       HasPrefix (last p) ''v'' \<and> HasSuffix (last p) ''.metadata.json'') (remdups (map fst fs)))"

fun usable_refs :: "os_env \<Rightarrow> state_codec \<Rightarrow> string \<Rightarrow> string \<Rightarrow> files \<Rightarrow> path list \<Rightarrow> error + KeyRef list" where
  "usable_refs E C clusterID keyID fs [] = Inr []"
| "usable_refs E C clusterID keyID fs (p # ps) =
     bindE (readLocalJSON E (sc_metadata_of C) fs p) (\<lambda>m.
     let ref = \<lparr>kr_ClusterID = lk_ClusterID m, kr_KeyID = lk_KeyID m, kr_Version = lk_Version m\<rparr> in
     bindE (LocalKeyMetadata_Validate m ref) (\<lambda>_.
     if kr_ClusterID ref \<noteq> clusterID \<or> kr_KeyID ref \<noteq> keyID then
       Inl (ErrInvalidMetadata ''local TPM metadata key reference mismatch'')
     else if \<not> Status_known (lk_Status m) then Inl (ErrInvalidMetadata ''unsupported local key status'')
     else bindE (usable_refs E C clusterID keyID fs ps) (\<lambda>refs.
       Inr (if lk_Status m = StatusActive \<or> lk_Status m = StatusDecryptOnly then ref # refs else refs))))"

definition localUsableKeyRefs ::
  "os_env \<Rightarrow> state_codec \<Rightarrow> string \<Rightarrow> string \<Rightarrow> string \<Rightarrow> files \<Rightarrow> error + KeyRef list" where
  "localUsableKeyRefs E C statePath clusterID keyID fs =
     bindE (validateStateRoot E statePath fs) (\<lambda>_.
     let keyDir = keys_dir statePath @ [keyID] in
     bindE (inspect_dir E fs keyDir) (\<lambda>_.
     bindE (os_call E ''glob'' keyDir) (\<lambda>_.
     bindE (usable_refs E C clusterID keyID fs (metadata_files fs keyDir)) (\<lambda>refs.
     if refs = [] then Inl ErrKeyNotFound else Inr refs))))"

definition load_version ::
  "os_env \<Rightarrow> state_codec \<Rightarrow> tpm_device \<Rightarrow> string \<Rightarrow> files \<Rightarrow> KeyRef \<Rightarrow> error + KeyVersion \<times> LocalKeyMetadata" where
  "load_version E C D statePath fs ref =
     bindE (ReadLocalState E C statePath ref fs) (\<lambda>(sealed, record).
     bindE (UnsealKey D sealed) (\<lambda>material. Inr (local_version ref record material, record)))"

definition LoadLocalKeyring ::
  "os_env \<Rightarrow> state_codec \<Rightarrow> error option \<Rightarrow> tpm_device \<Rightarrow> string \<Rightarrow> string \<Rightarrow> string \<Rightarrow> files \<Rightarrow>
   error + Ring \<times> LocalKeyMetadata list" where
  "LoadLocalKeyring E C ctx D statePath clusterID keyID fs =
     bindE (ctxE ctx) (\<lambda>_.
     bindE (ValidateIdentifier clusterID) (\<lambda>_.
     bindE (ValidateIdentifier keyID) (\<lambda>_.
     bindE (localUsableKeyRefs E C statePath clusterID keyID fs) (\<lambda>refs.
     bindE (ctxE (td_Open D)) (\<lambda>_.
     bindE (traverseE (load_version E C D statePath fs) refs) (\<lambda>loaded.
     bindE (NewRing (map fst loaded)) (\<lambda>ring. Inr (ring, map snd loaded))))))))"

record LocalStatus =
  ls_Ready :: bool
  ls_Key :: KeyRef
  ls_Mode :: string
  ls_Warnings :: "string list"
  ls_Errors :: "error list"

definition StatusLocal :: "os_env \<Rightarrow> state_codec \<Rightarrow> string \<Rightarrow> KeyRef \<Rightarrow> files \<Rightarrow> LocalStatus" where
  "StatusLocal E C statePath ref fs =
     (case ReadLocalState E C statePath ref fs of
        Inl err \<Rightarrow> \<lparr>ls_Ready = False, ls_Key = ref, ls_Mode = [], ls_Warnings = [RevocationWarning], ls_Errors = [err]\<rparr>
      | Inr (_, metadata) \<Rightarrow> \<lparr>ls_Ready = True, ls_Key = ref, ls_Mode = tp_Mode (lk_TPMPolicy metadata),
          ls_Warnings = [RevocationWarning], ls_Errors = []\<rparr>)"

section \<open>Files that the code writes\<close>

lemma fs_bind_eq_Inr [simp]:
  "fs_bind m f fs = (Inr y, fs') \<longleftrightarrow> (\<exists>x fs1. m fs = (Inr x, fs1) \<and> f x fs1 = (Inr y, fs'))"
  by (auto simp: fs_bind_def split: prod.splits sum.splits)

lemma fs_lift_eq_Inr [simp]: "fs_lift f fs = (Inr x, fs') \<longleftrightarrow> f fs = Inr x \<and> fs' = fs"
  by (auto simp: fs_lift_def)

definition no_link :: "files \<Rightarrow> path \<Rightarrow> bool" where
  "no_link fs p \<longleftrightarrow> (case map_of fs p of Some (Symlink _) \<Rightarrow> False | _ \<Rightarrow> True)"

lemma resolve_no_link [simp]: "no_link fs p \<Longrightarrow> resolve 40 fs p = Inr p"
proof -
  assume "no_link fs p"
  then have "resolve (Suc 39) fs p = Inr p"
    unfolding resolve.simps(2) by (auto simp: no_link_def split: option.splits node.splits)
  then show ?thesis by simp
qed

text \<open>A created directory is the only change of \<^verbatim>\<open>MkdirAll\<close>.\<close>

lemma MkdirAll_steps_keep:
  "MkdirAll_steps E perm ps fs = (r, fs') \<Longrightarrow>
     (\<forall>n. map_of fs q = Some n \<longrightarrow> map_of fs' q = Some n) \<and> (q \<notin> set ps \<longrightarrow> map_of fs' q = map_of fs q)"
proof (induction ps arbitrary: fs)
  case (Cons p ps)
  show ?case
  proof (cases "bindE (os_call E ''mkdir'' p) (\<lambda>_. resolve 40 fs p)")
    case (Inl e)
    with Cons.prems show ?thesis by simp
  next
    case (Inr t)
    let ?fs = "AList.update p (Dir (perm AND NOT (oe_umask E))) fs"
    from Cons.prems Inr consider "fs' = fs" | "MkdirAll_steps E perm ps fs = (r, fs')"
      | "map_of fs p = None" "MkdirAll_steps E perm ps ?fs = (r, fs')"
      by (auto simp del: bindE_eq_Inr split: option.splits node.splits if_splits)
    then show ?thesis using Cons.IH [of fs] Cons.IH [of ?fs] by cases (cases "q = p"; auto simp: update_conv')+
  qed
qed simp

lemma MkdirAll_keep:
  assumes "MkdirAll E p perm fs = (r, fs')"
  shows "map_of fs q = Some n \<Longrightarrow> map_of fs' q = Some n" and "length p < length q \<Longrightarrow> map_of fs' q = map_of fs q"
  using MkdirAll_steps_keep [OF assms [unfolded MkdirAll_def], of q] by force+

lemma writeLocalJSON_eq_Inr:
  assumes "writeLocalJSON E p payload perm fs = (Inr u, fs')" and "no_link fs p"
  shows "map_of fs' = (map_of fs)(p \<mapsto> File perm (payload @ [10]))" and "\<forall>m. map_of fs p \<noteq> Some (Dir m)"
proof -
  from assms obtain fs1 m where w: "WriteFile E p (payload @ [10]) perm fs = (Inr (), fs1)"
    and c: "Chmod E p perm fs1 = (Inr u, fs')" by (auto simp: writeLocalJSON_def)
  from w assms(2) obtain old where fs1: "map_of fs1 = (map_of fs)(p \<mapsto> File old (payload @ [10]))"
    and "\<forall>m. map_of fs p \<noteq> Some (Dir m)"
    by (auto simp: WriteFile_def update_conv' split: sum.splits option.splits node.splits)
  then show "\<forall>m. map_of fs p \<noteq> Some (Dir m)" by blast
  have "no_link fs1 p" by (simp add: no_link_def fs1)
  with c fs1 show "map_of fs' = (map_of fs)(p \<mapsto> File perm (payload @ [10]))"
    by (auto simp: Chmod_def update_conv' split: sum.splits)
qed

text \<open>What \<^verbatim>\<open>validateStateRoot\<close> establishes.\<close>

definition safe_dir :: "files \<Rightarrow> path \<Rightarrow> bool" where
  "safe_dir fs p \<longleftrightarrow> (case map_of fs p of Some (Dir perm) \<Rightarrow> perm AND perm_0022 = 0 | _ \<Rightarrow> False)"

definition quiet_os :: "os_env \<Rightarrow> bool" where
  "quiet_os E \<longleftrightarrow> (\<forall>call p. \<not> oe_fails E call p)"

lemma inspect_dir_safe: "inspect_dir E fs p = Inr u \<Longrightarrow> safe_dir fs p"
  by (auto simp: inspect_dir_def Lstat_def safe_dir_def split: option.splits node.splits if_splits)

lemma inspect_dir_quiet: "quiet_os E \<Longrightarrow> inspect_dir E fs p = Inr () \<longleftrightarrow> safe_dir fs p"
  by (auto simp: inspect_dir_def Lstat_def os_call_def quiet_os_def safe_dir_def split: option.splits node.splits)

lemma validateStateRoot_safe:
  "validateStateRoot E s fs = Inr u \<Longrightarrow> TrimSpace s \<noteq> [] \<and> list_all (safe_dir fs) (state_roots s)"
  by (auto simp: validateStateRoot_def state_roots_def dest: inspect_dir_safe split: if_splits)

lemma validateStateRoot_quiet:
  "quiet_os E \<Longrightarrow> TrimSpace s \<noteq> [] \<Longrightarrow> list_all (safe_dir fs) (state_roots s) \<Longrightarrow> validateStateRoot E s fs = Inr ()"
  by (auto simp: validateStateRoot_def state_roots_def inspect_dir_quiet)

section \<open>A stored key loads\<close>

text \<open>The file names of a key version, in the directory of its key.\<close>

definition key_dir :: "string \<Rightarrow> KeyRef \<Rightarrow> path" where
  "key_dir statePath ref = keys_dir statePath @ [kr_KeyID ref]"

definition sealed_path :: "string \<Rightarrow> KeyRef \<Rightarrow> path" where
  "sealed_path statePath ref = key_dir statePath ref @ [''v'' @ format_uint (unat (kr_Version ref)) @ ''.sealed'']"

definition metadata_path :: "string \<Rightarrow> KeyRef \<Rightarrow> path" where
  "metadata_path statePath ref = key_dir statePath ref @ [''v'' @ format_uint (unat (kr_Version ref)) @ ''.metadata.json'']"

definition pcr_path :: "string \<Rightarrow> KeyRef \<Rightarrow> path" where
  "pcr_path statePath ref = key_dir statePath ref @ [''pcr-policy.json'']"

definition key_files :: "string \<Rightarrow> KeyRef \<Rightarrow> path list" where
  "key_files statePath ref = [sealed_path statePath ref, metadata_path statePath ref, pcr_path statePath ref]"

lemma localKeyPaths_eq_Inr [simp]:
  "localKeyPaths s ref = Inr paths \<longleftrightarrow> KeyRef_Validate ref = Inr () \<and>
     paths = \<lparr>kp_dir = key_dir s ref, kp_sealed = sealed_path s ref, kp_metadata = metadata_path s ref, kp_pcr = pcr_path s ref\<rparr>"
  by (auto simp: localKeyPaths_def key_dir_def sealed_path_def metadata_path_def pcr_path_def Let_def
      simp del: KeyRef_Validate_eq_Inr)

lemma suffixes_differ: "x @ ''.sealed'' \<noteq> y @ ''.metadata.json''"
  using arg_cong [of "x @ ''.sealed''" "y @ ''.metadata.json''" last] by auto

lemma key_files_differ:
  "sealed_path s r \<noteq> metadata_path s r'" "sealed_path s r \<noteq> pcr_path s r'" "metadata_path s r \<noteq> pcr_path s r'"
  "metadata_path s r \<noteq> sealed_path s r'" "pcr_path s r \<noteq> sealed_path s r'" "pcr_path s r \<noteq> metadata_path s r'"
  "sealed_path s r = sealed_path s r' \<longleftrightarrow> kr_KeyID r = kr_KeyID r' \<and> kr_Version r = kr_Version r'"
  "metadata_path s r = metadata_path s r' \<longleftrightarrow> kr_KeyID r = kr_KeyID r' \<and> kr_Version r = kr_Version r'"
  using suffixes_differ [of "''v'' @ format_uint (unat (kr_Version r))" "''v'' @ format_uint (unat (kr_Version r'))"]
    suffixes_differ [of "''v'' @ format_uint (unat (kr_Version r'))" "''v'' @ format_uint (unat (kr_Version r))"]
  by (auto simp: sealed_path_def metadata_path_def pcr_path_def key_dir_def word_unat_eq_iff)

lemma path_lengths [simp]:
  "length (key_dir s r) = Suc (length (keys_dir s))" "length (sealed_path s r) = Suc (Suc (length (keys_dir s)))"
  "length (metadata_path s r) = Suc (Suc (length (keys_dir s)))" "length (pcr_path s r) = Suc (Suc (length (keys_dir s)))"
  by (simp_all add: key_dir_def sealed_path_def metadata_path_def pcr_path_def)

lemma key_files_below:
  "p \<in> set (key_files s r) \<Longrightarrow> length (key_dir s r) < length p \<and> length (keys_dir s) < length p"
  by (auto simp: key_files_def)

lemma safe_dir_keep: "safe_dir fs p \<Longrightarrow> (\<And>m. map_of fs p = Some (Dir m) \<Longrightarrow> map_of fs' p = Some (Dir m)) \<Longrightarrow> safe_dir fs' p"
  by (auto simp: safe_dir_def split: option.splits node.splits)

text \<open>What a successful \<^verbatim>\<open>writeLocalState\<close> leaves behind.\<close>

definition state_written ::
  "state_codec \<Rightarrow> string \<Rightarrow> KeyRef \<Rightarrow> SealedBlob \<Rightarrow> LocalKeyMetadata \<Rightarrow> files \<Rightarrow> files \<Rightarrow> bool" where
  "state_written C s ref sealed m fs fs' \<longleftrightarrow>
     map_of fs' (sealed_path s ref) = Some (File perm_0600 (sc_sealed C sealed @ [10])) \<and>
     map_of fs' (metadata_path s ref) = Some (File perm_0600 (sc_metadata C m @ [10])) \<and>
     (\<forall>q d. map_of fs q = Some (Dir d) \<longrightarrow> map_of fs' q = Some (Dir d)) \<and>
     (\<forall>q. length (key_dir s ref) < length q \<longrightarrow> q \<notin> set (key_files s ref) \<longrightarrow> map_of fs' q = map_of fs q)"

lemma state_files_written:
  assumes "writeLocalJSON E (sealed_path s ref) (sc_sealed C sealed) perm_0600 fs = (Inr u, fs1)"
    and "writeLocalJSON E (metadata_path s ref) (sc_metadata C m) perm_0600 fs1 = (Inr v, fs2)"
    and "case sl_PCRPolicy sealed of None \<Rightarrow> fs' = fs2
       | Some policy \<Rightarrow> writeLocalJSON E (pcr_path s ref) (sc_pcr C policy) perm_0600 fs2 = (Inr w, fs')"
    and "list_all (no_link fs) (key_files s ref)"
  shows "state_written C s ref sealed m fs fs'"
proof -
  let ?S = "File perm_0600 (sc_sealed C sealed @ [10])" and ?M = "File perm_0600 (sc_metadata C m @ [10])"
  from assms(4) have l: "no_link fs (sealed_path s ref)" "no_link fs (metadata_path s ref)" "no_link fs (pcr_path s ref)"
    by (simp_all add: key_files_def)
  note one = writeLocalJSON_eq_Inr [OF assms(1) l(1)]
  have "no_link fs1 (metadata_path s ref)" using l(2) one(1) by (simp add: no_link_def key_files_differ)
  note two = writeLocalJSON_eq_Inr [OF assms(2) this]
  have "no_link fs2 (pcr_path s ref)" using l(3) one(1) two(1) by (simp add: no_link_def key_files_differ)
  then have three: "map_of fs' = map_of fs2 \<or>
      (\<exists>c. map_of fs' = (map_of fs2)(pcr_path s ref \<mapsto> File perm_0600 c)) \<and> (\<forall>d. map_of fs2 (pcr_path s ref) \<noteq> Some (Dir d))"
    using assms(3) by (auto dest: writeLocalJSON_eq_Inr split: option.splits)
  then show ?thesis using one two
    by (auto simp: state_written_def key_files_def key_files_differ split: if_splits)
qed

lemma writeLocalState_eq_Inr:
  assumes "writeLocalState E C s ref sealed m fs = (Inr u, fs')" and "list_all (no_link fs) (key_files s ref)"
  shows "state_written C s ref sealed m fs fs'" and "TrimSpace s \<noteq> []" and "list_all (safe_dir fs') (state_roots s)"
proof -
  from assms(1) obtain fs0 fs1 fs2 fs3 fs4 where root: "MkdirAll E (keys_dir s) perm_0700 fs = (Inr (), fs0)"
      "validateStateRoot E s fs0 = Inr ()" "TrimSpace s \<noteq> []"
    and dir: "MkdirAll E (key_dir s ref) perm_0700 fs0 = (Inr (), fs1)"
    and files: "writeLocalJSON E (sealed_path s ref) (sc_sealed C sealed) perm_0600 fs1 = (Inr (), fs2)"
      "writeLocalJSON E (metadata_path s ref) (sc_metadata C m) perm_0600 fs2 = (Inr (), fs3)"
      "case sl_PCRPolicy sealed of None \<Rightarrow> fs' = fs3
       | Some policy \<Rightarrow> writeLocalJSON E (pcr_path s ref) (sc_pcr C policy) perm_0600 fs3 = (Inr u, fs')"
    by (auto simp: writeLocalState_def ensureStateRoot_def simp del: KeyRef_Validate_eq_Inr
        split: if_splits option.splits)
  have long: "map_of fs1 q = map_of fs q" if "length (key_dir s ref) < length q" for q
    using that MkdirAll_keep(2) [OF root(1), of q] MkdirAll_keep(2) [OF dir, of q] by (simp add: key_dir_def)
  then have "list_all (no_link fs1) (key_files s ref)"
    using assms(2) key_files_below [of _ s ref] by (simp add: no_link_def list_all_iff)
  note w = state_files_written [OF files this]
  have dirs: "map_of fs q = Some n \<Longrightarrow> map_of fs1 q = Some n" "map_of fs0 q = Some n \<Longrightarrow> map_of fs1 q = Some n" for q n
    using MkdirAll_keep(1) [OF root(1), of q n] MkdirAll_keep(1) [OF dir, of q n] by blast+
  show "state_written C s ref sealed m fs fs'" using w long dirs(1) by (simp add: state_written_def)
  show "TrimSpace s \<noteq> []" by (fact root(3))
  have "list_all (safe_dir fs0) (state_roots s)" using validateStateRoot_safe [OF root(2)] by blast
  then show "list_all (safe_dir fs') (state_roots s)"
    using w dirs(2) by (auto simp: list_all_iff state_written_def intro: safe_dir_keep)
qed

lemma readLocalJSON_eq_Inr:
  "readLocalJSON E dec fs p = Inr x \<longleftrightarrow> os_call E ''lstat'' p = Inr () \<and> os_call E ''read'' p = Inr () \<and>
     (\<exists>perm c. map_of fs p = Some (File perm c) \<and> perm AND perm_0077 = 0 \<and> dec c = Some x)"
proof (cases "map_of fs p")
  case (Some n)
  then show ?thesis
    by (cases n) (auto simp: readLocalJSON_def Lstat_def ReadFile_def no_link_def Let_def split: option.splits)
qed (simp add: readLocalJSON_def Lstat_def)

lemma perm_0600_private [simp]: "perm_0600 AND perm_0077 = 0"
  by (simp add: perm_0600_def perm_0077_def)

lemma ReadLocalState_eq_Inr:
  "ReadLocalState E C s ref fs = Inr (sealed, m) \<longleftrightarrow> validateStateRoot E s fs = Inr () \<and> KeyRef_Validate ref = Inr () \<and>
     readLocalJSON E (sc_metadata_of C) fs (metadata_path s ref) = Inr m \<and> LocalKeyMetadata_Validate m ref = Inr () \<and>
     readLocalJSON E (sc_sealed_of C) fs (sealed_path s ref) = Inr sealed \<and> SealedBlob_Validate sealed = Inr ()"
  by (auto simp: ReadLocalState_def simp del: KeyRef_Validate_eq_Inr)

lemma prepareLocalKey_eq_Inr:
  assumes "prepareLocalKey ctx D sealed_at now version mode selection = Inr (sealed, m)"
  shows "SealKey D sealed_at (kv_Material version) mode selection = Inr sealed" "ctxE (td_Open D) = Inr ()"
    "UnsealKey D sealed = Inr (kv_Material version)" "SealedBlob_Validate sealed = Inr ()"
    "LocalKeyMetadata_Validate m (kv_Ref version) = Inr ()" "local_version (kv_Ref version) m (kv_Material version) = version"
    "KeyVersion_Validate version = Inr ()"
proof -
  from assms have *: "SealKey D sealed_at (kv_Material version) mode selection = Inr sealed" "ctxE (td_Open D) = Inr ()"
    "UnsealKey D sealed = Inr (kv_Material version)" "LocalKeyMetadata_Validate m (kv_Ref version) = Inr ()"
    "m = local_metadata version mode sealed now" "length (kv_Material version) = KeySize" "KeyRef_Validate (kv_Ref version) = Inr ()"
    by (auto simp: prepareLocalKey_def Let_def simp del: KeyRef_Validate_eq_Inr split: if_splits)
  show "SealKey D sealed_at (kv_Material version) mode selection = Inr sealed" "ctxE (td_Open D) = Inr ()"
    "UnsealKey D sealed = Inr (kv_Material version)" "LocalKeyMetadata_Validate m (kv_Ref version) = Inr ()" by fact+
  show "SealedBlob_Validate sealed = Inr ()" using *(3) by (simp add: UnsealKey_def)
  show "local_version (kv_Ref version) m (kv_Material version) = version"
    by (cases version) (simp add: *(5) local_version_def local_metadata_def)
  show "KeyVersion_Validate version = Inr ()"
    using *(4-7) by (auto simp: LocalKeyMetadata_Validate_def local_metadata_def KeyVersion_Validate_def
        ValidateIdentifier_def simp del: KeyVersion_Validate_eq_Inr split: if_splits)
qed

lemma NewRing_single:
  "KeyVersion_Validate v = Inr () \<Longrightarrow> NewRing [v] = (if kv_Status v = StatusActive then Inr \<lparr>versions = [v]\<rparr>
     else Inl (ErrInvalidMetadata ''exactly one active key version is required''))"
  by (simp add: NewRing_def del: KeyVersion_Validate_eq_Inr)


section \<open>What is loaded is protected\<close>

text \<open>A file that only its owner may access, with a content that decodes.\<close>

definition private_file :: "files \<Rightarrow> (bytes \<Rightarrow> 'a option) \<Rightarrow> path \<Rightarrow> 'a \<Rightarrow> bool" where
  "private_file fs dec p x \<longleftrightarrow> (\<exists>perm c. map_of fs p = Some (File perm c) \<and> perm AND perm_0077 = 0 \<and> dec c = Some x)"

lemma usable_refs_eq_Inr:
  "usable_refs E C c k fs ps = Inr refs \<Longrightarrow> ref \<in> set refs \<Longrightarrow> kr_ClusterID ref = c \<and> kr_KeyID ref = k"
proof (induction ps arbitrary: refs)
  case (Cons p ps)
  from Cons.prems(1) obtain rs where "usable_refs E C c k fs ps = Inr rs"
    "\<forall>r \<in> set refs. kr_ClusterID r = c \<and> kr_KeyID r = k \<or> r \<in> set rs"
    by (auto simp: Let_def simp del: KeyRef_Validate_eq_Inr split: if_splits)
  with Cons show ?case by auto
qed simp

lemma load_version_eq_Inr:
  "load_version E C D s fs ref = Inr (v, m) \<Longrightarrow> kv_Ref v = ref \<and> lk_Status m = kv_Status v \<and>
     private_file fs (sc_metadata_of C) (metadata_path s ref) m \<and> LocalKeyMetadata_Validate m ref = Inr () \<and>
     (\<exists>sealed. private_file fs (sc_sealed_of C) (sealed_path s ref) sealed \<and> UnsealKey D sealed = Inr (kv_Material v))"
  by (auto simp: load_version_def ReadLocalState_eq_Inr readLocalJSON_eq_Inr private_file_def local_version_def
      simp del: KeyRef_Validate_eq_Inr)

text \<open>The versions of a loaded ring and where they come from.\<close>

lemma loaded_ring:
  assumes "LoadLocalKeyring E C ctx D s c k fs = Inr (ring, records)"
  shows "ring_wf (versions ring)"
    and "v \<in> set (versions ring) \<Longrightarrow> kr_ClusterID (kv_Ref v) = c \<and> kr_KeyID (kv_Ref v) = k \<and>
      (\<exists>m. m \<in> set records \<and> load_version E C D s fs (kv_Ref v) = Inr (v, m))"
proof -
  from assms obtain refs loaded where refs: "localUsableKeyRefs E C s c k fs = Inr refs"
    and loaded: "traverseE (load_version E C D s fs) refs = Inr loaded" "NewRing (map fst loaded) = Inr ring" "records = map snd loaded"
    by (auto simp: LoadLocalKeyring_def)
  from refs have usable: "usable_refs E C c k fs (metadata_files fs (keys_dir s @ [k])) = Inr refs"
    by (auto simp: localUsableKeyRefs_def Let_def split: if_splits)
  show "ring_wf (versions ring)" using loaded(2) by (auto simp: NewRing_eq_Inr)
  assume "v \<in> set (versions ring)"
  then obtain m where m: "(v, m) \<in> set loaded" using loaded(2) by (auto simp: NewRing_eq_Inr)
  then obtain ref where ref: "ref \<in> set refs" "load_version E C D s fs ref = Inr (v, m)"
    using traverseE_Inr_set [OF loaded(1)] by blast
  have "kv_Ref v = ref" using load_version_eq_Inr [OF ref(2)] by blast
  moreover have "m \<in> set records" using m loaded(3) by force
  ultimately show "kr_ClusterID (kv_Ref v) = c \<and> kr_KeyID (kv_Ref v) = k \<and>
      (\<exists>m. m \<in> set records \<and> load_version E C D s fs (kv_Ref v) = Inr (v, m))"
    using usable_refs_eq_Inr [OF usable ref(1)] ref(2) by blast
qed


text \<open>A device that keeps the plaintext as the private part, a state without keys and a codec of one key.\<close>

definition demo_device :: tpm_device where
  "demo_device = \<lparr>td_Open = None, td_CreatePrimary = None, td_StartAuthSession = None, td_PolicyPCR = (\<lambda>_. None),
     td_PolicyPassword = None, td_PolicyGetDigest = (\<lambda>_. Inr [1]), td_ReadPCRs = (\<lambda>_. Inr []),
     td_Seal = (\<lambda>digest plaintext. Inr (plaintext, digest)), td_Load = (\<lambda>_ _. None),
     td_UnsealWithSession = (\<lambda>_ _ private. Inr private), td_hash = (\<lambda>_ _. [])\<rparr>"

definition demo_local_key :: KeyVersion where
  "demo_local_key = \<lparr>kv_Ref = \<lparr>kr_ClusterID = ''c'', kr_KeyID = ''k'', kr_Version = 1\<rparr>, kv_Status = StatusActive,
     kv_Algorithm = AlgorithmAES256GCM, kv_PolicyID = ''p'', kv_Material = replicate 32 7\<rparr>"

definition demo_sealed :: SealedBlob where
  "demo_sealed = \<lparr>sl_SchemaVersion = 1, sl_PolicyMode = PolicyModeTPMOnly, sl_Public = [1], sl_Private = replicate 32 7,
     sl_PCRPolicy = None, sl_CreatedAtUTC = FormatRFC3339Nano 0\<rparr>"

definition demo_local_metadata :: LocalKeyMetadata where
  "demo_local_metadata = local_metadata demo_local_key PolicyModeTPMOnly demo_sealed 0"

definition demo_codec :: state_codec where
  "demo_codec = \<lparr>sc_sealed = (\<lambda>_. [1]), sc_sealed_of = (\<lambda>_. Some demo_sealed), sc_metadata = (\<lambda>_. [2]),
     sc_metadata_of = (\<lambda>_. Some demo_local_metadata), sc_pcr = (\<lambda>_. [])\<rparr>"

definition demo_os :: os_env where
  "demo_os = \<lparr>oe_fails = (\<lambda>_ _. False), oe_umask = 0x12\<rparr>"

definition demo_files :: files where
  "demo_files = [([''/''], Dir 0x1ED), ([''/'', ''s''], Dir perm_0700), ([''/'', ''s'', ''local-tpm''], Dir perm_0700),
     ([''/'', ''s'', ''local-tpm'', ''keys''], Dir perm_0700), ([''/'', ''s'', ''local-tpm'', ''keys'', ''k''], Dir perm_0700)]"

definition demo_selection :: PCRSelection where
  "demo_selection = \<lparr>sel_Hash = [], sel_PCRs = []\<rparr>"

definition demo_stored :: "(error + LocalKeyMetadata) \<times> files" where
  "demo_stored = StoreLocalKey demo_os demo_codec None demo_device 0 0 ''/s'' demo_local_key PolicyModeTPMOnly
     demo_selection demo_files"

lemma demo_sealed_valid: "SealedBlob_Validate demo_sealed = Inr ()"
  by (simp add: SealedBlob_Validate_def demo_sealed_def SealedBlobSchemaVersion_def)

lemma demo_sealed_run: "SealKey demo_device 0 (kv_Material demo_local_key) PolicyModeTPMOnly demo_selection = Inr demo_sealed"
  using demo_sealed_valid
  by (simp add: SealKey_def demo_device_def demo_local_key_def seal_policy_def policySession_def ctxE_def demo_sealed_def
      SealedBlobSchemaVersion_def)

lemma demo_unsealed: "UnsealKey demo_device demo_sealed = Inr (kv_Material demo_local_key)"
  using demo_sealed_valid
  by (simp add: UnsealKey_def policySession_def ctxE_def demo_device_def)
    (simp add: demo_sealed_def demo_local_key_def PolicyModeTPMOnly_def PolicyModeSecureBoot_def)

lemma demo_local_ref_valid: "KeyRef_Validate (kv_Ref demo_local_key) = Inr ()"
  by (simp add: demo_local_key_def identifier_char_def)

lemma demo_metadata_valid: "LocalKeyMetadata_Validate demo_local_metadata (kv_Ref demo_local_key) = Inr ()"
proof -
  have "TpmPolicy_Validate (lk_TPMPolicy demo_local_metadata) = Inr ()"
    by (simp add: demo_local_metadata_def local_metadata_def TpmPolicy_Validate_def PolicyModeTPMOnly_def
        PolicyModeSecureBoot_def TrimSpace_graphic graphic_def)
  then show ?thesis using demo_local_ref_valid
    by (simp add: LocalKeyMetadata_Validate_def demo_local_metadata_def local_metadata_def ValidateIdentifier_def
        Status_known_def del: KeyRef_Validate_eq_Inr)
      (simp add: demo_local_key_def identifier_char_def)
qed

lemma demo_prepared:
  "prepareLocalKey None demo_device 0 0 demo_local_key PolicyModeTPMOnly demo_selection = Inr (demo_sealed, demo_local_metadata)"
proof -
  have "length (kv_Material demo_local_key) = KeySize" by (simp add: demo_local_key_def KeySize_def)
  moreover have "td_Open demo_device = None" by (simp add: demo_device_def)
  ultimately show ?thesis
    using demo_sealed_run demo_unsealed demo_local_ref_valid demo_metadata_valid
    by (simp add: prepareLocalKey_def ctxE_def demo_local_metadata_def Let_def del: KeyRef_Validate_eq_Inr)
qed

lemma demo_os_call [simp]: "os_call demo_os call p = Inr ()"
  by (simp add: os_call_def demo_os_def)

lemma demo_digit: "digit_char (Suc 0) = CHR ''1''"
  by code_simp

lemma demo_paths:
  "keys_dir ''/s'' = [''/'', ''s'', ''local-tpm'', ''keys'']"
  "key_dir ''/s'' (kv_Ref demo_local_key) = [''/'', ''s'', ''local-tpm'', ''keys'', ''k'']"
  "sealed_path ''/s'' (kv_Ref demo_local_key) = [''/'', ''s'', ''local-tpm'', ''keys'', ''k'', ''v1.sealed'']"
  "metadata_path ''/s'' (kv_Ref demo_local_key) = [''/'', ''s'', ''local-tpm'', ''keys'', ''k'', ''v1.metadata.json'']"
  "clean_path ''/s'' = [''/'', ''s'']"
  by (simp_all add: keys_dir_def key_dir_def sealed_path_def metadata_path_def clean_path_def HasPrefix_def Let_def
      LocalStateDir_def demo_local_key_def format_uint.simps demo_digit)

lemma demo_perm [simp]: "perm_0700 AND perm_0022 = 0"
  by (simp add: perm_0700_def perm_0022_def)

lemma demo_root_valid: "validateStateRoot demo_os ''/s'' demo_files = Inr ()"
  by (simp add: validateStateRoot_def state_roots_def inspect_dir_def Lstat_def demo_paths demo_files_def
      LocalStateDir_def TrimSpace_graphic graphic_def)

lemma demo_mkdir:
  "MkdirAll demo_os (keys_dir ''/s'') perm_0700 demo_files = (Inr (), demo_files)"
  "MkdirAll demo_os (key_dir ''/s'' (kv_Ref demo_local_key)) perm_0700 demo_files = (Inr (), demo_files)"
  by (simp_all add: MkdirAll_def demo_paths demo_files_def no_link_def upt_rec)

definition demo_files_sealed :: files where
  "demo_files_sealed = demo_files @ [(sealed_path ''/s'' (kv_Ref demo_local_key), File perm_0600 [1, 10])]"

definition demo_files_stored :: files where
  "demo_files_stored = demo_files_sealed @ [(metadata_path ''/s'' (kv_Ref demo_local_key), File perm_0600 [2, 10])]"

lemma demo_file_writes:
  "writeLocalJSON demo_os (sealed_path ''/s'' (kv_Ref demo_local_key)) [1] perm_0600 demo_files = (Inr (), demo_files_sealed)"
  "writeLocalJSON demo_os (metadata_path ''/s'' (kv_Ref demo_local_key)) [2] perm_0600 demo_files_sealed = (Inr (), demo_files_stored)"
  by (simp_all add: writeLocalJSON_def fs_bind_def WriteFile_def Chmod_def no_link_def demo_paths demo_files_def
      demo_files_sealed_def demo_files_stored_def)

lemma demo_written:
  "writeLocalState demo_os demo_codec ''/s'' (kv_Ref demo_local_key) demo_sealed demo_local_metadata demo_files =
     (Inr (), demo_files_stored)"
  using demo_local_ref_valid demo_mkdir demo_root_valid demo_file_writes
  by (simp add: writeLocalState_def ensureStateRoot_def demo_codec_def demo_sealed_def TrimSpace_graphic graphic_def
      del: KeyRef_Validate_eq_Inr)

lemma demo_stored_run:
  "StoreLocalKey demo_os demo_codec None demo_device 0 0 ''/s'' demo_local_key PolicyModeTPMOnly demo_selection demo_files =
     (Inr demo_local_metadata, demo_files_stored)"
  using demo_written by (simp add: StoreLocalKey_def demo_prepared)


lemma demo_state:
  "validateStateRoot demo_os ''/s'' demo_files_stored = Inr ()"
  "inspect_dir demo_os demo_files_stored (keys_dir ''/s'' @ [''k'']) = Inr ()"
  "readLocalJSON demo_os (sc_metadata_of demo_codec) demo_files_stored (metadata_path ''/s'' (kv_Ref demo_local_key)) = Inr demo_local_metadata"
  "readLocalJSON demo_os (sc_sealed_of demo_codec) demo_files_stored (sealed_path ''/s'' (kv_Ref demo_local_key)) = Inr demo_sealed"
  by (simp_all add: validateStateRoot_def state_roots_def inspect_dir_def Lstat_def readLocalJSON_eq_Inr demo_paths
      demo_files_def demo_files_stored_def demo_files_sealed_def demo_codec_def LocalStateDir_def TrimSpace_graphic graphic_def)

lemma demo_metadata_files:
  "metadata_files demo_files_stored (keys_dir ''/s'' @ [''k'']) = [metadata_path ''/s'' (kv_Ref demo_local_key)]"
  by (simp add: metadata_files_def demo_paths demo_files_def demo_files_stored_def demo_files_sealed_def
      HasPrefix_def HasSuffix_def)

lemma demo_loaded:
  "LoadLocalKeyring demo_os demo_codec None demo_device ''/s'' ''c'' ''k'' demo_files_stored =
     Inr (\<lparr>versions = [demo_local_key]\<rparr>, [demo_local_metadata])"
proof -
  have ref: "\<lparr>kr_ClusterID = ''c'', kr_KeyID = ''k'', kr_Version = lk_Version demo_local_metadata\<rparr> = kv_Ref demo_local_key"
    "lk_ClusterID demo_local_metadata = ''c''" "lk_KeyID demo_local_metadata = ''k''" "lk_Status demo_local_metadata = StatusActive"
    by (simp_all add: demo_local_metadata_def local_metadata_def demo_local_key_def)
  have "usable_refs demo_os demo_codec ''c'' ''k'' demo_files_stored [metadata_path ''/s'' (kv_Ref demo_local_key)] = Inr [kv_Ref demo_local_key]"
    using demo_metadata_valid by (simp add: demo_state ref Status_known_def Let_def del: KeyRef_Validate_eq_Inr)
  then have refs: "localUsableKeyRefs demo_os demo_codec ''/s'' ''c'' ''k'' demo_files_stored = Inr [kv_Ref demo_local_key]"
    by (simp add: localUsableKeyRefs_def demo_state demo_metadata_files Let_def)
  have "ReadLocalState demo_os demo_codec ''/s'' (kv_Ref demo_local_key) demo_files_stored = Inr (demo_sealed, demo_local_metadata)"
    using demo_state demo_local_ref_valid demo_metadata_valid demo_sealed_valid
    by (simp add: ReadLocalState_eq_Inr del: KeyRef_Validate_eq_Inr)
  then have "load_version demo_os demo_codec demo_device ''/s'' demo_files_stored (kv_Ref demo_local_key) = Inr (demo_local_key, demo_local_metadata)"
    using prepareLocalKey_eq_Inr(6) [OF demo_prepared] by (simp add: load_version_def demo_unsealed)
  moreover have "NewRing [demo_local_key] = Inr \<lparr>versions = [demo_local_key]\<rparr>"
    using NewRing_single [OF prepareLocalKey_eq_Inr(7) [OF demo_prepared]] ref(4)
    by (simp add: demo_local_key_def)
  moreover have "td_Open demo_device = None" by (simp add: demo_device_def)
  ultimately show ?thesis
    by (simp add: LoadLocalKeyring_def refs ctxE_def ValidateIdentifier_def identifier_char_def)
qed


end
