(* ===== verification/Rpc_Client.thy ===== *)
theory Rpc_Client
  imports Prelude
begin

text \<open>
  What the clients of the broker share: calls that may fail and change the state of the server, the
  delivery of a gRPC call, and the transport security of a connection.
\<close>

text \<open>Threading the state of the server through calls that may fail.\<close>

definition call_bind :: "('s \<Rightarrow> (error + 'a) \<times> 's) \<Rightarrow> ('a \<Rightarrow> 's \<Rightarrow> (error + 'b) \<times> 's) \<Rightarrow> 's \<Rightarrow> (error + 'b) \<times> 's" where
  "call_bind m f s = (case m s of (Inl err, s') \<Rightarrow> (Inl err, s') | (Inr x, s') \<Rightarrow> f x s')"

definition call_lift :: "error + 'a \<Rightarrow> 's \<Rightarrow> (error + 'a) \<times> 's" where
  "call_lift r s = (r, s)"

lemma call_bind_eq_Inr [simp]:
  "call_bind m f s = (Inr y, s') \<longleftrightarrow> (\<exists>x t. m s = (Inr x, t) \<and> f x t = (Inr y, s'))"
  by (auto simp: call_bind_def split: prod.splits sum.splits)

lemma call_lift_eq [simp]: "call_lift r s = (x, s') \<longleftrightarrow> r = x \<and> s' = s"
  by (auto simp: call_lift_def)

text \<open>
  A gRPC call reaches the server and its response the client, or the client sees an error: the
  request did not arrive, or the response was lost after the server handled it.
\<close>

datatype delivery = Delivered | NotSent error | ResponseLost error

definition deliver :: "delivery \<Rightarrow> ('s \<Rightarrow> (error + 'a) \<times> 's) \<Rightarrow> 's \<Rightarrow> (error + 'a) \<times> 's" where
  "deliver d call s =
     (case d of Delivered \<Rightarrow> call s | NotSent err \<Rightarrow> (Inl err, s) | ResponseLost err \<Rightarrow> (Inl err, snd (call s)))"

lemma deliver_eq_Inr: "deliver d call s = (Inr x, s') \<longleftrightarrow> d = Delivered \<and> call s = (Inr x, s')"
  by (simp add: deliver_def split: delivery.splits)

lemma deliver_later: "deliver d call s = (r, s') \<Longrightarrow> s' = s \<or> s' = snd (call s)"
  by (auto simp: deliver_def split: delivery.splits)

text \<open>Plaintext, or TLS with a server name, an added certificate authority and a client certificate.\<close>

datatype transport = Insecure | TLS string "string option" "(string \<times> string) option"

end
