(* ===== verification/Kms_Plugin.thy ===== *)
theory Kms_Plugin
  imports Broker_Service Kubernetes_Evidence Local_Tpm Rpc_Client
begin

text \<open>
  The OpenBao plugin (\<^verbatim>\<open>internal/kmsplugin\<close>): its configuration (\<^verbatim>\<open>config.go\<close>), the wrapper that
  OpenBao calls (\<^verbatim>\<open>wrapper.go\<close>), the backend that calls the broker (\<^verbatim>\<open>broker.go\<close>), the backend with
  a local TPM (\<^verbatim>\<open>local_tpm.go\<close>) and the choice between them (\<^verbatim>\<open>backend.go\<close>).

  The server behind the gRPC client is a parameter with a state of its own; the locale
  \<open>unseal_api\<close> says what the plugin relies on, and the broker provides it.  Reading files and
  certificates and opening a connection are fields of \<open>plugin_env\<close>.  The wrapper's calls follow one
  another, as its mutex orders the changes of its fields; its trace output is left out.  The options of OpenBao arrive parsed by \<^verbatim>\<open>wrapping.GetOpts\<close>, or with its error.
\<close>

section \<open>Configuration\<close>

record PluginConfig =
  pc_Mode :: string
  pc_BrokerAddress :: string
  pc_BrokerPlaintext :: bool
  pc_BrokerCACertPath :: string
  pc_BrokerTLSServerName :: string
  pc_BrokerClientCertPath :: string
  pc_BrokerClientKeyPath :: string
  pc_ClusterID :: string
  pc_KeyID :: string
  pc_KeyVersion :: u32
  pc_NodeID :: string
  pc_PolicyID :: string
  pc_EvidenceMode :: string
  pc_KubernetesTokenFile :: string
  pc_StatePath :: string
  pc_TPMDevice :: string

definition ModeBroker :: string where "ModeBroker = ''broker''"

definition ModeLocalTPM :: string where "ModeLocalTPM = ''local-tpm''"

definition EvidenceModeDevelopmentSubject :: string where
  "EvidenceModeDevelopmentSubject = ''development-subject''"

definition EvidenceModeKubernetesWorkload :: string where
  "EvidenceModeKubernetesWorkload = ''kubernetes-workload''"

definition knownConfigKey :: "string \<Rightarrow> bool" where
  "knownConfigKey key \<longleftrightarrow> key \<in> set
     [''mode'', ''broker_addr'', ''cluster_id'', ''broker_plaintext'', ''broker_ca_cert'', ''broker_tls_server_name'',
      ''broker_client_cert'', ''broker_client_key'', ''key_id'', ''key_version'', ''policy_id'', ''node_id'',
      ''evidence_mode'', ''kubernetes_token_file'', ''state_path'', ''tpm_device'']"

definition BrokerEvidenceMode :: "PluginConfig \<Rightarrow> string" where
  "BrokerEvidenceMode c = (if pc_EvidenceMode c = [] then EvidenceModeDevelopmentSubject else pc_EvidenceMode c)"

definition validateBrokerEvidenceMode :: "PluginConfig \<Rightarrow> error + unit" where
  "validateBrokerEvidenceMode c =
     assertE (BrokerEvidenceMode c = EvidenceModeDevelopmentSubject \<or> BrokerEvidenceMode c = EvidenceModeKubernetesWorkload)
       (ErrInvalidParameter ''evidence_mode'')"

definition validateBrokerConfig :: "PluginConfig \<Rightarrow> error + unit" where
  "validateBrokerConfig c =
     (if pc_BrokerAddress c = [] then Inl (ErrInvalidParameter ''broker_addr is required'')
      else if pc_NodeID c = [] then Inl (ErrInvalidParameter ''node_id is required for broker'')
      else if (pc_BrokerClientCertPath c = []) \<noteq> (pc_BrokerClientKeyPath c = []) then
        Inl (ErrInvalidParameter ''broker_client_cert and broker_client_key must be configured together'')
      else validateBrokerEvidenceMode c)"

definition validateLocalTPMConfig :: "PluginConfig \<Rightarrow> error + unit" where
  "validateLocalTPMConfig c =
     (if pc_StatePath c = [] then Inl (ErrInvalidParameter ''state_path is required'')
      else if pc_KeyID c = [] then Inl (ErrInvalidParameter ''key_id is required for local-tpm'')
      else Inr ())"

definition optional_identifier :: "string \<Rightarrow> error + unit" where
  "optional_identifier s = (if s = [] then Inr () else ValidateIdentifier s)"

definition PluginConfig_Validate :: "PluginConfig \<Rightarrow> error + unit" where
  "PluginConfig_Validate c =
     bindE (if pc_Mode c = ModeBroker then validateBrokerConfig c
       else if pc_Mode c = ModeLocalTPM then validateLocalTPMConfig c
       else Inl (ErrInvalidParameter ''mode'')) (\<lambda>_.
     bindE (ValidateIdentifier (pc_ClusterID c)) (\<lambda>_.
     bindE (optional_identifier (pc_KeyID c)) (\<lambda>_.
     bindE (optional_identifier (pc_NodeID c)) (\<lambda>_.
     optional_identifier (pc_PolicyID c)))))"

text \<open>\<^verbatim>\<open>strconv.ParseBool\<close>.\<close>

definition ParseBool :: "string \<Rightarrow> bool option" where
  "ParseBool s =
     (if s \<in> set [''1'', ''t'', ''T'', ''true'', ''TRUE'', ''True''] then Some True
      else if s \<in> set [''0'', ''f'', ''F'', ''false'', ''FALSE'', ''False''] then Some False
      else None)"

text \<open>The configuration map is an association list with distinct keys; a missing key reads as empty.\<close>

definition config_value :: "(string \<times> string) list \<Rightarrow> string \<Rightarrow> string" where
  "config_value values key = TrimSpace (case map_of values key of None \<Rightarrow> [] | Some v \<Rightarrow> v)"

definition parseConfig :: "(string \<times> string) list \<Rightarrow> error + PluginConfig" where
  "parseConfig values =
     (let v = config_value values in
      if \<not> list_all (\<lambda>(key, _). knownConfigKey key) values then
        Inl (ErrInvalidParameter ''unknown attested unseal config key'')
      else bindE (if v ''broker_plaintext'' = [] then Inr False
          else (case ParseBool (v ''broker_plaintext'') of
              None \<Rightarrow> Inl (ErrInvalidParameter ''invalid broker_plaintext'') | Some b \<Rightarrow> Inr b)) (\<lambda>plaintext.
        bindE (if v ''key_version'' = [] then Inr 0
          else (case ParseUint (v ''key_version'') 32 of
              None \<Rightarrow> Inl (ErrInvalidParameter ''invalid key_version'') | Some n \<Rightarrow> Inr (of_nat n))) (\<lambda>keyVersion.
        let config = \<lparr>pc_Mode = v ''mode'', pc_BrokerAddress = v ''broker_addr'', pc_BrokerPlaintext = plaintext,
              pc_BrokerCACertPath = v ''broker_ca_cert'', pc_BrokerTLSServerName = v ''broker_tls_server_name'',
              pc_BrokerClientCertPath = v ''broker_client_cert'', pc_BrokerClientKeyPath = v ''broker_client_key'',
              pc_ClusterID = v ''cluster_id'', pc_KeyID = v ''key_id'', pc_KeyVersion = keyVersion,
              pc_NodeID = v ''node_id'', pc_PolicyID = v ''policy_id'', pc_EvidenceMode = v ''evidence_mode'',
              pc_KubernetesTokenFile = v ''kubernetes_token_file'', pc_StatePath = v ''state_path'',
              pc_TPMDevice = v ''tpm_device''\<rparr> in
        bindE (PluginConfig_Validate config) (\<lambda>_. Inr config))))"

definition ConfiguredKeyID :: "PluginConfig \<Rightarrow> string" where
  "ConfiguredKeyID c =
     (if pc_KeyID c = [] \<or> pc_KeyVersion c = 0 then []
      else KeyRef_String \<lparr>kr_ClusterID = pc_ClusterID c, kr_KeyID = pc_KeyID c, kr_Version = pc_KeyVersion c\<rparr>)"

section \<open>Requests\<close>

record EncryptRequest =
  xr_Plaintext :: bytes
  xr_AAD :: bytes
  xr_KeyID :: string

record DecryptRequest =
  dr_Blob :: "BlobInfo option"
  dr_AAD :: bytes
  dr_KeyID :: string

record BackendStatus =
  bs_Ready :: bool
  bs_KeyID :: string
  bs_Mode :: string

text \<open>The client of the unseal service, with the state of the server that it calls.\<close>

record 's unseal_client =
  uc_Challenge :: "ChallengeRequest \<Rightarrow> 's \<Rightarrow> (error + ChallengeResponse) \<times> 's"
  uc_Wrap :: "WrapRequest \<Rightarrow> 's \<Rightarrow> (error + WrapResponse) \<times> 's"
  uc_Unwrap :: "UnwrapRequest \<Rightarrow> 's \<Rightarrow> (error + UnwrapResponse) \<times> 's"
  uc_Status :: "string \<Rightarrow> 's \<Rightarrow> (error + StatusResponse) \<times> 's"

section \<open>The broker backend\<close>

definition requestedKeyFromString :: "string \<Rightarrow> error + KeyRef_msg option" where
  "requestedKeyFromString raw =
     (if raw = [] then Inr None
      else bindE (ParseKeyRef raw) (\<lambda>ref.
        Inr (Some \<lparr>km_ClusterId = kr_ClusterID ref, km_KeyId = kr_KeyID ref, km_Version = kr_Version ref\<rparr>)))"

definition validateDecryptRequestKey :: "string \<Rightarrow> BlobInfo option \<Rightarrow> error + unit" where
  "validateDecryptRequestKey keyID blob =
     (if keyID = [] then Inr ()
      else (case blob of
          None \<Rightarrow> Inl (ErrInvalidMetadata ''missing blob key info'')
        | Some b \<Rightarrow>
            (case bi_KeyInfo b of
               None \<Rightarrow> Inl (ErrInvalidMetadata ''missing blob key info'')
             | Some k \<Rightarrow> assertE (keyID = ki_KeyId k) (ErrInvalidMetadata ''requested key does not match blob key''))))"

definition empty_blob :: WrappedBlob where
  "empty_blob = \<lparr>wb_Ciphertext = [], wb_Iv = [], wb_Key = None, wb_Mechanism = 0\<rparr>"

definition blobInfoToProto :: "BlobInfo option \<Rightarrow> WrappedBlob" where
  "blobInfoToProto blob =
     (case blob of
        None \<Rightarrow> empty_blob
      | Some b \<Rightarrow>
          (case bi_KeyInfo b of
             None \<Rightarrow> empty_blob
           | Some k \<Rightarrow>
               (case ParseKeyRef (ki_KeyId k) of
                  Inl _ \<Rightarrow> empty_blob
                | Inr ref \<Rightarrow> \<lparr>wb_Ciphertext = bi_Ciphertext b, wb_Iv = bi_Iv b,
                    wb_Key = Some \<lparr>km_ClusterId = kr_ClusterID ref, km_KeyId = kr_KeyID ref, km_Version = kr_Version ref\<rparr>,
                    wb_Mechanism = ki_Mechanism k\<rparr>)))"

definition plugin_protoToBlobInfo :: "WrappedBlob option \<Rightarrow> BlobInfo" where
  "plugin_protoToBlobInfo blob =
     (case blob of
        None \<Rightarrow> \<lparr>bi_Ciphertext = [], bi_Iv = [], bi_KeyInfo = None\<rparr>
      | Some b \<Rightarrow>
          (case wb_Key b of
             None \<Rightarrow> \<lparr>bi_Ciphertext = [], bi_Iv = [], bi_KeyInfo = None\<rparr>
           | Some k \<Rightarrow> \<lparr>bi_Ciphertext = wb_Ciphertext b, bi_Iv = wb_Iv b,
               bi_KeyInfo = Some \<lparr>ki_Mechanism = wb_Mechanism b,
                 ki_KeyId = KeyRef_String \<lparr>kr_ClusterID = km_ClusterId k, kr_KeyID = km_KeyId k,
                   kr_Version = km_Version k\<rparr>\<rparr>\<rparr>))"

definition brokerErrors :: "string \<Rightarrow> BrokerError list \<Rightarrow> error" where
  "brokerErrors fallback errs =
     (case errs of
        [] \<Rightarrow> ErrBackendUnavailable fallback
      | first # _ \<Rightarrow> ErrBackendUnavailable (ErrorCode_String (be_Code first) @ '': '' @ be_Message first))"

definition requireAllow :: "PolicyDecision_msg \<Rightarrow> string \<Rightarrow> error + unit" where
  "requireAllow decision fallback =
     assertE (dm_State decision = POLICY_DECISION_STATE_ALLOW) (brokerErrors fallback (dm_Errors decision))"

definition KubernetesServiceAccountTokenPath :: string where
  "KubernetesServiceAccountTokenPath = ''/var/run/secrets/kubernetes.io/serviceaccount/token''"

definition KubernetesBearerTokenFile :: "string \<Rightarrow> string" where
  "KubernetesBearerTokenFile explicit =
     (if TrimSpace explicit \<noteq> [] then TrimSpace explicit else KubernetesServiceAccountTokenPath)"

definition readKubernetesWorkloadToken :: "(string \<Rightarrow> error + string) \<Rightarrow> string \<Rightarrow> error + string" where
  "readKubernetesWorkloadToken read path =
     bindE (read (KubernetesBearerTokenFile path)) (\<lambda>raw.
     if TrimSpace raw = [] then Inl (OtherErr ''kubernetes workload token file is empty'') else Inr (TrimSpace raw))"

definition plugin_evidence :: "(string \<Rightarrow> error + string) \<Rightarrow> PluginConfig \<Rightarrow> string \<Rightarrow> error + EvidenceEnvelope" where
  "plugin_evidence read c challengeID =
     (if BrokerEvidenceMode c = EvidenceModeDevelopmentSubject then
        Inr \<lparr>ee_Provider = 0, ee_Format = ''development-subject'', ee_Payload = bytes_of (pc_NodeID c),
          ee_ChallengeId = challengeID, ee_NormalizedClaims = []\<rparr>
      else if BrokerEvidenceMode c = EvidenceModeKubernetesWorkload then
        bindE (readKubernetesWorkloadToken read (pc_KubernetesTokenFile c)) (\<lambda>token.
        Inr (NewEvidenceEnvelope challengeID token))
      else Inl (ErrBackendUnavailable ''unsupported evidence mode''))"

definition plugin_challenge :: "'s unseal_client \<Rightarrow> PluginConfig \<Rightarrow> Operation \<Rightarrow> 's \<Rightarrow> (error + ChallengeResponse) \<times> 's" where
  "plugin_challenge client c operation =
     call_bind (uc_Challenge client \<lparr>cq_ClusterId = pc_ClusterID c, cq_NodeId = pc_NodeID c, cq_Operation = operation\<rparr>)
       (\<lambda>challenge. call_lift
         (if cp_ChallengeId challenge = [] then
            Inl (ErrBackendUnavailable ''broker challenge response is missing challenge_id'')
          else Inr challenge))"

definition brokerBackend_Encrypt ::
  "(string \<Rightarrow> error + string) \<Rightarrow> 's unseal_client \<Rightarrow> PluginConfig \<Rightarrow> EncryptRequest \<Rightarrow> 's \<Rightarrow> (error + BlobInfo) \<times> 's" where
  "brokerBackend_Encrypt read client c req =
     call_bind (plugin_challenge client c OPERATION_WRAP) (\<lambda>challenge.
     call_bind (call_lift (requestedKeyFromString (xr_KeyID req))) (\<lambda>requested.
     call_bind (call_lift (plugin_evidence read c (cp_ChallengeId challenge))) (\<lambda>evidence.
     call_bind (uc_Wrap client \<lparr>wq_RequestedKey = requested, wq_Plaintext = xr_Plaintext req, wq_Aad = xr_AAD req,
         wq_Evidence = Some evidence\<rparr>) (\<lambda>resp.
     call_bind (call_lift (requireAllow (wp_Decision resp) ''broker wrap denied'')) (\<lambda>_.
     call_lift (Inr (plugin_protoToBlobInfo (wp_Blob resp))))))))"

definition brokerBackend_Decrypt ::
  "(string \<Rightarrow> error + string) \<Rightarrow> 's unseal_client \<Rightarrow> PluginConfig \<Rightarrow> DecryptRequest \<Rightarrow> 's \<Rightarrow> (error + bytes) \<times> 's" where
  "brokerBackend_Decrypt read client c req =
     call_bind (call_lift (validateDecryptRequestKey (dr_KeyID req) (dr_Blob req))) (\<lambda>_.
     call_bind (plugin_challenge client c OPERATION_UNWRAP) (\<lambda>challenge.
     call_bind (call_lift (plugin_evidence read c (cp_ChallengeId challenge))) (\<lambda>evidence.
     call_bind (uc_Unwrap client \<lparr>uq_Blob = Some (blobInfoToProto (dr_Blob req)), uq_Aad = dr_AAD req,
         uq_Evidence = Some evidence\<rparr>) (\<lambda>resp.
     call_bind (call_lift (requireAllow (up_Decision resp) ''broker unwrap denied'')) (\<lambda>_.
     call_lift (Inr (up_Plaintext resp)))))))"

definition brokerBackend_Status :: "'s unseal_client \<Rightarrow> PluginConfig \<Rightarrow> 's \<Rightarrow> (error + BackendStatus) \<times> 's" where
  "brokerBackend_Status client c =
     call_bind (uc_Status client (pc_ClusterID c)) (\<lambda>resp. call_lift
       (if \<not> sp_Ready resp then Inl (brokerErrors ''broker is not ready'' (sp_Errors resp))
        else Inr \<lparr>bs_Ready = True, bs_KeyID = sp_ActiveKeyId resp, bs_Mode = pc_Mode c\<rparr>))"

definition brokerBackend_KeyID :: "'s unseal_client \<Rightarrow> PluginConfig \<Rightarrow> 's \<Rightarrow> (error + string) \<times> 's" where
  "brokerBackend_KeyID client c =
     call_bind (brokerBackend_Status client c) (\<lambda>status. call_lift
       (if bs_KeyID status = [] then Inl (ErrBackendUnavailable ''broker active key is empty'') else Inr (bs_KeyID status)))"

text \<open>\<open>pem\<close> tells whether a file holds a PEM certificate, \<open>pair\<close> whether the two files are a key pair.\<close>

definition brokerDialOptions ::
  "(string \<Rightarrow> error + string) \<Rightarrow> (string \<Rightarrow> bool) \<Rightarrow> (string \<Rightarrow> string \<Rightarrow> error option) \<Rightarrow> PluginConfig \<Rightarrow> error + transport" where
  "brokerDialOptions read pem pair c =
     (if pc_BrokerPlaintext c then Inr Insecure
      else bindE (if pc_BrokerCACertPath c = [] then Inr None
          else bindE (read (pc_BrokerCACertPath c)) (\<lambda>caPEM.
            if \<not> pem caPEM then Inl (OtherErr ''broker CA certificate did not contain a PEM certificate'')
            else Inr (Some caPEM))) (\<lambda>roots.
        bindE (if pc_BrokerClientCertPath c = [] then Inr None
          else bindE (ctxE (pair (pc_BrokerClientCertPath c) (pc_BrokerClientKeyPath c))) (\<lambda>_.
            Inr (Some (pc_BrokerClientCertPath c, pc_BrokerClientKeyPath c)))) (\<lambda>certificate.
        Inr (TLS (pc_BrokerTLSServerName c) roots certificate))))"

section \<open>Backends\<close>

record localTPMBackend =
  lb_config :: PluginConfig
  lb_active :: KeyRef
  lb_ring :: Ring
  lb_metadata :: "LocalKeyMetadata list"

datatype 's backend =
    BrokerBackend PluginConfig "'s unseal_client"
  | LocalTPMBackend localTPMBackend
  | UnavailableBackend PluginConfig

text \<open>
  What a call of the plugin finds outside: the operating system, the files and the TPM devices of
  \<open>Local_Tpm\<close>; \<open>pv_connect\<close> is \<^verbatim>\<open>grpc.NewClient\<close>, \<open>pv_close\<close> the closing of its connection.
\<close>

record 's plugin_env =
  pv_ctx :: "error option"
  pv_rng :: entropy
  pv_cipher :: cipher
  pv_read :: "string \<Rightarrow> error + string"
  pv_pem :: "string \<Rightarrow> bool"
  pv_pair :: "string \<Rightarrow> string \<Rightarrow> error option"
  pv_connect :: "transport \<Rightarrow> string \<Rightarrow> error + 's unseal_client"
  pv_close :: "error option"
  pv_os :: os_env
  pv_codec :: state_codec
  pv_device :: "string \<Rightarrow> tpm_device"
  pv_files :: files

definition metadataContainsVersion :: "LocalKeyMetadata list \<Rightarrow> u32 \<Rightarrow> bool" where
  "metadataContainsVersion metadata version \<longleftrightarrow> list_ex (\<lambda>record. lk_Version record = version) metadata"

definition newLocalTPMBackend :: "'s plugin_env \<Rightarrow> PluginConfig \<Rightarrow> error + localTPMBackend" where
  "newLocalTPMBackend env c =
     bindE (LoadLocalKeyring (pv_os env) (pv_codec env) (pv_ctx env) (pv_device env (pc_TPMDevice c)) (pc_StatePath c)
       (pc_ClusterID c) (pc_KeyID c) (pv_files env)) (\<lambda>(ring, metadata).
     bindE (Active (Some ring)) (\<lambda>active.
     if pc_KeyVersion c \<noteq> 0 \<and> \<not> metadataContainsVersion metadata (pc_KeyVersion c) then Inl ErrKeyNotFound
     else Inr \<lparr>lb_config = c, lb_active = kv_Ref active, lb_ring = ring, lb_metadata = metadata\<rparr>))"

definition newBrokerBackend :: "'s plugin_env \<Rightarrow> PluginConfig \<Rightarrow> 's \<Rightarrow> (error + 's backend) \<times> 's" where
  "newBrokerBackend env c =
     call_bind (call_lift (brokerDialOptions (pv_read env) (pv_pem env) (pv_pair env) c)) (\<lambda>options.
     call_bind (call_lift (pv_connect env options (pc_BrokerAddress c))) (\<lambda>client.
     call_bind (brokerBackend_Status client c) (\<lambda>_.
     call_lift (Inr (BrokerBackend c client)))))"

definition NewBackend :: "'s plugin_env \<Rightarrow> PluginConfig \<Rightarrow> 's \<Rightarrow> (error + 's backend) \<times> 's" where
  "NewBackend env c =
     (if pc_Mode c = ModeLocalTPM then
        call_lift (bindE (newLocalTPMBackend env c) (\<lambda>b. Inr (LocalTPMBackend b)))
      else if pc_Mode c = ModeBroker then newBrokerBackend env c
      else call_lift (Inr (UnavailableBackend c)))"

definition validateEncryptRequestKey :: "localTPMBackend \<Rightarrow> string \<Rightarrow> error + unit" where
  "validateEncryptRequestKey b keyID =
     assertE (keyID = [] \<or> keyID = KeyRef_String (lb_active b)) ErrKeyNotUsable"

fun Backend_Encrypt :: "'s plugin_env \<Rightarrow> 's backend \<Rightarrow> EncryptRequest \<Rightarrow> 's \<Rightarrow> (error + BlobInfo) \<times> 's" where
  "Backend_Encrypt env (BrokerBackend c client) req = brokerBackend_Encrypt (pv_read env) client c req"
| "Backend_Encrypt env (LocalTPMBackend b) req =
     call_lift (bindE (validateEncryptRequestKey b (xr_KeyID req)) (\<lambda>_.
       Encrypt (pv_cipher env) (pv_ctx env) (pv_rng env) (Some (lb_ring b)) (xr_Plaintext req) (xr_AAD req)))"
| "Backend_Encrypt env (UnavailableBackend c) req =
     call_lift (Inl (ErrBackendUnavailable ''broker backend is not implemented''))"

fun Backend_Decrypt :: "'s plugin_env \<Rightarrow> 's backend \<Rightarrow> DecryptRequest \<Rightarrow> 's \<Rightarrow> (error + bytes) \<times> 's" where
  "Backend_Decrypt env (BrokerBackend c client) req = brokerBackend_Decrypt (pv_read env) client c req"
| "Backend_Decrypt env (LocalTPMBackend b) req =
     call_lift (bindE (validateDecryptRequestKey (dr_KeyID req) (dr_Blob req)) (\<lambda>_.
       Decrypt (pv_cipher env) (pv_ctx env) (Some (lb_ring b)) (dr_Blob req) (dr_AAD req)))"
| "Backend_Decrypt env (UnavailableBackend c) req =
     call_lift (Inl (ErrBackendUnavailable ''broker backend is not implemented''))"

fun Backend_KeyID :: "'s backend \<Rightarrow> 's \<Rightarrow> (error + string) \<times> 's" where
  "Backend_KeyID (BrokerBackend c client) = brokerBackend_KeyID client c"
| "Backend_KeyID (LocalTPMBackend b) = call_lift (Inr (KeyRef_String (lb_active b)))"
| "Backend_KeyID (UnavailableBackend c) = call_lift
     (if ConfiguredKeyID c = [] then Inl (ErrBackendUnavailable ''active broker key is unknown'')
      else Inr (ConfiguredKeyID c))"

fun Backend_Status :: "'s backend \<Rightarrow> 's \<Rightarrow> (error + BackendStatus) \<times> 's" where
  "Backend_Status (BrokerBackend c client) = brokerBackend_Status client c"
| "Backend_Status (LocalTPMBackend b) = call_lift
     (Inr \<lparr>bs_Ready = True, bs_KeyID = KeyRef_String (lb_active b), bs_Mode = pc_Mode (lb_config b)\<rparr>)"
| "Backend_Status (UnavailableBackend c) = call_lift
     (Inr \<lparr>bs_Ready = False, bs_KeyID = ConfiguredKeyID c, bs_Mode = pc_Mode c\<rparr>)"

fun Backend_Close :: "'s plugin_env \<Rightarrow> 's backend \<Rightarrow> error + unit" where
  "Backend_Close env (BrokerBackend c client) = ctxE (pv_close env)"
| "Backend_Close env (LocalTPMBackend b) = Inr ()"
| "Backend_Close env (UnavailableBackend c) = Inr ()"

section \<open>The wrapper\<close>

text \<open>The wrapper starts with the zero configuration.\<close>

definition no_config :: PluginConfig where
  "no_config = \<lparr>pc_Mode = [], pc_BrokerAddress = [], pc_BrokerPlaintext = False, pc_BrokerCACertPath = [],
     pc_BrokerTLSServerName = [], pc_BrokerClientCertPath = [], pc_BrokerClientKeyPath = [], pc_ClusterID = [],
     pc_KeyID = [], pc_KeyVersion = 0, pc_NodeID = [], pc_PolicyID = [], pc_EvidenceMode = [],
     pc_KubernetesTokenFile = [], pc_StatePath = [], pc_TPMDevice = []\<rparr>"

record 's Wrapper =
  wr_config :: PluginConfig
  wr_backend :: "'s backend option"

definition NewWrapper :: "'s Wrapper" where
  "NewWrapper = \<lparr>wr_config = no_config, wr_backend = None\<rparr>"

definition WrapperType :: string where "WrapperType = ''attested''"

definition SetConfig ::
  "'s plugin_env \<Rightarrow> error + (string \<times> string) list \<Rightarrow> 's Wrapper \<Rightarrow> 's \<Rightarrow> (error + (string \<times> string) list) \<times> 's Wrapper \<times> 's" where
  "SetConfig env opts w s =
     (case bindE opts parseConfig of
        Inl err \<Rightarrow> (Inl err, w, s)
      | Inr config \<Rightarrow>
          if wr_backend w \<noteq> None then (Inl (ErrInvalidParameter ''wrapper is already initialized''), w, s)
          else (case NewBackend env config s of
              (Inl err, s') \<Rightarrow> (Inl err, w, s')
            | (Inr backend, s') \<Rightarrow>
                (let w' = w\<lparr>wr_config := config, wr_backend := Some backend\<rparr>;
                     (keyID, s'') = Backend_KeyID backend s';
                     key = (case keyID of Inl _ \<Rightarrow> ConfiguredKeyID config | Inr k \<Rightarrow> k) in
                 (Inr [(''broker_addr'', pc_BrokerAddress config), (''cluster_id'', pc_ClusterID config),
                    (''key_id'', key), (''mode'', pc_Mode config), (''state_path'', pc_StatePath config),
                    (''tpm_device'', pc_TPMDevice config), (''type'', WrapperType)], w', s''))))"

definition Wrapper_Init :: "'s plugin_env \<Rightarrow> 's Wrapper \<Rightarrow> 's \<Rightarrow> (error + unit) \<times> 's Wrapper \<times> 's" where
  "Wrapper_Init env w s =
     (case ctxE (pv_ctx env) of
        Inl err \<Rightarrow> (Inl err, w, s)
      | Inr _ \<Rightarrow>
          if pc_Mode (wr_config w) = [] then (Inl ErrNotInitialized, w, s)
          else if wr_backend w \<noteq> None then (Inr (), w, s)
          else (case NewBackend env (wr_config w) s of
              (Inl err, s') \<Rightarrow> (Inl err, w, s')
            | (Inr backend, s') \<Rightarrow> (Inr (), w\<lparr>wr_backend := Some backend\<rparr>, s')))"

definition currentBackend :: "'s Wrapper \<Rightarrow> error + 's backend" where
  "currentBackend w = (case wr_backend w of None \<Rightarrow> Inl ErrNotInitialized | Some b \<Rightarrow> Inr b)"

text \<open>The options carry the associated data and the requested key.\<close>

definition Wrapper_Encrypt ::
  "'s plugin_env \<Rightarrow> 's Wrapper \<Rightarrow> error + bytes \<times> string \<Rightarrow> bytes \<Rightarrow> 's \<Rightarrow> (error + BlobInfo) \<times> 's" where
  "Wrapper_Encrypt env w opts plaintext =
     call_bind (call_lift opts) (\<lambda>(aad, keyID).
     call_bind (call_lift (currentBackend w)) (\<lambda>backend.
     Backend_Encrypt env backend \<lparr>xr_Plaintext = plaintext, xr_AAD = aad, xr_KeyID = keyID\<rparr>))"

definition Wrapper_Decrypt ::
  "'s plugin_env \<Rightarrow> 's Wrapper \<Rightarrow> error + bytes \<times> string \<Rightarrow> BlobInfo option \<Rightarrow> 's \<Rightarrow> (error + bytes) \<times> 's" where
  "Wrapper_Decrypt env w opts ciphertext =
     call_bind (call_lift opts) (\<lambda>(aad, keyID).
     call_bind (call_lift (currentBackend w)) (\<lambda>backend.
     Backend_Decrypt env backend \<lparr>dr_Blob = ciphertext, dr_AAD = aad, dr_KeyID = keyID\<rparr>))"

definition Wrapper_KeyId :: "'s Wrapper \<Rightarrow> 's \<Rightarrow> (error + string) \<times> 's" where
  "Wrapper_KeyId w = call_bind (call_lift (currentBackend w)) Backend_KeyID"

definition Wrapper_Finalize :: "'s plugin_env \<Rightarrow> 's Wrapper \<Rightarrow> (error + unit) \<times> 's Wrapper" where
  "Wrapper_Finalize env w =
     (case wr_backend w of
        None \<Rightarrow> (Inr (), w)
      | Some backend \<Rightarrow> (Backend_Close env backend, w\<lparr>wr_backend := None\<rparr>))"

section \<open>What the plugin relies on\<close>

lemma requireAllow_eq_Inr [simp]: "requireAllow d m = Inr x \<longleftrightarrow> dm_State d = POLICY_DECISION_STATE_ALLOW"
  by (simp add: requireAllow_def assertE_def)

text \<open>A blob with a valid key reference survives the conversions on both sides of OpenBao.\<close>

lemma blobInfoToProto_protoToBlobInfo:
  assumes "wb_Key w = Some \<lparr>km_ClusterId = kr_ClusterID ref, km_KeyId = kr_KeyID ref, km_Version = kr_Version ref\<rparr>"
    and "KeyRef_Validate ref = Inr ()"
  shows "blobInfoToProto (Some (plugin_protoToBlobInfo (Some w))) = w"
  using assms by (cases w) (simp add: blobInfoToProto_def plugin_protoToBlobInfo_def)

lemma plugin_challenge_eq_Inr:
  "plugin_challenge client c op s = (Inr challenge, s') \<Longrightarrow>
    uc_Challenge client \<lparr>cq_ClusterId = pc_ClusterID c, cq_NodeId = pc_NodeID c, cq_Operation = op\<rparr> s = (Inr challenge, s')"
  by (auto simp: plugin_challenge_def split: if_splits)

lemma brokerBackend_Encrypt_eq_Inr:
  assumes "brokerBackend_Encrypt read client c req s = (Inr blob, s')"
  shows "\<exists>challenge t requested evidence wp. uc_Challenge client
      \<lparr>cq_ClusterId = pc_ClusterID c, cq_NodeId = pc_NodeID c, cq_Operation = OPERATION_WRAP\<rparr> s = (Inr challenge, t) \<and>
    plugin_evidence read c (cp_ChallengeId challenge) = Inr evidence \<and>
    uc_Wrap client \<lparr>wq_RequestedKey = requested, wq_Plaintext = xr_Plaintext req, wq_Aad = xr_AAD req,
      wq_Evidence = Some evidence\<rparr> t = (Inr wp, s') \<and>
    dm_State (wp_Decision wp) = POLICY_DECISION_STATE_ALLOW \<and> blob = plugin_protoToBlobInfo (wp_Blob wp)"
  using assms unfolding brokerBackend_Encrypt_def
  by (simp only: call_bind_eq_Inr call_lift_eq requireAllow_eq_Inr) (blast dest: plugin_challenge_eq_Inr)

lemma brokerBackend_Decrypt_eq_Inr:
  assumes "brokerBackend_Decrypt read client c req s = (Inr plaintext, s')"
  shows "\<exists>challenge t evidence up. uc_Challenge client
      \<lparr>cq_ClusterId = pc_ClusterID c, cq_NodeId = pc_NodeID c, cq_Operation = OPERATION_UNWRAP\<rparr> s = (Inr challenge, t) \<and>
    plugin_evidence read c (cp_ChallengeId challenge) = Inr evidence \<and>
    uc_Unwrap client \<lparr>uq_Blob = Some (blobInfoToProto (dr_Blob req)), uq_Aad = dr_AAD req,
      uq_Evidence = Some evidence\<rparr> t = (Inr up, s') \<and>
    dm_State (up_Decision up) = POLICY_DECISION_STATE_ALLOW \<and> plaintext = up_Plaintext up"
  using assms unfolding brokerBackend_Decrypt_def
  by (simp only: call_bind_eq_Inr call_lift_eq requireAllow_eq_Inr) (blast dest: plugin_challenge_eq_Inr)

text \<open>
  The contract of the unseal service for the backend that calls it: \<open>serves\<close> are the clients of one
  server, \<open>later\<close> the ways in which its state develops, and \<open>sealed s w pt aad\<close> says that the server
  wrapped \<open>pt\<close> with \<open>aad\<close> as \<open>w\<close>.
\<close>

locale unseal_api =
  fixes serves :: "'s unseal_client \<Rightarrow> bool" and ok :: "'s \<Rightarrow> bool" and later :: "'s \<Rightarrow> 's \<Rightarrow> bool"
    and sealed :: "'s \<Rightarrow> WrappedBlob \<Rightarrow> bytes \<Rightarrow> bytes \<Rightarrow> bool"
  assumes challenge_later: "serves c \<Longrightarrow> uc_Challenge c q s = (r, s') \<Longrightarrow> later s s'"
    and ok_later: "ok s \<Longrightarrow> later s s' \<Longrightarrow> ok s'"
    and wrap_seals: "serves c \<Longrightarrow> ok s \<Longrightarrow> uc_Wrap c wq s = (Inr wp, s') \<Longrightarrow>
      dm_State (wp_Decision wp) = POLICY_DECISION_STATE_ALLOW \<Longrightarrow>
      \<exists>w. wp_Blob wp = Some w \<and> sealed s' w (wq_Plaintext wq) (wq_Aad wq)"
    and sealed_later: "sealed s w pt aad \<Longrightarrow> later s s' \<Longrightarrow> sealed s' w pt aad"
    and sealed_key: "sealed s w pt aad \<Longrightarrow> \<exists>ref. KeyRef_Validate ref = Inr () \<and>
      wb_Key w = Some \<lparr>km_ClusterId = kr_ClusterID ref, km_KeyId = kr_KeyID ref, km_Version = kr_Version ref\<rparr>"
    and unwrap_opens: "serves c \<Longrightarrow> sealed s w pt aad \<Longrightarrow>
      uc_Unwrap c \<lparr>uq_Blob = Some w, uq_Aad = aad, uq_Evidence = ev\<rparr> s = (Inr up, s') \<Longrightarrow>
      dm_State (up_Decision up) = POLICY_DECISION_STATE_ALLOW \<Longrightarrow> up_Plaintext up = pt"
begin

lemma encrypt_seals:
  assumes "serves client" and "ok s" and "brokerBackend_Encrypt read client c req s = (Inr blob, s')"
  shows "sealed s' (blobInfoToProto (Some blob)) (xr_Plaintext req) (xr_AAD req)"
proof -
  from brokerBackend_Encrypt_eq_Inr [OF assms(3)] obtain q r t requested ev wp where
    call: "uc_Challenge client q s = (r, t)" "uc_Wrap client \<lparr>wq_RequestedKey = requested, wq_Plaintext = xr_Plaintext req,
        wq_Aad = xr_AAD req, wq_Evidence = Some ev\<rparr> t = (Inr wp, s')"
    and allow: "dm_State (wp_Decision wp) = POLICY_DECISION_STATE_ALLOW" and blob: "blob = plugin_protoToBlobInfo (wp_Blob wp)"
    by blast
  have "ok t" using ok_later [OF assms(2) challenge_later [OF assms(1) call(1)]] .
  from wrap_seals [OF assms(1) this call(2) allow] obtain w
    where w: "wp_Blob wp = Some w" "sealed s' w (xr_Plaintext req) (xr_AAD req)" by auto
  from sealed_key [OF w(2)] blobInfoToProto_protoToBlobInfo w blob show ?thesis by auto
qed

lemma decrypt_opens:
  assumes "serves client" and "sealed s (blobInfoToProto (dr_Blob req)) pt (dr_AAD req)"
    and "brokerBackend_Decrypt read client c req s = (Inr plaintext, s')"
  shows "plaintext = pt"
proof -
  from brokerBackend_Decrypt_eq_Inr [OF assms(3)] obtain q r t ev up where call: "uc_Challenge client q s = (r, t)"
      "uc_Unwrap client \<lparr>uq_Blob = Some (blobInfoToProto (dr_Blob req)), uq_Aad = dr_AAD req, uq_Evidence = Some ev\<rparr> t = (Inr up, s')"
    and up: "dm_State (up_Decision up) = POLICY_DECISION_STATE_ALLOW" "plaintext = up_Plaintext up"
    by blast
  from sealed_later [OF assms(2) challenge_later [OF assms(1) call(1)]] unwrap_opens [OF assms(1) _ call(2) up(1)] up(2)
  show ?thesis by simp
qed

lemma wrapper_round_trip:
  assumes "serves client" and "wr_backend w = Some (BrokerBackend c client)" and "ok s"
    and "Wrapper_Encrypt env w (Inr (aad, key)) plaintext s = (Inr blob, s1)" and "later s1 s2"
    and "serves client'" and "wr_backend w' = Some (BrokerBackend c' client')"
    and "Wrapper_Decrypt env' w' (Inr (aad, key')) (Some blob) s2 = (Inr plaintext', s3)"
  shows "plaintext' = plaintext"
proof -
  have enc: "brokerBackend_Encrypt (pv_read env) client c \<lparr>xr_Plaintext = plaintext, xr_AAD = aad, xr_KeyID = key\<rparr> s = (Inr blob, s1)"
    using assms(2,4) by (simp add: Wrapper_Encrypt_def currentBackend_def)
  have dec: "brokerBackend_Decrypt (pv_read env') client' c' \<lparr>dr_Blob = Some blob, dr_AAD = aad, dr_KeyID = key'\<rparr> s2 =
      (Inr plaintext', s3)"
    using assms(7,8) by (simp add: Wrapper_Decrypt_def currentBackend_def)
  from sealed_later [OF encrypt_seals [OF assms(1,3) enc] assms(5)] show ?thesis
    by (intro decrypt_opens [OF assms(6) _ dec]) simp
qed

end

section \<open>The broker behind the plugin\<close>

definition broker_client :: "broker_lib \<Rightarrow> Service \<Rightarrow> (nat \<Rightarrow> delivery) \<Rightarrow> (nat \<Rightarrow> io) \<Rightarrow> broker unseal_client" where
  "broker_client L sv net io =
     \<lparr>uc_Challenge = (\<lambda>req. deliver (net 0) (Service_Challenge sv (io 0) (Some req))),
      uc_Wrap = (\<lambda>req. deliver (net 1) (\<lambda>b. apfst Inr (Wrap L sv (io 1) (Some req) b))),
      uc_Unwrap = (\<lambda>req. deliver (net 1) (\<lambda>b. apfst Inr (Unwrap L sv (io 1) (Some req) b))),
      uc_Status = (\<lambda>cluster. deliver (net 2) (\<lambda>b. (Inr (Service_Status sv (io 2) (Some cluster) (br_db b)), b)))\<rparr>"

definition broker_serves :: "broker_lib \<Rightarrow> broker unseal_client \<Rightarrow> bool" where
  "broker_serves L client \<longleftrightarrow> (\<exists>sv net io. sv_keyrings sv = Some runtime_keyrings \<and> client = broker_client L sv net io)"

interpretation broker_api: unseal_api "broker_serves L" "\<lambda>b. store_inv (br_db b)"
  "\<lambda>b b'. store_call\<^sup>*\<^sup>* (br_db b) (br_db b')" "sealed_by L" for L
proof
  fix c q s r s' assume "broker_serves L c" "uc_Challenge c q s = (r, s')"
  then show "store_call\<^sup>*\<^sup>* (br_db s) (br_db s')"
    using Service_Challenge_runs by (auto simp: broker_serves_def broker_client_def dest!: deliver_later)
next
  fix c s wq wp s' assume "broker_serves L c" "store_inv (br_db s)" "uc_Wrap c wq s = (Inr wp, s')"
    "dm_State (wp_Decision wp) = POLICY_DECISION_STATE_ALLOW"
  then show "\<exists>w. wp_Blob wp = Some w \<and> sealed_by L s' w (wq_Plaintext wq) (wq_Aad wq)"
    using Wrap_seals by (auto simp: broker_serves_def broker_client_def deliver_eq_Inr apfst_def map_prod_def split: prod.splits)
next
  fix c s w pt aad ev up s' assume "broker_serves L c" "sealed_by L s w pt aad"
    "uc_Unwrap c \<lparr>uq_Blob = Some w, uq_Aad = aad, uq_Evidence = ev\<rparr> s = (Inr up, s')"
    "dm_State (up_Decision up) = POLICY_DECISION_STATE_ALLOW"
  then show "up_Plaintext up = pt"
    using Unwrap_opens by (auto simp: broker_serves_def broker_client_def deliver_eq_Inr apfst_def map_prod_def split: prod.splits)
qed (rule store_inv_run sealed_by_later sealed_by_key; assumption)+

text \<open>
  C1. What OpenBao seals through the plugin, it gets back: if \<open>Encrypt\<close> of the wrapper returned a blob
  for a plaintext and \<open>Decrypt\<close> with the same additional data returns a plaintext for this blob, then it is
  the same one, after any development of the broker's store in between (rotations, enrollments,
  failed calls), through any connection and with any configuration of the second plugin.
\<close>

theorem plugin_seal_round_trip:
  assumes "store_call\<^sup>*\<^sup>* empty_db (br_db b)" and "sv_keyrings sv = Some runtime_keyrings"
    and "wr_backend w = Some (BrokerBackend c (broker_client L sv net io))"
    and "Wrapper_Encrypt env w (Inr (aad, key)) plaintext b = (Inr blob, b1)"
    and "store_call\<^sup>*\<^sup>* (br_db b1) (br_db b2)" and "sv_keyrings sv' = Some runtime_keyrings"
    and "wr_backend w' = Some (BrokerBackend c' (broker_client L sv' net' io'))"
    and "Wrapper_Decrypt env' w' (Inr (aad, key')) (Some blob) b2 = (Inr plaintext', b3)"
  shows "plaintext' = plaintext"
proof -
  have serves: "broker_serves L (broker_client L sv net io)" "broker_serves L (broker_client L sv' net' io')"
    using assms(2,6) by (auto simp: broker_serves_def)
  have "store_inv (br_db b)" using store_inv_run [OF store_inv_empty assms(1)] .
  from broker_api.wrapper_round_trip [OF serves(1) assms(3) this assms(4,5) serves(2) assms(7,8)] show ?thesis .
qed

section \<open>The life of a wrapper\<close>

text \<open>
  The calls of OpenBao, with any options and any environment, and the changes of the server by
  others.
\<close>

inductive plugin_step :: "'s Wrapper \<times> 's \<Rightarrow> 's Wrapper \<times> 's \<Rightarrow> bool" where
  set_config: "SetConfig env opts w s = (r, w', s') \<Longrightarrow> plugin_step (w, s) (w', s')"
| init: "Wrapper_Init env w s = (r, w', s') \<Longrightarrow> plugin_step (w, s) (w', s')"
| encrypt: "Wrapper_Encrypt env w opts' plaintext s = (r', s') \<Longrightarrow> plugin_step (w, s) (w, s')"
| decrypt: "Wrapper_Decrypt env w opts' ciphertext s = (r'', s') \<Longrightarrow> plugin_step (w, s) (w, s')"
| key_id: "Wrapper_KeyId w s = (k, s') \<Longrightarrow> plugin_step (w, s) (w, s')"
| finalize: "Wrapper_Finalize env w = (r, w') \<Longrightarrow> plugin_step (w, s) (w', s)"
| server: "plugin_step (w, s) (w, s')"

inductive_cases plugin_stepE: "plugin_step (w, s) (w', s')"

text \<open>A backend that fits a configuration; a local one has a ring of the configured key, whose active version it uses.\<close>

fun backend_for :: "PluginConfig \<Rightarrow> 's backend \<Rightarrow> bool" where
  "backend_for c (BrokerBackend c' client) \<longleftrightarrow> c' = c \<and> pc_Mode c = ModeBroker"
| "backend_for c (LocalTPMBackend b) \<longleftrightarrow> lb_config b = c \<and> pc_Mode c = ModeLocalTPM \<and> ring_wf (versions (lb_ring b)) \<and>
     list_all (\<lambda>v. kr_ClusterID (kv_Ref v) = pc_ClusterID c \<and> kr_KeyID (kv_Ref v) = pc_KeyID c) (versions (lb_ring b)) \<and>
     map_sum id kv_Ref (Active (Some (lb_ring b))) = Inr (lb_active b)"
| "backend_for c (UnavailableBackend c') \<longleftrightarrow> False"

definition wrapper_inv :: "'s Wrapper \<Rightarrow> bool" where
  "wrapper_inv w \<longleftrightarrow> (pc_Mode (wr_config w) \<noteq> [] \<longrightarrow> PluginConfig_Validate (wr_config w) = Inr ()) \<and>
     (case wr_backend w of None \<Rightarrow> True | Some b \<Rightarrow> pc_Mode (wr_config w) \<noteq> [] \<and> backend_for (wr_config w) b)"

lemma parseConfig_Validate: "parseConfig vs = Inr c \<Longrightarrow> PluginConfig_Validate c = Inr ()"
  by (auto simp: parseConfig_def Let_def split: if_splits)

lemma PluginConfig_Validate_mode: "PluginConfig_Validate c = Inr () \<Longrightarrow> pc_Mode c = ModeBroker \<or> pc_Mode c = ModeLocalTPM"
  by (auto simp: PluginConfig_Validate_def split: if_splits)

lemma NewBackend_for:
  assumes "NewBackend env c s = (Inr b, s')" and "PluginConfig_Validate c = Inr ()"
  shows "backend_for c b"
proof -
  have modes: "ModeBroker \<noteq> ModeLocalTPM" by (simp add: ModeBroker_def ModeLocalTPM_def)
  from PluginConfig_Validate_mode [OF assms(2)] show ?thesis
  proof
    assume m: "pc_Mode c = ModeBroker"
    with assms(1) modes show ?thesis by (auto simp: NewBackend_def newBrokerBackend_def)
  next
    assume m: "pc_Mode c = ModeLocalTPM"
    with assms(1) obtain lb where b: "b = LocalTPMBackend lb" "newLocalTPMBackend env c = Inr lb"
      by (auto simp: NewBackend_def)
    then obtain ring metadata v where load: "LoadLocalKeyring (pv_os env) (pv_codec env) (pv_ctx env) (pv_device env (pc_TPMDevice c))
        (pc_StatePath c) (pc_ClusterID c) (pc_KeyID c) (pv_files env) = Inr (ring, metadata)"
      and lb: "Active (Some ring) = Inr v" "lb = \<lparr>lb_config = c, lb_active = kv_Ref v, lb_ring = ring, lb_metadata = metadata\<rparr>"
      by (auto simp: newLocalTPMBackend_def split: if_splits)
    from loaded_ring [OF load] lb b(1) m show ?thesis by (simp add: list_all_iff)
  qed
qed

lemma SetConfig_inv:
  assumes "SetConfig env opts w s = (r, w', s')" and "wrapper_inv w"
  shows "wrapper_inv w'"
proof (cases "w' = w")
  case False
  with assms(1) obtain vs c b t where "parseConfig vs = Inr c" and b: "NewBackend env c s = (Inr b, t)"
    and w': "w' = w\<lparr>wr_config := c, wr_backend := Some b\<rparr>"
    by (auto simp: SetConfig_def Let_def split: sum.splits if_splits prod.splits)
  then have c: "PluginConfig_Validate c = Inr ()" using parseConfig_Validate by simp
  from PluginConfig_Validate_mode [OF c] have "pc_Mode c \<noteq> []" by (auto simp: ModeBroker_def ModeLocalTPM_def)
  with c NewBackend_for [OF b c] show ?thesis by (simp add: wrapper_inv_def w')
qed (use assms(2) in simp)

lemma Wrapper_Init_inv:
  assumes "Wrapper_Init env w s = (r, w', s')" and "wrapper_inv w"
  shows "wrapper_inv w'"
proof (cases "w' = w")
  case False
  with assms(1) obtain b t where m: "pc_Mode (wr_config w) \<noteq> []" and b: "NewBackend env (wr_config w) s = (Inr b, t)"
    and w': "w' = w\<lparr>wr_backend := Some b\<rparr>"
    by (auto simp: Wrapper_Init_def split: sum.splits if_splits prod.splits)
  with assms(2) NewBackend_for [OF b] show ?thesis by (simp add: wrapper_inv_def)
qed (use assms(2) in simp)

lemma Wrapper_Finalize_inv: "Wrapper_Finalize env w = (r, w') \<Longrightarrow> wrapper_inv w \<Longrightarrow> wrapper_inv w'"
  by (auto simp: wrapper_inv_def Wrapper_Finalize_def split: option.splits)

lemma wrapper_inv_step: "plugin_step (w, s) (w', s') \<Longrightarrow> wrapper_inv w \<Longrightarrow> wrapper_inv w'"
  by (erule plugin_stepE) (blast intro: SetConfig_inv Wrapper_Init_inv Wrapper_Finalize_inv)+

lemma wrapper_inv_run: "plugin_step\<^sup>*\<^sup>* x y \<Longrightarrow> wrapper_inv (fst x) \<Longrightarrow> wrapper_inv (fst y)"
  by (induction rule: rtranclp_induct) (use wrapper_inv_step in fastforce)+

lemma wrapper_inv_reachable: "plugin_step\<^sup>*\<^sup>* (NewWrapper, s0) (w, s) \<Longrightarrow> wrapper_inv w"
  using wrapper_inv_run [of "(NewWrapper, s0)" "(w, s)"] by (simp add: NewWrapper_def wrapper_inv_def no_config_def)

text \<open>
  C15. In every state that the calls of OpenBao can reach, a wrapper with a backend has a validated
  configuration of a supported mode and the backend of that mode and configuration, never the
  placeholder that answers ''unavailable'', and a further \<open>SetConfig\<close> fails and changes nothing; without a backend,
  before \<open>SetConfig\<close> and after \<open>Finalize\<close>, sealing, opening and the key identifier fail with
  \<open>ErrNotInitialized\<close> and do not reach the server.
\<close>

theorem wrapper_life_cycle:
  assumes "plugin_step\<^sup>*\<^sup>* (NewWrapper, s0) (w, s)"
  shows "case wr_backend w of
      Some b \<Rightarrow> PluginConfig_Validate (wr_config w) = Inr () \<and> backend_for (wr_config w) b \<and>
        (\<forall>env opts. \<exists>err. SetConfig env opts w s = (Inl err, w, s))
    | None \<Rightarrow> (\<forall>env opts x blob. Wrapper_Encrypt env w (Inr opts) x s = (Inl ErrNotInitialized, s) \<and>
        Wrapper_Decrypt env w (Inr opts) blob s = (Inl ErrNotInitialized, s) \<and> Wrapper_KeyId w s = (Inl ErrNotInitialized, s))"
proof (cases "wr_backend w")
  case None
  then show ?thesis
    by (simp add: Wrapper_Encrypt_def Wrapper_Decrypt_def Wrapper_KeyId_def currentBackend_def call_bind_def call_lift_def split_beta)
next
  case (Some b)
  with wrapper_inv_reachable [OF assms] show ?thesis
    by (auto simp: wrapper_inv_def SetConfig_def split: sum.splits)
qed

text \<open>
  C14. With a local TPM, \<open>Decrypt\<close> of the wrapper returns what \<open>Encrypt\<close> sealed, also from another plugin process with
  another local key ring, as long as that ring still holds the sealing version in a status that
  allows decryption; the caller may name the sealing key or no key.
\<close>

theorem local_plugin_round_trip:
  assumes "plugin_step\<^sup>*\<^sup>* (NewWrapper, s0) (w, s)" and "wr_backend w = Some (LocalTPMBackend b)"
    and "plugin_step\<^sup>*\<^sup>* (NewWrapper, s0') (w', s')" and "wr_backend w' = Some (LocalTPMBackend b')"
    and "Wrapper_Encrypt env w (Inr (aad, key)) plaintext s = (Inr blob, s1)"
    and "Active (Some (lb_ring b)) = Inr v" and "v' \<in> set (versions (lb_ring b'))" and "same_key v v'" and "canDecrypt v'"
    and "key' = [] \<or> key' = KeyRef_String (lb_active b)" and "pv_ctx env' = None" and "pv_cipher env' = pv_cipher env"
  shows "Wrapper_Decrypt env' w' (Inr (aad, key')) (Some blob) s' = (Inr plaintext, s')"
proof -
  have "backend_for (wr_config w) (LocalTPMBackend b :: 'a backend)" "backend_for (wr_config w') (LocalTPMBackend b' :: 'b backend)"
    using wrapper_inv_reachable [OF assms(1)] wrapper_inv_reachable [OF assms(3)] assms(2,4) by (auto simp: wrapper_inv_def)
  then have ring: "NewRing (versions (lb_ring b)) = Inr (lb_ring b)" "NewRing (versions (lb_ring b')) = Inr (lb_ring b')"
    and active: "lb_active b = kv_Ref v" using assms(6) by (simp_all add: NewRing_eq_Inr)
  from assms(2,5) have enc: "Encrypt (pv_cipher env) (pv_ctx env) (pv_rng env) (Some (lb_ring b)) plaintext aad = Inr blob"
    by (auto simp: Wrapper_Encrypt_def currentBackend_def)
  then have "validateDecryptRequestKey key' (Some blob) = Inr ()"
    using assms(6,10) active by (auto simp: Encrypt_eq_Inr validateDecryptRequestKey_def assertE_def)
  with Decrypt_Encrypt [OF enc ring assms(6-9)] assms(4,11,12) show ?thesis
    by (simp add: Wrapper_Decrypt_def currentBackend_def call_bind_def call_lift_def)
qed

section \<open>A plugin with a local key\<close>

definition demo_env :: "'s plugin_env" where
  "demo_env = \<lparr>pv_ctx = None, pv_rng = Some (\<lambda>_. 0), pv_cipher = (\<lambda>_ bs. bs), pv_read = (\<lambda>_. Inl ErrNotInitialized),
     pv_pem = (\<lambda>_. False), pv_pair = (\<lambda>_ _. None), pv_connect = (\<lambda>_ _. Inl ErrNotInitialized), pv_close = None,
     pv_os = demo_os, pv_codec = demo_codec, pv_device = (\<lambda>_. demo_device), pv_files = demo_files_stored\<rparr>"

definition demo_options :: "(string \<times> string) list" where
  "demo_options = [(''mode'', ''local-tpm''), (''cluster_id'', ''c''), (''key_id'', ''k''), (''state_path'', ''/s'')]"

definition demo_local_config :: PluginConfig where
  "demo_local_config = no_config\<lparr>pc_Mode := ''local-tpm'', pc_ClusterID := ''c'', pc_KeyID := ''k'', pc_StatePath := ''/s''\<rparr>"

definition demo_backend :: localTPMBackend where
  "demo_backend = \<lparr>lb_config = demo_local_config, lb_active = kv_Ref demo_local_key, lb_ring = \<lparr>versions = [demo_local_key]\<rparr>,
     lb_metadata = [demo_local_metadata]\<rparr>"

definition demo_wrapper :: "'s Wrapper" where
  "demo_wrapper = \<lparr>wr_config = demo_local_config, wr_backend = Some (LocalTPMBackend demo_backend)\<rparr>"

lemma demo_backend_simps [simp]:
  "lb_active demo_backend = kv_Ref demo_local_key" "lb_ring demo_backend = \<lparr>versions = [demo_local_key]\<rparr>"
  by (simp_all add: demo_backend_def)

lemma demo_parsed: "parseConfig demo_options = Inr demo_local_config"
proof -
  have "validIdentifier ''c''" "validIdentifier ''k''" by code_simp+
  then have valid: "PluginConfig_Validate demo_local_config = Inr ()"
    by (simp add: PluginConfig_Validate_def demo_local_config_def no_config_def ModeBroker_def ModeLocalTPM_def
        validateLocalTPMConfig_def ValidateIdentifier_def optional_identifier_def assertE_def del: validIdentifier.simps)
  have "TrimSpace ''local-tpm'' = ''local-tpm''" "TrimSpace ''c'' = ''c''" "TrimSpace ''k'' = ''k''" "TrimSpace ''/s'' = ''/s''" "TrimSpace [] = []"
    by (simp_all add: TrimSpace_graphic graphic_def)
  with valid show ?thesis
    by (simp add: parseConfig_def Let_def config_value_def demo_options_def knownConfigKey_def)
      (simp add: demo_local_config_def no_config_def)
qed

lemma demo_local_active: "Active (Some \<lparr>versions = [demo_local_key]\<rparr>) = Inr demo_local_key"
  by (simp add: Active_def demo_local_key_def canEncrypt_def)

lemma demo_configured: "\<exists>m. SetConfig demo_env (Inr demo_options) NewWrapper s = (Inr m, demo_wrapper, s)"
proof -
  have "pc_StatePath demo_local_config = ''/s''" "pc_ClusterID demo_local_config = ''c''" "pc_KeyID demo_local_config = ''k''"
    "pc_Mode demo_local_config = ModeLocalTPM" "pc_KeyVersion demo_local_config = 0"
    by (simp_all add: demo_local_config_def no_config_def ModeLocalTPM_def)
  then have "NewBackend demo_env demo_local_config s = (Inr (LocalTPMBackend demo_backend), s)" for s :: 'a
    using demo_loaded demo_local_active
    by (simp add: NewBackend_def newLocalTPMBackend_def demo_env_def demo_backend_def call_lift_def)
  then show ?thesis
    by (simp add: SetConfig_def demo_parsed NewWrapper_def demo_wrapper_def call_lift_def)
qed

lemma demo_wrapper_reached: "plugin_step\<^sup>*\<^sup>* (NewWrapper, s) (demo_wrapper, s)"
  using demo_configured [of s] by (blast intro: r_into_rtranclp plugin_step.set_config)

theorem wrapper_life_cycle_witness:
  "\<exists>err. SetConfig demo_env (Inr demo_options) demo_wrapper () = (Inl err, demo_wrapper, ())"
  using wrapper_life_cycle [OF demo_wrapper_reached [of "()"]] by (simp add: demo_wrapper_def)

theorem local_plugin_round_trip_witness:
  "\<exists>blob. Wrapper_Encrypt demo_env demo_wrapper (Inr ([3], [])) [1, 2] () = (Inr blob, ()) \<and>
    Wrapper_Decrypt demo_env demo_wrapper (Inr ([3], ''c/k/v1'')) (Some blob) () = (Inr [1, 2], ())"
proof -
  have valid: "KeyVersion_Validate demo_local_key = Inr ()" using prepareLocalKey_eq_Inr [OF demo_prepared] by simp
  have "\<exists>blob. Encrypt (\<lambda>_ bs. bs) None (Some (\<lambda>_. 0)) (Some \<lparr>versions = [demo_local_key]\<rparr>) [1, 2] [3] = Inr blob"
    using valid by (simp add: Encrypt_eq_Inr demo_local_active ReadFull_def NewMetadata_Validate del: Metadata_Validate_eq_Inr)
      (simp add: newAEAD_def demo_local_key_def)
  then obtain blob where enc: "Wrapper_Encrypt demo_env demo_wrapper (Inr ([3], [])) [1, 2] () = (Inr blob, ())"
    by (auto simp: Wrapper_Encrypt_def currentBackend_def demo_wrapper_def demo_env_def
        validateEncryptRequestKey_def assertE_def)
  have "same_key demo_local_key demo_local_key" "canDecrypt demo_local_key"
    by (simp_all add: same_key_def canDecrypt_def demo_local_key_def)
  moreover have "''c/k/v1'' = KeyRef_String (lb_active demo_backend)" by code_simp
  ultimately have "Wrapper_Decrypt demo_env demo_wrapper (Inr ([3], ''c/k/v1'')) (Some blob) () = (Inr [1, 2], ())"
    using demo_local_active
    by (intro local_plugin_round_trip [OF demo_wrapper_reached _ demo_wrapper_reached _ enc, where b = demo_backend
          and b' = demo_backend and v = demo_local_key and v' = demo_local_key])
      (simp_all add: demo_wrapper_def demo_env_def)
  with enc show ?thesis by blast
qed

section \<open>A plugin in front of the broker\<close>

definition demo_plugin_config :: PluginConfig where
  "demo_plugin_config = no_config\<lparr>pc_Mode := ''broker'', pc_BrokerAddress := ''b'', pc_ClusterID := ''prod'', pc_NodeID := ''s''\<rparr>"

definition demo_client :: "byte \<Rightarrow> time \<Rightarrow> broker unseal_client" where
  "demo_client n t = broker_client demo_broker_lib demo_service (\<lambda>_. Delivered)
     (\<lambda>i. if i = 0 then demo_io n t else demo_io 0 (t + 1))"

definition demo_broker_wrapper :: "byte \<Rightarrow> time \<Rightarrow> broker Wrapper" where
  "demo_broker_wrapper n t =
     \<lparr>wr_config = demo_plugin_config, wr_backend = Some (BrokerBackend demo_plugin_config (demo_client n t))\<rparr>"

lemma demo_plugin_challenge:
  assumes "Service_Challenge demo_service (demo_io n t) (Some \<lparr>cq_ClusterId = ''prod'', cq_NodeId = ''s'', cq_Operation = op\<rparr>) b = (Inr cp, b')"
    and "cp_ChallengeId cp = demo_id n"
  shows "plugin_challenge (demo_client n t) demo_plugin_config op b = (Inr cp, b')"
    and "plugin_evidence read demo_plugin_config (cp_ChallengeId cp) = Inr (demo_envelope n)"
proof -
  have c: "pc_ClusterID demo_plugin_config = ''prod''" "pc_NodeID demo_plugin_config = ''s''" "bytes_of ''s'' = [0x73]"
    "BrokerEvidenceMode demo_plugin_config = EvidenceModeDevelopmentSubject"
    by code_simp+
  show "plugin_challenge (demo_client n t) demo_plugin_config op b = (Inr cp, b')"
    using assms c by (simp add: plugin_challenge_def demo_client_def broker_client_def deliver_def demo_id_def)
  show "plugin_evidence read demo_plugin_config (cp_ChallengeId cp) = Inr (demo_envelope n)"
    using assms(2) c by (simp add: plugin_evidence_def demo_envelope_def)
qed

theorem plugin_seal_round_trip_witness:
  "\<exists>b blob b1 b3. store_call\<^sup>*\<^sup>* empty_db (br_db b) \<and>
    Wrapper_Encrypt demo_env (demo_broker_wrapper 1 10) (Inr ([3], [])) [1, 2] b = (Inr blob, b1) \<and>
    Wrapper_Decrypt demo_env (demo_broker_wrapper 2 12) (Inr ([3], [])) (Some blob) b1 = (Inr [1, 2], b3)"
proof (rule demo_run_full)
  fix w b0 cp0 b b1 cp b2 b3
  assume r: "store_call\<^sup>*\<^sup>* empty_db (br_db b0)"
    "Service_Challenge demo_service (demo_io 1 10) (Some \<lparr>cq_ClusterId = ''prod'', cq_NodeId = ''s'', cq_Operation = OPERATION_WRAP\<rparr>) b0 =
      (Inr cp0, b)" "cp_ChallengeId cp0 = demo_id 1"
    "Wrap demo_broker_lib demo_service (demo_io 0 11) (Some (demo_wrap 1)) b =
      (\<lparr>wp_Blob = Some w, wp_Decision = Decision_Proto (Allow ''default'')\<rparr>, b1)"
    "wb_Key w = Some \<lparr>km_ClusterId = ''prod'', km_KeyId = ''root'', km_Version = 1\<rparr>"
    "Service_Challenge demo_service (demo_io 2 12) (Some \<lparr>cq_ClusterId = ''prod'', cq_NodeId = ''s'', cq_Operation = OPERATION_UNWRAP\<rparr>) b1 =
      (Inr cp, b2)" "cp_ChallengeId cp = demo_id 2"
    "Unwrap demo_broker_lib demo_service (demo_io 0 13) (Some (demo_unwrap w)) b2 =
      (\<lparr>up_Plaintext = [1, 2], up_Decision = Decision_Proto (Allow ''default'')\<rparr>, b3)"
  let ?blob = "plugin_protoToBlobInfo (Some w)"
  have allow: "dm_State (Decision_Proto (Allow ''default'')) = POLICY_DECISION_STATE_ALLOW" by code_simp
  have w: "blobInfoToProto (Some ?blob) = w"
    using blobInfoToProto_protoToBlobInfo [of w "\<lparr>kr_ClusterID = ''prod'', kr_KeyID = ''root'', kr_Version = 1\<rparr>"] r(5)
    by (simp add: identifier_char_def)
  have enc: "Wrapper_Encrypt demo_env (demo_broker_wrapper 1 10) (Inr ([3], [])) [1, 2] b0 = (Inr ?blob, b1)"
    using demo_plugin_challenge [OF r(2,3)] r(4) allow
    by (simp add: Wrapper_Encrypt_def demo_broker_wrapper_def currentBackend_def brokerBackend_Encrypt_def requestedKeyFromString_def)
      (simp add: demo_client_def broker_client_def deliver_def demo_wrap_def)
  have "\<exists>x. Wrapper_Decrypt demo_env (demo_broker_wrapper 2 12) (Inr ([3], [])) (Some ?blob) b1 = (Inr x, b3)"
    using demo_plugin_challenge [OF r(6,7)] r(8) allow w
    by (simp add: Wrapper_Decrypt_def demo_broker_wrapper_def currentBackend_def brokerBackend_Decrypt_def validateDecryptRequestKey_def)
      (simp add: demo_client_def broker_client_def deliver_def demo_unwrap_def)
  then obtain x where dec: "Wrapper_Decrypt demo_env (demo_broker_wrapper 2 12) (Inr ([3], [])) (Some ?blob) b1 = (Inr x, b3)" ..
  have "sv_keyrings demo_service = Some runtime_keyrings" by (simp add: demo_service_def NewService_def)
  from plugin_seal_round_trip [OF r(1) this _ enc _ this _ dec] have "x = [1, 2]"
    by (simp add: demo_broker_wrapper_def demo_client_def)
  with enc dec r(1) show ?thesis by blast
qed

end
