(* ===== verification/Enrollment_Files.thy ===== *)
theory Enrollment_Files
  imports Keyring Go_Time
begin

text \<open>
  The requests and signed grants of brokered enrollment, which operators exchange as files:
  \<^verbatim>\<open>internal/enrollment/enrollment.go\<close>.

  \<open>enroll_lib\<close> holds the parameters: SHA-256, Ed25519, \<^verbatim>\<open>time.Parse\<close>, and the identifier that the
  iteration over the map of identifiers meets first among the invalid ones.  Strings are valid
  UTF-8, which the JSON decoder of the files ensures, without U+2028 and U+2029; a nil slice of
  operations, which validation refuses, is not told from an empty one.
\<close>

section \<open>Requests and grants\<close>

record enroll_lib =
  el_sha256 :: "bytes \<Rightarrow> bytes"
  el_public :: "bytes \<Rightarrow> bytes"
  el_sign :: "bytes \<Rightarrow> bytes \<Rightarrow> bytes"
  el_verify :: "bytes \<Rightarrow> bytes \<Rightarrow> bytes \<Rightarrow> bool"
  el_time_Parse :: "string \<Rightarrow> time option"
  el_first :: "string list \<Rightarrow> string"

definition EnrollmentSchemaVersion :: u32 where "EnrollmentSchemaVersion = 1"

definition EnrollmentModeBroker :: string where "EnrollmentModeBroker = ''broker''"

record EnrollRequest =
  rq_SchemaVersion :: u32
  rq_RequestID :: string
  rq_ClusterID :: string
  rq_SubjectID :: string
  rq_Mode :: string
  rq_AllowedOperations :: "string list"
  rq_EvidenceFormat :: string
  rq_EvidencePayload :: string
  rq_EvidenceHash :: string
  rq_PublicIdentity :: string
  rq_Nonce :: string
  rq_ExpiresAt :: string

record Grant =
  gt_SchemaVersion :: u32
  gt_GrantID :: string
  gt_RequestID :: string
  gt_ClusterID :: string
  gt_KeyID :: string
  gt_SubjectID :: string
  gt_Mode :: string
  gt_ApprovalMode :: string
  gt_AllowedOperations :: "string list"
  gt_PolicyID :: string
  gt_EvidenceHash :: string
  gt_ExpiresAt :: string
  gt_OneTime :: bool
  gt_IssuerPublicKey :: string
  gt_Signature :: string

record RequestOptions =
  ro_RequestID :: string
  ro_ClusterID :: string
  ro_SubjectID :: string
  ro_AllowedOperations :: "string list"
  ro_EvidenceFormat :: string
  ro_EvidencePayload :: bytes
  ro_PublicIdentity :: string
  ro_Nonce :: string
  ro_ExpiresAt :: time

record GrantOptions =
  go_GrantID :: string
  go_KeyID :: string
  go_PolicyID :: string
  go_ApprovalMode :: string
  go_ExpiresAt :: time
  go_OneTime :: bool

fun distinct_operations :: "string list \<Rightarrow> string list \<Rightarrow> string list" where
  "distinct_operations seen [] = []"
| "distinct_operations seen (operation # rest) =
     (let op = ToLower (TrimSpace operation) in
      if op = [] \<or> op \<in> set seen then distinct_operations seen rest
      else op # distinct_operations (op # seen) rest)"

definition normalizeOperations :: "string list \<Rightarrow> string list" where
  "normalizeOperations operations = sort (distinct_operations [] operations)"

definition validateOperations :: "string list \<Rightarrow> error + unit" where
  "validateOperations operations =
     (if operations = [] then Inl (ErrInvalidRequest ''operations are required'')
      else if list_all (\<lambda>op. op = ''wrap'' \<or> op = ''unwrap'') operations then Inr ()
      else Inl (ErrInvalidRequest ''unsupported operation''))"

definition enrollment_evidenceHash :: "enroll_lib \<Rightarrow> bytes \<Rightarrow> string" where
  "enrollment_evidenceHash L payload = ''sha256:'' @ hex_encode (el_sha256 L payload)"

definition check_expiry :: "enroll_lib \<Rightarrow> error \<Rightarrow> time \<Rightarrow> string \<Rightarrow> error + unit" where
  "check_expiry L invalid now text =
     (case el_time_Parse L text of
        None \<Rightarrow> Inl invalid
      | Some expiresAt \<Rightarrow> assertE (now < expiresAt) ErrExpired)"

definition EnrollRequest_Validate :: "enroll_lib \<Rightarrow> time \<Rightarrow> EnrollRequest \<Rightarrow> error + unit" where
  "EnrollRequest_Validate L now r =
     (if rq_SchemaVersion r \<noteq> EnrollmentSchemaVersion then Inl (ErrInvalidRequest ''unsupported schema version'')
      else if \<not> validIdentifier (rq_RequestID r) then Inl (ErrInvalidRequest ''invalid request ID'')
      else if \<not> validIdentifier (rq_ClusterID r) then Inl (ErrInvalidRequest ''invalid cluster ID'')
      else if \<not> validIdentifier (rq_SubjectID r) then Inl (ErrInvalidRequest ''invalid subject ID'')
      else if rq_Mode r \<noteq> EnrollmentModeBroker then Inl (ErrInvalidRequest ''unsupported mode'')
      else bindE (validateOperations (rq_AllowedOperations r)) (\<lambda>_.
        if TrimSpace (rq_EvidenceFormat r) = [] then Inl (ErrInvalidRequest ''evidence format is required'')
        else if \<not> HasPrefix (rq_EvidenceHash r) ''sha256:'' then Inl (ErrInvalidRequest ''invalid evidence hash'')
        else if TrimSpace (rq_PublicIdentity r) = [] then Inl (ErrInvalidRequest ''public identity is required'')
        else if TrimSpace (rq_Nonce r) = [] then Inl (ErrInvalidRequest ''nonce is required'')
        else check_expiry L (ErrInvalidRequest ''invalid expiry'') now (rq_ExpiresAt r)))"

definition NewRequest :: "enroll_lib \<Rightarrow> time \<Rightarrow> RequestOptions \<Rightarrow> error + EnrollRequest" where
  "NewRequest L now opts =
     (let operations = (if ro_AllowedOperations opts = [] then [''wrap'', ''unwrap''] else ro_AllowedOperations opts);
          request = \<lparr>rq_SchemaVersion = EnrollmentSchemaVersion, rq_RequestID = ro_RequestID opts,
            rq_ClusterID = ro_ClusterID opts, rq_SubjectID = ro_SubjectID opts, rq_Mode = EnrollmentModeBroker,
            rq_AllowedOperations = normalizeOperations operations, rq_EvidenceFormat = ro_EvidenceFormat opts,
            rq_EvidencePayload = b64_encode StdEncoding (ro_EvidencePayload opts),
            rq_EvidenceHash = enrollment_evidenceHash L (ro_EvidencePayload opts), rq_PublicIdentity = ro_PublicIdentity opts,
            rq_Nonce = ro_Nonce opts, rq_ExpiresAt = FormatRFC3339Nano (ro_ExpiresAt opts)\<rparr> in
      bindE (EnrollRequest_Validate L now request) (\<lambda>_. Inr request))"

definition normalizeApprovalMode :: "string \<Rightarrow> string" where
  "normalizeApprovalMode mode =
     (let m = ToLower (TrimSpace mode) in if m = [] then ''single-operator'' else m)"

definition json_strings :: "string list \<Rightarrow> string" where
  "json_strings ss = CHR ''['' # json_fields (map json_string ss) @ '']''"

definition json_bool :: "bool \<Rightarrow> string" where
  "json_bool b = (if b then ''true'' else ''false'')"

definition signingPayload :: "Grant \<Rightarrow> bytes" where
  "signingPayload g = bytes_of (json_object
     [json_field ''schema_version'' (format_uint (unat (gt_SchemaVersion g))),
      json_field ''grant_id'' (json_string (gt_GrantID g)), json_field ''request_id'' (json_string (gt_RequestID g)),
      json_field ''cluster_id'' (json_string (gt_ClusterID g)), json_field ''key_id'' (json_string (gt_KeyID g)),
      json_field ''subject_id'' (json_string (gt_SubjectID g)), json_field ''mode'' (json_string (gt_Mode g)),
      json_field ''approval_mode'' (json_string (gt_ApprovalMode g)),
      json_field ''allowed_operations'' (json_strings (gt_AllowedOperations g)),
      json_field ''policy_id'' (json_string (gt_PolicyID g)),
      json_field ''evidence_hash'' (json_string (gt_EvidenceHash g)),
      json_field ''expires_at'' (json_string (gt_ExpiresAt g)), json_field ''one_time'' (json_bool (gt_OneTime g)),
      json_field ''issuer_public_key'' (json_string (gt_IssuerPublicKey g))])"

definition grant_identifiers :: "Grant \<Rightarrow> (string \<times> string) list" where
  "grant_identifiers g = [(''grant ID'', gt_GrantID g), (''request ID'', gt_RequestID g), (''cluster ID'', gt_ClusterID g),
     (''key ID'', gt_KeyID g), (''subject ID'', gt_SubjectID g), (''policy ID'', gt_PolicyID g)]"

definition validateUnsigned :: "enroll_lib \<Rightarrow> time \<Rightarrow> Grant \<Rightarrow> error + unit" where
  "validateUnsigned L now g =
     (let invalid = filter (\<lambda>(label, v). \<not> validIdentifier v) (grant_identifiers g) in
      if gt_SchemaVersion g \<noteq> EnrollmentSchemaVersion then Inl (ErrInvalidGrant ''unsupported schema version'')
      else if invalid \<noteq> [] then Inl (ErrInvalidGrant (''invalid '' @ el_first L (map fst invalid)))
      else if gt_Mode g \<noteq> EnrollmentModeBroker then Inl (ErrInvalidGrant ''unsupported mode'')
      else if gt_ApprovalMode g \<noteq> ''single-operator'' \<and> gt_ApprovalMode g \<noteq> ''quorum'' then
        Inl (ErrInvalidGrant ''unsupported approval mode'')
      else bindE (validateOperations (gt_AllowedOperations g)) (\<lambda>_.
        if \<not> HasPrefix (gt_EvidenceHash g) ''sha256:'' then Inl (ErrInvalidGrant ''invalid evidence hash'')
        else check_expiry L (ErrInvalidGrant ''invalid expiry'') now (gt_ExpiresAt g)))"

definition Grant_Verify :: "enroll_lib \<Rightarrow> time \<Rightarrow> Grant \<Rightarrow> error + unit" where
  "Grant_Verify L now g =
     bindE (validateUnsigned L now g) (\<lambda>_.
     case b64_decode StdEncoding (gt_IssuerPublicKey g) of
       None \<Rightarrow> Inl (ErrInvalidGrant ''invalid issuer public key'')
     | Some publicKey \<Rightarrow>
         if length publicKey \<noteq> 32 then Inl (ErrInvalidGrant ''invalid issuer public key'')
         else (case b64_decode StdEncoding (gt_Signature g) of
             None \<Rightarrow> Inl (ErrInvalidGrant ''invalid signature encoding'')
           | Some signature \<Rightarrow>
               if length signature \<noteq> 64 then Inl (ErrInvalidGrant ''invalid signature encoding'')
               else assertE (el_verify L publicKey (signingPayload g) signature) ErrSignature))"

definition IssueGrant :: "enroll_lib \<Rightarrow> EnrollRequest \<Rightarrow> bytes \<Rightarrow> GrantOptions \<Rightarrow> time \<Rightarrow> error + Grant" where
  "IssueGrant L request privateKey opts now =
     bindE (EnrollRequest_Validate L now request) (\<lambda>_.
     if length privateKey \<noteq> 64 then Inl (ErrInvalidGrant ''invalid issuer key'')
     else (let grant = \<lparr>gt_SchemaVersion = EnrollmentSchemaVersion, gt_GrantID = go_GrantID opts,
            gt_RequestID = rq_RequestID request, gt_ClusterID = rq_ClusterID request, gt_KeyID = go_KeyID opts,
            gt_SubjectID = rq_SubjectID request, gt_Mode = EnrollmentModeBroker,
            gt_ApprovalMode = normalizeApprovalMode (go_ApprovalMode opts),
            gt_AllowedOperations = rq_AllowedOperations request, gt_PolicyID = go_PolicyID opts,
            gt_EvidenceHash = rq_EvidenceHash request, gt_ExpiresAt = FormatRFC3339Nano (go_ExpiresAt opts),
            gt_OneTime = go_OneTime opts, gt_IssuerPublicKey = b64_encode StdEncoding (el_public L privateKey),
            gt_Signature = []\<rparr> in
        bindE (validateUnsigned L now grant) (\<lambda>_.
        let signed = grant\<lparr>gt_Signature := b64_encode StdEncoding (el_sign L privateKey (signingPayload grant))\<rparr> in
        bindE (Grant_Verify L now signed) (\<lambda>_. Inr signed))))"

definition SameGrant :: "Grant \<Rightarrow> Grant \<Rightarrow> bool" where
  "SameGrant l r \<longleftrightarrow> signingPayload l = signingPayload r"

section \<open>The signed payload determines the grant\<close>

text \<open>The character that an escape of the JSON encoder stands for.\<close>

definition json_short :: "char \<Rightarrow> char" where
  "json_short e = (if e = CHR ''b'' then CHR 0x08 else if e = CHR ''t'' then CHR 0x09 else if e = CHR ''n'' then CHR 0x0A
     else if e = CHR ''f'' then CHR 0x0C else if e = CHR ''r'' then CHR 0x0D else e)"

lemma json_controls:
  "char_of (8 :: nat) = CHR 0x08" "char_of (9 :: nat) = CHR 0x09" "char_of (10 :: nat) = CHR 0x0A"
  "char_of (12 :: nat) = CHR 0x0C" "char_of (13 :: nat) = CHR 0x0D"
  by code_simp+

lemma json_char_cases:
  obtains (plain) "json_char c = [c]" "c \<noteq> CHR 0x5C" "c \<noteq> CHR 0x22"
  | (short) e where "json_char c = [CHR 0x5C, e]" "e \<noteq> CHR ''u''" "c = json_short e"
  | (hex) a b m n where "json_char c = CHR 0x5C # ''u00'' @ [a, b]" "hex_val a = Some m" "hex_val b = Some n" "of_char c = 16 * m + n"
proof -
  let ?n = "of_char c :: nat"
  have eq: "c = char_of ?n" by simp
  have lt: "?n div 16 < 16" using nat_of_char_less_256 [of c] by presburger
  consider "c = CHR 0x22 \<or> c = CHR 0x5C" | "?n \<in> {8, 9, 10, 12, 13}"
    | "c \<noteq> CHR 0x22" "c \<noteq> CHR 0x5C" "?n \<notin> {8, 9, 10, 12, 13}" "?n < 32 \<or> c = CHR ''<'' \<or> c = CHR ''>'' \<or> c = CHR ''&''"
    | "c \<noteq> CHR 0x22" "c \<noteq> CHR 0x5C" "?n \<notin> {8, 9, 10, 12, 13}" "\<not> (?n < 32 \<or> c = CHR ''<'' \<or> c = CHR ''>'' \<or> c = CHR ''&'')"
    by blast
  then show ?thesis
  proof cases
    case 1
    then show ?thesis by (auto simp: json_char_def json_short_def intro: short)
  next
    case 2
    then have "char_of ?n \<in> set [CHR 0x08, CHR 0x09, CHR 0x0A, CHR 0x0C, CHR 0x0D]"
      by (auto simp only: json_controls insert_iff empty_iff list.set)
    then show ?thesis by (auto simp: json_char_def json_short_def intro: short)
  next
    case 3
    then have "json_char c = CHR 0x5C # ''u00'' @ [hex_digit (?n div 16), hex_digit (?n mod 16)]"
      by (auto simp: json_char_def Let_def)
    then show ?thesis by (rule hex [of _ _ "?n div 16" "?n mod 16"]) (use lt in simp_all)
  next
    case 4
    then show ?thesis by (intro plain) (auto simp: json_char_def Let_def)
  qed
qed

lemma json_char_split: "json_char c @ x = json_char d @ y \<Longrightarrow> c = d \<and> x = y"
  by (cases c rule: json_char_cases; cases d rule: json_char_cases) (auto, metis char_of_char)

lemma json_char_no_quote: "json_char c @ z \<noteq> CHR 0x22 # x"
  by (cases c rule: json_char_cases) auto

lemma json_string_split: "json_string s @ x = json_string t @ y \<longleftrightarrow> s = t \<and> x = y"
proof -
  have "concat (map json_char s) @ CHR 0x22 # x = concat (map json_char t) @ CHR 0x22 # y \<Longrightarrow> s = t \<and> x = y"
  proof (induction s arbitrary: t)
    case Nil
    then show ?case by (cases t) (auto simp: json_char_no_quote dest!: sym [of "CHR 0x22 # x"])
  next
    case (Cons c s)
    then show ?case
      by (cases t) (auto simp: json_char_no_quote dest!: json_char_split)
  qed
  then show ?thesis by (auto simp: json_string_def)
qed

lemma json_field_split: "json_field k v @ x = json_field k w @ y \<longleftrightarrow> v @ x = w @ y"
  by (simp add: json_field_def)

lemma json_strings_split: "json_strings ss @ x = json_strings ts @ y \<longleftrightarrow> ss = ts \<and> x = y"
proof -
  have "json_fields (map json_string ss) @ CHR '']'' # x = json_fields (map json_string ts) @ CHR '']'' # y \<Longrightarrow> ss = ts \<and> x = y"
  proof (induction ss arbitrary: ts)
    case Nil
    then show ?case by (cases ts rule: list.exhaust; cases "tl ts") (auto simp: json_string_def)
  next
    case (Cons s ss)
    obtain t ts' where ts: "ts = t # ts'" using Cons.prems by (cases ts; cases ss) (auto simp: json_string_def)
    let ?r = "\<lambda>us z. (if us = [] then [] else CHR '','' # json_fields (map json_string us)) @ CHR '']'' # z"
    have r: "json_fields (map json_string (u # us)) @ CHR '']'' # z = json_string u @ ?r us z" for u us z
      by (cases us) simp_all
    from Cons.prems ts have "json_string s @ ?r ss x = json_string t @ ?r ts' y" by (simp only: r)
    then have "s = t" "?r ss x = ?r ts' y" by (simp_all only: json_string_split)
    with Cons.IH [of ts'] ts show ?case by (auto split: if_splits)
  qed
  then show ?thesis by (auto simp: json_strings_def)
qed

lemma json_last: "json_field k v = json_field k w \<longleftrightarrow> v = w" "json_string s = json_string t \<longleftrightarrow> s = t"
  using json_string_split [of s "[]" t "[]"] by (simp_all add: json_field_def)

lemma json_bool_split: "json_bool a @ x = json_bool b @ y \<longleftrightarrow> a = b \<and> x = y"
  by (auto simp: json_bool_def)

lemma uint_split: "format_uint m @ CHR '','' # x = format_uint n @ CHR '','' # y \<longleftrightarrow> m = n \<and> x = y"
proof -
  have "CHR '','' \<notin> set (format_uint k)" for k
    using format_uint_digits [of k] by (auto simp: list_all_iff is_digit_def)
  then show ?thesis by (simp add: append_sep_inj)
qed

lemma signingPayload_inj: "signingPayload g = signingPayload h \<longleftrightarrow> g\<lparr>gt_Signature := []\<rparr> = h\<lparr>gt_Signature := []\<rparr>"
proof
  assume "signingPayload g = signingPayload h"
  then show "g\<lparr>gt_Signature := []\<rparr> = h\<lparr>gt_Signature := []\<rparr>"
    by (cases g; cases h) (simp add: signingPayload_def bytes_of_inj json_object_def json_field_split json_string_split
        json_strings_split json_bool_split json_last uint_split word_unat_eq_iff)
next
  assume "g\<lparr>gt_Signature := []\<rparr> = h\<lparr>gt_Signature := []\<rparr>"
  then show "signingPayload g = signingPayload h"
    by (cases g; cases h) (simp add: signingPayload_def)
qed

section \<open>Issued grants\<close>

lemma check_expiry_eq:
  "el_time_Parse L s = Some e \<Longrightarrow> check_expiry L err t s = (if t < e then Inr () else Inl ErrExpired)"
  by (simp add: check_expiry_def assertE_def)

text \<open>Only the expiry of a grant depends on the time at which it is verified.\<close>

lemma Grant_Verify_at:
  assumes "Grant_Verify L now g = Inr ()" and "el_time_Parse L (gt_ExpiresAt g) = Some e"
  shows "Grant_Verify L t g = (if t < e then Inr () else Inl ErrExpired)"
  using assms
  by (simp add: Grant_Verify_def validateUnsigned_def check_expiry_eq Let_def bindE_eq_Inr split: if_splits)

text \<open>C16. A grant that \<open>IssueGrant\<close> returns was issued for a request that is valid at that time, carries the
  request's identifier, cluster, subject, operations and evidence hash, and verifies with its own public key at
  every time before its expiry; from then on verification fails with \<open>ErrExpired\<close>.  The assumption
  is that \<^verbatim>\<open>time.Parse\<close> reads back the formatted expiry.\<close>

theorem issued_grant_verifies:
  assumes issued: "IssueGrant L request privateKey opts now = Inr g"
    and parse: "el_time_Parse L (FormatRFC3339Nano (go_ExpiresAt opts)) = Some (go_ExpiresAt opts)"
  shows "EnrollRequest_Validate L now request = Inr () \<and> now < go_ExpiresAt opts
    \<and> Grant_Verify L t g = (if t < go_ExpiresAt opts then Inr () else Inl ErrExpired)
    \<and> gt_RequestID g = rq_RequestID request \<and> gt_ClusterID g = rq_ClusterID request \<and> gt_SubjectID g = rq_SubjectID request
    \<and> gt_AllowedOperations g = rq_AllowedOperations request \<and> gt_EvidenceHash g = rq_EvidenceHash request
    \<and> b64_decode StdEncoding (gt_IssuerPublicKey g) = Some (el_public L privateKey)"
proof -
  have valid: "EnrollRequest_Validate L now request = Inr ()" and verified: "Grant_Verify L now g = Inr ()"
    and expiry: "gt_ExpiresAt g = FormatRFC3339Nano (go_ExpiresAt opts)"
    and fields: "gt_RequestID g = rq_RequestID request" "gt_ClusterID g = rq_ClusterID request"
      "gt_SubjectID g = rq_SubjectID request" "gt_AllowedOperations g = rq_AllowedOperations request"
      "gt_EvidenceHash g = rq_EvidenceHash request" "gt_IssuerPublicKey g = b64_encode StdEncoding (el_public L privateKey)"
    using issued by (auto simp: IssueGrant_def Let_def bindE_eq_Inr split: if_splits)
  have at: "Grant_Verify L t' g = (if t' < go_ExpiresAt opts then Inr () else Inl ErrExpired)" for t'
    using verified parse by (intro Grant_Verify_at) (simp_all add: expiry)
  from at [of now] verified have "now < go_ExpiresAt opts" by (simp split: if_splits)
  with valid at fields show ?thesis by simp
qed


section \<open>A grant\<close>

definition demo_enroll_lib :: enroll_lib where
  "demo_enroll_lib = \<lparr>el_sha256 = (\<lambda>_. []), el_public = take 32, el_sign = (\<lambda>k m. k),
     el_verify = (\<lambda>p m s. p = take 32 s), el_time_Parse = (\<lambda>s. if s = FormatRFC3339Nano 20 then Some 20 else None),
     el_first = hd\<rparr>"

definition demo_request :: EnrollRequest where
  "demo_request = \<lparr>rq_SchemaVersion = 1, rq_RequestID = ''r'', rq_ClusterID = ''prod'', rq_SubjectID = ''s'', rq_Mode = ''broker'',
     rq_AllowedOperations = [''unwrap'', ''wrap''], rq_EvidenceFormat = ''tpm'', rq_EvidencePayload = [],
     rq_EvidenceHash = ''sha256:'', rq_PublicIdentity = ''p'', rq_Nonce = ''n'', rq_ExpiresAt = FormatRFC3339Nano 20\<rparr>"

definition demo_grant_options :: GrantOptions where
  "demo_grant_options = \<lparr>go_GrantID = ''g'', go_KeyID = ''k'', go_PolicyID = ''p'', go_ApprovalMode = [],
     go_ExpiresAt = 20, go_OneTime = True\<rparr>"

lemma demo_identifiers:
  "validIdentifier ''r''" "validIdentifier ''prod''" "validIdentifier ''s''" "validIdentifier ''g''" "validIdentifier ''k''"
  "validIdentifier ''p''" "normalizeApprovalMode [] = ''single-operator''"
  by code_simp+

lemma demo_issued: "\<exists>g. IssueGrant demo_enroll_lib demo_request (replicate 64 0) demo_grant_options 10 = Inr g"
  by (simp add: IssueGrant_def EnrollRequest_Validate_def validateUnsigned_def Grant_Verify_def check_expiry_def
      grant_identifiers_def validateOperations_def demo_identifiers demo_enroll_lib_def demo_request_def
      demo_grant_options_def EnrollmentSchemaVersion_def EnrollmentModeBroker_def Let_def assertE_def
      HasPrefix_def TrimSpace_graphic graphic_def
      del: validIdentifier.simps)

theorem issued_grant_verifies_witness:
  "\<exists>g. IssueGrant demo_enroll_lib demo_request (replicate 64 0) demo_grant_options 10 = Inr g
    \<and> Grant_Verify demo_enroll_lib 15 g = Inr () \<and> Grant_Verify demo_enroll_lib 20 g = Inl ErrExpired"
proof -
  obtain g where g: "IssueGrant demo_enroll_lib demo_request (replicate 64 0) demo_grant_options 10 = Inr g"
    using demo_issued by blast
  then show ?thesis
    using issued_grant_verifies [OF g, of 15] issued_grant_verifies [OF g, of 20]
    by (simp add: demo_enroll_lib_def demo_grant_options_def)
qed

end
