(* ===== verification/Spec2Isabelle.thy ===== *)
theory Spec2Isabelle
  imports Recovery_Package Broker_System Kms_Plugin Enrollment_Files
begin

text \<open>
  Verification of the attested auto-unseal broker.
\<close>

text \<open>
  C3. With pod-bound Kubernetes tokens, plaintext leaves the broker only along an unbroken chain of
  trust.  In every state that the calls of the broker reach from a store without enrolled nodes, an
  unwrap returns plaintext only if the API server authenticated the token of the request and runs
  its pod on a node, that node has evidence in the store that has not expired, and, where the
  evidence is a TPM quote, it was stored under the node's current enrollment, which is not revoked
  and for which the audit log holds an entry that allowed an administrator of the cluster the
  change.
\<close>

theorem unwrap_trust_chain:
  assumes "newKubernetesRuntimeDependencies server (cf_Kubernetes config) = Inr v"
    and "newRuntimeService config (Inr (KubernetesVerifyEvidence J v)) = Inr sv"
    and "k8_Enabled (cf_Kubernetes config)" and "RequirePodBoundToken (cf_Kubernetes config)"
    and "store_call\<^sup>*\<^sup>* empty_db (br_db b0)" and "trust_row (br_db b0) = Map.empty"
    and "(rpc A quote sv ad (newEnrollmentService config))\<^sup>*\<^sup>* b0 b"
    and "Unwrap L sv io (Some req) b = (up, b')" and "up_Plaintext up \<noteq> []"
  shows "\<exists>verified ref row. api_confirms J v (uq_Evidence req) verified \<and> wl_NodeName (vf_Workload verified) \<noteq> [] \<and>
    keyRefFromProto (blob_key req) = Inr ref \<and>
    evidence_row (br_db b) (TrimSpace (kr_ClusterID ref), TrimSpace (wl_NodeName (vf_Workload verified))) = Some row \<and>
    io_clock io 0 < nv_expires_at row \<and>
    (nv_provider row = ProviderTPM2Quote \<longrightarrow>
      (\<exists>trust entry. trust_row (br_db b) (TrimSpace (kr_ClusterID ref), TrimSpace (wl_NodeName (vf_Workload verified))) = Some trust \<and>
        nr_revoked_at trust = None \<and> nv_revision row = Some (nr_revision trust) \<and> entry \<in> set (audit_events (br_db b)) \<and>
        change_entry (newEnrollmentService config)
          (TrimSpace (kr_ClusterID ref), TrimSpace (wl_NodeName (vf_Workload verified))) entry))"
proof -
  have sv: "sv_verifier sv = Some (KubernetesVerifyEvidence J v)" "pe_nodeEvidence (sv_policy sv) = Some (\<lambda>F. FreshNodeEvidence F 0)"
    using assms(2,3) by (auto simp: newRuntimeService_def NewServiceWithEvidenceVerifierAndNodeEvidence_def NewServiceWithEvidenceVerifier_def)
  obtain pods where pods: "ve_PodLookup v = Some pods"
    using assms(1,4) by (auto simp: newKubernetesRuntimeDependencies_def NewKubernetesEvidenceVerifierWithPodLookup_def)
  have "dm_State (up_Decision up) = POLICY_DECISION_STATE_ALLOW" using assms(8,9) Unwrap_plaintext by blast
  from Unwrap_granted [OF assms(8) this] obtain verified ed ref dec d where
    e: "evidenceSubject sv (uq_Evidence req) = (verified, ed)" "Allowed ed" "keyRefFromProto (blob_key req) = Inr ref"
      "Policy_evaluate (sv_policy sv) io (unwrap_request verified ref req) (br_db b) = (dec, d)" "Allowed dec"
    by metis
  from e(1,2) sv(1) have "KubernetesVerifyEvidence J v (uq_Evidence req) = Inr verified"
    by (auto simp: evidenceSubject_def split: sum.splits)
  note api = KubernetesVerifyEvidence_confirmed [OF this]
  with pods have node: "wl_NodeName (vf_Workload verified) \<noteq> []" by (auto simp: api_confirms_def)
  let ?k = "(TrimSpace (kr_ClusterID ref), TrimSpace (wl_NodeName (vf_Workload verified)))"
  from Policy_evaluate_allowed [OF e(4)] e(5) have "node_trusted (sv_policy sv) io (unwrap_request verified ref req) (br_db b)" by blast
  with sv(2) node obtain evidence where
    "FreshNodeEvidence (io_faults io 1) 0 (br_db b) (kr_ClusterID ref) (wl_NodeName (vf_Workload verified)) (io_clock io 0) = Inr evidence"
    by (auto simp: node_trusted_def unwrap_request_def)
  from fresh_evidence_row [OF this] obtain row where row: "evidence_row (br_db b) ?k = Some row" "io_clock io 0 < nv_expires_at row" by blast
  have "changes_recorded (newEnrollmentService config) (br_db b)"
    using rpc_run_keeps [OF assms(7) start_recorded [OF assms(5,6)]] by (simp add: newEnrollmentService_def)
  from recorded_evidence [OF this row(1)] api node e(3) row show ?thesis
    by (intro exI [of _ verified] exI [of _ ref] exI [of _ row]) blast
qed

text \<open>
  C6. The audit log accounts for every change of node trust: in every state that the calls of the
  broker reach from a store without enrolled nodes, the revision of a node's enrollment is at most
  the number of entries of the log that allowed an administrator of its cluster to enroll or revoke
  that node.
\<close>

theorem trust_changes_recorded:
  assumes "store_call\<^sup>*\<^sup>* empty_db (br_db b0)" and "trust_row (br_db b0) = Map.empty"
    and "(rpc A quote sv ad (newEnrollmentService config))\<^sup>*\<^sup>* b0 b"
  shows "(case trust_row (br_db b) (c, n) of None \<Rightarrow> 0 | Some r \<Rightarrow> nr_revision r) \<le>
    int (length (filter (\<lambda>e. ae_ClusterID e = c \<and> ae_Target e = n \<and>
      admin_of (newEnrollmentService config) c (ae_Actor e) \<and>
      ae_Operation e \<in> {enrollmentOperationNodeEvidenceEnroll, enrollmentOperationNodeEvidenceRevoke} \<and>
      ae_Decision e = PolicyDecisionState_String POLICY_DECISION_STATE_ALLOW) (audit_events (br_db b))))"
proof -
  have "changes_recorded (newEnrollmentService config) (br_db b)"
    using rpc_run_keeps [OF assms(3) start_recorded [OF assms(1,2)]] by (simp add: newEnrollmentService_def)
  from changes_recordedD [OF this, of "(c, n)"] show ?thesis
    by (simp add: revision_of_def change_entry_def [abs_def])
qed

theorem unwrap_trust_chain_witness:
  "\<exists>w b up b' trust. Unwrap demo_broker_lib demo_k8s_service (demo_io 0 13) (Some (demo_k8s_unwrap w)) b = (up, b') \<and>
    up_Plaintext up = [1, 2] \<and> trust_row (br_db b) (''prod'', ''n1'') = Some trust \<and> nr_revoked_at trust = None \<and>
    (\<exists>entry \<in> set (audit_events (br_db b)). change_entry (newEnrollmentService demo_k8s_config) (''prod'', ''n1'') entry)"
proof -
  obtain b where b: "(rpc demo_admin_lib (\<lambda>s. s) demo_k8s_service demo_admin (newEnrollmentService demo_k8s_config))\<^sup>*\<^sup>*
      \<lparr>br_db = demo_cluster None [] [] [] [], br_audit = []\<rparr> b"
    "br_db b = demo_cluster None (br_audit b) [enrollment_row_of demo_enroll 1] [demo_pub_row] [demo_node_evidence]" "length (br_audit b) = 1"
    by (rule demo_system_run)
  then obtain e where "br_audit b = [e]" by (auto simp: length_Suc_conv)
  then have eq: "b = \<lparr>br_db = demo_cluster None [e] [enrollment_row_of demo_enroll 1] [demo_pub_row] [demo_node_evidence], br_audit = [e]\<rparr>"
    using b(2) by (cases b) simp
  from demo_cluster_unwrap [OF demo_cluster_schema(4)] obtain w b' where
    run: "Unwrap demo_broker_lib demo_k8s_service (demo_io 0 13) (Some (demo_k8s_unwrap w)) b =
      (\<lparr>up_Plaintext = [1, 2], up_Decision = Decision_Proto (Allow ''default'')\<rparr>, b')" unfolding eq by blast
  have start: "store_call\<^sup>*\<^sup>* empty_db (br_db \<lparr>br_db = demo_cluster None [] [] [] [], br_audit = []\<rparr>)"
    "trust_row (br_db \<lparr>br_db = demo_cluster None [] [] [] [], br_audit = []\<rparr>) = Map.empty"
    by (simp_all add: demo_cluster_reach demo_cluster_untrusted)
  have "up_Plaintext \<lparr>up_Plaintext = [1, 2], up_Decision = Decision_Proto (Allow ''default'')\<rparr> \<noteq> []" by simp
  from unwrap_trust_chain [OF demo_k8s_start start b(1) run this] obtain verified ref row where
    chain: "api_confirms (\<lambda>_. Inr ''t'') demo_verifier (uq_Evidence (demo_k8s_unwrap w)) verified"
      "keyRefFromProto (blob_key (demo_k8s_unwrap w)) = Inr ref"
      "evidence_row (br_db b) (TrimSpace (kr_ClusterID ref), TrimSpace (wl_NodeName (vf_Workload verified))) = Some row"
      "nv_provider row = ProviderTPM2Quote \<longrightarrow>
      (\<exists>trust entry. trust_row (br_db b) (TrimSpace (kr_ClusterID ref), TrimSpace (wl_NodeName (vf_Workload verified))) = Some trust \<and>
        nr_revoked_at trust = None \<and> nv_revision row = Some (nr_revision trust) \<and> entry \<in> set (audit_events (br_db b)) \<and>
        change_entry (newEnrollmentService demo_k8s_config)
          (TrimSpace (kr_ClusterID ref), TrimSpace (wl_NodeName (vf_Workload verified))) entry)" by (elim exE conjE)
  have "(TrimSpace (kr_ClusterID ref), TrimSpace (wl_NodeName (vf_Workload verified))) = (''prod'', ''n1'')" "row = demo_node_evidence"
    using chain(3) unfolding eq
    by (auto simp: evidence_row_def nv_key_def demo_node_evidence_def evidence_row_of_def demo_node_def split: if_splits)
  with chain(4) obtain trust entry where "trust_row (br_db b) (''prod'', ''n1'') = Some trust" "nr_revoked_at trust = None"
    "entry \<in> set (audit_events (br_db b))" "change_entry (newEnrollmentService demo_k8s_config) (''prod'', ''n1'') entry"
    by (auto simp: demo_node_evidence_def evidence_row_of_def demo_node_def)
  with run show ?thesis
    by - (rule exI [of _ w], rule exI [of _ b], rule exI [of _ "\<lparr>up_Plaintext = [1, 2], up_Decision = Decision_Proto (Allow ''default'')\<rparr>"],
        rule exI [of _ b'], rule exI [of _ trust], intro conjI bexI [of _ entry]; simp)
qed

theorem trust_changes_recorded_witness:
  "\<exists>b :: broker. trust_row (br_db b) (''prod'', ''n1'') = Some (enrollment_row_of demo_enroll 1) \<and>
    length (filter (\<lambda>e. ae_ClusterID e = ''prod'' \<and> ae_Target e = ''n1'' \<and>
      admin_of (newEnrollmentService demo_k8s_config) ''prod'' (ae_Actor e) \<and>
      ae_Operation e \<in> {enrollmentOperationNodeEvidenceEnroll, enrollmentOperationNodeEvidenceRevoke} \<and>
      ae_Decision e = PolicyDecisionState_String POLICY_DECISION_STATE_ALLOW) (audit_events (br_db b))) \<ge> 1"
proof -
  obtain b where b: "(rpc demo_admin_lib (\<lambda>s. s) demo_k8s_service demo_admin (newEnrollmentService demo_k8s_config))\<^sup>*\<^sup>*
      \<lparr>br_db = demo_cluster None [] [] [] [], br_audit = []\<rparr> b"
    "br_db b = demo_cluster None (br_audit b) [enrollment_row_of demo_enroll 1] [demo_pub_row] [demo_node_evidence]"
    by (rule demo_system_run)
  have "trust_row (br_db b) (''prod'', ''n1'') = Some (enrollment_row_of demo_enroll 1)"
    unfolding b(2) by (simp add: trust_row_def nr_key_def enrollment_row_of_def demo_enroll_def)
  with trust_changes_recorded [OF _ _ b(1), of "''prod''" "''n1''"] demo_cluster_reach demo_cluster_untrusted show ?thesis
    by - (rule exI [of _ b], simp add: enrollment_row_of_def)
qed

end
